(* ===== verification/Features.thy ===== *)
theory Features
  imports Prelude
begin

text \<open>
  The Cargo features of \<open>cargo-unikernel-init\<close> (\<open>guest/Cargo.toml.dist\<close>). Every \<open>#[cfg(feature = ...)]\<close>
  of the guest is a selector of this record in the model, so one definition covers the builds with
  and without the feature.
\<close>

record features =
  ft_sev_snp :: bool
  ft_net_ipv4 :: bool
  ft_net_ipv6 :: bool
  ft_danger :: bool
  ft_storage_persistent :: bool
  ft_net_spoofing :: bool
  ft_icmp :: bool
  ft_tcp :: bool
  ft_info_leak :: bool
  ft_ptrace_bpf :: bool
  ft_kexec_fs :: bool
  ft_landlock :: bool
  ft_firewall :: bool
  ft_proc_subset_pid :: bool
  ft_app_console :: bool
  ft_logging :: bool

text \<open>The build that a \<open>--features\<close> list selects.\<close>

definition features_of :: "string list \<Rightarrow> features" where
  "features_of fs =
     \<lparr>ft_sev_snp = ''sev-snp'' \<in> set fs,
      ft_net_ipv4 = ''net-ipv4'' \<in> set fs,
      ft_net_ipv6 = ''net-ipv6'' \<in> set fs,
      ft_danger = ''danger-allow-write-execute'' \<in> set fs,
      ft_storage_persistent = ''storage-persistent'' \<in> set fs,
      ft_net_spoofing = ''hardening-net-spoofing'' \<in> set fs,
      ft_icmp = ''hardening-icmp'' \<in> set fs,
      ft_tcp = ''hardening-tcp'' \<in> set fs,
      ft_info_leak = ''hardening-info-leak'' \<in> set fs,
      ft_ptrace_bpf = ''hardening-ptrace-bpf'' \<in> set fs,
      ft_kexec_fs = ''hardening-kexec-fs'' \<in> set fs,
      ft_landlock = ''landlock'' \<in> set fs,
      ft_firewall = ''firewall'' \<in> set fs,
      ft_proc_subset_pid = ''proc-subset-pid'' \<in> set fs,
      ft_app_console = ''app-console'' \<in> set fs,
      ft_logging = ''logging'' \<in> set fs\<rparr>"

text \<open>The messages \<open>fatal_shutdown\<close> is called with, one constructor per call site.\<close>

datatype fatal =
    MalformedFirewallEntry string
  | FirewallBuildFailed
  | FirewallInstallFailed
  | MalformedPair string string
  | BakedParse string
  | LimitTooLarge string
  | BadAppIds
  | LandlockAbiTooOld
  | LandlockCreateFailed
  | LandlockNulPath string
  | LandlockOpenFailed string
  | LandlockStatFailed string
  | LandlockAddFailed string
  | StorageInspectFailed
  | StorageWipeFailed string
  | MkfsFailed
  | MountFailed string
  | RemountFailed string
  | UnsafeMountPoint string
  | ChownFailed string
  | EntropyOpenFailed
  | EntropyPollFailed
  | EntropyTimeout
  | AppMissing
  | AppChmodFailed
  | SpawnFailed
  | SeccompBuildFailed
  | TriggersFailed
  | WatcherFailed
  | AppExited
  | NoProcessesLeft
  | NotPid1

end
