(* ===== verification/Bytes.thy ===== *)
theory Bytes
  imports Prelude
begin

text \<open>
  Machine integers as byte sequences: \<open>to_ne_bytes\<close>, \<open>to_be_bytes\<close>, \<open>from_ne_bytes\<close> and
  checked slicing \<open>get(a..b)\<close>. The only target is x86-64, so the native order is
  little-endian. Each encoder has its length and round-trip lemma.
\<close>

section \<open>Encoders and decoders\<close>

definition ne16 :: "u16 \<Rightarrow> byte list" where
  "ne16 w = [ucast w, ucast (drop_bit 8 w)]"

definition ne32 :: "u32 \<Rightarrow> byte list" where
  "ne32 w = [ucast w, ucast (drop_bit 8 w), ucast (drop_bit 16 w), ucast (drop_bit 24 w)]"

definition be16 :: "u16 \<Rightarrow> byte list" where
  "be16 w = rev (ne16 w)"

definition be32 :: "u32 \<Rightarrow> byte list" where
  "be32 w = rev (ne32 w)"

fun of_ne16 :: "byte list \<Rightarrow> u16" where
  "of_ne16 [a, b] = ucast a OR push_bit 8 (ucast b)"
| "of_ne16 _ = 0"

fun of_ne32 :: "byte list \<Rightarrow> u32" where
  "of_ne32 [a, b, c, d] =
     ucast a OR push_bit 8 (ucast b) OR push_bit 16 (ucast c) OR push_bit 24 (ucast d)"
| "of_ne32 _ = 0"

definition as_bytes :: "string \<Rightarrow> byte list" where
  "as_bytes s = map of_char s"

text \<open>\<open>bytes.get(a..b)\<close>.\<close>

definition get_range :: "nat \<Rightarrow> nat \<Rightarrow> 'a list \<Rightarrow> 'a list option" where
  "get_range a b xs = (if a \<le> b \<and> b \<le> length xs then Some (take (b - a) (drop a xs)) else None)"

text \<open>\<open>slot.copy_from_slice(src)\<close> on \<open>xs[at .. at + len src]\<close>, where it is in range.\<close>

definition overwrite :: "nat \<Rightarrow> 'a list \<Rightarrow> 'a list \<Rightarrow> 'a list" where
  "overwrite at src xs = take at xs @ src @ drop (at + length src) xs"

section \<open>Lemmas\<close>

lemma length_ne16 [simp]: "length (ne16 w) = 2" by (simp add: ne16_def)
lemma length_ne32 [simp]: "length (ne32 w) = 4" by (simp add: ne32_def)
lemma length_be16 [simp]: "length (be16 w) = 2" by (simp add: be16_def)
lemma length_be32 [simp]: "length (be32 w) = 4" by (simp add: be32_def)
lemma length_as_bytes [simp]: "length (as_bytes s) = length s" by (simp add: as_bytes_def)

lemma of_ne16_ne16 [simp]: "of_ne16 (ne16 w) = w"
  by (rule bit_word_eqI) (auto simp: ne16_def bit_simps)

lemma of_ne32_ne32 [simp]: "of_ne32 (ne32 w) = w"
proof (rule bit_word_eqI)
  fix n assume "n < LENGTH(32)"
  then have "n < 8 \<or> 8 \<le> n \<and> n < 16 \<or> 16 \<le> n \<and> n < 24 \<or> 24 \<le> n \<and> n < 32" by auto
  then show "bit (of_ne32 (ne32 w)) n = bit w n"
    by (elim disjE) (auto simp: ne32_def bit_simps)
qed

lemma ne16_inject [simp]: "ne16 v = ne16 w \<longleftrightarrow> v = w"
  by (metis of_ne16_ne16)

lemma ne32_inject [simp]: "ne32 v = ne32 w \<longleftrightarrow> v = w"
  by (metis of_ne32_ne32)

lemma be16_inject [simp]: "be16 v = be16 w \<longleftrightarrow> v = w"
  by (simp add: be16_def)

lemma be32_inject [simp]: "be32 v = be32 w \<longleftrightarrow> v = w"
  by (simp add: be32_def)

lemma unat_of_char: "unat (of_char c :: byte) = of_char c"
proof -
  have "unat (word_of_nat (of_char c) :: byte) = of_char c mod 256"
    by (simp add: unat_of_nat)
  then show ?thesis using nat_of_char_less_256 [of c] by (simp add: of_nat_of_char)
qed

lemma as_bytes_inject [simp]: "as_bytes s = as_bytes t \<longleftrightarrow> s = t"
proof -
  have "inj (of_char :: char \<Rightarrow> byte)"
    by (rule injI) (metis unat_of_char of_char_eq_iff)
  then show ?thesis by (simp add: as_bytes_def inj_map_eq_map)
qed

lemma get_range_Some_iff:
  "get_range a b xs = Some ys \<longleftrightarrow> a \<le> b \<and> b \<le> length xs \<and> ys = take (b - a) (drop a xs)"
  by (auto simp: get_range_def)

lemma get_range_append [simp]:
  "length ys = b - length xs \<Longrightarrow> length xs \<le> b \<Longrightarrow>
    get_range (length xs) b (xs @ ys @ zs) = Some ys"
  by (simp add: get_range_def)

lemma overwrite_append [simp]:
  "length src = length old \<Longrightarrow> overwrite (length xs) src (xs @ old @ ys) = xs @ src @ ys"
  by (simp add: overwrite_def)

lemma overwrite_append_end [simp]:
  "length src = length old \<Longrightarrow> overwrite (length xs) src (xs @ old) = xs @ src"
  by (simp add: overwrite_def)

end
