(* ===== verification/Effects.thy ===== *)
theory Effects
  imports Features Bytes
begin

text \<open>
  The effects of the guest init. A piece of boot code is a function from the events so far to
  a result and the events after it; the answer of the kernel to each event is the
  environment's, a function \<open>env\<close> of the history. A result is \<open>None\<close> when the code is still waiting for
  an answer the environment never gives, otherwise an error that ends the boot or a value. Console
  output is not an event: it never changes what the guest does.
\<close>

section \<open>Events\<close>

datatype mflag = NOSUID | NODEV | NOEXEC | RDONLY | BIND

datatype event =
    Mount string string string "mflag set" "string option" \<comment> \<open>source, target, type, flags, data\<close>
  | BindMount string string
  | Remount string "mflag set" string
  | Unmount string
  | MakeDir string
  | MakeDirAll string
  | OpenDirNoFollow string
  | ReadFile string
  | ReadDir string
  | WriteFile string string
  | SetMode string nat
  | Chown string u32 u32
  | Exists string
  | Ioctl string string "byte list" \<comment> \<open>address family, request, argument\<close>
  | SendNetlink "byte list" nat
  | OpenDevice string
  | ReadDevice string nat nat \<comment> \<open>path, offset, length\<close>
  | SizeDevice string
  | WriteZeros string nat
  | SyncDevice string
  | RunProgram string "string list"
  | SetNonDumpable
  | MlockAll
  | LandlockVersion
  | LandlockCreate u64 u64 u64 nat \<comment> \<open>the attribute's fields, and its size\<close>
  | OpenPath string
  | StatMode string
  | LandlockAddRule u64 string
  | HandleSigterm
  | OpenInput string
  | SetNonblocking string
  | SpawnApp string "(string \<times> string) list" bool \<comment> \<open>program, environment, \<open>/dev/null\<close> as its stdio\<close>
  | SpawnWatcher nat

datatype answer =
    Done
  | Failed nat \<comment> \<open>errno\<close>
  | TextIs string
  | BytesAre "byte list"
  | NamesAre "string list"
  | NumberIs nat

type_synonym env = "event list \<Rightarrow> event \<Rightarrow> answer"

definition EEXIST :: nat where [nums]: "EEXIST = 17"
definition ENOENT :: nat where [nums]: "ENOENT = 2"
definition EINVAL :: nat where [nums]: "EINVAL = 22"

fun succeeded :: "answer \<Rightarrow> bool" where
  "succeeded (Failed _) = False"
| "succeeded _ = True"

section \<open>Sequencing\<close>

type_synonym 'a eff = "event list \<Rightarrow> (fatal + 'a) option \<times> event list"

definition eff_return :: "'a \<Rightarrow> 'a eff" where
  "eff_return x tr = (Some (Inr x), tr)"

definition eff_fatal :: "fatal \<Rightarrow> 'a eff" where
  "eff_fatal e tr = (Some (Inl e), tr)"

definition eff_bind :: "'a eff \<Rightarrow> ('a \<Rightarrow> 'b eff) \<Rightarrow> 'b eff" where
  "eff_bind m f tr =
     (case m tr of
        (Some (Inr x), tr') \<Rightarrow> f x tr'
      | (Some (Inl e), tr') \<Rightarrow> (Some (Inl e), tr')
      | (None, tr') \<Rightarrow> (None, tr'))"

definition eff_then :: "unit eff \<Rightarrow> 'b eff \<Rightarrow> 'b eff" where
  "eff_then m k = eff_bind m (\<lambda>_. k)"

definition eff_lift :: "fatal + 'a \<Rightarrow> 'a eff" where
  "eff_lift r tr = (Some r, tr)"

definition eff_wait :: "(fatal + 'a) option \<Rightarrow> 'a eff" where
  "eff_wait r tr = (r, tr)"

text \<open>One event, with its answer as the value.\<close>

definition ask :: "env \<Rightarrow> event \<Rightarrow> answer eff" where
  "ask env ev tr = (Some (Inr (env tr ev)), tr @ [ev])"

text \<open>\<open>let _ = op\<close>: the outcome is ignored.\<close>

definition attempt :: "env \<Rightarrow> event \<Rightarrow> unit eff" where
  "attempt env ev = eff_bind (ask env ev) (\<lambda>_. eff_return ())"

text \<open>\<open>op.unwrap_or_else(|e| fatal(...))\<close>.\<close>

definition require :: "env \<Rightarrow> event \<Rightarrow> fatal \<Rightarrow> unit eff" where
  "require env ev e = eff_bind (ask env ev) (\<lambda>a. if succeeded a then eff_return () else eff_fatal e)"

fun eff_all :: "('a \<Rightarrow> unit eff) \<Rightarrow> 'a list \<Rightarrow> unit eff" where
  "eff_all f [] = eff_return ()"
| "eff_all f (x # xs) = eff_then (f x) (eff_all f xs)"

definition eff_when :: "bool \<Rightarrow> unit eff \<Rightarrow> unit eff" where
  "eff_when b m = (if b then m else eff_return ())"

section \<open>Reasoning about traces\<close>

text \<open>
  \<open>traced m Q\<close>: \<open>m\<close> appends events, and the events it appends and its result are related by \<open>Q\<close>.
\<close>

definition traced :: "'a eff \<Rightarrow> (event list \<Rightarrow> (fatal + 'a) option \<Rightarrow> bool) \<Rightarrow> bool" where
  "traced m Q \<longleftrightarrow> (\<forall>tr. \<exists>new. snd (m tr) = tr @ new \<and> Q new (fst (m tr)))"

named_theorems traced_intros \<open>what each effect does to the trace\<close>

lemma traced_mono: "traced m Q \<Longrightarrow> (\<And>new r. Q new r \<Longrightarrow> Q' new r) \<Longrightarrow> traced m Q'"
  unfolding traced_def by blast

lemma traced_return: "Q [] (Some (Inr x)) \<Longrightarrow> traced (eff_return x) Q"
  by (simp add: traced_def eff_return_def)

lemma traced_fatal: "Q [] (Some (Inl e)) \<Longrightarrow> traced (eff_fatal e) Q"
  by (simp add: traced_def eff_fatal_def)

lemma traced_lift: "Q [] (Some r) \<Longrightarrow> traced (eff_lift r) Q"
  by (simp add: traced_def eff_lift_def)

lemma traced_wait: "Q [] r \<Longrightarrow> traced (eff_wait r) Q"
  by (simp add: traced_def eff_wait_def)

lemma traced_ask: "(\<And>a. Q [ev] (Some (Inr a))) \<Longrightarrow> traced (ask env ev) Q"
  by (simp add: traced_def ask_def)

lemma traced_bind:
  assumes "traced m P"
    and "\<And>x new. P new (Some (Inr x)) \<Longrightarrow> traced (f x) (\<lambda>new'. Q (new @ new'))"
    and "\<And>new e. P new (Some (Inl e)) \<Longrightarrow> Q new (Some (Inl e))"
    and "\<And>new. P new None \<Longrightarrow> Q new None"
  shows "traced (eff_bind m f) Q"
  unfolding traced_def
proof
  fix tr
  obtain new where new: "snd (m tr) = tr @ new" "P new (fst (m tr))"
    using assms(1) unfolding traced_def by blast
  obtain r tr' where m: "m tr = (r, tr')" by (cases "m tr")
  show "\<exists>new. snd (eff_bind m f tr) = tr @ new \<and> Q new (fst (eff_bind m f tr))"
  proof (cases r)
    case None
    with m new assms(4) show ?thesis by (simp add: eff_bind_def)
  next
    case (Some s)
    show ?thesis
    proof (cases s)
      case (Inl e)
      with Some m new assms(3) show ?thesis by (simp add: eff_bind_def)
    next
      case (Inr x)
      with Some m new have "P new (Some (Inr x))" by simp
      then obtain new' where "snd (f x tr') = tr' @ new'" "Q (new @ new') (fst (f x tr'))"
        using assms(2) unfolding traced_def by blast
      with Some Inr m new show ?thesis by (simp add: eff_bind_def)
    qed
  qed
qed

text \<open>
  The two facts most proofs need: which events a piece of code can cause (\<open>only\<close>), and which events
  it has caused once it returns a value (\<open>ensures\<close>).
\<close>

definition only :: "(event \<Rightarrow> bool) \<Rightarrow> 'a eff \<Rightarrow> bool" where
  "only A m \<longleftrightarrow> traced m (\<lambda>new _. \<forall>ev\<in>set new. A ev)"

lemma only_mono: "only A m \<Longrightarrow> (\<And>ev. A ev \<Longrightarrow> B ev) \<Longrightarrow> only B m"
  unfolding only_def by (erule traced_mono) blast

lemma only_return [traced_intros]: "only A (eff_return x)"
  unfolding only_def by (rule traced_return) simp

lemma only_fatal [traced_intros]: "only A (eff_fatal e)"
  unfolding only_def by (rule traced_fatal) simp

lemma only_lift [traced_intros]: "only A (eff_lift r)"
  unfolding only_def by (rule traced_lift) simp

lemma only_wait [traced_intros]: "only A (eff_wait r)"
  unfolding only_def by (rule traced_wait) simp

lemma only_ask [traced_intros]: "A ev \<Longrightarrow> only A (ask env ev)"
  unfolding only_def by (rule traced_ask) simp

lemma only_bind [traced_intros]:
  assumes "only A m" and "\<And>x. only A (f x)"
  shows "only A (eff_bind m f)"
  unfolding only_def
proof (rule traced_bind [OF assms(1) [unfolded only_def]])
  fix x new
  assume "\<forall>ev\<in>set new. A ev"
  then show "traced (f x) (\<lambda>new' _. \<forall>ev\<in>set (new @ new'). A ev)"
    using assms(2) [of x] by (auto simp: only_def elim: traced_mono)
qed auto

lemma only_then [traced_intros]: "only A m \<Longrightarrow> only A k \<Longrightarrow> only A (eff_then m k)"
  unfolding eff_then_def by (rule only_bind)

lemma only_attempt [traced_intros]: "A ev \<Longrightarrow> only A (attempt env ev)"
  unfolding attempt_def by (intro traced_intros)

lemma only_if [traced_intros]: "only A m \<Longrightarrow> only A k \<Longrightarrow> only A (if b then m else k)"
  by simp

lemma only_require [traced_intros]: "A ev \<Longrightarrow> only A (require env ev e)"
  unfolding require_def by (intro traced_intros)

lemma only_all [traced_intros]: "(\<And>x. x \<in> set xs \<Longrightarrow> only A (f x)) \<Longrightarrow> only A (eff_all f xs)"
  by (induction xs) (auto intro: traced_intros)

lemma only_when [traced_intros]: "only A m \<Longrightarrow> only A (eff_when b m)"
  by (simp add: eff_when_def only_return)

lemma onlyD: "only A m \<Longrightarrow> m tr = (r, tr') \<Longrightarrow> \<exists>new. tr' = tr @ new \<and> (\<forall>ev\<in>set new. A ev)"
  unfolding only_def traced_def by (metis fst_conv snd_conv)

section \<open>Reaching a value\<close>

lemma bind_value_iff:
  "eff_bind m f tr = (Some (Inr y), tr'') \<longleftrightarrow>
     (\<exists>x tr'. m tr = (Some (Inr x), tr') \<and> f x tr' = (Some (Inr y), tr''))"
  by (auto simp: eff_bind_def split: prod.splits option.splits sum.splits)

lemma then_value_iff:
  "eff_then m k tr = (Some (Inr y), tr'') \<longleftrightarrow>
     (\<exists>tr'. m tr = (Some (Inr ()), tr') \<and> k tr' = (Some (Inr y), tr''))"
  by (simp add: eff_then_def bind_value_iff)

lemma return_value_iff: "eff_return x tr = (Some (Inr y), tr') \<longleftrightarrow> y = x \<and> tr' = tr"
  by (auto simp: eff_return_def)

lemma fatal_no_value: "eff_fatal e tr \<noteq> (Some (Inr y), tr')"
  by (simp add: eff_fatal_def)

lemma lift_value_iff: "eff_lift r tr = (Some (Inr y), tr') \<longleftrightarrow> r = Inr y \<and> tr' = tr"
  by (auto simp: eff_lift_def)

lemma ask_value_iff: "ask env ev tr = (Some (Inr a), tr') \<longleftrightarrow> a = env tr ev \<and> tr' = tr @ [ev]"
  by (auto simp: ask_def)

lemma attempt_value_iff: "attempt env ev tr = (Some (Inr u), tr') \<longleftrightarrow> tr' = tr @ [ev]"
  by (simp add: attempt_def bind_value_iff return_value_iff ask_value_iff)

lemma require_value_iff:
  "require env ev e tr = (Some (Inr u), tr') \<longleftrightarrow> succeeded (env tr ev) \<and> tr' = tr @ [ev]"
  by (auto simp: require_def bind_value_iff return_value_iff ask_value_iff fatal_no_value)

lemma when_value_iff:
  "eff_when b m tr = (Some (Inr u), tr') \<longleftrightarrow> (if b then m tr = (Some (Inr u), tr') else tr' = tr)"
  by (simp add: eff_when_def return_value_iff)

lemmas value_iffs = bind_value_iff then_value_iff return_value_iff fatal_no_value lift_value_iff
  ask_value_iff attempt_value_iff require_value_iff when_value_iff

end
