(* ===== verification/Storage.thy ===== *)
theory Storage
  imports Effects
begin

text \<open>
  The mount primitives of \<open>guest/src/mounts.rs\<close> that both it and \<open>guest/src/storage.rs\<close> use, the zero writer of
  \<open>guest/src/main.rs\<close>, and the persistent \<open>/var\<close>: recognising the volume by its ext4 superblock, wiping and formatting one that
  is not ours, mounting it.
\<close>

section \<open>Mounting\<close>

definition NOSUID_NODEV_NOEXEC :: "mflag set" where
  "NOSUID_NODEV_NOEXEC = {NOSUID, NODEV, NOEXEC}"

definition writable_exec_mount_flags :: "features \<Rightarrow> mflag set" where
  "writable_exec_mount_flags ft =
     (if ft_danger ft then {NOSUID, NODEV} else {NOSUID, NODEV, NOEXEC})"

text \<open>\<open>CString::new\<close>: no NUL byte.\<close>

definition mount_data :: "string option \<Rightarrow> nat + string option" where
  "mount_data data =
     (case data of
        None \<Rightarrow> Inr None
      | Some d \<Rightarrow> if CHR 0x00 \<in> set d then Inl EINVAL else Inr (Some d))"

definition mount :: "env \<Rightarrow> string \<Rightarrow> string \<Rightarrow> string \<Rightarrow> mflag set \<Rightarrow> string option \<Rightarrow> answer eff" where
  "mount env source target fstype flags data =
     (case mount_data data of
        Inl e \<Rightarrow> eff_return (Failed e)
      | Inr d \<Rightarrow> ask env (Mount source target fstype flags d))"

definition bind_mount :: "env \<Rightarrow> string \<Rightarrow> string \<Rightarrow> answer eff" where
  "bind_mount env source target = ask env (BindMount source target)"

definition remount :: "env \<Rightarrow> string \<Rightarrow> mflag set \<Rightarrow> string \<Rightarrow> answer eff" where
  "remount env target flags data = ask env (Remount target flags data)"

definition unmount :: "env \<Rightarrow> string \<Rightarrow> bool eff" where
  "unmount env target = eff_bind (ask env (Unmount target)) (\<lambda>a. eff_return (succeeded a))"

text \<open>\<open>result.unwrap_or_else(|e| fatal(...))\<close>.\<close>

definition or_fatal :: "answer eff \<Rightarrow> fatal \<Rightarrow> unit eff" where
  "or_fatal m e = eff_bind m (\<lambda>a. if succeeded a then eff_return () else eff_fatal e)"

section \<open>Writing zeros\<close>

text \<open>
  \<open>write_zeros\<close>: the sizes of the writes it issues, each at most the length of the caller's buffer;
  \<open>None\<close> is the error for an empty buffer. With a non-empty buffer every turn makes progress, so
  the loop is total.
\<close>

function zero_chunks :: "nat \<Rightarrow> nat \<Rightarrow> nat list" where
  "zero_chunks zlen remaining =
     (if remaining = 0 \<or> zlen = 0 then []
      else let n = min remaining zlen in n # zero_chunks zlen (remaining - n))"
  by pat_completeness auto
termination
  by (relation "measure (\<lambda>(zlen, remaining). remaining)") auto

declare zero_chunks.simps [simp del]

definition write_zeros :: "nat \<Rightarrow> nat \<Rightarrow> nat list option" where
  "write_zeros len zlen = (if 0 < len \<and> zlen = 0 then None else Some (zero_chunks zlen len))"

lemma zero_chunks_sum: "0 < zlen \<Longrightarrow> sum_list (zero_chunks zlen len) = len"
proof (induction zlen len rule: zero_chunks.induct)
  case (1 zlen len)
  show ?case
  proof (cases "len = 0")
    case True
    then show ?thesis by (simp add: zero_chunks.simps)
  next
    case False
    with 1 show ?thesis by (subst zero_chunks.simps) (simp add: Let_def)
  qed
qed

lemma zero_chunks_bounds: "n \<in> set (zero_chunks zlen len) \<Longrightarrow> 0 < n \<and> n \<le> zlen"
proof (induction zlen len rule: zero_chunks.induct)
  case (1 zlen len)
  then show ?case by (subst (asm) (2) zero_chunks.simps) (auto simp: Let_def split: if_splits)
qed

text \<open>
  The zero writer writes exactly the requested number of bytes, in writes that are never empty and never
  longer than the buffer, and refuses an empty buffer instead of looping on it.
\<close>

lemma write_zeros_exact:
  "(case write_zeros len zlen of
      None \<Rightarrow> 0 < len \<and> zlen = 0
    | Some ns \<Rightarrow> sum_list ns = len \<and> (\<forall>n\<in>set ns. 0 < n \<and> n \<le> zlen))"
proof (cases "zlen = 0")
  case True
  then show ?thesis by (auto simp: write_zeros_def zero_chunks.simps)
next
  case False
  then show ?thesis by (simp add: write_zeros_def zero_chunks_sum zero_chunks_bounds)
qed

section \<open>Recognising the volume\<close>

definition DEVICE_PATH :: string where "DEVICE_PATH = ''/dev/vda''"
definition MOUNT_TARGET :: string where "MOUNT_TARGET = ''/var''"
definition VAR_TMP :: string where "VAR_TMP = ''/var/tmp''"
definition MKE2FS_PATH :: string where "MKE2FS_PATH = ''/sbin/mke2fs''"
definition VOLUME_LABEL :: "byte list" where "VOLUME_LABEL = as_bytes ''CUKINIT''"
definition SUPERBLOCK_OFFSET :: nat where [nums]: "SUPERBLOCK_OFFSET = 1024"
definition SB_MAGIC_OFFSET :: nat where [nums]: "SB_MAGIC_OFFSET = 0x38"
definition SB_LABEL_OFFSET :: nat where [nums]: "SB_LABEL_OFFSET = 0x78"
definition SB_LABEL_LEN :: nat where [nums]: "SB_LABEL_LEN = 16"
definition EXT4_MAGIC :: u16 where [nums]: "EXT4_MAGIC = 0xEF53"
definition SUPERBLOCK_PREFIX_LEN :: nat where [nums]:
  "SUPERBLOCK_PREFIX_LEN = SB_LABEL_OFFSET + SB_LABEL_LEN"
definition WIPE_CHUNK :: nat where [nums]: "WIPE_CHUNK = 1024 * 1024"

text \<open>On the \<open>SUPERBLOCK_PREFIX_LEN\<close> bytes read from the device.\<close>

definition superblock_is_ours :: "byte list \<Rightarrow> bool" where
  "superblock_is_ours sb =
     (let magic = of_ne16 [sb ! SB_MAGIC_OFFSET, sb ! (SB_MAGIC_OFFSET + 1)] in
      if magic \<noteq> EXT4_MAGIC then False
      else
        let lbl = take SB_LABEL_LEN (drop SB_LABEL_OFFSET sb);
            expected = take (length VOLUME_LABEL) lbl;
            padding = drop (length VOLUME_LABEL) lbl
        in expected = VOLUME_LABEL \<and> list_all (\<lambda>b. b = 0) padding)"

lemma ne16_of_ne16: "ne16 (of_ne16 [x, y]) = [x, y]"
  by (auto simp: ne16_def intro!: bit_word_eqI) (auto simp: bit_simps dest: bit_imp_le_length)

lemma list_all_zero_iff: "list_all (\<lambda>b. b = 0) xs \<longleftrightarrow> xs = replicate (length xs) 0"
  by (induction xs) auto

lemma sb_offsets:
  "SB_MAGIC_OFFSET = 56" "SB_LABEL_OFFSET = 120" "SB_LABEL_LEN = 16" "(56::nat) + 1 = 57"
  by (simp_all add: nums)

text \<open>
  A volume is taken for one of ours exactly when its superblock has the ext4 magic and its
  16-byte label field is the label padded with zeros: a longer label that starts with ours is
  foreign.
\<close>

lemma superblock_recognised:
  assumes "length sb = SUPERBLOCK_PREFIX_LEN"
  shows "superblock_is_ours sb \<longleftrightarrow>
    take 2 (drop 0x38 sb) = ne16 EXT4_MAGIC \<and>
    drop 0x78 sb = VOLUME_LABEL @ replicate (16 - length VOLUME_LABEL) 0"
proof -
  have len: "length sb = 136" using assms by (simp add: nums)
  have vl: "length VOLUME_LABEL = 7" by (simp add: VOLUME_LABEL_def)
  define a b where "a = sb ! 56" and "b = sb ! 57"
  have two: "take 2 (drop 56 sb) = [a, b]"
    using len by (simp add: numeral_2_eq_2 take_Suc_conv_app_nth nth_append a_def b_def)
  have magic: "of_ne16 [a, b] = EXT4_MAGIC \<longleftrightarrow> [a, b] = ne16 EXT4_MAGIC"
    by (metis ne16_of_ne16 of_ne16_ne16)
  define lbl where "lbl = drop 120 sb"
  have l: "length lbl = 16" "take 16 lbl = lbl" using len by (simp_all add: lbl_def)
  have pad: "list_all (\<lambda>b. b = 0) (drop 7 lbl) \<longleftrightarrow> drop 7 lbl = replicate 9 0"
    using list_all_zero_iff [of "drop 7 lbl"] l by simp
  have split: "lbl = VOLUME_LABEL @ replicate 9 0 \<longleftrightarrow>
      take 7 lbl = VOLUME_LABEL \<and> drop 7 lbl = replicate 9 0"
    using vl by (metis append_eq_conv_conj)
  have ours: "superblock_is_ours sb \<longleftrightarrow> of_ne16 [a, b] = EXT4_MAGIC \<and>
      take 7 lbl = VOLUME_LABEL \<and> list_all (\<lambda>b. b = 0) (drop 7 lbl)"
    using l(2) by (simp only: superblock_is_ours_def sb_offsets Let_def vl a_def b_def lbl_def) simp
  show ?thesis
    unfolding ours magic pad using two split vl by (simp add: lbl_def)
qed

section \<open>Mounting the volume\<close>

text \<open>\<open>None\<close> is an I/O error; \<open>read_exact\<close> of fewer bytes than asked for is one.\<close>

definition read_marker :: "env \<Rightarrow> bool option eff" where
  "read_marker env =
     eff_bind (ask env (ReadDevice DEVICE_PATH SUPERBLOCK_OFFSET SUPERBLOCK_PREFIX_LEN)) (\<lambda>a.
       eff_return
         (case a of
            BytesAre sb \<Rightarrow>
              if length sb = SUPERBLOCK_PREFIX_LEN then Some (superblock_is_ours sb) else None
          | _ \<Rightarrow> None))"

definition device_carries_our_marker :: "env \<Rightarrow> bool option eff" where
  "device_carries_our_marker env =
     eff_bind (ask env (OpenDevice DEVICE_PATH)) (\<lambda>a.
       if succeeded a then read_marker env else eff_return None)"

definition wipe_device :: "env \<Rightarrow> answer \<Rightarrow> unit eff" where
  "wipe_device env sz =
     (case sz of
        NumberIs device_len \<Rightarrow>
          (case write_zeros device_len WIPE_CHUNK of
             None \<Rightarrow> eff_fatal (StorageWipeFailed ''wipe'')
           | Some ns \<Rightarrow>
               eff_all (\<lambda>n. require env (WriteZeros DEVICE_PATH n) (StorageWipeFailed ''wipe'')) ns)
      | _ \<Rightarrow> eff_fatal (StorageWipeFailed ''size''))"

definition mke2fs_args :: "string list" where
  "mke2fs_args = [''-q'', ''-F'', ''-t'', ''ext4'', ''-L'', ''CUKINIT'', DEVICE_PATH]"

definition wipe_and_format :: "env \<Rightarrow> unit eff" where
  "wipe_and_format env =
     eff_then (require env (OpenDevice DEVICE_PATH) (StorageWipeFailed ''open''))
     (eff_bind (ask env (SizeDevice DEVICE_PATH)) (\<lambda>sz.
      eff_then (wipe_device env sz)
     (eff_then (require env (SyncDevice DEVICE_PATH) (StorageWipeFailed ''sync''))
     (eff_bind (ask env (RunProgram MKE2FS_PATH mke2fs_args)) (\<lambda>status.
        if status = NumberIs 0 then eff_return () else eff_fatal MkfsFailed)))))"

definition mount_persistent_var :: "features \<Rightarrow> env \<Rightarrow> unit eff" where
  "mount_persistent_var ft env =
     eff_bind (device_carries_our_marker env) (\<lambda>ours.
       case ours of
         None \<Rightarrow> eff_fatal StorageInspectFailed
       | Some ours \<Rightarrow>
           eff_then (if ours then eff_return () else wipe_and_format env)
             (or_fatal (mount env DEVICE_PATH MOUNT_TARGET ''ext4'' (writable_exec_mount_flags ft) None)
               (MountFailed MOUNT_TARGET)))"

definition unmount_var :: "env \<Rightarrow> bool eff" where
  "unmount_var env = eff_bind (unmount env VAR_TMP) (\<lambda>_. unmount env MOUNT_TARGET)"

section \<open>What happens to the device\<close>

text \<open>The marker as the code reads it, when the boot reaches it with history \<open>tr\<close>.\<close>

definition marker_read :: "env \<Rightarrow> event list \<Rightarrow> bool option" where
  "marker_read env tr =
     (if succeeded (env tr (OpenDevice DEVICE_PATH)) then
        (case env (tr @ [OpenDevice DEVICE_PATH])
                (ReadDevice DEVICE_PATH SUPERBLOCK_OFFSET SUPERBLOCK_PREFIX_LEN) of
           BytesAre sb \<Rightarrow>
             if length sb = SUPERBLOCK_PREFIX_LEN then Some (superblock_is_ours sb) else None
         | _ \<Rightarrow> None)
      else None)"

fun destroys_data :: "event \<Rightarrow> bool" where
  "destroys_data (WriteZeros _ _) = True"
| "destroys_data (RunProgram _ _) = True"
| "destroys_data _ = False"

definition wiping :: "nat list \<Rightarrow> event list" where
  "wiping ns = [OpenDevice DEVICE_PATH, SizeDevice DEVICE_PATH] @ map (WriteZeros DEVICE_PATH) ns @
     [SyncDevice DEVICE_PATH, RunProgram MKE2FS_PATH mke2fs_args]"

lemma carries_marker_run:
  "\<exists>new. device_carries_our_marker env tr = (Some (Inr (marker_read env tr)), tr @ new) \<and>
     list_all (\<lambda>ev. \<not> destroys_data ev) new"
proof (cases "succeeded (env tr (OpenDevice DEVICE_PATH))")
  case True
  then show ?thesis
    by (simp add: device_carries_our_marker_def read_marker_def eff_bind_def ask_def eff_return_def marker_read_def)
next
  case False
  then show ?thesis
    by (simp add: device_carries_our_marker_def eff_bind_def ask_def eff_return_def marker_read_def)
qed

lemma require_all_value:
  "eff_all (\<lambda>x. require env (f x) e) xs tr = (Some (Inr u), tr') \<Longrightarrow> tr' = tr @ map f xs"
  by (induction xs arbitrary: tr) (fastforce simp: value_iffs)+

lemma wipe_and_format_value:
  assumes "wipe_and_format env tr = (Some (Inr u), tr')"
  shows "\<exists>ns len. env (tr @ [OpenDevice DEVICE_PATH]) (SizeDevice DEVICE_PATH) = NumberIs len \<and>
    sum_list ns = len \<and> tr' = tr @ wiping ns"
proof -
  let ?tr1 = "tr @ [OpenDevice DEVICE_PATH]"
  let ?tr2 = "tr @ [OpenDevice DEVICE_PATH, SizeDevice DEVICE_PATH]"
  obtain tr3 where w: "wipe_device env (env ?tr1 (SizeDevice DEVICE_PATH)) ?tr2 = (Some (Inr ()), tr3)"
    and tr': "tr' = tr3 @ [SyncDevice DEVICE_PATH, RunProgram MKE2FS_PATH mke2fs_args]"
    using assms by (auto simp: wipe_and_format_def value_iffs split: if_splits)
  from w obtain len ns where n: "env ?tr1 (SizeDevice DEVICE_PATH) = NumberIs len"
      "write_zeros len WIPE_CHUNK = Some ns"
      "eff_all (\<lambda>n. require env (WriteZeros DEVICE_PATH n) (StorageWipeFailed ''wipe'')) ns ?tr2 = (Some (Inr ()), tr3)"
    by (auto simp: wipe_device_def fatal_no_value split: answer.splits option.splits)
  have "sum_list ns = len" using n(2) zero_chunks_sum [of WIPE_CHUNK len]
    by (auto simp: write_zeros_def WIPE_CHUNK_def split: if_splits)
  moreover have "tr3 = ?tr2 @ map (WriteZeros DEVICE_PATH) ns" by (rule require_all_value [OF n(3)])
  ultimately show ?thesis using n(1) tr' by (intro exI [of _ ns]) (simp add: wiping_def)
qed

lemma mount_not_destructive: "only (\<lambda>ev. \<not> destroys_data ev) (or_fatal (mount env s t f fl d) e)"
  unfolding or_fatal_def mount_def mount_data_def
  by (cases d) (auto intro!: traced_intros)

lemma wipe_traced: "only (\<lambda>_. True) (wipe_and_format env)"
  unfolding wipe_and_format_def wipe_device_def
  by (intro traced_intros TrueI) (auto split: answer.splits option.splits intro!: traced_intros)

lemma mount_value:
  "or_fatal (mount env s t f fl None) e tr = (Some (Inr u), tr') \<Longrightarrow> tr' = tr @ [Mount s t f fl None]"
  by (auto simp: or_fatal_def mount_def mount_data_def value_iffs split: if_splits)

lemma wipe_then_mount_value:
  assumes "eff_then (wipe_and_format env) (or_fatal (mount env s t f fl None) e) tr = (Some (Inr u), tr')"
  shows "\<exists>ns. tr' = tr @ wiping ns @ [Mount s t f fl None] \<and>
    env (tr @ [OpenDevice DEVICE_PATH]) (SizeDevice DEVICE_PATH) = NumberIs (sum_list ns)"
proof -
  from assms obtain tr2 where w: "wipe_and_format env tr = (Some (Inr ()), tr2)"
    and m: "or_fatal (mount env s t f fl None) e tr2 = (Some (Inr u), tr')" by (auto simp: then_value_iff)
  from wipe_and_format_value [OF w] mount_value [OF m] show ?thesis by auto
qed


end
