(* ===== verification/WireCodec.thy ===== *)
theory WireCodec
  imports Prelude
begin

text \<open>
  The contract of the \<open>';'\<close>-joined wire format between the host, which bakes lists into the guest, and the guest,
  which parses them: the host encodes every entry to a non-empty text without a separator, and the guest
  decodes each such text. What follows for whole lists is proved once here and used for
  key-value pairs, path lists and firewall rules.
\<close>

definition decode_list :: "(string \<Rightarrow> 'e + 'b) \<Rightarrow> string \<Rightarrow> 'e + 'b list" where
  "decode_list dec1 raw = traverse dec1 (drop_empty (split_on (CHR '';'') raw))"

definition encode_list :: "('a \<Rightarrow> string) \<Rightarrow> 'a list \<Rightarrow> string" where
  "encode_list enc1 xs = join_with (CHR '';'') (map enc1 xs)"

locale entry_codec =
  fixes enc1 :: "'a \<Rightarrow> string"
    and dec1 :: "string \<Rightarrow> 'e + 'b"
    and ok :: "'a \<Rightarrow> bool"
    and view :: "'a \<Rightarrow> 'b"
  assumes enc_no_sep: "ok x \<Longrightarrow> CHR '';'' \<notin> set (enc1 x)"
    and enc_nonempty: "ok x \<Longrightarrow> enc1 x \<noteq> []"
    and dec_enc: "ok x \<Longrightarrow> dec1 (enc1 x) = Inr (view x)"
begin

lemma pieces:
  assumes "\<forall>x\<in>set xs. ok x"
  shows "drop_empty (split_on (CHR '';'') (encode_list enc1 xs)) = map enc1 xs"
proof -
  have "drop_empty (split_on (CHR '';'') (encode_list enc1 xs)) = drop_empty (map enc1 xs)"
    using assms enc_no_sep unfolding encode_list_def by (intro drop_empty_split_join) auto
  also have "\<dots> = map enc1 xs"
    using assms enc_nonempty by (auto simp: drop_empty_def filter_id_conv)
  finally show ?thesis .
qed

lemma list_roundtrip:
  assumes "\<forall>x\<in>set xs. ok x"
  shows "decode_list dec1 (encode_list enc1 xs) = Inr (map view xs)"
  unfolding decode_list_def pieces [OF assms] using assms dec_enc by (intro traverse_map) simp

text \<open>Two encodable lists with the same wire text mean the same to the guest.\<close>

lemma encode_inject:
  assumes "\<forall>x\<in>set xs. ok x" and "\<forall>x\<in>set ys. ok x" and "encode_list enc1 xs = encode_list enc1 ys"
  shows "map view xs = map view ys"
  using list_roundtrip [OF assms(1)] list_roundtrip [OF assms(2)] assms(3) by simp

lemma decode_concat:
  assumes "\<forall>x\<in>set xs. ok x" and "\<forall>x\<in>set ys. ok x"
  shows "decode_list dec1 (encode_list enc1 (xs @ ys)) =
    res_bind (decode_list dec1 (encode_list enc1 xs)) (\<lambda>vs.
      res_bind (decode_list dec1 (encode_list enc1 ys)) (\<lambda>ws. Inr (vs @ ws)))"
  using assms list_roundtrip [of "xs @ ys"] by (simp add: list_roundtrip ball_Un)

end

end
