(* ===== verification/Stdlib.thy ===== *)
theory Stdlib
  imports Prelude
begin

text \<open>
  Two parsers of the Rust standard library that both sides of the program rely on, written out
  as they are in \<open>core::net::parser\<close> and \<open>std::path\<close>: \<open>Ipv6Addr::from_str\<close> (an address is its
  eight 16-bit segments) and the components of a Unix path. \<open>BTreeMap\<close>s are the lists of their
  entries in key order.
\<close>

section \<open>IPv6 addresses\<close>

type_synonym 'a parser = "string \<Rightarrow> ('a \<times> string) option"

fun read_given_char :: "char \<Rightarrow> unit parser" where
  "read_given_char c [] = None"
| "read_given_char c (x # xs) = (if x = c then Some ((), xs) else None)"

text \<open>The digits at the front, at most \<open>m\<close> of them: one more makes the number unreadable.\<close>

fun read_digits :: "nat \<Rightarrow> nat \<Rightarrow> nat \<Rightarrow> nat \<Rightarrow> string \<Rightarrow> ((nat \<times> nat) \<times> string) option" where
  "read_digits radix m acc k [] = Some ((acc, k), [])"
| "read_digits radix m acc k (x # xs) =
     (case to_digit radix x of
        None \<Rightarrow> Some ((acc, k), x # xs)
      | Some d \<Rightarrow> if m < k + 1 then None else read_digits radix m (acc * radix + d) (k + 1) xs)"

definition read_number :: "nat \<Rightarrow> nat \<Rightarrow> nat \<Rightarrow> bool \<Rightarrow> nat parser" where
  "read_number radix max_digits max_val allow_zero_prefix s =
     (case read_digits radix max_digits 0 0 s of
        None \<Rightarrow> None
      | Some ((n, k), rest) \<Rightarrow>
          if k = 0 then None
          else if \<not> allow_zero_prefix \<and> take 1 s = ''0'' \<and> 1 < k then None
          else if n \<le> max_val then Some (n, rest) else None)"

text \<open>\<open>read_separator\<close>: the separator is read before every item but the first.\<close>

definition read_separator :: "char \<Rightarrow> nat \<Rightarrow> 'a parser \<Rightarrow> 'a parser" where
  "read_separator sep index p s =
     (if index = 0 then p s
      else case read_given_char sep s of None \<Rightarrow> None | Some (_, rest) \<Rightarrow> p rest)"

fun read_octets :: "nat \<Rightarrow> nat \<Rightarrow> nat list parser" where
  "read_octets i 0 s = Some ([], s)"
| "read_octets i (Suc n) s =
     (case read_separator (CHR ''.'') i (read_number 10 3 255 False) s of
        None \<Rightarrow> None
      | Some (d, rest) \<Rightarrow>
          (case read_octets (i + 1) n rest of None \<Rightarrow> None | Some (ds, r) \<Rightarrow> Some (d # ds, r)))"

definition read_ipv4_addr :: "nat list parser" where
  "read_ipv4_addr = read_octets 0 4"

text \<open>
  \<open>read_groups\<close>: group \<open>i\<close> of the \<open>n\<close> that are left, the groups read, whether the last two came from an
  embedded IPv4 address, and the rest of the text.
\<close>

fun read_groups :: "nat \<Rightarrow> nat \<Rightarrow> string \<Rightarrow> u16 list \<times> bool \<times> string" where
  "read_groups i 0 s = ([], False, s)"
| "read_groups i (Suc n) s =
     (case (if 0 < n then read_separator (CHR '':'') i read_ipv4_addr s else None) of
        Some (octets, rest) \<Rightarrow>
          ([word_of_nat (octets ! 0 * 256 + octets ! 1),
            word_of_nat (octets ! 2 * 256 + octets ! 3)], True, rest)
      | None \<Rightarrow>
          (case read_separator (CHR '':'') i (read_number 16 4 65535 True) s of
             None \<Rightarrow> ([], False, s)
           | Some (g, rest) \<Rightarrow>
               (case read_groups (i + 1) n rest of
                  (gs, v4, r) \<Rightarrow> (word_of_nat g # gs, v4, r))))"

definition read_ipv6_addr :: "u16 list parser" where
  "read_ipv6_addr s =
     (case read_groups 0 8 s of
        (head, head_ipv4, rest) \<Rightarrow>
          if length head = 8 then Some (head, rest)
          else if head_ipv4 then None
          else case read_given_char (CHR '':'') rest of
            None \<Rightarrow> None
          | Some (_, rest) \<Rightarrow>
              (case read_given_char (CHR '':'') rest of
                 None \<Rightarrow> None
               | Some (_, rest) \<Rightarrow>
                   (case read_groups 0 (8 - (length head + 1)) rest of
                      (tail, _, rest) \<Rightarrow>
                        Some (head @ replicate (8 - length head - length tail) 0 @ tail, rest))))"

definition parse_ipv6 :: "string \<Rightarrow> u16 list option" where
  "parse_ipv6 s =
     (case read_ipv6_addr s of Some (a, []) \<Rightarrow> Some a | _ \<Rightarrow> None)"

definition v6_is_unspecified :: "u16 list \<Rightarrow> bool" where
  "v6_is_unspecified a \<longleftrightarrow> a = replicate 8 0"

definition v6_is_loopback :: "u16 list \<Rightarrow> bool" where
  "v6_is_loopback a \<longleftrightarrow> a = replicate 7 0 @ [1]"

definition v6_is_multicast :: "u16 list \<Rightarrow> bool" where
  "v6_is_multicast a \<longleftrightarrow> a ! 0 AND 0xff00 = 0xff00"

lemma length_read_groups: "read_groups i n s = (gs, v4, r) \<Longrightarrow> length gs \<le> n"
proof (induction n arbitrary: i s gs v4 r)
  case (Suc n)
  show ?case
  proof (cases "if 0 < n then read_separator (CHR '':'') i read_ipv4_addr s else None")
    case (Some v)
    with Suc.prems show ?thesis by (cases v) (auto split: if_splits)
  next
    case None
    show ?thesis
    proof (cases "read_separator (CHR '':'') i (read_number 16 4 65535 True) s")
      case (Some v)
      obtain g rest where v: "v = (g, rest)" by (cases v)
      obtain gs' v4' r' where r: "read_groups (i + 1) n rest = (gs', v4', r')"
        by (cases "read_groups (i + 1) n rest")
      have "length gs' \<le> n" using Suc.IH [OF r] .
      with Suc.prems None Some v r show ?thesis by auto
    qed (use Suc.prems None in simp)
  qed
qed simp

lemma parse_ipv6_length:
  assumes "parse_ipv6 s = Some a"
  shows "length a = 8"
proof -
  obtain h v4 r where h: "read_groups 0 8 s = (h, v4, r)" by (cases "read_groups 0 8 s")
  have le: "length h \<le> 8" using length_read_groups [OF h] .
  show ?thesis
  proof (cases "length h = 8")
    case True
    with assms h show ?thesis
      by (simp add: parse_ipv6_def read_ipv6_addr_def split: list.splits)
  next
    case False
    with assms h obtain r' t v r'' where t: "read_groups 0 (8 - (length h + 1)) r' = (t, v, r'')"
      and a: "a = h @ replicate (8 - length h - length t) 0 @ t"
      by (simp add: parse_ipv6_def read_ipv6_addr_def split: list.splits option.splits prod.splits
        if_splits)
    have "length t \<le> 8 - (length h + 1)" using length_read_groups [OF t] .
    with a le False show ?thesis by simp
  qed
qed

section \<open>Paths\<close>

datatype path_component = RootDir | CurDir | ParentDir | Normal string

text \<open>
  \<open>Path::components\<close> on Unix: the root, then the non-empty pieces; a \<open>.\<close> counts only at the front of a
  relative path.
\<close>

definition path_components :: "string \<Rightarrow> path_component list" where
  "path_components s =
     (let pieces = split_on (CHR ''/'') s;
          rooted = prefix ''/'' s;
          body = concat (map (\<lambda>p. if p = [] \<or> p = ''.'' then []
                                  else if p = ''..'' then [ParentDir] else [Normal p]) pieces)
      in (if rooted then [RootDir] else if hd pieces = ''.'' then [CurDir] else []) @ body)"

lemma path_components_parent:
  "ParentDir \<in> set (path_components s) \<longleftrightarrow> ''..'' \<in> set (split_on (CHR ''/'') s)"
  by (auto simp: path_components_def Let_def split: if_splits)

lemma path_components_root: "RootDir \<in> set (path_components s) \<longleftrightarrow> prefix ''/'' s"
  by (auto simp: path_components_def Let_def split: if_splits)

section \<open>Characters and maps\<close>

definition is_ascii_alphanumeric :: "char \<Rightarrow> bool" where
  "is_ascii_alphanumeric c \<longleftrightarrow> to_digit 36 c \<noteq> None"

type_synonym btree = "(string \<times> string) list"

text \<open>What makes a list of entries a \<open>BTreeMap<String, String>\<close>: keys in strictly ascending order.\<close>

definition btree_ok :: "btree \<Rightarrow> bool" where
  "btree_ok m \<longleftrightarrow> sorted_wrt (<) (map fst m)"

lemma btree_ok_distinct: "btree_ok m \<Longrightarrow> distinct (map fst m)"
  unfolding btree_ok_def by (simp add: strict_sorted_iff)

end
