(* ===== verification/Schema.thy ===== *)
theory Schema
  imports Stdlib
begin

text \<open>
  The configuration schema of \<open>src/schema.rs\<close>: every table of \<open>Cargo-Unikernel.toml\<close> as a record,
  its defaults, and \<open>Config::validate\<close> with one definition per check. The version of the running
  CLI (\<open>CLI_VERSION\<close>, which the build system sets) is the argument \<open>cli\<close>.
\<close>

section \<open>The configuration\<close>

record logging =
  log_enabled :: bool

record project =
  pr_name :: string
  pr_cli_version :: "string option"

datatype profile_kind = Casual | SevSnpProfile

record profile =
  prof_kind :: profile_kind

datatype app_mode = ModeSource | ModeBinary

datatype toolchain = Rust | Generic

record app_source =
  src_path :: "string option"
  src_toolchain :: toolchain
  src_package_path :: string
  src_cargo_profile :: string
  src_features :: "string list"
  src_build_command :: "string option"
  src_output_binary :: "string option"
  src_extra_apt_packages :: "string list"

definition default_package_path :: string where
  "default_package_path = ''.''"

definition default_cargo_profile :: string where
  "default_cargo_profile = ''release''"

record app_binary =
  bin_path :: "string option"

record danger_runtime =
  allow_write_execute :: bool

record app_limits =
  max_open_files :: u64
  max_processes :: u64
  max_memory_mb :: u64
  max_locked_memory_mb :: u64

definition app_limits_default :: app_limits where
  "app_limits_default =
     \<lparr>max_open_files = 65536, max_processes = 2048, max_memory_mb = 0, max_locked_memory_mb = 64\<rparr>"

record landlock_config =
  ll_enabled :: bool
  extra_read_paths :: "string list"
  extra_read_write_paths :: "string list"

definition landlock_default :: landlock_config where
  "landlock_default = \<lparr>ll_enabled = True, extra_read_paths = [], extra_read_write_paths = []\<rparr>"

record app_runtime =
  rt_env :: btree
  rt_uid :: u32
  rt_gid :: u32
  rt_danger :: danger_runtime
  rt_limits :: app_limits
  rt_landlock :: landlock_config
  rt_console :: bool

definition default_uid :: u32 where
  "default_uid = 65534"

definition default_gid :: u32 where
  "default_gid = 65534"

definition app_runtime_default :: app_runtime where
  "app_runtime_default =
     \<lparr>rt_env = [], rt_uid = default_uid, rt_gid = default_gid,
      rt_danger = \<lparr>allow_write_execute = False\<rparr>, rt_limits = app_limits_default,
      rt_landlock = landlock_default, rt_console = False\<rparr>"

record app =
  app_mode :: app_mode
  app_source :: "app_source option"
  app_binary :: "app_binary option"
  app_runtime :: app_runtime

datatype network_mode = Ipv4 | Ipv6 | Dual | NoNetwork

definition has_ipv4 :: "network_mode \<Rightarrow> bool" where
  "has_ipv4 m = (m = Ipv4 \<or> m = Dual)"

definition has_ipv6 :: "network_mode \<Rightarrow> bool" where
  "has_ipv6 m = (m = Ipv6 \<or> m = Dual)"

definition has_any :: "network_mode \<Rightarrow> bool" where
  "has_any m = (m \<noteq> NoNetwork)"

record inbound_ports =
  in_proto :: string
  in_ports :: string

definition inbound_new :: "string \<Rightarrow> string \<Rightarrow> inbound_ports" where
  "inbound_new proto ports = \<lparr>in_proto = proto, in_ports = ports\<rparr>"

definition default_firewall_inbound :: "inbound_ports list" where
  "default_firewall_inbound =
     [inbound_new ''tcp'' ''80'', inbound_new ''tcp'' ''443'', inbound_new ''udp'' ''443'']"

record firewall_config =
  fw_enabled :: bool
  fw_inbound :: "inbound_ports list"

definition firewall_default :: firewall_config where
  "firewall_default = \<lparr>fw_enabled = True, fw_inbound = default_firewall_inbound\<rparr>"

record ipv6_static =
  v6_address :: string
  v6_prefix_len :: u8
  v6_gateway :: "string option"
  v6_interface :: "string option"

definition default_ipv6_prefix_len :: u8 where
  "default_ipv6_prefix_len = 64"

record network =
  net_mode :: network_mode
  net_ipv6_static :: "ipv6_static option"
  net_nameservers :: "string list"
  net_search :: "string option"
  net_firewall :: firewall_config

definition network_default :: network where
  "network_default =
     \<lparr>net_mode = Ipv4, net_ipv6_static = None, net_nameservers = [], net_search = None,
      net_firewall = firewall_default\<rparr>"

datatype storage_mode = Ram | Persistent

record tmpfs_sizes =
  tmp_mb :: u64
  run_mb :: u64
  shm_mb :: u64
  var_tmp_mb :: u64

definition tmpfs_default :: tmpfs_sizes where
  "tmpfs_default = \<lparr>tmp_mb = 64, run_mb = 16, shm_mb = 64, var_tmp_mb = 64\<rparr>"

record storage =
  st_mode :: storage_mode
  st_size_mib :: u32
  st_tmpfs :: tmpfs_sizes

definition default_storage_size_mib :: u32 where
  "default_storage_size_mib = 4096"

definition storage_default :: storage where
  "storage_default = \<lparr>st_mode = Ram, st_size_mib = default_storage_size_mib, st_tmpfs = tmpfs_default\<rparr>"

record kernel_config =
  k_version :: string
  k_sha256 :: "string option"

definition default_kernel_version :: string where
  "default_kernel_version = ''6.18.51''"

definition DEFAULT_KERNEL_SHA256 :: string where
  "DEFAULT_KERNEL_SHA256 = ''ba2f60f858bf4d1f929101faa356c93dc8b925b17aaa9f95eabd4627758df613''"

definition kernel_default :: kernel_config where
  "kernel_default = \<lparr>k_version = default_kernel_version, k_sha256 = Some DEFAULT_KERNEL_SHA256\<rparr>"

definition sha256_for_build :: "kernel_config \<Rightarrow> string option" where
  "sha256_for_build k =
     (case k_sha256 k of
        Some h \<Rightarrow> Some h
      | None \<Rightarrow> if k_version k = default_kernel_version then Some DEFAULT_KERNEL_SHA256 else None)"

record toolchain_pins =
  tp_apt_snapshot :: "string option"
  tp_rust_version :: "string option"
  tp_e2fsprogs_version :: "string option"
  tp_e2fsprogs_sha256 :: "string option"

text \<open>Whether \<open>warn_if_e2fsprogs_unverified\<close> prints its warning.\<close>

definition warns_e2fsprogs_unverified :: "toolchain_pins \<Rightarrow> bool" where
  "warns_e2fsprogs_unverified t \<longleftrightarrow>
     tp_e2fsprogs_version t \<noteq> None \<and> tp_e2fsprogs_sha256 t = None"

datatype hardening_level = LevelDefault | LevelStrict

record kernel_hardening =
  kh_disable_legacy_subsystems :: "bool option"
  kh_disable_debug_interfaces :: "bool option"
  kh_kernel_self_protection :: "bool option"
  kh_exploit_mitigations :: "bool option"
  kh_seccomp :: "bool option"
  kh_fips :: bool

record runtime_hardening =
  rh_network_spoofing_protection :: "bool option"
  rh_icmp_hardening :: "bool option"
  rh_tcp_hardening :: "bool option"
  rh_info_leak_restriction :: "bool option"
  rh_ptrace_and_bpf_restriction :: "bool option"
  rh_kexec_and_fs_protection :: "bool option"
  rh_proc_subset_pid :: bool

record hardening =
  h_level :: hardening_level
  h_kernel :: kernel_hardening
  h_runtime :: runtime_hardening
  h_extra_sysctls :: btree
  h_extra_kernel_config :: "string list"

definition kernel_hardening_default :: kernel_hardening where
  "kernel_hardening_default =
     \<lparr>kh_disable_legacy_subsystems = None, kh_disable_debug_interfaces = None,
      kh_kernel_self_protection = None, kh_exploit_mitigations = None, kh_seccomp = None,
      kh_fips = False\<rparr>"

definition runtime_hardening_default :: runtime_hardening where
  "runtime_hardening_default =
     \<lparr>rh_network_spoofing_protection = None, rh_icmp_hardening = None, rh_tcp_hardening = None,
      rh_info_leak_restriction = None, rh_ptrace_and_bpf_restriction = None,
      rh_kexec_and_fs_protection = None, rh_proc_subset_pid = False\<rparr>"

definition hardening_default :: hardening where
  "hardening_default =
     \<lparr>h_level = LevelDefault, h_kernel = kernel_hardening_default,
      h_runtime = runtime_hardening_default, h_extra_sysctls = [], h_extra_kernel_config = []\<rparr>"

record ovmf_source =
  ovmf_preset :: "string option"
  ovmf_path :: "string option"

datatype measured_boot = MeasuredUki | KernelInitrd

record sev_snp =
  snp_vcpus :: u32
  snp_vcpu_type :: string
  snp_kernel_cmdline :: string
  snp_ovmf :: ovmf_source
  snp_measured_boot :: "measured_boot option"

datatype output_format = FmtCpio | FmtUki | FmtBinary

record output_config =
  out_formats :: "output_format list"
  out_dir :: string

definition default_output_dir :: string where
  "default_output_dir = ''dist/''"

datatype release_asset =
  AssetBzimage | AssetCpio | AssetUki | AssetBinary | AssetMeasurement | AssetOvmf

record release =
  rel_assets :: "release_asset list option"
  rel_title :: "string option"
  rel_notes :: "string option"
  rel_notes_file :: "string option"
  rel_draft :: bool
  rel_prerelease :: bool

record config =
  c_project :: project
  c_profile :: profile
  c_app :: app
  c_network :: network
  c_storage :: storage
  c_kernel :: kernel_config
  c_toolchain :: toolchain_pins
  c_hardening :: hardening
  c_sev_snp :: "sev_snp option"
  c_output :: output_config
  c_release :: release
  c_logging :: logging

section \<open>Validation\<close>

datatype validation_error =
    MissingAppSource
  | AppSourcePathRequired
  | MissingAppBinary
  | AppBinaryPathRequired
  | LatestAptSnapshotNotAllowedForSevSnp
  | GenericToolchainNeedsBuildCommandAndOutputBinary
  | RustToolchainCannotSetGenericFields
  | SevSnpSectionRequiresSevSnpProfile
  | MissingSevSnpSection
  | OvmfNeedsExactlyOneSource
  | EmptyOutputFormats
  | EmptyReleaseAssets
  | ReleaseNotesAndNotesFileBothSet
  | ToolVersionMismatch string string
  | SevSnpRequiresPinnedCliVersion string
  | InvalidProjectName string
  | SevSnpVcpusMustBePositive u32
  | SevSnpVcpuTypeMustNotBeEmpty
  | MeasuredBootUkiNeedsUkiOutputFormat
  | KernelSha256Required string
  | FirewallProtoUnknown string
  | FirewallPortsUnusable string
  | FirewallRequiresNetwork
  | Ipv6StaticRequiresIpv6
  | Ipv6StaticAddressUnparseable string
  | Ipv6StaticAddressNotRoutable string
  | Ipv6StaticPrefixLenOutOfRange u8
  | Ipv6StaticGatewayUnparseable string
  | StorageSizeMustBePositive u32
  | UnsafeOutputDir string
  | UnrepresentableKvPair string string
  | AppRuntimeIdMustNotBeRoot string
  | ExtraSysctlNotUnderProcSys string
  | UnrepresentableListEntry string string

type_synonym check = "validation_error + unit"

definition validate_kv_encoding :: "config \<Rightarrow> check" where
  "validate_kv_encoding c =
     check_all (\<lambda>(table, pairs).
         check_all (\<lambda>(key, val).
             ensure (\<not> (CHR '';'' \<in> set key \<or> CHR ''='' \<in> set key \<or> CHR '';'' \<in> set val))
               (UnrepresentableKvPair table key)) pairs)
       [(''app.runtime.env'', rt_env (app_runtime (c_app c))),
        (''hardening.extra_sysctls'', h_extra_sysctls (c_hardening c))]"

definition validate_list_encoding :: "config \<Rightarrow> check" where
  "validate_list_encoding c =
     check_all (\<lambda>(table, entries).
         check_all (\<lambda>entry.
             ensure (CHR '';'' \<notin> set entry) (UnrepresentableListEntry table entry)) entries)
       [(''app.runtime.landlock.extra_read_paths'',
           extra_read_paths (rt_landlock (app_runtime (c_app c)))),
        (''app.runtime.landlock.extra_read_write_paths'',
           extra_read_write_paths (rt_landlock (app_runtime (c_app c)))),
        (''network.nameservers'', net_nameservers (c_network c))]"

definition validate_extra_sysctl_paths :: "config \<Rightarrow> check" where
  "validate_extra_sysctl_paths c =
     check_all (\<lambda>key.
         ensure (\<not> (\<not> prefix ''/proc/sys/'' key \<or> ''..'' \<in> set (split_on (CHR ''/'') key)))
           (ExtraSysctlNotUnderProcSys key))
       (map fst (h_extra_sysctls (c_hardening c)))"

definition validate_project :: "string \<Rightarrow> config \<Rightarrow> check" where
  "validate_project cli c =
     (let name = pr_name (c_project c) in
      if name = [] \<or>
         \<not> list_all (\<lambda>ch. is_ascii_alphanumeric ch \<or> ch = CHR ''-'' \<or> ch = CHR ''_'') name
      then Inl (InvalidProjectName name)
      else (case pr_cli_version (c_project c) of
              Some pinned \<Rightarrow> if pinned \<noteq> cli then Inl (ToolVersionMismatch pinned cli) else Inr ()
            | None \<Rightarrow> Inr ()))"

definition validate_storage :: "config \<Rightarrow> check" where
  "validate_storage c =
     (if st_size_mib (c_storage c) = 0
      then Inl (StorageSizeMustBePositive (st_size_mib (c_storage c))) else Inr ())"

definition validate_kernel :: "config \<Rightarrow> check" where
  "validate_kernel c =
     (if sha256_for_build (c_kernel c) = None
      then Inl (KernelSha256Required (k_version (c_kernel c))) else Inr ())"

definition validate_ipv6_static :: "config \<Rightarrow> check" where
  "validate_ipv6_static c =
     (case net_ipv6_static (c_network c) of
        None \<Rightarrow> Inr ()
      | Some v6 \<Rightarrow>
          if \<not> has_ipv6 (net_mode (c_network c)) then Inl Ipv6StaticRequiresIpv6
          else res_bind (ok_or (parse_ipv6 (v6_address v6))
                               (Ipv6StaticAddressUnparseable (v6_address v6))) (\<lambda>address.
            if v6_is_loopback address \<or> v6_is_multicast address \<or> v6_is_unspecified address \<or>
               address ! 0 AND 0xffc0 = 0xfe80
            then Inl (Ipv6StaticAddressNotRoutable (v6_address v6))
            else if v6_prefix_len v6 = 0 \<or> v6_prefix_len v6 > 128
            then Inl (Ipv6StaticPrefixLenOutOfRange (v6_prefix_len v6))
            else (case v6_gateway v6 of
                    Some gateway \<Rightarrow>
                      if parse_ipv6 gateway = None then Inl (Ipv6StaticGatewayUnparseable gateway)
                      else Inr ()
                  | None \<Rightarrow> Inr ())))"

definition validate_inbound :: "inbound_ports \<Rightarrow> check" where
  "validate_inbound entry =
     (if in_proto entry \<noteq> ''tcp'' \<and> in_proto entry \<noteq> ''udp''
      then Inl (FirewallProtoUnknown (in_proto entry))
      else
        let (first, last) = (case split_once (CHR ''-'') (in_ports entry) of
                               Some p \<Rightarrow> p | None \<Rightarrow> (in_ports entry, in_ports entry))
        in (case (from_str_radix 65535 10 first, from_str_radix 65535 10 last) of
              (Some first_port, Some last_port) \<Rightarrow>
                if first_port = 0 \<or> last_port < first_port then Inl (FirewallPortsUnusable (in_ports entry))
                else Inr ()
            | _ \<Rightarrow> Inl (FirewallPortsUnusable (in_ports entry))))"

definition validate_firewall :: "config \<Rightarrow> check" where
  "validate_firewall c =
     (let firewall = net_firewall (c_network c) in
      if \<not> fw_enabled firewall then Inr ()
      else if \<not> has_any (net_mode (c_network c)) then Inl FirewallRequiresNetwork
      else check_all validate_inbound (fw_inbound firewall))"

definition validate_app :: "config \<Rightarrow> check" where
  "validate_app c =
     (let a = c_app c in
      if rt_uid (app_runtime a) = 0 then Inl (AppRuntimeIdMustNotBeRoot ''uid'')
      else if rt_gid (app_runtime a) = 0 then Inl (AppRuntimeIdMustNotBeRoot ''gid'')
      else (case app_mode a of
        ModeSource \<Rightarrow>
          res_bind (ok_or (app_source a) MissingAppSource) (\<lambda>source.
            if src_path source = None then Inl AppSourcePathRequired
            else
              let has_generic_fields = (src_build_command source \<noteq> None \<or>
                    src_output_binary source \<noteq> None \<or> src_extra_apt_packages source \<noteq> [])
              in (case src_toolchain source of
                    Generic \<Rightarrow>
                      if src_build_command source = None \<or> src_output_binary source = None
                      then Inl GenericToolchainNeedsBuildCommandAndOutputBinary
                      else Inr ()
                  | Rust \<Rightarrow>
                      if has_generic_fields then Inl RustToolchainCannotSetGenericFields
                      else Inr ()))
      | ModeBinary \<Rightarrow>
          res_bind (ok_or (app_binary a) MissingAppBinary) (\<lambda>binary.
            if bin_path binary = None then Inl AppBinaryPathRequired else Inr ())))"

definition validate_profile :: "string \<Rightarrow> config \<Rightarrow> check" where
  "validate_profile cli c =
     (case prof_kind (c_profile c) of
        Casual \<Rightarrow>
          if c_sev_snp c \<noteq> None then Inl SevSnpSectionRequiresSevSnpProfile else Inr ()
      | SevSnpProfile \<Rightarrow>
          if pr_cli_version (c_project c) = None then Inl (SevSnpRequiresPinnedCliVersion cli)
          else if tp_apt_snapshot (c_toolchain c) = Some ''latest''
          then Inl LatestAptSnapshotNotAllowedForSevSnp
          else res_bind (ok_or (c_sev_snp c) MissingSevSnpSection) (\<lambda>snp.
            if snp_vcpus snp = 0 then Inl (SevSnpVcpusMustBePositive (snp_vcpus snp))
            else if trim (snp_vcpu_type snp) = [] then Inl SevSnpVcpuTypeMustNotBeEmpty
            else res_then
              (case (ovmf_preset (snp_ovmf snp), ovmf_path (snp_ovmf snp)) of
                 (Some _, None) \<Rightarrow> Inr ()
               | (None, Some _) \<Rightarrow> Inr ()
               | _ \<Rightarrow> Inl OvmfNeedsExactlyOneSource)
              (if snp_measured_boot snp = Some MeasuredUki \<and>
                  FmtUki \<notin> set (out_formats (c_output c))
               then Inl MeasuredBootUkiNeedsUkiOutputFormat else Inr ())))"

definition validate_output_and_release :: "config \<Rightarrow> check" where
  "validate_output_and_release c =
     (if out_formats (c_output c) = [] then Inl EmptyOutputFormats
      else if trim (out_dir (c_output c)) = [] \<or>
              list_ex (\<lambda>component. component = ParentDir \<or> component = RootDir)
                (path_components (out_dir (c_output c)))
      then Inl (UnsafeOutputDir (out_dir (c_output c)))
      else if rel_assets (c_release c) = Some [] then Inl EmptyReleaseAssets
      else if rel_notes (c_release c) \<noteq> None \<and> rel_notes_file (c_release c) \<noteq> None
      then Inl ReleaseNotesAndNotesFileBothSet
      else Inr ())"

definition validate :: "string \<Rightarrow> config \<Rightarrow> check" where
  "validate cli c =
     res_then (validate_project cli c)
    (res_then (validate_storage c)
    (res_then (validate_kernel c)
    (res_then (validate_kv_encoding c)
    (res_then (validate_extra_sysctl_paths c)
    (res_then (validate_list_encoding c)
    (res_then (validate_ipv6_static c)
    (res_then (validate_firewall c)
    (res_then (validate_app c)
    (res_then (validate_profile cli c)
    (res_then (validate_output_and_release c)
    (Inr ())))))))))))"

end
