(* ===== verification/Shell.thy ===== *)
theory Shell
  imports Schema
begin

text \<open>
  The generators of shell text of \<open>src/pipeline/docker/helpers.rs\<close>. A POSIX shell's reading of one word
  is the parameter \<open>W\<close> of the quoting theorem: it returns the value of the word at the front of
  a text and what follows it.
\<close>

definition NL :: char where
  "NL = CHR 0x0A"

text \<open>\<open>str::replace\<close> of one byte by a string.\<close>

fun replace_char :: "char \<Rightarrow> string \<Rightarrow> string \<Rightarrow> string" where
  "replace_char c r [] = []"
| "replace_char c r (x # xs) = (if x = c then r @ replace_char c r xs else x # replace_char c r xs)"

definition shell_quote :: "string \<Rightarrow> string" where
  "shell_quote s = [CHR 0x27] @ replace_char (CHR 0x27) [CHR 0x27, CHR 0x5C, CHR 0x27, CHR 0x27] s @ [CHR 0x27]"

definition write_export :: "string \<Rightarrow> string \<Rightarrow> string \<Rightarrow> string" where
  "write_export name val s = s @ ''export '' @ name @ ''='' @ shell_quote val @ [NL]"

definition rustflags_export :: string where
  "rustflags_export = ''export RUSTFLAGS='' @ [CHR 0x22] @ ''-C codegen-units=1'' @ [CHR 0x22, NL]"

text \<open>\<open>trim_end_matches\<close> with one character.\<close>

definition trim_end_matches :: "char \<Rightarrow> string \<Rightarrow> string" where
  "trim_end_matches c s = rev (dropWhile (\<lambda>x. x = c) (rev s))"

definition in_container_dist :: "config \<Rightarrow> string" where
  "in_container_dist c = ''/workspace/'' @ trim_end_matches (CHR ''/'') (out_dir (c_output c))"

text \<open>\<open>read_hash_file\<close> on the content of the file, \<open>None\<close> when it cannot be read.\<close>

definition read_hash_file :: "string option \<Rightarrow> string option" where
  "read_hash_file content =
     (case content of
        None \<Rightarrow> None
      | Some s \<Rightarrow> if trim s = [] then None else Some (trim s))"

text \<open>\<open>build_args_for\<close>; \<open>now\<close> is what \<open>resolve_latest_apt_snapshot\<close> returns.\<close>

definition build_args_for ::
    "('e + string) \<Rightarrow> toolchain_pins \<Rightarrow> storage_mode \<Rightarrow> 'e + (string \<times> string) list" where
  "build_args_for now t mode =
     res_bind (case tp_apt_snapshot t of
                 None \<Rightarrow> Inr []
               | Some snapshot \<Rightarrow>
                   res_bind (if snapshot = ''latest'' then now else Inr snapshot) (\<lambda>resolved.
                     Inr [(''SNAPSHOT_TS'', resolved)])) (\<lambda>args.
       Inr (args @
         concat (map (\<lambda>(name, val). case val of Some v \<Rightarrow> [(name, v)] | None \<Rightarrow> [])
           [(''RUST_VERSION'', tp_rust_version t),
            (''E2FSPROGS_VERSION'', tp_e2fsprogs_version t),
            (''E2FSPROGS_SHA256'', tp_e2fsprogs_sha256 t)]) @
         [(''BUILD_E2FSPROGS'', if mode = Persistent then ''1'' else ''0'')]))"

definition resolve_latest_apt_snapshot :: "'e \<Rightarrow> 'e \<Rightarrow> 'e \<Rightarrow> ((bool \<times> string option) option) \<Rightarrow> 'e + string" where
  "resolve_latest_apt_snapshot run_err status_err utf8_err date =
     (case date of
        None \<Rightarrow> Inl run_err
      | Some (success, stdout) \<Rightarrow>
          if \<not> success then Inl status_err
          else (case stdout of None \<Rightarrow> Inl utf8_err | Some s \<Rightarrow> Inr (trim s)))"

definition toolchain_overrides :: "toolchain_pins \<Rightarrow> string list" where
  "toolchain_overrides t =
     concat (map (\<lambda>(name, val). case val of Some v \<Rightarrow> [name @ ''='' @ v] | None \<Rightarrow> [])
       [(''apt_snapshot'', tp_apt_snapshot t), (''rust_version'', tp_rust_version t),
        (''e2fsprogs_version'', tp_e2fsprogs_version t)])"

section \<open>Quoting\<close>

text \<open>
  The quoting rules of POSIX (2.2.1 and 2.2.2) that \<open>shell_quote\<close> uses: between single quotes every
  character is literal, a backslash makes the next character literal, adjacent quoted parts are
  one word, and an unquoted newline ends it.
\<close>

definition posix_words :: "(string \<Rightarrow> string \<times> string) \<Rightarrow> bool" where
  "posix_words W \<longleftrightarrow>
     (\<forall>a r. CHR 0x27 \<notin> set a \<longrightarrow>
        W (CHR 0x27 # a @ CHR 0x27 # r) = (a @ fst (W r), snd (W r))) \<and>
     (\<forall>c r. c \<noteq> NL \<longrightarrow> W (CHR 0x5C # c # r) = (c # fst (W r), snd (W r))) \<and>
     (\<forall>r. W (NL # r) = ([], NL # r))"

lemma replace_char_id: "c \<notin> set a \<Longrightarrow> replace_char c r a = a"
  by (induction a) auto

lemma replace_char_append: "replace_char c r (a @ b) = replace_char c r a @ replace_char c r b"
  by (induction a) auto

text \<open>The word is read quoted segment by quoted segment.\<close>

lemma quoted_segments:
  assumes "posix_words W"
  shows "W (CHR 0x27 # replace_char (CHR 0x27) [CHR 0x27, CHR 0x5C, CHR 0x27, CHR 0x27] s @ CHR 0x27 # NL # rest) =
    (s, NL # rest)"
proof (induction "length s" arbitrary: s rule: less_induct)
  case less
  let ?q = "CHR 0x27" and ?r = "[CHR 0x27, CHR 0x5C, CHR 0x27, CHR 0x27]"
  have seg: "\<And>a r. ?q \<notin> set a \<Longrightarrow> W (?q # a @ ?q # r) = (a @ fst (W r), snd (W r))"
    and esc: "\<And>r. W (CHR 0x5C # ?q # r) = (?q # fst (W r), snd (W r))"
    and nl: "W (NL # rest) = ([], NL # rest)"
    using assms by (simp_all add: posix_words_def NL_def)
  show ?case
  proof (cases "?q \<in> set s")
    case False
    then show ?thesis using seg [OF False, of "NL # rest"] nl by (simp add: replace_char_id)
  next
    case True
    then obtain a b where s: "s = a @ ?q # b" and a: "?q \<notin> set a"
      by (meson split_list_first)
    have IH: "W (?q # replace_char ?q ?r b @ ?q # NL # rest) = (b, NL # rest)"
      using less [of b] by (simp add: s)
    have shape: "?q # replace_char ?q ?r s @ ?q # NL # rest =
        ?q # a @ ?q # CHR 0x5C # ?q # ?q # replace_char ?q ?r b @ ?q # NL # rest"
      by (simp add: s replace_char_append replace_char_id [OF a])
    show ?thesis
      unfolding shape seg [OF a] esc IH by (simp add: s)
  qed
qed

text \<open>
  C39. Whatever bytes a configured value holds, a POSIX shell reads the exported
  assignment's right-hand side back as exactly that value and stops at the end of its line:
  no value can end its argument early or start another command.
\<close>

theorem shell_quote_literal:
  assumes "posix_words W"
  shows "W (shell_quote s @ NL # rest) = (s, NL # rest)"
  using quoted_segments [OF assms] by (simp add: shell_quote_def)

text \<open>An evaluator with the assumed behaviour.\<close>

fun take_quoted :: "string \<Rightarrow> string \<times> string" where
  "take_quoted [] = ([], [])"
| "take_quoted (x # xs) =
     (if x = CHR 0x27 then ([], xs) else let (a, r) = take_quoted xs in (x # a, r))"

lemma take_quoted_shorter: "take_quoted s = (a, r) \<Longrightarrow> length r \<le> length s"
  by (induction s arbitrary: a r) (fastforce split: if_splits prod.splits)+

function sh_ref :: "string \<Rightarrow> string \<times> string" where
  "sh_ref [] = ([], [])"
| "sh_ref (x # xs) =
     (if x = NL then ([], x # xs)
      else if x = CHR 0x27 then
        (case take_quoted xs of (a, r) \<Rightarrow> (case sh_ref r of (v, t) \<Rightarrow> (a @ v, t)))
      else if x = CHR 0x5C \<and> xs \<noteq> [] then (case sh_ref (tl xs) of (v, t) \<Rightarrow> (hd xs # v, t))
      else (case sh_ref xs of (v, t) \<Rightarrow> (x # v, t)))"
  by pat_completeness auto
termination
  by (relation "measure length") (auto dest!: take_quoted_shorter [OF sym] simp: less_Suc_eq_le)

lemma take_quoted_append: "CHR 0x27 \<notin> set a \<Longrightarrow> take_quoted (a @ CHR 0x27 # r) = (a, r)"
  by (induction a) auto

lemma posix_words_sh_ref: "posix_words sh_ref"
  by (auto simp: posix_words_def NL_def take_quoted_append split: prod.splits)

lemma shell_quote_literal_witness:
  "sh_ref (shell_quote ''a'' @ NL # ''b'') = (''a'', NL # ''b'')"
  by (rule shell_quote_literal [OF posix_words_sh_ref])

end
