(* ===== verification/InitScript.thy ===== *)
theory InitScript
  imports Shell Features
begin

text \<open>
  Stage 2 of the build (\<open>src/pipeline/docker/guest_init_script.rs\<close>) and the guest's build script
  (\<open>guest/build.rs\<close>): the environment variables and Cargo features that carry a configuration
  into \<open>cargo-unikernel-init\<close>. The exports the generated script makes are the table
  \<open>env_table\<close>; what \<open>build.rs\<close> prints for Cargo is \<open>build_rs_output\<close>.
\<close>

section \<open>Encoders\<close>

definition encode_path_list :: "string list \<Rightarrow> string" where
  "encode_path_list entries = join_with (CHR '';'') entries"

definition encode_kv_pairs :: "btree \<Rightarrow> string" where
  "encode_kv_pairs pairs = join_with (CHR '';'') (map (\<lambda>(k, v). k @ ''='' @ v) pairs)"

definition show_word :: "'a::len word \<Rightarrow> string" where
  "show_word w = show_nat (unat w)"

definition inbound_entry :: "inbound_ports \<Rightarrow> string" where
  "inbound_entry e = in_proto e @ '':'' @ in_ports e"

definition encode_inbound :: "inbound_ports list \<Rightarrow> string" where
  "encode_inbound es = join_with (CHR '';'') (map inbound_entry es)"

section \<open>Features\<close>

definition init_features :: "config \<Rightarrow> string list" where
  "init_features c =
     (let fs = [];
          fs = (if prof_kind (c_profile c) = SevSnpProfile then fs @ [''sev-snp''] else fs);
          fs = (if has_ipv4 (net_mode (c_network c)) then fs @ [''net-ipv4''] else fs);
          fs = (if has_ipv6 (net_mode (c_network c)) then fs @ [''net-ipv6''] else fs);
          fs = (if st_mode (c_storage c) = Persistent then fs @ [''storage-persistent''] else fs);
          rh = h_runtime (c_hardening c);
          enabled = (\<lambda>v. case v of None \<Rightarrow> True | Some b \<Rightarrow> b);
          fs = (if enabled (rh_network_spoofing_protection rh) then fs @ [''hardening-net-spoofing''] else fs);
          fs = (if enabled (rh_icmp_hardening rh) then fs @ [''hardening-icmp''] else fs);
          fs = (if enabled (rh_tcp_hardening rh) then fs @ [''hardening-tcp''] else fs);
          fs = (if enabled (rh_info_leak_restriction rh) then fs @ [''hardening-info-leak''] else fs);
          fs = (if enabled (rh_ptrace_and_bpf_restriction rh) then fs @ [''hardening-ptrace-bpf''] else fs);
          fs = (if enabled (rh_kexec_and_fs_protection rh) then fs @ [''hardening-kexec-fs''] else fs);
          fs = (if allow_write_execute (rt_danger (app_runtime (c_app c)))
                then fs @ [''danger-allow-write-execute''] else fs);
          fs = (if rh_proc_subset_pid rh then fs @ [''proc-subset-pid''] else fs);
          fs = (if ll_enabled (rt_landlock (app_runtime (c_app c))) then fs @ [''landlock''] else fs);
          fs = (if fw_enabled (net_firewall (c_network c)) \<and> has_any (net_mode (c_network c))
                then fs @ [''firewall''] else fs);
          fs = (if rt_console (app_runtime (c_app c)) then fs @ [''app-console''] else fs);
          fs = (if log_enabled (c_logging c) then fs @ [''logging''] else fs)
      in fs)"

section \<open>Exports\<close>

definition app_env_exports :: "config \<Rightarrow> string \<Rightarrow> string" where
  "app_env_exports c s =
     (let rt = app_runtime (c_app c);
          s = write_export ''CARGO_UNIKERNEL_APP_UID'' (show_word (rt_uid rt)) s;
          s = write_export ''CARGO_UNIKERNEL_APP_GID'' (show_word (rt_gid rt)) s;
          s = (if rt_env rt = [] then s
               else write_export ''CARGO_UNIKERNEL_APP_ENV'' (encode_kv_pairs (rt_env rt)) s);
          limits = rt_limits rt;
          s = write_export ''CARGO_UNIKERNEL_LIMIT_NOFILE'' (show_word (max_open_files limits)) s;
          s = write_export ''CARGO_UNIKERNEL_LIMIT_NPROC'' (show_word (max_processes limits)) s;
          s = write_export ''CARGO_UNIKERNEL_LIMIT_AS_MB'' (show_word (max_memory_mb limits)) s;
          s = write_export ''CARGO_UNIKERNEL_LIMIT_MEMLOCK_MB'' (show_word (max_locked_memory_mb limits)) s;
          s = (case net_ipv6_static (c_network c) of
                 None \<Rightarrow> s
               | Some v6 \<Rightarrow>
                   let s = write_export ''CARGO_UNIKERNEL_IPV6_STATIC''
                             (v6_address v6 @ ''/'' @ show_word (v6_prefix_len v6)) s;
                       s = (case v6_gateway v6 of None \<Rightarrow> s
                            | Some g \<Rightarrow> write_export ''CARGO_UNIKERNEL_IPV6_GATEWAY'' g s)
                   in (case v6_interface v6 of None \<Rightarrow> s
                       | Some i \<Rightarrow> write_export ''CARGO_UNIKERNEL_IPV6_IFACE'' i s));
          s = (if h_extra_sysctls (c_hardening c) = [] then s
               else write_export ''CARGO_UNIKERNEL_EXTRA_SYSCTLS''
                      (encode_kv_pairs (h_extra_sysctls (c_hardening c))) s);
          tmpfs = st_tmpfs (c_storage c);
          s = write_export ''CARGO_UNIKERNEL_TMPFS_TMP_MB'' (show_word (tmp_mb tmpfs)) s;
          s = write_export ''CARGO_UNIKERNEL_TMPFS_RUN_MB'' (show_word (run_mb tmpfs)) s;
          s = write_export ''CARGO_UNIKERNEL_TMPFS_SHM_MB'' (show_word (shm_mb tmpfs)) s;
          s = write_export ''CARGO_UNIKERNEL_TMPFS_VAR_TMP_MB'' (show_word (var_tmp_mb tmpfs)) s;
          ll = rt_landlock rt;
          s = (if ll_enabled ll then
                 let s = (if extra_read_paths ll = [] then s
                          else write_export ''CARGO_UNIKERNEL_LANDLOCK_RO''
                                 (encode_path_list (extra_read_paths ll)) s)
                 in (if extra_read_write_paths ll = [] then s
                     else write_export ''CARGO_UNIKERNEL_LANDLOCK_RW''
                            (encode_path_list (extra_read_write_paths ll)) s)
               else s);
          s = (if fw_enabled (net_firewall (c_network c)) \<and> has_any (net_mode (c_network c))
               then write_export ''CARGO_UNIKERNEL_FIREWALL_RULES''
                      (encode_inbound (fw_inbound (net_firewall (c_network c)))) s
               else s);
          s = (if net_nameservers (c_network c) = [] then s
               else write_export ''CARGO_UNIKERNEL_NAMESERVERS''
                      (encode_path_list (net_nameservers (c_network c))) s)
      in (case net_search (c_network c) of None \<Rightarrow> s
          | Some search \<Rightarrow> write_export ''CARGO_UNIKERNEL_DNS_SEARCH'' search s))"

definition script_guest_init_build :: "config \<Rightarrow> string" where
  "script_guest_init_build c =
     (let s = ''export CARGO_TARGET_DIR=/tmp/cargo-target'' @ [NL];
          s = s @ rustflags_export;
          s = app_env_exports c s;
          features = join_with (CHR '','') (init_features c);
          features_flag = (if features = [] then [] else ''--features '' @ features)
      in s @ ''cargo build --locked --release --target x86_64-unknown-linux-musl '' @
           ''--manifest-path /assets-guest/Cargo.toml '' @ features_flag @ [NL, NL])"

text \<open>The exports as data, in the order they are written.\<close>

definition opt_entry :: "bool \<Rightarrow> string \<Rightarrow> string \<Rightarrow> (string \<times> string) list" where
  "opt_entry b name val = (if b then [(name, val)] else [])"

definition some_entry :: "string \<Rightarrow> string option \<Rightarrow> (string \<times> string) list" where
  "some_entry name val = (case val of None \<Rightarrow> [] | Some v \<Rightarrow> [(name, v)])"

definition env_table :: "config \<Rightarrow> (string \<times> string) list" where
  "env_table c =
     (let rt = app_runtime (c_app c); limits = rt_limits rt; net = c_network c;
          tmpfs = st_tmpfs (c_storage c); ll = rt_landlock rt; v6 = net_ipv6_static net in
      [(''CARGO_UNIKERNEL_APP_UID'', show_word (rt_uid rt)),
       (''CARGO_UNIKERNEL_APP_GID'', show_word (rt_gid rt))] @
      opt_entry (rt_env rt \<noteq> []) ''CARGO_UNIKERNEL_APP_ENV'' (encode_kv_pairs (rt_env rt)) @
      [(''CARGO_UNIKERNEL_LIMIT_NOFILE'', show_word (max_open_files limits)),
       (''CARGO_UNIKERNEL_LIMIT_NPROC'', show_word (max_processes limits)),
       (''CARGO_UNIKERNEL_LIMIT_AS_MB'', show_word (max_memory_mb limits)),
       (''CARGO_UNIKERNEL_LIMIT_MEMLOCK_MB'', show_word (max_locked_memory_mb limits))] @
      some_entry ''CARGO_UNIKERNEL_IPV6_STATIC''
        (map_option (\<lambda>v. v6_address v @ ''/'' @ show_word (v6_prefix_len v)) v6) @
      some_entry ''CARGO_UNIKERNEL_IPV6_GATEWAY'' (Option.bind v6 v6_gateway) @
      some_entry ''CARGO_UNIKERNEL_IPV6_IFACE'' (Option.bind v6 v6_interface) @
      opt_entry (h_extra_sysctls (c_hardening c) \<noteq> []) ''CARGO_UNIKERNEL_EXTRA_SYSCTLS''
        (encode_kv_pairs (h_extra_sysctls (c_hardening c))) @
      [(''CARGO_UNIKERNEL_TMPFS_TMP_MB'', show_word (tmp_mb tmpfs)),
       (''CARGO_UNIKERNEL_TMPFS_RUN_MB'', show_word (run_mb tmpfs)),
       (''CARGO_UNIKERNEL_TMPFS_SHM_MB'', show_word (shm_mb tmpfs)),
       (''CARGO_UNIKERNEL_TMPFS_VAR_TMP_MB'', show_word (var_tmp_mb tmpfs))] @
      opt_entry (ll_enabled ll \<and> extra_read_paths ll \<noteq> []) ''CARGO_UNIKERNEL_LANDLOCK_RO''
        (encode_path_list (extra_read_paths ll)) @
      opt_entry (ll_enabled ll \<and> extra_read_write_paths ll \<noteq> []) ''CARGO_UNIKERNEL_LANDLOCK_RW''
        (encode_path_list (extra_read_write_paths ll)) @
      opt_entry (fw_enabled (net_firewall net) \<and> has_any (net_mode net))
        ''CARGO_UNIKERNEL_FIREWALL_RULES'' (encode_inbound (fw_inbound (net_firewall net))) @
      opt_entry (net_nameservers net \<noteq> []) ''CARGO_UNIKERNEL_NAMESERVERS''
        (encode_path_list (net_nameservers net)) @
      some_entry ''CARGO_UNIKERNEL_DNS_SEARCH'' (net_search net))"

definition export_line :: "string \<times> string \<Rightarrow> string" where
  "export_line e = ''export '' @ fst e @ ''='' @ shell_quote (snd e) @ [NL]"

definition export_lines :: "(string \<times> string) list \<Rightarrow> string" where
  "export_lines es = concat (map export_line es)"

lemma export_lines_append: "export_lines (xs @ ys) = export_lines xs @ export_lines ys"
  by (simp add: export_lines_def)

lemma write_export_line: "write_export name val s = s @ export_lines [(name, val)]"
  by (simp add: write_export_def export_lines_def export_line_def)

text \<open>Each conditional export of the generator appends its entries.\<close>

lemma conditional_exports:
  "(if b then s else s @ export_lines [(n, v)]) = s @ export_lines (opt_entry (\<not> b) n v)"
  "(if b then s @ export_lines [(n, v)] else s) = s @ export_lines (opt_entry b n v)"
  "(case x of None \<Rightarrow> s | Some y \<Rightarrow> s @ export_lines [(n, y)]) = s @ export_lines (some_entry n x)"
  by (auto simp: opt_entry_def some_entry_def export_lines_def split: option.split)

lemma nested_exports:
  "(case v6 of None \<Rightarrow> s
    | Some v \<Rightarrow>
        let s = s @ export_lines [(n1, f v)];
            s = s @ export_lines (some_entry n2 (g v))
        in s @ export_lines (some_entry n3 (i v))) =
     s @ export_lines (some_entry n1 (map_option f v6) @ some_entry n2 (Option.bind v6 g) @
       some_entry n3 (Option.bind v6 i))"
  "(if e then let s = s @ export_lines (opt_entry b1 n1 v1) in s @ export_lines (opt_entry b2 n2 v2)
    else s) = s @ export_lines (opt_entry (e \<and> b1) n1 v1 @ opt_entry (e \<and> b2) n2 v2)"
  by (cases v6; simp add: export_lines_append some_entry_def export_lines_def)
    (simp add: export_lines_append opt_entry_def export_lines_def)

lemma app_env_exports_table: "app_env_exports c s = s @ export_lines (env_table c)"
  unfolding app_env_exports_def env_table_def
  by (simp only: conditional_exports write_export_line, simp only: nested_exports,
      simp only: Let_def append_assoc export_lines_append [symmetric] append_same_eq, simp)

section \<open>The guest's build script\<close>

definition passthrough :: "(string \<Rightarrow> string option) \<Rightarrow> string \<times> string \<Rightarrow> string" where
  "passthrough env nd =
     (case nd of (name, def) \<Rightarrow>
        let val = (case env name of Some v \<Rightarrow> v | None \<Rightarrow> def)
        in ''cargo:rustc-env='' @ name @ ''='' @ val @ [NL] @
           ''cargo:rerun-if-env-changed='' @ name @ [NL])"

definition passthroughs :: "(string \<times> string) list" where
  "passthroughs =
     [(''CARGO_UNIKERNEL_PAYLOAD_DIR'', ''/payload''),
      (''CARGO_UNIKERNEL_APP_PATH'', ''/payload/app''),
      (''CARGO_UNIKERNEL_APP_UID'', ''65534''),
      (''CARGO_UNIKERNEL_APP_GID'', ''65534''),
      (''CARGO_UNIKERNEL_APP_ENV'', ''''),
      (''CARGO_UNIKERNEL_IPV6_STATIC'', ''''),
      (''CARGO_UNIKERNEL_IPV6_GATEWAY'', ''''),
      (''CARGO_UNIKERNEL_IPV6_IFACE'', ''''),
      (''CARGO_UNIKERNEL_EXTRA_SYSCTLS'', ''''),
      (''CARGO_UNIKERNEL_LIMIT_NOFILE'', ''65536''),
      (''CARGO_UNIKERNEL_LIMIT_NPROC'', ''2048''),
      (''CARGO_UNIKERNEL_LIMIT_AS_MB'', ''0''),
      (''CARGO_UNIKERNEL_LIMIT_MEMLOCK_MB'', ''64''),
      (''CARGO_UNIKERNEL_TMPFS_TMP_MB'', ''64''),
      (''CARGO_UNIKERNEL_TMPFS_RUN_MB'', ''16''),
      (''CARGO_UNIKERNEL_TMPFS_SHM_MB'', ''64''),
      (''CARGO_UNIKERNEL_TMPFS_VAR_TMP_MB'', ''64''),
      (''CARGO_UNIKERNEL_FIREWALL_RULES'', ''''),
      (''CARGO_UNIKERNEL_LANDLOCK_RO'', ''''),
      (''CARGO_UNIKERNEL_LANDLOCK_RW'', ''''),
      (''CARGO_UNIKERNEL_NAMESERVERS'', ''''),
      (''CARGO_UNIKERNEL_DNS_SEARCH'', '''')]"

definition build_rs_output :: "(string \<Rightarrow> string option) \<Rightarrow> string" where
  "build_rs_output env = concat (map (passthrough env) passthroughs)"

text \<open>The value the build script looks up for a constant.\<close>

definition baked_value :: "(string \<Rightarrow> string option) \<Rightarrow> string \<Rightarrow> string" where
  "baked_value env name =
     (case env name of
        Some v \<Rightarrow> v
      | None \<Rightarrow> (case map_of passthroughs name of Some d \<Rightarrow> d | None \<Rightarrow> []))"

text \<open>Every feature is chosen by one condition on the configuration.\<close>

definition default_on :: "bool option \<Rightarrow> bool" where
  "default_on v \<longleftrightarrow> v \<noteq> Some False"

definition feature_table :: "config \<Rightarrow> (bool \<times> string) list" where
  "feature_table c =
     (let rh = h_runtime (c_hardening c); rt = app_runtime (c_app c); net = c_network c in
      [(prof_kind (c_profile c) = SevSnpProfile, ''sev-snp''),
       (has_ipv4 (net_mode net), ''net-ipv4''),
       (has_ipv6 (net_mode net), ''net-ipv6''),
       (st_mode (c_storage c) = Persistent, ''storage-persistent''),
       (default_on (rh_network_spoofing_protection rh), ''hardening-net-spoofing''),
       (default_on (rh_icmp_hardening rh), ''hardening-icmp''),
       (default_on (rh_tcp_hardening rh), ''hardening-tcp''),
       (default_on (rh_info_leak_restriction rh), ''hardening-info-leak''),
       (default_on (rh_ptrace_and_bpf_restriction rh), ''hardening-ptrace-bpf''),
       (default_on (rh_kexec_and_fs_protection rh), ''hardening-kexec-fs''),
       (allow_write_execute (rt_danger rt), ''danger-allow-write-execute''),
       (rh_proc_subset_pid rh, ''proc-subset-pid''),
       (ll_enabled (rt_landlock rt), ''landlock''),
       (fw_enabled (net_firewall net) \<and> has_any (net_mode net), ''firewall''),
       (rt_console rt, ''app-console''),
       (log_enabled (c_logging c), ''logging'')])"

lemma append_if: "(if b then fs @ [x] else fs) = fs @ concat (map (\<lambda>(b, n). if b then [n] else []) [(b, x)])"
  by simp

lemma default_on_case: "(case v of None \<Rightarrow> True | Some b \<Rightarrow> b) = default_on v"
  by (simp add: default_on_def split: option.split)

lemma init_features_table:
  "init_features c = concat (map (\<lambda>(b, n). if b then [n] else []) (feature_table c))"
  unfolding init_features_def feature_table_def
  by (simp only: append_if, simp only: Let_def default_on_case append_assoc append_Nil
      concat_append [symmetric] map_append [symmetric] append_Cons)

lemma in_init_features: "n \<in> set (init_features c) \<longleftrightarrow> (True, n) \<in> set (feature_table c)"
  by (auto simp: init_features_table split: if_splits)

lemma console_feature:
  "ft_app_console (features_of (init_features c)) = rt_console (app_runtime (c_app c))"
  by (simp add: features_of_def in_init_features feature_table_def Let_def default_on_def)

lemma firewall_feature:
  "ft_firewall (features_of (init_features c)) \<longleftrightarrow>
     fw_enabled (net_firewall (c_network c)) \<and> has_any (net_mode (c_network c))"
  by (simp add: features_of_def in_init_features feature_table_def Let_def default_on_def)

text \<open>
  The Cargo features the generated script passes select exactly the guest build the configuration
  asks for: a hardening category is compiled in unless it is set to false, networking and
  persistence follow their modes, the packet filter needs both its switch and a network, and the
  write-execute escape hatch appears only when it was opted into.
\<close>

lemma guest_features:
  "features_of (init_features c) =
     \<lparr>ft_sev_snp = (prof_kind (c_profile c) = SevSnpProfile),
      ft_net_ipv4 = has_ipv4 (net_mode (c_network c)),
      ft_net_ipv6 = has_ipv6 (net_mode (c_network c)),
      ft_danger = allow_write_execute (rt_danger (app_runtime (c_app c))),
      ft_storage_persistent = (st_mode (c_storage c) = Persistent),
      ft_net_spoofing = (rh_network_spoofing_protection (h_runtime (c_hardening c)) \<noteq> Some False),
      ft_icmp = (rh_icmp_hardening (h_runtime (c_hardening c)) \<noteq> Some False),
      ft_tcp = (rh_tcp_hardening (h_runtime (c_hardening c)) \<noteq> Some False),
      ft_info_leak = (rh_info_leak_restriction (h_runtime (c_hardening c)) \<noteq> Some False),
      ft_ptrace_bpf = (rh_ptrace_and_bpf_restriction (h_runtime (c_hardening c)) \<noteq> Some False),
      ft_kexec_fs = (rh_kexec_and_fs_protection (h_runtime (c_hardening c)) \<noteq> Some False),
      ft_landlock = ll_enabled (rt_landlock (app_runtime (c_app c))),
      ft_firewall = (fw_enabled (net_firewall (c_network c)) \<and> has_any (net_mode (c_network c))),
      ft_proc_subset_pid = rh_proc_subset_pid (h_runtime (c_hardening c)),
      ft_app_console = rt_console (app_runtime (c_app c)),
      ft_logging = log_enabled (c_logging c)\<rparr>"
  by (simp add: features_of_def in_init_features feature_table_def Let_def default_on_def)

section \<open>From the environment to the constants\<close>

definition one_line :: "string \<Rightarrow> bool" where
  "one_line s \<longleftrightarrow> NL \<notin> set s \<and> CHR 0x0D \<notin> set s"

definition directive :: "string \<Rightarrow> string \<Rightarrow> string" where
  "directive name val = ''cargo:rustc-env='' @ name @ ''='' @ val"

definition rerun :: "string \<Rightarrow> string" where
  "rerun name = ''cargo:rerun-if-env-changed='' @ name"

lemma lines_append:
  assumes "one_line a"
  shows "lines (a @ NL # s) = a # lines s"
proof -
  have "split_on NL (a @ NL # s) = a # split_on NL s"
    using assms by (simp add: one_line_def split_on_append)
  moreover have "strip_cr a = a"
    using assms by (metis last_in_set one_line_def strip_cr_def)
  ultimately show ?thesis by (simp add: lines_def Let_def NL_def)
qed

lemma lines_Nil: "lines [] = []"
  by (simp add: lines_def)

lemma lines_concat:
  "\<forall>l\<in>set ls. one_line l \<Longrightarrow> lines (concat (map (\<lambda>l. l @ [NL]) ls)) = ls"
  by (induction ls) (simp_all add: lines_append lines_Nil)

lemma passthroughs_distinct: "distinct (map fst passthroughs)"
  by (simp add: passthroughs_def)

lemma passthrough_lines:
  assumes "(n, d) \<in> set passthroughs"
  shows "passthrough env (n, d) =
      concat (map (\<lambda>l. l @ [NL]) [directive n (baked_value env n), rerun n])"
  using map_of_is_SomeI [OF passthroughs_distinct assms]
  by (cases "env n") (simp_all add: passthrough_def directive_def rerun_def baked_value_def)

lemma passthrough_one_line: "(n, d) \<in> set passthroughs \<Longrightarrow> one_line n \<and> one_line d"
  by (auto simp: passthroughs_def one_line_def NL_def)

lemma concat_map_concat:
  "concat (map f (concat (map g xs))) = concat (map (\<lambda>x. concat (map f (g x))) xs)"
  by (induction xs) simp_all

text \<open>
  When no exported value contains a line break, the build script prints, line by line, one
  \<open>cargo:rustc-env\<close> directive per constant that carries the exported value (or the default)
  unchanged, and the matching rerun directive, and nothing else.
\<close>

lemma build_rs_directives:
  assumes "\<forall>n v. env n = Some v \<longrightarrow> one_line v"
  shows "lines (build_rs_output env) =
    concat (map (\<lambda>(n, d). [directive n (baked_value env n), rerun n]) passthroughs)"
proof -
  let ?ls = "\<lambda>(n :: string, d :: string). [directive n (baked_value env n), rerun n]"
  have "one_line (case map_of passthroughs n of Some d \<Rightarrow> d | None \<Rightarrow> [])" for n
    using passthrough_one_line [of n] map_of_SomeD [of passthroughs n]
    by (cases "map_of passthroughs n") (simp_all add: one_line_def)
  then have "one_line (baked_value env n)" for n
    using assms by (cases "env n") (simp_all add: baked_value_def)
  then have "\<forall>l\<in>set (concat (map ?ls passthroughs)). one_line l"
    using passthrough_one_line
    by (fastforce simp: directive_def rerun_def one_line_def NL_def)
  moreover have "map (passthrough env) passthroughs =
      map (\<lambda>p. concat (map (\<lambda>l. l @ [NL]) (?ls p))) passthroughs"
    using passthrough_lines [of _ _ env] by (intro map_cong) auto
  then have "build_rs_output env = concat (map (\<lambda>l. l @ [NL]) (concat (map ?ls passthroughs)))"
    by (simp only: build_rs_output_def concat_map_concat)
  ultimately show ?thesis by (simp add: lines_concat)
qed

lemma build_rs_directives_witness:
  "lines (build_rs_output (\<lambda>_. None)) =
    concat (map (\<lambda>(n, d). [directive n (baked_value (\<lambda>_. None) n), rerun n]) passthroughs)"
  by (rule build_rs_directives) simp

lemma lines_no_newline: "l \<in> set (lines s) \<Longrightarrow> NL \<notin> set l"
  using split_on_pieces [of _ NL s]
  by (auto simp: lines_def Let_def NL_def strip_cr_def split: if_splits dest: in_set_butlastD)

text \<open>
  A value with a line break is not transported: no line of the build script's output carries it, so the
  guest's constant is not the configured value.
\<close>

lemma broken_value_not_transported:
  "env n = Some (a @ NL # b) \<Longrightarrow> directive n (baked_value env n) \<notin> set (lines (build_rs_output env))"
  using lines_no_newline by (fastforce simp: baked_value_def directive_def)

lemma broken_value_not_transported_witness:
  "directive ''N'' (baked_value (\<lambda>_. Some (''x'' @ NL # ''y'')) ''N'') \<notin>
     set (lines (build_rs_output (\<lambda>_. Some (''x'' @ NL # ''y''))))"
  by (rule broken_value_not_transported [where a = "''x''" and b = "''y''"]) simp

end
