(* ===== verification/SchemaProps.thy ===== *)
theory SchemaProps
  imports Schema
begin

text \<open>
  What a validated configuration guarantees: \<open>Config::validate\<close> decides the declarative predicate
  \<open>valid_config\<close>, and the two kinds of configured paths it admits stay, lexically resolved, below
  the directory they are meant for.
\<close>

section \<open>The declarative specification\<close>

definition kv_safe :: "btree \<Rightarrow> bool" where
  "kv_safe m \<longleftrightarrow>
     (\<forall>(k, v)\<in>set m. CHR '';'' \<notin> set k \<and> CHR ''='' \<notin> set k \<and> CHR '';'' \<notin> set v)"

definition list_safe :: "string list \<Rightarrow> bool" where
  "list_safe ps \<longleftrightarrow> (\<forall>p\<in>set ps. CHR '';'' \<notin> set p)"

definition name_ok :: "string \<Rightarrow> bool" where
  "name_ok s \<longleftrightarrow> s \<noteq> [] \<and> (\<forall>ch\<in>set s. is_ascii_alphanumeric ch \<or> ch = CHR ''-'' \<or> ch = CHR ''_'')"

definition sysctl_key_ok :: "string \<Rightarrow> bool" where
  "sysctl_key_ok k \<longleftrightarrow>
     prefix ''/proc/sys/'' k \<and> ''..'' \<notin> set (split_on (CHR ''/'') k)"

text \<open>The port numbers an entry stands for.\<close>

definition port_bounds :: "string \<Rightarrow> (nat \<times> nat) option" where
  "port_bounds s =
     (let (a, b) = (case split_once (CHR ''-'') s of Some p \<Rightarrow> p | None \<Rightarrow> (s, s))
      in case (from_str_radix 65535 10 a, from_str_radix 65535 10 b) of
           (Some m, Some n) \<Rightarrow> Some (m, n) | _ \<Rightarrow> None)"

definition inbound_ok :: "inbound_ports \<Rightarrow> bool" where
  "inbound_ok e \<longleftrightarrow>
     in_proto e \<in> {''tcp'', ''udp''} \<and>
     (\<exists>m n. port_bounds (in_ports e) = Some (m, n) \<and> 1 \<le> m \<and> m \<le> n)"

definition v6_routable :: "u16 list \<Rightarrow> bool" where
  "v6_routable a \<longleftrightarrow>
     \<not> v6_is_loopback a \<and> \<not> v6_is_multicast a \<and> \<not> v6_is_unspecified a \<and>
     a ! 0 AND 0xffc0 \<noteq> 0xfe80"

definition v6_static_ok :: "ipv6_static \<Rightarrow> bool" where
  "v6_static_ok v6 \<longleftrightarrow>
     (\<exists>a. parse_ipv6 (v6_address v6) = Some a \<and> v6_routable a) \<and>
     1 \<le> unat (v6_prefix_len v6) \<and> unat (v6_prefix_len v6) \<le> 128 \<and>
     (\<forall>g. v6_gateway v6 = Some g \<longrightarrow> (\<exists>a. parse_ipv6 g = Some a))"

definition source_ok :: "app_source \<Rightarrow> bool" where
  "source_ok s \<longleftrightarrow>
     src_path s \<noteq> None \<and>
     (if src_toolchain s = Generic
      then src_build_command s \<noteq> None \<and> src_output_binary s \<noteq> None
      else src_build_command s = None \<and> src_output_binary s = None \<and> src_extra_apt_packages s = [])"

definition app_ok :: "app \<Rightarrow> bool" where
  "app_ok a \<longleftrightarrow>
     rt_uid (app_runtime a) \<noteq> 0 \<and> rt_gid (app_runtime a) \<noteq> 0 \<and>
     (if app_mode a = ModeSource then \<exists>s. app_source a = Some s \<and> source_ok s
      else \<exists>b. app_binary a = Some b \<and> bin_path b \<noteq> None)"

definition snp_ok :: "config \<Rightarrow> sev_snp \<Rightarrow> bool" where
  "snp_ok c s \<longleftrightarrow>
     snp_vcpus s \<noteq> 0 \<and> trim (snp_vcpu_type s) \<noteq> [] \<and>
     (ovmf_preset (snp_ovmf s) = None) \<noteq> (ovmf_path (snp_ovmf s) = None) \<and>
     (snp_measured_boot s = Some MeasuredUki \<longrightarrow> FmtUki \<in> set (out_formats (c_output c)))"

definition profile_ok :: "string \<Rightarrow> config \<Rightarrow> bool" where
  "profile_ok cli c \<longleftrightarrow>
     (if prof_kind (c_profile c) = Casual then c_sev_snp c = None
      else pr_cli_version (c_project c) \<noteq> None \<and>
           tp_apt_snapshot (c_toolchain c) \<noteq> Some ''latest'' \<and>
           (\<exists>s. c_sev_snp c = Some s \<and> snp_ok c s))"

definition output_ok :: "config \<Rightarrow> bool" where
  "output_ok c \<longleftrightarrow>
     out_formats (c_output c) \<noteq> [] \<and> trim (out_dir (c_output c)) \<noteq> [] \<and>
     \<not> prefix ''/'' (out_dir (c_output c)) \<and>
     ''..'' \<notin> set (split_on (CHR ''/'') (out_dir (c_output c))) \<and>
     rel_assets (c_release c) \<noteq> Some [] \<and>
     (rel_notes (c_release c) = None \<or> rel_notes_file (c_release c) = None)"

definition valid_config :: "string \<Rightarrow> config \<Rightarrow> bool" where
  "valid_config cli c \<longleftrightarrow>
     name_ok (pr_name (c_project c)) \<and> pr_cli_version (c_project c) \<in> {None, Some cli} \<and>
     st_size_mib (c_storage c) \<noteq> 0 \<and>
     (k_sha256 (c_kernel c) \<noteq> None \<or> k_version (c_kernel c) = default_kernel_version) \<and>
     kv_safe (rt_env (app_runtime (c_app c))) \<and> kv_safe (h_extra_sysctls (c_hardening c)) \<and>
     (\<forall>(k, v)\<in>set (h_extra_sysctls (c_hardening c)). sysctl_key_ok k) \<and>
     list_safe (extra_read_paths (rt_landlock (app_runtime (c_app c)))) \<and>
     list_safe (extra_read_write_paths (rt_landlock (app_runtime (c_app c)))) \<and>
     list_safe (net_nameservers (c_network c)) \<and>
     (\<forall>v6. net_ipv6_static (c_network c) = Some v6 \<longrightarrow>
        has_ipv6 (net_mode (c_network c)) \<and> v6_static_ok v6) \<and>
     (fw_enabled (net_firewall (c_network c)) \<longrightarrow>
        has_any (net_mode (c_network c)) \<and>
        (\<forall>e\<in>set (fw_inbound (net_firewall (c_network c))). inbound_ok e)) \<and>
     app_ok (c_app c) \<and> profile_ok cli c \<and> output_ok c"

section \<open>Each check decides its part\<close>

named_theorems check_iffs \<open>what each validation accepts\<close>

lemma validate_project_iff [check_iffs]:
  "validate_project cli c = Inr () \<longleftrightarrow>
     name_ok (pr_name (c_project c)) \<and> pr_cli_version (c_project c) \<in> {None, Some cli}"
  by (auto simp: validate_project_def name_ok_def Let_def list_all_iff split: option.splits)

lemma validate_storage_iff [check_iffs]:
  "validate_storage c = Inr () \<longleftrightarrow> st_size_mib (c_storage c) \<noteq> 0"
  by (simp add: validate_storage_def)

lemma validate_kernel_iff [check_iffs]:
  "validate_kernel c = Inr () \<longleftrightarrow>
     k_sha256 (c_kernel c) \<noteq> None \<or> k_version (c_kernel c) = default_kernel_version"
  by (auto simp: validate_kernel_def sha256_for_build_def split: option.splits)

lemma validate_kv_iff [check_iffs]:
  "validate_kv_encoding c = Inr () \<longleftrightarrow>
     kv_safe (rt_env (app_runtime (c_app c))) \<and> kv_safe (h_extra_sysctls (c_hardening c))"
  by (auto simp: validate_kv_encoding_def kv_safe_def res_then_Inr_iff check_all_Inr_iff split_beta)

lemma validate_sysctl_iff [check_iffs]:
  "validate_extra_sysctl_paths c = Inr () \<longleftrightarrow>
     (\<forall>(k, v)\<in>set (h_extra_sysctls (c_hardening c)). sysctl_key_ok k)"
  by (auto simp: validate_extra_sysctl_paths_def sysctl_key_ok_def check_all_Inr_iff)

lemma validate_list_iff [check_iffs]:
  "validate_list_encoding c = Inr () \<longleftrightarrow>
     list_safe (extra_read_paths (rt_landlock (app_runtime (c_app c)))) \<and>
     list_safe (extra_read_write_paths (rt_landlock (app_runtime (c_app c)))) \<and>
     list_safe (net_nameservers (c_network c))"
  by (auto simp: validate_list_encoding_def list_safe_def res_then_Inr_iff check_all_Inr_iff split_beta)

lemma validate_v6_iff [check_iffs]:
  "validate_ipv6_static c = Inr () \<longleftrightarrow>
     (\<forall>v6. net_ipv6_static (c_network c) = Some v6 \<longrightarrow>
        has_ipv6 (net_mode (c_network c)) \<and> v6_static_ok v6)"
proof -
  have gt: "128 < w \<longleftrightarrow> \<not> unat w \<le> 128" for w :: u8 by (simp add: word_less_nat_alt not_le)
  have z: "w = 0 \<longleftrightarrow> \<not> Suc 0 \<le> unat w" for w :: u8 by (simp add: Suc_le_eq unat_gt_0)
  show ?thesis
    by (auto simp: validate_ipv6_static_def v6_static_ok_def v6_routable_def res_simps gt z
      split: option.splits)
qed

lemma validate_inbound_iff: "validate_inbound e = Inr () \<longleftrightarrow> inbound_ok e"
  by (auto simp: validate_inbound_def inbound_ok_def port_bounds_def Let_def split: prod.splits option.splits)

lemma validate_firewall_iff [check_iffs]:
  "validate_firewall c = Inr () \<longleftrightarrow>
     (fw_enabled (net_firewall (c_network c)) \<longrightarrow>
        has_any (net_mode (c_network c)) \<and>
        (\<forall>e\<in>set (fw_inbound (net_firewall (c_network c))). inbound_ok e))"
  by (auto simp: validate_firewall_def Let_def check_all_Inr_iff validate_inbound_iff)

lemma validate_app_iff [check_iffs]: "validate_app c = Inr () \<longleftrightarrow> app_ok (c_app c)"
proof (cases "app_mode (c_app c)")
  case ModeSource
  show ?thesis
  proof (cases "app_source (c_app c)")
    case (Some s)
    show ?thesis
      by (cases "src_toolchain s")
        (simp_all add: validate_app_def app_ok_def source_ok_def Let_def ModeSource Some)
  qed (simp add: validate_app_def app_ok_def Let_def ModeSource)
next
  case ModeBinary
  show ?thesis
    by (cases "app_binary (c_app c)")
      (simp_all add: validate_app_def app_ok_def Let_def ModeBinary)
qed

lemma validate_profile_iff [check_iffs]: "validate_profile cli c = Inr () \<longleftrightarrow> profile_ok cli c"
proof (cases "prof_kind (c_profile c)")
  case Casual
  then show ?thesis by (simp add: validate_profile_def profile_ok_def)
next
  case SevSnpProfile
  show ?thesis
  proof (cases "c_sev_snp c")
    case None
    with SevSnpProfile show ?thesis by (simp add: validate_profile_def profile_ok_def)
  next
    case (Some s)
    with SevSnpProfile show ?thesis
      by (cases "ovmf_preset (snp_ovmf s)"; cases "ovmf_path (snp_ovmf s)")
        (simp_all add: validate_profile_def profile_ok_def snp_ok_def res_then_Inr_iff)
  qed
qed

lemma validate_output_iff [check_iffs]: "validate_output_and_release c = Inr () \<longleftrightarrow> output_ok c"
  using path_components_parent [of "out_dir (c_output c)"]
    path_components_root [of "out_dir (c_output c)"]
  by (auto simp: validate_output_and_release_def output_ok_def list_ex_iff)

lemma validate_iff: "validate cli c = Inr () \<longleftrightarrow> valid_config cli c"
  by (simp add: validate_def res_then_Inr_iff check_iffs valid_config_def conj_assoc)

text \<open>
  C11. \<open>Config::validate\<close> returns success for exactly the configurations that satisfy the
  declarative specification: its eleven checks, in the order they run, neither miss nor
  add a condition.
\<close>

theorem validate_decides: "validate cli c = Inr () \<longleftrightarrow> valid_config cli c"
  by (rule validate_iff)

section \<open>Confinement of configured paths\<close>

text \<open>Lexical resolution of path components below a directory.\<close>

fun lex_resolve :: "string list \<Rightarrow> path_component list \<Rightarrow> string list" where
  "lex_resolve dir [] = dir"
| "lex_resolve dir (RootDir # cs) = lex_resolve [] cs"
| "lex_resolve dir (CurDir # cs) = lex_resolve dir cs"
| "lex_resolve dir (ParentDir # cs) = lex_resolve (butlast dir) cs"
| "lex_resolve dir (Normal p # cs) = lex_resolve (dir @ [p]) cs"

lemma lex_resolve_below:
  "ParentDir \<notin> set cs \<Longrightarrow> RootDir \<notin> set cs \<Longrightarrow> \<exists>rest. lex_resolve dir cs = dir @ rest"
proof (induction cs arbitrary: dir)
  case (Cons c cs)
  show ?case
  proof (cases c)
    case (Normal p)
    with Cons.IH [of "dir @ [p]"] Cons.prems show ?thesis by auto
  qed (use Cons in auto)
qed simp

definition path_body :: "string list \<Rightarrow> path_component list" where
  "path_body ps = concat (map (\<lambda>p. if p = [] \<or> p = ''.'' then []
     else if p = ''..'' then [ParentDir] else [Normal p]) ps)"

lemma path_body_no_root: "RootDir \<notin> set (path_body ps)"
  by (auto simp: path_body_def)

lemma path_body_parent: "ParentDir \<in> set (path_body ps) \<longleftrightarrow> ''..'' \<in> set ps"
  by (auto simp: path_body_def)

lemma sysctl_key_resolves:
  assumes "sysctl_key_ok k"
  shows "\<exists>rest. lex_resolve [] (path_components k) = [''proc'', ''sys''] @ rest"
proof -
  obtain t where k: "k = ''/proc/sys/'' @ t" using assms by (auto simp: sysctl_key_ok_def prefix_def)
  then have pieces: "split_on (CHR ''/'') k = [[], ''proc'', ''sys''] @ split_on (CHR ''/'') t"
    by simp
  then have "path_components k =
      [RootDir, Normal ''proc'', Normal ''sys''] @ path_body (split_on (CHR ''/'') t)"
    using k by (simp add: path_components_def path_body_def Let_def)
  moreover have "''..'' \<notin> set (split_on (CHR ''/'') t)"
    using assms pieces by (simp add: sysctl_key_ok_def)
  then have "\<exists>rest. lex_resolve [''proc'', ''sys''] (path_body (split_on (CHR ''/'') t)) =
      [''proc'', ''sys''] @ rest"
    by (intro lex_resolve_below) (simp_all add: path_body_parent path_body_no_root)
  ultimately show ?thesis by simp
qed

text \<open>
  Every extra sysctl of a validated configuration names, lexically resolved from
  any directory, a path below \<open>/proc/sys\<close>: the guest, which writes the keys verbatim as
  root, writes nowhere else.
\<close>

lemma sysctl_keys_confined:
  assumes "validate cli c = Inr ()" and "(k, v) \<in> set (h_extra_sysctls (c_hardening c))"
  shows "\<exists>rest. lex_resolve [] (path_components k) = [''proc'', ''sys''] @ rest"
proof -
  have "sysctl_key_ok k"
    using assms by (auto simp: validate_def res_then_Inr_iff validate_sysctl_iff)
  then show ?thesis by (rule sysctl_key_resolves)
qed

text \<open>
  The output directory of a validated configuration, resolved lexically from the project
  directory, is the project directory or below it.
\<close>

lemma output_dir_confined:
  assumes "validate cli c = Inr ()"
  shows "\<exists>rest. lex_resolve project_dir (path_components (out_dir (c_output c))) = project_dir @ rest"
proof -
  have "output_ok c" using assms by (simp add: validate_def res_then_Inr_iff validate_output_iff)
  then show ?thesis
    using path_components_parent path_components_root
    by (intro lex_resolve_below) (simp_all add: output_ok_def)
qed

end
