(* ===== verification/Netlink.thy ===== *)
theory Netlink
  imports Bytes
begin

text \<open>
  The netlink half of \<open>guest/src/firewall.rs\<close>: the message buffer \<open>NlBuf\<close>, whose length
  fields are patched once their content is known, and the reader of the kernel's replies.
  The writer is specified by \<open>emits\<close>: on an aligned buffer an operation appends exactly the given
  bytes and latches no overflow. Both kinds of length-prefixed block (nested attributes with
  a 16-bit length, messages with a 32-bit one) obey the contract of the locale \<open>frame\<close>.
\<close>

section \<open>Constants of the netlink protocol\<close>

definition NLM_F_REQUEST :: u16 where [nums]: "NLM_F_REQUEST = 0x0001"
definition NLM_F_ACK :: u16 where [nums]: "NLM_F_ACK = 0x0004"
definition NLM_F_EXCL :: u16 where [nums]: "NLM_F_EXCL = 0x0200"
definition NLM_F_CREATE :: u16 where [nums]: "NLM_F_CREATE = 0x0400"
definition NLM_F_APPEND :: u16 where [nums]: "NLM_F_APPEND = 0x0800"
definition NLMSG_ERROR :: u16 where [nums]: "NLMSG_ERROR = 0x0002"
definition NLMSG_HDR_LEN :: nat where [nums]: "NLMSG_HDR_LEN = 16"
definition NLMSG_ALIGNTO :: nat where [nums]: "NLMSG_ALIGNTO = 4"
definition NLA_HDR_LEN :: nat where [nums]: "NLA_HDR_LEN = 4"
definition NLA_F_NESTED :: u16 where [nums]: "NLA_F_NESTED = 0x8000"

section \<open>The message buffer\<close>

datatype nl_error =
    ExceededLimits
  | ShortRead
  | MalformedReplyLength
  | ReplyLengthOverflow
  | TruncatedPadding
  | TruncatedHeader
  | TruncatedErrorReply
  | Rejected u32 u32 \<comment> \<open>sequence number of the rejected message, errno\<close>
  | OsError nat \<comment> \<open>a failed system call, with its errno\<close>

record nlbuf =
  nl_bytes :: "byte list"
  nl_overflowed :: bool

definition nl_default :: nlbuf where
  "nl_default = \<lparr>nl_bytes = [], nl_overflowed = False\<rparr>"

definition align4 :: "nat \<Rightarrow> nat" where
  "align4 len = (if len mod 4 = 0 then len else len + (4 - len mod 4))"

definition put :: "byte list \<Rightarrow> nlbuf \<Rightarrow> nlbuf" where
  "put bs b = b\<lparr>nl_bytes := nl_bytes b @ bs\<rparr>"

definition pad :: "nlbuf \<Rightarrow> nlbuf" where
  "pad b =
     (let padding = align4 (length (nl_bytes b)) - length (nl_bytes b)
      in b\<lparr>nl_bytes := nl_bytes b @ replicate padding 0\<rparr>)"

definition patch_u32 :: "nat \<Rightarrow> nat \<Rightarrow> nlbuf \<Rightarrow> nlbuf" where
  "patch_u32 at v b =
     (if 2 ^ 32 \<le> v then b\<lparr>nl_overflowed := True\<rparr>
      else case get_range at (at + 4) (nl_bytes b) of
        None \<Rightarrow> b\<lparr>nl_overflowed := True\<rparr>
      | Some slot \<Rightarrow> b\<lparr>nl_bytes := overwrite at (ne32 (word_of_nat v)) (nl_bytes b)\<rparr>)"

definition patch_u16 :: "nat \<Rightarrow> nat \<Rightarrow> nlbuf \<Rightarrow> nlbuf" where
  "patch_u16 at v b =
     (if 2 ^ 16 \<le> v then b\<lparr>nl_overflowed := True\<rparr>
      else case get_range at (at + 2) (nl_bytes b) of
        None \<Rightarrow> b\<lparr>nl_overflowed := True\<rparr>
      | Some slot \<Rightarrow> b\<lparr>nl_bytes := overwrite at (ne16 (word_of_nat v)) (nl_bytes b)\<rparr>)"

definition begin_msg :: "u16 \<Rightarrow> u16 \<Rightarrow> u32 \<Rightarrow> nlbuf \<Rightarrow> nat \<times> nlbuf" where
  "begin_msg msg_type flags seq b =
     (let at = length (nl_bytes b);
          b = put (ne32 0) b;
          b = put (ne16 msg_type) b;
          b = put (ne16 flags) b;
          b = put (ne32 seq) b;
          b = put (ne32 0) b
      in (at, b))"

definition end_msg :: "nat \<Rightarrow> nlbuf \<Rightarrow> nlbuf" where
  "end_msg at b = (let b = pad b in patch_u32 at (length (nl_bytes b) - at) b)"

definition put_nfgenmsg :: "u8 \<Rightarrow> u16 \<Rightarrow> nlbuf \<Rightarrow> nlbuf" where
  "put_nfgenmsg family res_id b = put (be16 res_id) (put [family, 0] b)"

definition put_attr :: "u16 \<Rightarrow> byte list \<Rightarrow> nlbuf \<Rightarrow> nlbuf" where
  "put_attr attr_type payload b =
     (let len = NLA_HDR_LEN + length payload
      in if 2 ^ 16 \<le> len then b\<lparr>nl_overflowed := True\<rparr>
         else pad (put payload (put (ne16 attr_type) (put (ne16 (word_of_nat len)) b))))"

definition put_be32 :: "u16 \<Rightarrow> u32 \<Rightarrow> nlbuf \<Rightarrow> nlbuf" where
  "put_be32 attr_type v b = put_attr attr_type (be32 v) b"

definition put_str :: "u16 \<Rightarrow> string \<Rightarrow> nlbuf \<Rightarrow> nlbuf" where
  "put_str attr_type v b = put_attr attr_type (as_bytes v @ [0]) b"

definition begin_nested :: "u16 \<Rightarrow> nlbuf \<Rightarrow> nat \<times> nlbuf" where
  "begin_nested attr_type b =
     (let at = length (nl_bytes b);
          b = put (ne16 0) b;
          b = put (ne16 (attr_type OR NLA_F_NESTED)) b
      in (at, b))"

definition end_nested :: "nat \<Rightarrow> nlbuf \<Rightarrow> nlbuf" where
  "end_nested at b = (let b = pad b in patch_u16 at (length (nl_bytes b) - at) b)"

definition finish :: "nlbuf \<Rightarrow> nl_error + byte list" where
  "finish b = (if nl_overflowed b then Inl ExceededLimits else Inr (nl_bytes b))"

section \<open>What the writer emits\<close>

definition emits :: "(nlbuf \<Rightarrow> nlbuf) \<Rightarrow> byte list \<Rightarrow> bool" where
  "emits f xs \<longleftrightarrow>
     4 dvd length xs \<and>
     (\<forall>b. 4 dvd length (nl_bytes b) \<longrightarrow> f b = b\<lparr>nl_bytes := nl_bytes b @ xs\<rparr>)"

named_theorems emit_intros \<open>what each writer operation emits\<close>

definition enc_attr :: "u16 \<Rightarrow> byte list \<Rightarrow> byte list" where
  "enc_attr t payload =
     ne16 (word_of_nat (NLA_HDR_LEN + length payload)) @ ne16 t @ payload @
     replicate (align4 (length payload) - length payload) 0"

definition nested_header :: "u16 \<Rightarrow> nat \<Rightarrow> byte list" where
  "nested_header t n = ne16 (word_of_nat n) @ ne16 (t OR NLA_F_NESTED)"

fun msg_header :: "u16 \<times> u16 \<times> u32 \<Rightarrow> nat \<Rightarrow> byte list" where
  "msg_header (ty, flags, seq) n =
     ne32 (word_of_nat n) @ ne16 ty @ ne16 flags @ ne32 seq @ ne32 0"

definition enc_nested :: "u16 \<Rightarrow> byte list \<Rightarrow> byte list" where
  "enc_nested t body = nested_header t (4 + length body) @ body"

definition enc_msg :: "u16 \<Rightarrow> u16 \<Rightarrow> u32 \<Rightarrow> byte list \<Rightarrow> byte list" where
  "enc_msg ty flags seq body = msg_header (ty, flags, seq) (16 + length body) @ body"

lemma align4_eq: "align4 n = 4 * ((n + 3) div 4)"
proof -
  define q r where "q = n div 4" and "r = n mod 4"
  then have n: "n = r + 4 * q" and "r < 4" by simp_all
  then consider "r = 0" | "r = 1" | "r = 2" | "r = 3" by linarith
  moreover have "align4 n = (if r = 0 then n else n + (4 - r))" by (simp add: align4_def r_def)
  moreover have "(n + 3) div 4 = q + (r + 3) div 4" unfolding n by simp
  ultimately show ?thesis by cases (simp_all add: n)
qed

lemma align4_dvd [simp]: "4 dvd align4 n"
  by (simp add: align4_eq)

lemma align4_ge [simp]: "n \<le> align4 n"
  unfolding align4_eq by linarith

lemma align4_id [simp]: "4 dvd n \<Longrightarrow> align4 n = n"
  by (simp add: align4_def dvd_eq_mod_eq_0)

lemma align4_add: "4 dvd m \<Longrightarrow> align4 (m + n) = m + align4 n"
  by (elim dvdE) (simp add: align4_eq add.assoc)

lemma pad_aligned [simp]: "4 dvd length (nl_bytes b) \<Longrightarrow> pad b = b"
  by (simp add: pad_def)

lemma emits_id [emit_intros]: "emits (\<lambda>b. b) []"
  by (simp add: emits_def)

lemma emits_comp: "emits f xs \<Longrightarrow> emits g ys \<Longrightarrow> emits (\<lambda>b. g (f b)) (xs @ ys)"
  by (auto simp: emits_def)

lemma emits_apply:
  "emits f xs \<Longrightarrow> 4 dvd length (nl_bytes b) \<Longrightarrow> f b = b\<lparr>nl_bytes := nl_bytes b @ xs\<rparr>"
  by (simp add: emits_def)

lemma emits_aligned: "emits f xs \<Longrightarrow> 4 dvd length xs"
  by (simp add: emits_def)

lemma emits_put: "4 dvd length xs \<Longrightarrow> emits (put xs) xs"
  by (simp add: emits_def put_def)

lemma emits_put_nfgenmsg: "emits (put_nfgenmsg family res_id) ([family, 0] @ be16 res_id)"
  by (auto simp: emits_def put_nfgenmsg_def put_def)

lemma length_enc_attr: "length (enc_attr t p) = 4 + align4 (length p)"
  by (simp add: enc_attr_def)

lemma pad_append:
  assumes "4 dvd length pre"
  shows "pad (b\<lparr>nl_bytes := pre @ xs\<rparr>) =
    b\<lparr>nl_bytes := pre @ xs @ replicate (align4 (length xs) - length xs) 0\<rparr>"
  using assms by (simp add: pad_def align4_add)

lemma emits_put_attr:
  assumes "length p < 65532"
  shows "emits (put_attr t p) (enc_attr t p)"
  unfolding emits_def
proof (intro conjI allI impI)
  show "4 dvd length (enc_attr t p)" by (simp add: length_enc_attr)
  fix b :: nlbuf
  assume al: "4 dvd length (nl_bytes b)"
  let ?l = "NLA_HDR_LEN + length p"
  have "put_attr t p b =
      pad (b\<lparr>nl_bytes := nl_bytes b @ (ne16 (word_of_nat ?l) @ ne16 t @ p)\<rparr>)"
    using assms by (simp add: put_attr_def put_def nums)
  also have "length (ne16 (word_of_nat ?l) @ ne16 t @ p) = 4 + length p" by simp
  then have "pad (b\<lparr>nl_bytes := nl_bytes b @ (ne16 (word_of_nat ?l) @ ne16 t @ p)\<rparr>) =
      b\<lparr>nl_bytes := nl_bytes b @ (ne16 (word_of_nat ?l) @ ne16 t @ p) @
        replicate (align4 (4 + length p) - (4 + length p)) 0\<rparr>"
    by (simp only: pad_append [OF al])
  also have "align4 (4 + length p) - (4 + length p) = align4 (length p) - length p"
    by (simp add: align4_add)
  also have "b\<lparr>nl_bytes := nl_bytes b @ (ne16 (word_of_nat ?l) @ ne16 t @ p) @
        replicate (align4 (length p) - length p) 0\<rparr> =
      b\<lparr>nl_bytes := nl_bytes b @ enc_attr t p\<rparr>"
    by (simp add: enc_attr_def)
  finally show "put_attr t p b = b\<lparr>nl_bytes := nl_bytes b @ enc_attr t p\<rparr>" .
qed

section \<open>Length-prefixed blocks\<close>

lemma patch_u16_at:
  assumes "v < 2 ^ 16" and "length old = 2"
  shows "patch_u16 (length pre) v (b\<lparr>nl_bytes := pre @ old @ rest\<rparr>) =
    b\<lparr>nl_bytes := pre @ ne16 (word_of_nat v) @ rest\<rparr>"
proof -
  have "get_range (length pre) (length pre + 2) (pre @ old @ rest) = Some old"
    using assms(2) by simp
  with assms show ?thesis by (simp add: patch_u16_def)
qed

lemma patch_u32_at:
  assumes "v < 2 ^ 32" and "length old = 4"
  shows "patch_u32 (length pre) v (b\<lparr>nl_bytes := pre @ old @ rest\<rparr>) =
    b\<lparr>nl_bytes := pre @ ne32 (word_of_nat v) @ rest\<rparr>"
proof -
  have "get_range (length pre) (length pre + 4) (pre @ old @ rest) = Some old"
    using assms(2) by simp
  with assms show ?thesis by (simp add: patch_u32_def)
qed

text \<open>
  A block is opened with a placeholder length, filled, and closed by patching the length of
  header and content into it. The laws are what the rest of the ruleset builder needs of
  either kind of block.
\<close>

locale frame =
  fixes begin_f :: "'t \<Rightarrow> nlbuf \<Rightarrow> nat \<times> nlbuf"
    and end_f :: "nat \<Rightarrow> nlbuf \<Rightarrow> nlbuf"
    and header :: "'t \<Rightarrow> nat \<Rightarrow> byte list"
    and hdr_len :: nat
    and limit :: nat
  assumes header_length: "length (header t n) = hdr_len"
    and header_aligned: "4 dvd hdr_len"
    and begin_law: "begin_f t b = (length (nl_bytes b), b\<lparr>nl_bytes := nl_bytes b @ header t 0\<rparr>)"
    and end_law: "4 dvd length pre \<Longrightarrow> 4 dvd length body \<Longrightarrow> hdr_len + length body < limit \<Longrightarrow>
      end_f (length pre) (b\<lparr>nl_bytes := pre @ header t 0 @ body\<rparr>) =
        b\<lparr>nl_bytes := pre @ header t (hdr_len + length body) @ body\<rparr>"
begin

lemma emits_block:
  assumes "emits f xs" and "hdr_len + length xs < limit"
  shows "emits (\<lambda>b. case begin_f t b of (at, b1) \<Rightarrow> end_f at (f b1))
           (header t (hdr_len + length xs) @ xs)"
proof -
  have al: "4 dvd length xs" using assms(1) by (rule emits_aligned)
  have "end_f (length (nl_bytes b)) (f (b\<lparr>nl_bytes := nl_bytes b @ header t 0\<rparr>)) =
      b\<lparr>nl_bytes := nl_bytes b @ header t (hdr_len + length xs) @ xs\<rparr>"
    if "4 dvd length (nl_bytes b)" for b
    using end_law [of "nl_bytes b" xs t b] that al assms(2) header_length header_aligned
      emits_apply [OF assms(1), of "b\<lparr>nl_bytes := nl_bytes b @ header t 0\<rparr>"] by simp
  with al show ?thesis
    by (auto simp: emits_def begin_law header_length header_aligned)
qed

lemma block_aligned: "4 dvd length xs \<Longrightarrow> 4 dvd length (header t n @ xs)"
  by (simp add: header_length header_aligned)

end

lemma end_nested_at:
  assumes "4 dvd length pre" and "4 dvd length body" and "4 + length body < 2 ^ 16"
  shows "end_nested (length pre) (b\<lparr>nl_bytes := pre @ nested_header t 0 @ body\<rparr>) =
    b\<lparr>nl_bytes := pre @ nested_header t (4 + length body) @ body\<rparr>"
proof -
  let ?b = "b\<lparr>nl_bytes := pre @ ne16 0 @ ne16 (t OR NLA_F_NESTED) @ body\<rparr>"
  have len: "length (nl_bytes ?b) = length pre + (4 + length body)" by simp
  have "pad ?b = ?b" using assms(1,2) by (intro pad_aligned) (simp only: len dvd_add dvd_refl)
  with len show ?thesis
    using patch_u16_at [OF assms(3), of "ne16 0" pre "ne16 (t OR NLA_F_NESTED) @ body" b]
    by (simp add: end_nested_def nested_header_def Let_def del: of_nat_add)
qed

lemma end_msg_at:
  assumes "4 dvd length pre" and "4 dvd length body" and "16 + length body < 2 ^ 32"
  shows "end_msg (length pre) (b\<lparr>nl_bytes := pre @ msg_header t 0 @ body\<rparr>) =
    b\<lparr>nl_bytes := pre @ msg_header t (16 + length body) @ body\<rparr>"
proof -
  obtain ty flags seq where t: "t = (ty, flags, seq)" by (cases t)
  let ?r = "ne16 ty @ ne16 flags @ ne32 seq @ ne32 0 @ body"
  let ?b = "b\<lparr>nl_bytes := pre @ ne32 0 @ ?r\<rparr>"
  have len: "length (nl_bytes ?b) = length pre + (16 + length body)" by simp
  have "(4::nat) dvd 16" by simp
  then have "pad ?b = ?b"
    using assms(1,2) by (intro pad_aligned) (simp only: len dvd_add)
  with len show ?thesis
    using patch_u32_at [OF assms(3), of "ne32 0" pre ?r b]
    by (simp add: end_msg_def t Let_def del: of_nat_add)
qed

interpretation nested: frame begin_nested end_nested nested_header 4 "2 ^ 16"
proof (unfold_locales, goal_cases)
  case (4 pre body b t)
  then show ?case by (rule end_nested_at)
qed (simp_all add: nested_header_def begin_nested_def put_def)

interpretation msg: frame "\<lambda>(ty, flags, seq). begin_msg ty flags seq" end_msg msg_header 16 "2 ^ 32"
proof (unfold_locales, goal_cases)
  case (4 pre body b t)
  then show ?case by (rule end_msg_at)
qed (auto simp: begin_msg_def put_def)

text \<open>An overflow is never forgotten: no operation of the buffer clears the latch.\<close>

lemma overflow_latched:
  "nl_overflowed b \<Longrightarrow> nl_overflowed (put xs b)"
  "nl_overflowed b \<Longrightarrow> nl_overflowed (pad b)"
  "nl_overflowed b \<Longrightarrow> nl_overflowed (patch_u16 at v b)"
  "nl_overflowed b \<Longrightarrow> nl_overflowed (patch_u32 at v b)"
  "nl_overflowed b \<Longrightarrow> nl_overflowed (put_attr t xs b)"
  by (auto simp: put_def pad_def patch_u16_def patch_u32_def put_attr_def Let_def split: option.splits)

end
