(* ===== verification/Polling.thy ===== *)
theory Polling
  imports Prelude
begin

text \<open>
  The contract of the waiting loops of the guest. A wait is a function of the list of what it observes, turn by turn; a loop
  that has seen too little has the result \<open>None\<close>. The wait for netlink acknowledgements, the entropy wait, the network settle wait, the
  grace period, the wait for killed processes and the watchdog are interpretations.
\<close>

locale observed_loop =
  fixes run :: "'s \<Rightarrow> 'o list \<Rightarrow> 'r option"
    and finished :: "'s \<Rightarrow> 'r option"
    and turn :: "'s \<Rightarrow> 'o \<Rightarrow> 's + 'r"
  assumes run_Nil: "run s [] = finished s"
    and run_Cons: "run s (x # xs) =
      (case finished s of
         Some r \<Rightarrow> Some r
       | None \<Rightarrow> (case turn s x of Inl s' \<Rightarrow> run s' xs | Inr r \<Rightarrow> Some r))"
begin

text \<open>An outcome is final: what is observed afterwards does not change it.\<close>

lemma stable: "run s xs = Some r \<Longrightarrow> run s (xs @ ys) = Some r"
proof (induction xs arbitrary: s)
  case Nil
  then show ?case by (cases ys) (simp_all add: run_Nil run_Cons)
next
  case (Cons x xs)
  then show ?case by (auto simp: run_Cons split: option.splits sum.splits)
qed

lemma undecided_prefix: "run s (xs @ ys) = None \<Longrightarrow> run s xs = None"
  using stable by (cases "run s xs") fastforce+

lemma outcome_unique: "run s xs = Some r \<Longrightarrow> run s (xs @ ys) = Some r' \<Longrightarrow> r = r'"
  using stable by fastforce

text \<open>An outcome comes from the state the loop was in, or from one of its turns.\<close>

lemma outcome_from:
  assumes "run s xs = Some r" and "\<And>s x s'. P s \<Longrightarrow> turn s x = Inl s' \<Longrightarrow> P s'" and "P s"
  shows "\<exists>s'. P s' \<and> (finished s' = Some r \<or> (\<exists>x\<in>set xs. turn s' x = Inr r))"
  using assms(1,3)
proof (induction xs arbitrary: s)
  case Nil
  then show ?case by (auto simp: run_Nil)
next
  case (Cons x xs)
  show ?case
  proof (cases "finished s")
    case None
    with Cons assms(2) [of s x] show ?thesis by (fastforce simp: run_Cons split: sum.splits)
  next
    case (Some a)
    with Cons show ?thesis by (auto simp: run_Cons)
  qed
qed

end

text \<open>A loop with a deadline: a turn that looks at the clock after it is the last.\<close>

locale bounded_loop = observed_loop run finished turn
  for run :: "'s \<Rightarrow> 'o list \<Rightarrow> 'r option" and finished :: "'s \<Rightarrow> 'r option" and turn :: "'s \<Rightarrow> 'o \<Rightarrow> 's + 'r" +
  fixes late :: "'s \<Rightarrow> 'o \<Rightarrow> bool"
  assumes late_ends: "late s x \<Longrightarrow> \<exists>r. turn s x = Inr r"
    and late_kept: "turn s x = Inl s' \<Longrightarrow> late s' y = late s y"
begin

lemma ends: "list_ex (late s) xs \<Longrightarrow> run s xs \<noteq> None"
proof (induction xs arbitrary: s)
  case (Cons x xs)
  show ?case
  proof (cases "turn s x")
    case (Inl s')
    then have "late s' = late s" "\<not> late s x" using late_kept late_ends by fastforce+
    with Cons Inl show ?thesis by (auto simp: run_Cons split: option.splits)
  qed (auto simp: run_Cons split: option.splits)
qed simp

end

end
