(* ===== verification/NetlinkReply.thy ===== *)
theory NetlinkReply
  imports Netlink Polling
begin

text \<open>
  Sending a batch and reading the kernel's verdict (\<open>send_batch\<close>, \<open>split_message\<close> and
  \<open>check_reply\<close> of \<open>guest/src/firewall.rs\<close>). The socket is the environment: the results of the
  four set-up calls and the sequence of results of \<open>recv\<close>, each a byte string or an error
  (the five second receive timeout is such an error). A batch whose acknowledgements are not
  complete when the given sequence ends is still waiting, which is the result \<open>None\<close>.
\<close>

section \<open>Reading replies\<close>

definition split_message :: "byte list \<Rightarrow> nl_error + (byte list \<times> byte list) option" where
  "split_message reply =
     (if length reply < NLMSG_HDR_LEN then Inr None
      else case get_range 0 4 reply of
        None \<Rightarrow> Inr None
      | Some len_bytes \<Rightarrow>
          let len = unat (of_ne32 len_bytes) in
          if len < NLMSG_HDR_LEN \<or> length reply < len then Inl MalformedReplyLength
          else if 2 ^ 64 \<le> len + (NLMSG_ALIGNTO - 1) then Inl ReplyLengthOverflow
          else
            let n = len + (NLMSG_ALIGNTO - 1);
                aligned_len = n - n mod NLMSG_ALIGNTO
            in if length reply < aligned_len \<and> len \<noteq> length reply then Inl TruncatedPadding
               else Inr (Some (take len reply, drop (min aligned_len (length reply)) reply)))"

definition saturating_neg :: "u32 \<Rightarrow> u32" where
  "saturating_neg code = (if code = 0x80000000 then 0x7fffffff else - code)"

definition check_reply :: "byte list \<Rightarrow> nl_error + nat" where
  "check_reply message =
     (case get_range 4 6 message of
        None \<Rightarrow> Inl TruncatedHeader
      | Some type_bytes \<Rightarrow>
          if of_ne16 type_bytes \<noteq> NLMSG_ERROR then Inr 0
          else case get_range NLMSG_HDR_LEN (NLMSG_HDR_LEN + 4) message of
            None \<Rightarrow> Inl TruncatedErrorReply
          | Some error_bytes \<Rightarrow>
              let code = of_ne32 error_bytes in
              if code = 0 then Inr 1
              else
                let rejected = (case get_range (NLMSG_HDR_LEN + 12) (NLMSG_HDR_LEN + 16) message of
                                  None \<Rightarrow> 0 | Some b \<Rightarrow> of_ne32 b)
                in Inl (Rejected rejected (saturating_neg code)))"

lemma split_message_shorter:
  assumes "split_message reply = Inr (Some (h, rest))"
  shows "length rest < length reply"
proof -
  have pos: "0 < L + 3 - (L + 3) mod 4" if "16 \<le> L" for L :: nat
    using that mod_less_divisor [of 4 "L + 3"] by linarith
  have "length reply - (L + 3 - (L + 3) mod 4) < length reply"
    if "16 \<le> L" and "16 \<le> length reply" for L
    using pos [OF that(1)] that(2) by linarith
  with assms show ?thesis
    by (auto simp: split_message_def Let_def nums not_less split: if_splits option.splits)
qed

text \<open>The inner loop: every message of one datagram, adding the acknowledgements up.\<close>

function drain :: "nat \<Rightarrow> byte list \<Rightarrow> nl_error + nat" where
  "drain acks reply =
     (case split_message reply of
        Inl e \<Rightarrow> Inl e
      | Inr None \<Rightarrow> Inr acks
      | Inr (Some (header, rest)) \<Rightarrow>
          (case check_reply header of
             Inl e \<Rightarrow> Inl e
           | Inr n \<Rightarrow> drain (acks + n) rest))"
  by pat_completeness auto
termination
  by (relation "measure (\<lambda>(acks, reply). length reply)") (auto dest: split_message_shorter)

declare drain.simps [simp del]

section \<open>The batch transaction\<close>

record batch =
  b_bytes :: "byte list"
  b_ackable :: nat

definition RECV_BUF :: nat where [nums]: "RECV_BUF = 8192"

fun recv_loop :: "nat \<Rightarrow> nat \<Rightarrow> (nl_error + byte list) list \<Rightarrow> (nl_error + unit) option" where
  "recv_loop ackable acks recvs =
     (if acks < ackable then
        (case recvs of
           [] \<Rightarrow> None
         | Inl e # _ \<Rightarrow> Some (Inl e)
         | Inr r # rs \<Rightarrow>
             if RECV_BUF < length r then Some (Inl ShortRead)
             else (case drain acks r of
                     Inl e \<Rightarrow> Some (Inl e)
                   | Inr acks' \<Rightarrow> recv_loop ackable acks' rs))
      else Some (Inr ()))"

declare recv_loop.simps [simp del]

text \<open>One \<open>recv\<close>; the loop has ended before it when all acknowledgements are there.\<close>

definition recv_turn :: "nat \<Rightarrow> nl_error + byte list \<Rightarrow> nat + (nl_error + unit)" where
  "recv_turn acks r =
     (case r of
        Inl e \<Rightarrow> Inr (Inl e)
      | Inr bs \<Rightarrow>
          if RECV_BUF < length bs then Inr (Inl ShortRead)
          else (case drain acks bs of Inl e \<Rightarrow> Inr (Inl e) | Inr acks' \<Rightarrow> Inl acks'))"

interpretation acks: observed_loop "recv_loop ackable" "\<lambda>acks. if acks < ackable then None else Some (Inr ())" recv_turn
  for ackable
proof unfold_locales
  fix s x xs
  show "recv_loop ackable s [] = (if s < ackable then None else Some (Inr ()))"
    by (simp add: recv_loop.simps)
  show "recv_loop ackable s (x # xs) =
      (case if s < ackable then None else Some (Inr ()) of
         Some r \<Rightarrow> Some r
       | None \<Rightarrow> (case recv_turn s x of Inl s' \<Rightarrow> recv_loop ackable s' xs | Inr r \<Rightarrow> Some r))"
    by (subst recv_loop.simps) (auto simp: recv_turn_def split: sum.splits)
qed

record sock_env =
  socket_res :: "nl_error + unit"
  bind_res :: "nl_error + unit"
  timeout_res :: "nl_error + unit"
  send_res :: "byte list \<Rightarrow> nl_error + unit"
  recvs :: "(nl_error + byte list) list"

definition send_batch :: "sock_env \<Rightarrow> batch \<Rightarrow> (nl_error + unit) option" where
  "send_batch env b =
     (case check_all (\<lambda>r. r)
             [socket_res env, bind_res env, timeout_res env, send_res env (b_bytes b)] of
        Inl e \<Rightarrow> Some (Inl e)
      | Inr _ \<Rightarrow> recv_loop (b_ackable b) 0 (recvs env))"

text \<open>The verdict of a transaction is final.\<close>

lemma send_batch_final: "send_batch s b = Some r \<Longrightarrow> send_batch (s\<lparr>recvs := recvs s @ later\<rparr>) b = Some r"
  by (auto simp: send_batch_def intro: acks.stable split: sum.splits)

section \<open>What a successful transaction has seen\<close>

text \<open>The messages of one datagram, and what counts as an acknowledgement of one.\<close>

function messages :: "byte list \<Rightarrow> nl_error + byte list list" where
  "messages reply =
     (case split_message reply of
        Inl e \<Rightarrow> Inl e
      | Inr None \<Rightarrow> Inr []
      | Inr (Some (header, rest)) \<Rightarrow>
          (case messages rest of Inl e \<Rightarrow> Inl e | Inr ms \<Rightarrow> Inr (header # ms)))"
  by pat_completeness auto
termination
  by (relation "measure length") (auto dest: split_message_shorter)

declare messages.simps [simp del]

definition is_ack :: "byte list \<Rightarrow> bool" where
  "is_ack m \<longleftrightarrow> check_reply m = Inr 1"

definition acks_in :: "byte list list \<Rightarrow> nat" where
  "acks_in ms = length (filter is_ack ms)"

lemma acks_in_simps [simp]:
  "acks_in [] = 0"
  "acks_in (m # ms) = (if is_ack m then 1 else 0) + acks_in ms"
  "acks_in (ms @ ns) = acks_in ms + acks_in ns"
  by (simp_all add: acks_in_def)

lemma check_reply_cases: "check_reply m = Inr n \<Longrightarrow> n = 0 \<or> n = 1"
  by (auto simp: check_reply_def Let_def split: option.splits if_splits)

lemma drain_messages:
  "drain acks r = Inr acks' \<longleftrightarrow>
     (\<exists>ms. messages r = Inr ms \<and> (\<forall>m\<in>set ms. is_ok (check_reply m)) \<and> acks' = acks + acks_in ms)"
proof (induction acks r arbitrary: acks' rule: drain.induct)
  case (1 acks r)
  show ?case
  proof (cases "split_message r")
    case (Inl e)
    then show ?thesis by (simp add: drain.simps [of acks r] messages.simps [of r])
  next
    case (Inr o')
    show ?thesis
    proof (cases o')
      case None
      with Inr show ?thesis by (auto simp: drain.simps [of acks r] messages.simps [of r])
    next
      case (Some p)
      obtain h rest where p: "p = (h, rest)" by (cases p)
      show ?thesis
      proof (cases "check_reply h")
        case (Inl e)
        with Inr Some p show ?thesis
          by (auto simp: drain.simps [of acks r] messages.simps [of r] split: sum.splits)
      next
        case (Inr n)
        then have n: "n = (if is_ack h then 1 else 0)"
          using check_reply_cases [of h n] by (auto simp: is_ack_def)
        have IH: "drain (acks + n) rest = Inr acks' \<longleftrightarrow>
            (\<exists>ms. messages rest = Inr ms \<and> (\<forall>m\<in>set ms. is_ok (check_reply m)) \<and>
              acks' = acks + n + acks_in ms)"
          using "1.IH" \<open>split_message r = Inr o'\<close> Some p Inr by blast
        from Inr n IH \<open>split_message r = Inr o'\<close> Some p show ?thesis
          by (auto simp: drain.simps [of acks r] messages.simps [of r] split: sum.splits)
      qed
    qed
  qed
qed

text \<open>
  The datagrams a success has read: each is well formed, none of their messages reports an error,
  and together they hold the acknowledgements waited for.
\<close>

definition fully_acked :: "nat \<Rightarrow> (nl_error + byte list) list \<Rightarrow> bool" where
  "fully_acked ackable rs \<longleftrightarrow>
     (\<exists>mss. map Inr mss = map (\<lambda>r. res_bind r messages) rs \<and>
        (\<forall>m\<in>set (concat mss). is_ok (check_reply m)) \<and>
        ackable \<le> acks_in (concat mss))"

lemma recv_loop_sound:
  "recv_loop ackable acks rs = Some (Inr ()) \<Longrightarrow>
    \<exists>k\<le>length rs. fully_acked (ackable - acks) (take k rs)"
proof (induction rs arbitrary: acks)
  case Nil
  then show ?case by (auto simp: recv_loop.simps fully_acked_def split: if_splits)
next
  case (Cons x xs)
  show ?case
  proof (cases "acks < ackable")
    case False
    then have "fully_acked (ackable - acks) (take 0 (x # xs))" by (simp add: fully_acked_def)
    then show ?thesis by blast
  next
    case True
    with Cons.prems obtain r acks' where x: "x = Inr r" and d: "drain acks r = Inr acks'"
      and l: "recv_loop ackable acks' xs = Some (Inr ())"
      by (subst (asm) recv_loop.simps) (auto split: sum.splits if_splits)
    obtain ms where ms: "messages r = Inr ms" "\<forall>m\<in>set ms. is_ok (check_reply m)"
      "acks' = acks + acks_in ms"
      using d drain_messages by blast
    obtain k where k: "k \<le> length xs" "fully_acked (ackable - acks') (take k xs)"
      using Cons.IH [OF l] by blast
    then obtain mss where "map Inr mss = map (\<lambda>r. res_bind r messages) (take k xs)"
      "\<forall>m\<in>set (concat mss). is_ok (check_reply m)" "ackable - acks' \<le> acks_in (concat mss)"
      by (auto simp: fully_acked_def)
    with ms x have "fully_acked (ackable - acks) (take (Suc k) (x # xs))"
      unfolding fully_acked_def by (intro exI [of _ "ms # mss"]) auto
    with k(1) show ?thesis by (intro exI [of _ "Suc k"]) simp
  qed
qed

lemma send_batch_success:
  assumes "send_batch env b = Some (Inr ())"
  shows "socket_res env = Inr () \<and> bind_res env = Inr () \<and> timeout_res env = Inr () \<and>
    send_res env (b_bytes b) = Inr () \<and>
    (\<exists>k\<le>length (recvs env). fully_acked (b_ackable b) (take k (recvs env)))"
proof -
  have "check_all (\<lambda>r. r) [socket_res env, bind_res env, timeout_res env, send_res env (b_bytes b)]
      = Inr ()" and "recv_loop (b_ackable b) 0 (recvs env) = Some (Inr ())"
    using assms by (auto simp: send_batch_def split: sum.splits)
  then show ?thesis
    using recv_loop_sound [of "b_ackable b" 0 "recvs env"] by (auto simp: res_simps)
qed


end
