(* ===== verification/Firewall.thy ===== *)
theory Firewall
  imports NetlinkReply Features
begin

text \<open>
  The inbound packet filter of \<open>guest/src/firewall.rs\<close>: the configured port rules and their
  parser, the \<open>nf_tables\<close> expression builders, and \<open>build_batch\<close>, which assembles the whole
  ruleset as one netlink transaction.
\<close>

section \<open>Constants of nf_tables\<close>

definition NFNL_SUBSYS_NFTABLES :: u16 where [nums]: "NFNL_SUBSYS_NFTABLES = 10"
definition NFNL_MSG_BATCH_BEGIN :: u16 where [nums]: "NFNL_MSG_BATCH_BEGIN = 16"
definition NFNL_MSG_BATCH_END :: u16 where [nums]: "NFNL_MSG_BATCH_END = 17"
definition NFT_MSG_NEWTABLE :: u16 where [nums]: "NFT_MSG_NEWTABLE = 0"
definition NFT_MSG_NEWCHAIN :: u16 where [nums]: "NFT_MSG_NEWCHAIN = 3"
definition NFT_MSG_NEWRULE :: u16 where [nums]: "NFT_MSG_NEWRULE = 6"

definition NFTA_TABLE_NAME :: u16 where "NFTA_TABLE_NAME = 1"
definition NFTA_CHAIN_TABLE :: u16 where "NFTA_CHAIN_TABLE = 1"
definition NFTA_CHAIN_NAME :: u16 where "NFTA_CHAIN_NAME = 3"
definition NFTA_CHAIN_HOOK :: u16 where "NFTA_CHAIN_HOOK = 4"
definition NFTA_CHAIN_POLICY :: u16 where "NFTA_CHAIN_POLICY = 5"
definition NFTA_CHAIN_TYPE :: u16 where "NFTA_CHAIN_TYPE = 7"
definition NFTA_HOOK_HOOKNUM :: u16 where "NFTA_HOOK_HOOKNUM = 1"
definition NFTA_HOOK_PRIORITY :: u16 where "NFTA_HOOK_PRIORITY = 2"
definition NFTA_RULE_TABLE :: u16 where "NFTA_RULE_TABLE = 1"
definition NFTA_RULE_CHAIN :: u16 where "NFTA_RULE_CHAIN = 2"
definition NFTA_RULE_EXPRESSIONS :: u16 where "NFTA_RULE_EXPRESSIONS = 4"
definition NFTA_LIST_ELEM :: u16 where "NFTA_LIST_ELEM = 1"
definition NFTA_EXPR_NAME :: u16 where "NFTA_EXPR_NAME = 1"
definition NFTA_EXPR_DATA :: u16 where "NFTA_EXPR_DATA = 2"
definition NFTA_DATA_VALUE :: u16 where "NFTA_DATA_VALUE = 1"
definition NFTA_DATA_VERDICT :: u16 where "NFTA_DATA_VERDICT = 2"
definition NFTA_VERDICT_CODE :: u16 where "NFTA_VERDICT_CODE = 1"
definition NFTA_IMMEDIATE_DREG :: u16 where "NFTA_IMMEDIATE_DREG = 1"
definition NFTA_IMMEDIATE_DATA :: u16 where "NFTA_IMMEDIATE_DATA = 2"
definition NFTA_CMP_SREG :: u16 where "NFTA_CMP_SREG = 1"
definition NFTA_CMP_OP :: u16 where "NFTA_CMP_OP = 2"
definition NFTA_CMP_DATA :: u16 where "NFTA_CMP_DATA = 3"
definition NFTA_RANGE_SREG :: u16 where "NFTA_RANGE_SREG = 1"
definition NFTA_RANGE_OP :: u16 where "NFTA_RANGE_OP = 2"
definition NFTA_RANGE_FROM_DATA :: u16 where "NFTA_RANGE_FROM_DATA = 3"
definition NFTA_RANGE_TO_DATA :: u16 where "NFTA_RANGE_TO_DATA = 4"
definition NFTA_PAYLOAD_DREG :: u16 where "NFTA_PAYLOAD_DREG = 1"
definition NFTA_PAYLOAD_BASE :: u16 where "NFTA_PAYLOAD_BASE = 2"
definition NFTA_PAYLOAD_OFFSET :: u16 where "NFTA_PAYLOAD_OFFSET = 3"
definition NFTA_PAYLOAD_LEN :: u16 where "NFTA_PAYLOAD_LEN = 4"
definition NFTA_META_DREG :: u16 where "NFTA_META_DREG = 1"
definition NFTA_META_KEY :: u16 where "NFTA_META_KEY = 2"
definition NFTA_CT_DREG :: u16 where "NFTA_CT_DREG = 1"
definition NFTA_CT_KEY :: u16 where "NFTA_CT_KEY = 2"
definition NFTA_BITWISE_SREG :: u16 where "NFTA_BITWISE_SREG = 1"
definition NFTA_BITWISE_DREG :: u16 where "NFTA_BITWISE_DREG = 2"
definition NFTA_BITWISE_LEN :: u16 where "NFTA_BITWISE_LEN = 3"
definition NFTA_BITWISE_MASK :: u16 where "NFTA_BITWISE_MASK = 4"
definition NFTA_BITWISE_XOR :: u16 where "NFTA_BITWISE_XOR = 5"

definition NFT_REG_VERDICT :: u32 where [nums]: "NFT_REG_VERDICT = 0"
definition NFT_REG_1 :: u32 where [nums]: "NFT_REG_1 = 1"
definition NFT_CMP_EQ :: u32 where [nums]: "NFT_CMP_EQ = 0"
definition NFT_CMP_NEQ :: u32 where [nums]: "NFT_CMP_NEQ = 1"
definition NFT_RANGE_EQ :: u32 where [nums]: "NFT_RANGE_EQ = 0"
definition NFT_PAYLOAD_TRANSPORT_HEADER :: u32 where [nums]: "NFT_PAYLOAD_TRANSPORT_HEADER = 2"
definition NFT_META_IIFNAME :: u32 where [nums]: "NFT_META_IIFNAME = 6"
definition NFT_META_NFPROTO :: u32 where [nums]: "NFT_META_NFPROTO = 15"
definition NFT_META_L4PROTO :: u32 where [nums]: "NFT_META_L4PROTO = 16"
definition NFT_CT_STATE :: u32 where [nums]: "NFT_CT_STATE = 0"
definition NF_DROP :: u32 where [nums]: "NF_DROP = 0"
definition NF_ACCEPT :: u32 where [nums]: "NF_ACCEPT = 1"

definition TABLE_FAMILY :: "features \<Rightarrow> u8" where
  "TABLE_FAMILY ft = (if ft_net_ipv6 ft then 1 else 2)"

definition NFPROTO_IPV4 :: u8 where [nums]: "NFPROTO_IPV4 = 2"
definition NFPROTO_IPV6 :: u8 where [nums]: "NFPROTO_IPV6 = 10"
definition NF_INET_LOCAL_IN :: u32 where [nums]: "NF_INET_LOCAL_IN = 1"
definition FILTER_PRIORITY :: u32 where [nums]: "FILTER_PRIORITY = 0"
definition CT_STATE_INVALID :: u32 where [nums]: "CT_STATE_INVALID = 0x01"
definition CT_STATE_ESTABLISHED :: u32 where [nums]: "CT_STATE_ESTABLISHED = 0x02"
definition CT_STATE_RELATED :: u32 where [nums]: "CT_STATE_RELATED = 0x04"
definition IPPROTO_ICMP :: u8 where [nums]: "IPPROTO_ICMP = 1"
definition IPPROTO_TCP :: u8 where [nums]: "IPPROTO_TCP = 6"
definition IPPROTO_UDP :: u8 where [nums]: "IPPROTO_UDP = 17"
definition IPPROTO_ICMPV6 :: u8 where [nums]: "IPPROTO_ICMPV6 = 58"
definition IFNAMSIZ :: nat where [nums]: "IFNAMSIZ = 16"
definition TABLE_NAME :: string where [nums]: "TABLE_NAME = ''cargo-unikernel''"
definition CHAIN_NAME :: string where [nums]: "CHAIN_NAME = ''input''"
definition ICMPV6_ALLOWED_TYPES :: "u8 list" where [nums]:
  "ICMPV6_ALLOWED_TYPES = [2, 130, 133, 134, 135, 136]"
definition ICMPV4_DEST_UNREACH :: u8 where [nums]: "ICMPV4_DEST_UNREACH = 3"

section \<open>Port rules\<close>

record rule =
  r_protocol :: u8
  r_first_port :: u16
  r_last_port :: u16

definition parse_u16 :: "string \<Rightarrow> u16 option" where
  "parse_u16 s = map_option word_of_nat (from_str_radix 65535 10 s)"

definition parse_rule :: "string \<Rightarrow> fatal + rule" where
  "parse_rule entry =
     (case split_once (CHR '':'') entry of
        None \<Rightarrow> Inl (MalformedFirewallEntry entry)
      | Some (protocol, ports) \<Rightarrow>
          res_bind (if protocol = ''tcp'' then Inr IPPROTO_TCP
                    else if protocol = ''udp'' then Inr IPPROTO_UDP
                    else Inl (MalformedFirewallEntry entry)) (\<lambda>protocol.
          let (first, last) = (case split_once (CHR ''-'') ports of
                                 Some p \<Rightarrow> p | None \<Rightarrow> (ports, ports)) in
          (case (parse_u16 first, parse_u16 last) of
             (Some first_port, Some last_port) \<Rightarrow>
               if first_port = 0 \<or> last_port < first_port then Inl (MalformedFirewallEntry entry)
               else Inr \<lparr>r_protocol = protocol, r_first_port = first_port, r_last_port = last_port\<rparr>
           | _ \<Rightarrow> Inl (MalformedFirewallEntry entry))))"

definition parse_rules :: "string \<Rightarrow> fatal + rule list" where
  "parse_rules raw = traverse parse_rule (drop_empty (split_on (CHR '';'') raw))"

section \<open>Expression builders\<close>

definition expr :: "string \<Rightarrow> (nlbuf \<Rightarrow> nlbuf) \<Rightarrow> nlbuf \<Rightarrow> nlbuf" where
  "expr name data b =
     (let (elem, b) = begin_nested NFTA_LIST_ELEM b;
          b = put_str NFTA_EXPR_NAME name b;
          (body, b) = begin_nested NFTA_EXPR_DATA b;
          b = data b;
          b = end_nested body b
      in end_nested elem b)"

definition meta_load :: "u32 \<Rightarrow> nlbuf \<Rightarrow> nlbuf" where
  "meta_load key = expr ''meta'' (\<lambda>b.
     let b = put_be32 NFTA_META_KEY key b in put_be32 NFTA_META_DREG NFT_REG_1 b)"

definition ct_state_load :: "nlbuf \<Rightarrow> nlbuf" where
  "ct_state_load = expr ''ct'' (\<lambda>b.
     let b = put_be32 NFTA_CT_KEY NFT_CT_STATE b in put_be32 NFTA_CT_DREG NFT_REG_1 b)"

definition payload_load :: "u32 \<Rightarrow> u32 \<Rightarrow> nlbuf \<Rightarrow> nlbuf" where
  "payload_load offset len = expr ''payload'' (\<lambda>b.
     let b = put_be32 NFTA_PAYLOAD_DREG NFT_REG_1 b;
         b = put_be32 NFTA_PAYLOAD_BASE NFT_PAYLOAD_TRANSPORT_HEADER b;
         b = put_be32 NFTA_PAYLOAD_OFFSET offset b
     in put_be32 NFTA_PAYLOAD_LEN len b)"

definition cmp :: "u32 \<Rightarrow> byte list \<Rightarrow> nlbuf \<Rightarrow> nlbuf" where
  "cmp op val = expr ''cmp'' (\<lambda>b.
     let b = put_be32 NFTA_CMP_SREG NFT_REG_1 b;
         b = put_be32 NFTA_CMP_OP op b;
         (data, b) = begin_nested NFTA_CMP_DATA b;
         b = put_attr NFTA_DATA_VALUE val b
     in end_nested data b)"

definition range_expr :: "byte list \<Rightarrow> byte list \<Rightarrow> nlbuf \<Rightarrow> nlbuf" where
  "range_expr first_bytes last_bytes = expr ''range'' (\<lambda>b.
     let b = put_be32 NFTA_RANGE_SREG NFT_REG_1 b;
         b = put_be32 NFTA_RANGE_OP NFT_RANGE_EQ b;
         (from, b) = begin_nested NFTA_RANGE_FROM_DATA b;
         b = put_attr NFTA_DATA_VALUE first_bytes b;
         b = end_nested from b;
         (to, b) = begin_nested NFTA_RANGE_TO_DATA b;
         b = put_attr NFTA_DATA_VALUE last_bytes b
     in end_nested to b)"

definition bitwise_mask :: "u32 \<Rightarrow> nlbuf \<Rightarrow> nlbuf" where
  "bitwise_mask bits = expr ''bitwise'' (\<lambda>b.
     let b = put_be32 NFTA_BITWISE_SREG NFT_REG_1 b;
         b = put_be32 NFTA_BITWISE_DREG NFT_REG_1 b;
         b = put_be32 NFTA_BITWISE_LEN 4 b;
         (m, b) = begin_nested NFTA_BITWISE_MASK b;
         b = put_attr NFTA_DATA_VALUE (ne32 bits) b;
         b = end_nested m b;
         (x, b) = begin_nested NFTA_BITWISE_XOR b;
         b = put_attr NFTA_DATA_VALUE (ne32 0) b
     in end_nested x b)"

definition verdict :: "u32 \<Rightarrow> nlbuf \<Rightarrow> nlbuf" where
  "verdict v = expr ''immediate'' (\<lambda>b.
     let b = put_be32 NFTA_IMMEDIATE_DREG NFT_REG_VERDICT b;
         (data, b) = begin_nested NFTA_IMMEDIATE_DATA b;
         (vd, b) = begin_nested NFTA_DATA_VERDICT b;
         b = put_be32 NFTA_VERDICT_CODE v b;
         b = end_nested vd b
     in end_nested data b)"

definition nft_msg :: "u16 \<Rightarrow> u16" where
  "nft_msg m = push_bit 8 NFNL_SUBSYS_NFTABLES OR m"

definition rule_msg :: "features \<Rightarrow> u32 \<Rightarrow> (nlbuf \<Rightarrow> nlbuf) \<Rightarrow> nlbuf \<Rightarrow> nlbuf" where
  "rule_msg ft seq expressions b =
     (let (msg, b) = begin_msg (nft_msg NFT_MSG_NEWRULE)
                       (NLM_F_REQUEST OR NLM_F_ACK OR NLM_F_CREATE OR NLM_F_APPEND) seq b;
          b = put_nfgenmsg (TABLE_FAMILY ft) 0 b;
          b = put_str NFTA_RULE_TABLE TABLE_NAME b;
          b = put_str NFTA_RULE_CHAIN CHAIN_NAME b;
          (list, b) = begin_nested NFTA_RULE_EXPRESSIONS b;
          b = expressions b;
          b = end_nested list b
      in end_msg msg b)"

definition l4proto_is :: "u8 \<Rightarrow> nlbuf \<Rightarrow> nlbuf" where
  "l4proto_is protocol b =
     (let b = meta_load NFT_META_L4PROTO b in cmp NFT_CMP_EQ [protocol] b)"

definition nfproto_is :: "u8 \<Rightarrow> nlbuf \<Rightarrow> nlbuf" where
  "nfproto_is family b =
     (let b = meta_load NFT_META_NFPROTO b in cmp NFT_CMP_EQ [family] b)"

section \<open>The whole ruleset\<close>

text \<open>The closures \<open>build_batch\<close> passes to \<open>rule\<close>, in order.\<close>

definition lo_name :: "byte list" where
  "lo_name = overwrite 0 (as_bytes ''lo'') (replicate IFNAMSIZ 0)"

definition loopback_rule :: "nlbuf \<Rightarrow> nlbuf" where
  "loopback_rule b =
     (let b = meta_load NFT_META_IIFNAME b;
          b = cmp NFT_CMP_EQ lo_name b
      in verdict NF_ACCEPT b)"

definition established_rule :: "nlbuf \<Rightarrow> nlbuf" where
  "established_rule b =
     (let b = ct_state_load b;
          b = bitwise_mask (CT_STATE_ESTABLISHED OR CT_STATE_RELATED) b;
          b = cmp NFT_CMP_NEQ (ne32 0) b
      in verdict NF_ACCEPT b)"

definition invalid_rule :: "nlbuf \<Rightarrow> nlbuf" where
  "invalid_rule b =
     (let b = ct_state_load b;
          b = bitwise_mask CT_STATE_INVALID b;
          b = cmp NFT_CMP_NEQ (ne32 0) b
      in verdict NF_DROP b)"

definition icmpv6_rule :: "u8 \<Rightarrow> nlbuf \<Rightarrow> nlbuf" where
  "icmpv6_rule icmp_type b =
     (let b = nfproto_is NFPROTO_IPV6 b;
          b = l4proto_is IPPROTO_ICMPV6 b;
          b = payload_load 0 1 b;
          b = cmp NFT_CMP_EQ [icmp_type] b
      in verdict NF_ACCEPT b)"

definition icmpv4_rule :: "nlbuf \<Rightarrow> nlbuf" where
  "icmpv4_rule b =
     (let b = nfproto_is NFPROTO_IPV4 b;
          b = l4proto_is IPPROTO_ICMP b;
          b = payload_load 0 1 b;
          b = cmp NFT_CMP_EQ [ICMPV4_DEST_UNREACH] b
      in verdict NF_ACCEPT b)"

definition port_rule :: "rule \<Rightarrow> nlbuf \<Rightarrow> nlbuf" where
  "port_rule r b =
     (let b = l4proto_is (r_protocol r) b;
          b = payload_load 2 2 b;
          b = (if r_first_port r = r_last_port r then cmp NFT_CMP_EQ (be16 (r_first_port r)) b
               else range_expr (be16 (r_first_port r)) (be16 (r_last_port r)) b)
      in verdict NF_ACCEPT b)"

text \<open>The sequence counter: \<open>saturating_add(1)\<close>, then the new value.\<close>

definition tick :: "u32 \<Rightarrow> u32" where
  "tick seq = (if seq = 0xFFFFFFFF then seq else seq + 1)"

definition add_rule :: "features \<Rightarrow> u32 \<times> nlbuf \<Rightarrow> (nlbuf \<Rightarrow> nlbuf) \<Rightarrow> u32 \<times> nlbuf" where
  "add_rule ft st expressions =
     (case st of (seq, b) \<Rightarrow> let s = tick seq in (s, rule_msg ft s expressions b))"

definition begin_batch :: "u32 \<times> nlbuf \<Rightarrow> u32 \<times> nlbuf" where
  "begin_batch st =
     (case st of (seq, b) \<Rightarrow>
        let s = tick seq;
            (begin, b) = begin_msg NFNL_MSG_BATCH_BEGIN NLM_F_REQUEST s b;
            b = put_nfgenmsg 0 NFNL_SUBSYS_NFTABLES b
        in (s, end_msg begin b))"

definition add_table :: "features \<Rightarrow> u32 \<times> nlbuf \<Rightarrow> u32 \<times> nlbuf" where
  "add_table ft st =
     (case st of (seq, b) \<Rightarrow>
        let s = tick seq;
            (table, b) = begin_msg (nft_msg NFT_MSG_NEWTABLE)
                           (NLM_F_REQUEST OR NLM_F_ACK OR NLM_F_CREATE OR NLM_F_EXCL) s b;
            b = put_nfgenmsg (TABLE_FAMILY ft) 0 b;
            b = put_str NFTA_TABLE_NAME TABLE_NAME b
        in (s, end_msg table b))"

definition add_chain :: "features \<Rightarrow> u32 \<times> nlbuf \<Rightarrow> u32 \<times> nlbuf" where
  "add_chain ft st =
     (case st of (seq, b) \<Rightarrow>
        let s = tick seq;
            (chain, b) = begin_msg (nft_msg NFT_MSG_NEWCHAIN)
                           (NLM_F_REQUEST OR NLM_F_ACK OR NLM_F_CREATE OR NLM_F_EXCL) s b;
            b = put_nfgenmsg (TABLE_FAMILY ft) 0 b;
            b = put_str NFTA_CHAIN_TABLE TABLE_NAME b;
            b = put_str NFTA_CHAIN_NAME CHAIN_NAME b;
            (hook, b) = begin_nested NFTA_CHAIN_HOOK b;
            b = put_be32 NFTA_HOOK_HOOKNUM NF_INET_LOCAL_IN b;
            b = put_be32 NFTA_HOOK_PRIORITY FILTER_PRIORITY b;
            b = end_nested hook b;
            b = put_be32 NFTA_CHAIN_POLICY NF_DROP b;
            b = put_str NFTA_CHAIN_TYPE ''filter'' b
        in (s, end_msg chain b))"

definition build_batch :: "features \<Rightarrow> rule list \<Rightarrow> nl_error + batch" where
  "build_batch ft rules =
     (let st = (0, nl_default);
          st = begin_batch st;
          st = add_table ft st;
          st = add_chain ft st;
          st = add_rule ft st loopback_rule;
          st = add_rule ft st established_rule;
          st = add_rule ft st invalid_rule;
          st = foldl (\<lambda>st t. add_rule ft st (icmpv6_rule t)) st ICMPV6_ALLOWED_TYPES;
          st = add_rule ft st icmpv4_rule;
          st = foldl (\<lambda>st r. add_rule ft st (port_rule r)) st rules;
          (seq, b) = st;
          last = tick seq;
          (end, b) = begin_msg NFNL_MSG_BATCH_END NLM_F_REQUEST last b;
          b = put_nfgenmsg 0 NFNL_SUBSYS_NFTABLES b;
          b = end_msg end b
      in res_bind (finish b) (\<lambda>bytes. Inr \<lparr>b_bytes = bytes, b_ackable = unat last - 2\<rparr>))"

text \<open>\<open>install\<close>: build, send, and end the boot on any failure.\<close>

definition install :: "features \<Rightarrow> sock_env \<Rightarrow> rule list \<Rightarrow> (fatal + unit) option" where
  "install ft env rules =
     (case build_batch ft rules of
        Inl _ \<Rightarrow> Some (Inl FirewallBuildFailed)
      | Inr b \<Rightarrow> map_option (\<lambda>r. case r of Inl _ \<Rightarrow> Inl FirewallInstallFailed | Inr _ \<Rightarrow> Inr ())
                  (send_batch env b))"

end
