(* ===== verification/FirewallBatch.thy ===== *)
theory FirewallBatch
  imports Firewall
begin

text \<open>
  What \<open>build_batch\<close> writes. The ruleset is given an abstract syntax (\<open>nft_expr\<close>, one
  constructor per expression builder) with a length-computing encoder that never patches
  anything; the builder refines it: its bytes are the concatenation of the encoded messages, its sequence
  numbers are consecutive, no length field overflows, and the reply splitter reads the same messages
  back.
\<close>

section \<open>Abstract syntax of the ruleset\<close>

datatype nft_expr =
    Meta_load u32
  | Ct_state_load
  | Payload_load u32 u32
  | Cmp u32 "byte list"
  | Range "byte list" "byte list"
  | Bitwise_mask u32
  | Verdict u32

fun expr_name :: "nft_expr \<Rightarrow> string" where
  "expr_name (Meta_load _) = ''meta''"
| "expr_name Ct_state_load = ''ct''"
| "expr_name (Payload_load _ _) = ''payload''"
| "expr_name (Cmp _ _) = ''cmp''"
| "expr_name (Range _ _) = ''range''"
| "expr_name (Bitwise_mask _) = ''bitwise''"
| "expr_name (Verdict _) = ''immediate''"

definition enc_be32 :: "u16 \<Rightarrow> u32 \<Rightarrow> byte list" where
  "enc_be32 t v = enc_attr t (be32 v)"

definition enc_str :: "u16 \<Rightarrow> string \<Rightarrow> byte list" where
  "enc_str t s = enc_attr t (as_bytes s @ [0])"

definition enc_data :: "u16 \<Rightarrow> byte list \<Rightarrow> byte list" where
  "enc_data t v = enc_nested t (enc_attr NFTA_DATA_VALUE v)"

fun expr_body :: "nft_expr \<Rightarrow> byte list" where
  "expr_body (Meta_load key) = enc_be32 NFTA_META_KEY key @ enc_be32 NFTA_META_DREG NFT_REG_1"
| "expr_body Ct_state_load = enc_be32 NFTA_CT_KEY NFT_CT_STATE @ enc_be32 NFTA_CT_DREG NFT_REG_1"
| "expr_body (Payload_load off len) =
     enc_be32 NFTA_PAYLOAD_DREG NFT_REG_1 @
     enc_be32 NFTA_PAYLOAD_BASE NFT_PAYLOAD_TRANSPORT_HEADER @
     enc_be32 NFTA_PAYLOAD_OFFSET off @ enc_be32 NFTA_PAYLOAD_LEN len"
| "expr_body (Cmp op v) =
     enc_be32 NFTA_CMP_SREG NFT_REG_1 @ enc_be32 NFTA_CMP_OP op @ enc_data NFTA_CMP_DATA v"
| "expr_body (Range lo hi) =
     enc_be32 NFTA_RANGE_SREG NFT_REG_1 @ enc_be32 NFTA_RANGE_OP NFT_RANGE_EQ @
     enc_data NFTA_RANGE_FROM_DATA lo @ enc_data NFTA_RANGE_TO_DATA hi"
| "expr_body (Bitwise_mask m) =
     enc_be32 NFTA_BITWISE_SREG NFT_REG_1 @ enc_be32 NFTA_BITWISE_DREG NFT_REG_1 @
     enc_be32 NFTA_BITWISE_LEN 4 @
     enc_data NFTA_BITWISE_MASK (ne32 m) @ enc_data NFTA_BITWISE_XOR (ne32 0)"
| "expr_body (Verdict v) =
     enc_be32 NFTA_IMMEDIATE_DREG NFT_REG_VERDICT @
     enc_nested NFTA_IMMEDIATE_DATA (enc_nested NFTA_DATA_VERDICT (enc_be32 NFTA_VERDICT_CODE v))"

definition enc_expr :: "nft_expr \<Rightarrow> byte list" where
  "enc_expr e =
     enc_nested NFTA_LIST_ELEM
       (enc_str NFTA_EXPR_NAME (expr_name e) @ enc_nested NFTA_EXPR_DATA (expr_body e))"

text \<open>The builder method each constructor stands for.\<close>

fun build_expr :: "nft_expr \<Rightarrow> nlbuf \<Rightarrow> nlbuf" where
  "build_expr (Meta_load key) = meta_load key"
| "build_expr Ct_state_load = ct_state_load"
| "build_expr (Payload_load off len) = payload_load off len"
| "build_expr (Cmp op v) = cmp op v"
| "build_expr (Range lo hi) = range_expr lo hi"
| "build_expr (Bitwise_mask m) = bitwise_mask m"
| "build_expr (Verdict v) = verdict v"

text \<open>Register data is at most 16 bytes.\<close>

fun small_expr :: "nft_expr \<Rightarrow> bool" where
  "small_expr (Cmp _ v) \<longleftrightarrow> length v \<le> 16"
| "small_expr (Range lo hi) \<longleftrightarrow> length lo \<le> 16 \<and> length hi \<le> 16"
| "small_expr _ \<longleftrightarrow> True"

lemma align4_mono: "m \<le> n \<Longrightarrow> align4 m \<le> align4 n"
  by (simp add: align4_eq div_le_mono)

lemma align4_17: "align4 17 = 20"
  by (simp add: align4_def)

lemma align4_16_le: "n \<le> 16 \<Longrightarrow> align4 n \<le> 16"
  using align4_mono [of n 16] by (simp add: align4_def)

lemma align4_17_le: "n \<le> 16 \<Longrightarrow> align4 (Suc n) \<le> 20"
  using align4_mono [of "Suc n" 17] by (simp add: align4_17)

lemma length_enc_nested [simp]: "length (enc_nested t xs) = 4 + length xs"
  by (simp add: enc_nested_def nested_header_def)

lemma length_enc_be32 [simp]: "length (enc_be32 t v) = 8"
  by (simp add: enc_be32_def length_enc_attr)

lemma length_enc_data: "length (enc_data t v) = 8 + align4 (length v)"
  by (simp add: enc_data_def length_enc_attr)

lemma length_enc_str: "length (enc_str t s) = 4 + align4 (Suc (length s))"
  by (simp add: enc_str_def length_enc_attr)

lemma emits_put_be32 [emit_intros]: "emits (put_be32 t v) (enc_be32 t v)"
  unfolding put_be32_def [abs_def] enc_be32_def by (rule emits_put_attr) simp

lemma emits_put_str [emit_intros]: "length s < 60000 \<Longrightarrow> emits (put_str t s) (enc_str t s)"
  unfolding put_str_def [abs_def] enc_str_def by (rule emits_put_attr) simp

lemma emits_nested:
  assumes "emits f xs" and "length xs < 65532"
  shows "emits (\<lambda>b. case begin_nested t b of (at, b1) \<Rightarrow> end_nested at (f b1)) (enc_nested t xs)"
  unfolding enc_nested_def using nested.emits_block [OF assms(1)] assms(2) by simp

lemma emits_nested_at:
  "emits f xs \<Longrightarrow> length xs < 65532 \<Longrightarrow> 4 dvd length (nl_bytes b) \<Longrightarrow>
    (case begin_nested t b of (at, b1) \<Rightarrow> end_nested at (f b1)) =
      b\<lparr>nl_bytes := nl_bytes b @ enc_nested t xs\<rparr>"
  by (rule emits_apply [OF emits_nested])

lemma emits_data:
  assumes "length v \<le> 16"
  shows "emits (\<lambda>b. case begin_nested t b of (at, b1) \<Rightarrow> end_nested at (put_attr NFTA_DATA_VALUE v b1))
    (enc_data t v)"
  unfolding enc_data_def
proof (rule emits_nested)
  show "emits (put_attr NFTA_DATA_VALUE v) (enc_attr NFTA_DATA_VALUE v)"
    using assms by (intro emits_put_attr) simp
  show "length (enc_attr NFTA_DATA_VALUE v) < 65532"
    using align4_16_le [OF assms] by (simp add: length_enc_attr)
qed

lemma emits_expr:
  assumes f: "emits f xs" and n: "length name \<le> 16" and l: "length xs \<le> 200"
  shows "emits (expr name f)
    (enc_nested NFTA_LIST_ELEM (enc_str NFTA_EXPR_NAME name @ enc_nested NFTA_EXPR_DATA xs))"
proof -
  have s: "emits (put_str NFTA_EXPR_NAME name) (enc_str NFTA_EXPR_NAME name)"
    using n by (intro emits_put_str) simp
  have d: "emits (\<lambda>b. case begin_nested NFTA_EXPR_DATA b of (at, b1) \<Rightarrow> end_nested at (f b1))
      (enc_nested NFTA_EXPR_DATA xs)"
    using l by (intro emits_nested [OF f]) simp
  have "length (enc_str NFTA_EXPR_NAME name @ enc_nested NFTA_EXPR_DATA xs) < 65532"
    using l align4_17_le [OF n] by (simp add: length_enc_str)
  from emits_nested [OF emits_comp [OF s d] this, of NFTA_LIST_ELEM] show ?thesis
    by (simp add: expr_def [abs_def] Let_def case_prod_beta)
qed

lemma expr_body_length: "small_expr e \<Longrightarrow> length (expr_body e) \<le> 72"
proof (cases e)
  case (Cmp op v)
  assume "small_expr e"
  with Cmp have "align4 (length v) \<le> 16" by (intro align4_16_le) simp
  with Cmp show ?thesis by (simp add: length_enc_data)
next
  case (Range lo hi)
  assume "small_expr e"
  with Range have "align4 (length lo) \<le> 16" and "align4 (length hi) \<le> 16"
    using align4_16_le [of "length lo"] align4_16_le [of "length hi"] by simp_all
  with Range show ?thesis by (simp add: length_enc_data)
qed (simp_all add: length_enc_data)

lemma expr_name_length: "length (expr_name e) \<le> 16"
  by (cases e) simp_all

lemma emits_body:
  assumes "small_expr e"
  shows "\<exists>f. build_expr e = expr (expr_name e) f \<and> emits f (expr_body e)"
proof (cases e)
  case (Meta_load k)
  have "emits (\<lambda>b. put_be32 NFTA_META_DREG NFT_REG_1 (put_be32 NFTA_META_KEY k b)) (expr_body e)"
    unfolding Meta_load expr_body.simps by (intro emits_comp emits_put_be32)
  with Meta_load show ?thesis by (auto simp: meta_load_def Let_def)
next
  case Ct_state_load
  have "emits (\<lambda>b. put_be32 NFTA_CT_DREG NFT_REG_1 (put_be32 NFTA_CT_KEY NFT_CT_STATE b)) (expr_body e)"
    unfolding Ct_state_load expr_body.simps by (intro emits_comp emits_put_be32)
  with Ct_state_load show ?thesis by (auto simp: ct_state_load_def Let_def)
next
  case (Payload_load off len)
  let ?f = "\<lambda>b. put_be32 NFTA_PAYLOAD_LEN len (put_be32 NFTA_PAYLOAD_OFFSET off
    (put_be32 NFTA_PAYLOAD_BASE NFT_PAYLOAD_TRANSPORT_HEADER (put_be32 NFTA_PAYLOAD_DREG NFT_REG_1 b)))"
  have "emits ?f (((enc_be32 NFTA_PAYLOAD_DREG NFT_REG_1 @
      enc_be32 NFTA_PAYLOAD_BASE NFT_PAYLOAD_TRANSPORT_HEADER) @
      enc_be32 NFTA_PAYLOAD_OFFSET off) @ enc_be32 NFTA_PAYLOAD_LEN len)"
    by (intro emits_comp emits_put_be32)
  with Payload_load show ?thesis by (auto simp: payload_load_def Let_def)
next
  case (Cmp op v)
  have v: "length v \<le> 16" using assms Cmp by simp
  have "emits (\<lambda>b. case begin_nested NFTA_CMP_DATA
        (put_be32 NFTA_CMP_OP op (put_be32 NFTA_CMP_SREG NFT_REG_1 b)) of
        (at, b1) \<Rightarrow> end_nested at (put_attr NFTA_DATA_VALUE v b1))
      ((enc_be32 NFTA_CMP_SREG NFT_REG_1 @ enc_be32 NFTA_CMP_OP op) @ enc_data NFTA_CMP_DATA v)"
    by (rule emits_comp [OF emits_comp [OF emits_put_be32 emits_put_be32] emits_data [OF v]])
  with Cmp show ?thesis by (auto simp: cmp_def Let_def)
next
  case (Range lo hi)
  have lo: "length lo \<le> 16" and hi: "length hi \<le> 16" using assms Range by simp_all
  have "emits (\<lambda>b. case begin_nested NFTA_RANGE_TO_DATA
        (case begin_nested NFTA_RANGE_FROM_DATA
          (put_be32 NFTA_RANGE_OP NFT_RANGE_EQ (put_be32 NFTA_RANGE_SREG NFT_REG_1 b)) of
          (at, b1) \<Rightarrow> end_nested at (put_attr NFTA_DATA_VALUE lo b1)) of
        (at, b1) \<Rightarrow> end_nested at (put_attr NFTA_DATA_VALUE hi b1))
      (((enc_be32 NFTA_RANGE_SREG NFT_REG_1 @ enc_be32 NFTA_RANGE_OP NFT_RANGE_EQ) @
        enc_data NFTA_RANGE_FROM_DATA lo) @ enc_data NFTA_RANGE_TO_DATA hi)"
    by (rule emits_comp [OF emits_comp [OF emits_comp [OF emits_put_be32 emits_put_be32]
          emits_data [OF lo]] emits_data [OF hi]])
  with Range show ?thesis by (auto simp: range_expr_def Let_def case_prod_beta)
next
  case (Bitwise_mask m)
  have m: "length (ne32 m) \<le> 16" and z: "length (ne32 0) \<le> 16" by simp_all
  have "emits (\<lambda>b. case begin_nested NFTA_BITWISE_XOR
        (case begin_nested NFTA_BITWISE_MASK
          (put_be32 NFTA_BITWISE_LEN 4 (put_be32 NFTA_BITWISE_DREG NFT_REG_1
            (put_be32 NFTA_BITWISE_SREG NFT_REG_1 b))) of
          (at, b1) \<Rightarrow> end_nested at (put_attr NFTA_DATA_VALUE (ne32 m) b1)) of
        (at, b1) \<Rightarrow> end_nested at (put_attr NFTA_DATA_VALUE (ne32 0) b1))
      ((((enc_be32 NFTA_BITWISE_SREG NFT_REG_1 @ enc_be32 NFTA_BITWISE_DREG NFT_REG_1) @
        enc_be32 NFTA_BITWISE_LEN 4) @ enc_data NFTA_BITWISE_MASK (ne32 m)) @
        enc_data NFTA_BITWISE_XOR (ne32 0))"
    by (rule emits_comp [OF emits_comp [OF emits_comp [OF emits_comp [OF emits_put_be32
          emits_put_be32] emits_put_be32] emits_data [OF m]] emits_data [OF z]])
  with Bitwise_mask show ?thesis by (auto simp: bitwise_mask_def Let_def case_prod_beta)
next
  case (Verdict v)
  have "emits (\<lambda>b. case begin_nested NFTA_IMMEDIATE_DATA (put_be32 NFTA_IMMEDIATE_DREG NFT_REG_VERDICT b) of
        (at, b1) \<Rightarrow> end_nested at (case begin_nested NFTA_DATA_VERDICT b1 of
          (at', b2) \<Rightarrow> end_nested at' (put_be32 NFTA_VERDICT_CODE v b2)))
      (enc_be32 NFTA_IMMEDIATE_DREG NFT_REG_VERDICT @
        enc_nested NFTA_IMMEDIATE_DATA (enc_nested NFTA_DATA_VERDICT (enc_be32 NFTA_VERDICT_CODE v)))"
    by (rule emits_comp [OF emits_put_be32 emits_nested [OF emits_nested [OF emits_put_be32]]]) simp_all
  with Verdict show ?thesis by (auto simp: verdict_def Let_def case_prod_beta)
qed

lemma emits_build_expr:
  assumes "small_expr e"
  shows "emits (build_expr e) (enc_expr e)"
proof -
  obtain f where f: "build_expr e = expr (expr_name e) f" "emits f (expr_body e)"
    using emits_body [OF assms] by blast
  have "length (expr_body e) \<le> 200" using expr_body_length [OF assms] by simp
  from emits_expr [OF f(2) expr_name_length this] f(1) show ?thesis by (simp add: enc_expr_def)
qed

lemma length_enc_expr:
  assumes "small_expr e"
  shows "length (enc_expr e) \<le> 128"
  using expr_body_length [OF assms] align4_17_le [OF expr_name_length [of e]]
  by (simp add: enc_expr_def length_enc_str)

section \<open>Rules as expression lists\<close>

definition l4proto_exprs :: "u8 \<Rightarrow> nft_expr list" where
  "l4proto_exprs p = [Meta_load NFT_META_L4PROTO, Cmp NFT_CMP_EQ [p]]"

definition nfproto_exprs :: "u8 \<Rightarrow> nft_expr list" where
  "nfproto_exprs f = [Meta_load NFT_META_NFPROTO, Cmp NFT_CMP_EQ [f]]"

definition loopback_exprs :: "nft_expr list" where
  "loopback_exprs = [Meta_load NFT_META_IIFNAME, Cmp NFT_CMP_EQ lo_name, Verdict NF_ACCEPT]"

definition ct_exprs :: "u32 \<Rightarrow> u32 \<Rightarrow> nft_expr list" where
  "ct_exprs bits v = [Ct_state_load, Bitwise_mask bits, Cmp NFT_CMP_NEQ (ne32 0), Verdict v]"

definition icmp_exprs :: "u8 \<Rightarrow> u8 \<Rightarrow> u8 \<Rightarrow> nft_expr list" where
  "icmp_exprs family p ty =
     nfproto_exprs family @ l4proto_exprs p @
     [Payload_load 0 1, Cmp NFT_CMP_EQ [ty], Verdict NF_ACCEPT]"

definition port_exprs :: "rule \<Rightarrow> nft_expr list" where
  "port_exprs r =
     l4proto_exprs (r_protocol r) @
     [Payload_load 2 2,
      if r_first_port r = r_last_port r then Cmp NFT_CMP_EQ (be16 (r_first_port r))
      else Range (be16 (r_first_port r)) (be16 (r_last_port r)),
      Verdict NF_ACCEPT]"

text \<open>The ruleset, in the order the kernel evaluates it.\<close>

definition ruleset :: "rule list \<Rightarrow> nft_expr list list" where
  "ruleset rules =
     [loopback_exprs,
      ct_exprs (CT_STATE_ESTABLISHED OR CT_STATE_RELATED) NF_ACCEPT,
      ct_exprs CT_STATE_INVALID NF_DROP] @
     map (icmp_exprs NFPROTO_IPV6 IPPROTO_ICMPV6) ICMPV6_ALLOWED_TYPES @
     [icmp_exprs NFPROTO_IPV4 IPPROTO_ICMP ICMPV4_DEST_UNREACH] @
     map port_exprs rules"

definition good_rule :: "nft_expr list \<Rightarrow> bool" where
  "good_rule es \<longleftrightarrow> length es \<le> 10 \<and> list_all small_expr es"

lemmas rule_shape_defs = loopback_exprs_def ct_exprs_def icmp_exprs_def port_exprs_def
  l4proto_exprs_def nfproto_exprs_def

lemma length_lo_name [simp]: "length lo_name = 16"
  by (simp add: lo_name_def IFNAMSIZ_def as_bytes_def overwrite_def)

lemma ruleset_good: "es \<in> set (ruleset rules) \<Longrightarrow> good_rule es"
  by (auto simp: ruleset_def rule_shape_defs good_rule_def)

lemma length_ruleset [simp]: "length (ruleset rules) = 10 + length rules"
  by (simp add: ruleset_def ICMPV6_ALLOWED_TYPES_def)

text \<open>Each closure of \<open>build_batch\<close> writes its rule's expressions one after the other.\<close>

lemma loopback_rule_exprs: "loopback_rule = fold build_expr loopback_exprs"
  by (simp add: fun_eq_iff loopback_rule_def loopback_exprs_def)

lemma ct_rule_exprs:
  "established_rule = fold build_expr (ct_exprs (CT_STATE_ESTABLISHED OR CT_STATE_RELATED) NF_ACCEPT)"
  "invalid_rule = fold build_expr (ct_exprs CT_STATE_INVALID NF_DROP)"
  by (simp_all add: fun_eq_iff established_rule_def invalid_rule_def ct_exprs_def)

lemma icmp_rule_exprs:
  "icmpv6_rule ty = fold build_expr (icmp_exprs NFPROTO_IPV6 IPPROTO_ICMPV6 ty)"
  "icmpv4_rule = fold build_expr (icmp_exprs NFPROTO_IPV4 IPPROTO_ICMP ICMPV4_DEST_UNREACH)"
  by (simp_all add: fun_eq_iff icmpv6_rule_def icmpv4_rule_def icmp_exprs_def nfproto_exprs_def
    l4proto_exprs_def nfproto_is_def l4proto_is_def)

lemma port_rule_exprs: "port_rule r = fold build_expr (port_exprs r)"
  by (simp add: fun_eq_iff port_rule_def port_exprs_def l4proto_exprs_def l4proto_is_def Let_def)

lemmas closure_exprs = loopback_rule_exprs ct_rule_exprs icmp_rule_exprs port_rule_exprs

definition enc_exprs :: "nft_expr list \<Rightarrow> byte list" where
  "enc_exprs es = concat (map enc_expr es)"

lemma emits_exprs: "list_all small_expr es \<Longrightarrow> emits (fold build_expr es) (enc_exprs es)"
proof (induction es)
  case Nil
  show ?case using emits_id by (simp add: enc_exprs_def id_def)
next
  case (Cons e es)
  then have "emits (\<lambda>b. fold build_expr es (build_expr e b)) (enc_expr e @ enc_exprs es)"
    by (intro emits_comp emits_build_expr) simp_all
  then show ?case by (simp add: enc_exprs_def comp_def)
qed

lemma length_enc_exprs: "list_all small_expr es \<Longrightarrow> length (enc_exprs es) \<le> 128 * length es"
proof (induction es)
  case (Cons e es)
  then show ?case using length_enc_expr [of e] by (simp add: enc_exprs_def)
qed (simp add: enc_exprs_def)

section \<open>Messages of the batch\<close>

definition CREATE_FLAGS :: u16 where
  "CREATE_FLAGS = NLM_F_REQUEST OR NLM_F_ACK OR NLM_F_CREATE OR NLM_F_EXCL"

definition APPEND_FLAGS :: u16 where
  "APPEND_FLAGS = NLM_F_REQUEST OR NLM_F_ACK OR NLM_F_CREATE OR NLM_F_APPEND"

definition nfgenmsg :: "u8 \<Rightarrow> u16 \<Rightarrow> byte list" where
  "nfgenmsg family res_id = [family, 0] @ be16 res_id"

definition enc_edge :: "u16 \<Rightarrow> u32 \<Rightarrow> byte list" where
  "enc_edge ty seq = enc_msg ty NLM_F_REQUEST seq (nfgenmsg 0 NFNL_SUBSYS_NFTABLES)"

definition enc_table :: "features \<Rightarrow> u32 \<Rightarrow> byte list" where
  "enc_table ft seq =
     enc_msg (nft_msg NFT_MSG_NEWTABLE) CREATE_FLAGS seq
       (nfgenmsg (TABLE_FAMILY ft) 0 @ enc_str NFTA_TABLE_NAME TABLE_NAME)"

definition enc_chain :: "features \<Rightarrow> u32 \<Rightarrow> byte list" where
  "enc_chain ft seq =
     enc_msg (nft_msg NFT_MSG_NEWCHAIN) CREATE_FLAGS seq
       (nfgenmsg (TABLE_FAMILY ft) 0 @ enc_str NFTA_CHAIN_TABLE TABLE_NAME @
        enc_str NFTA_CHAIN_NAME CHAIN_NAME @
        enc_nested NFTA_CHAIN_HOOK
          (enc_be32 NFTA_HOOK_HOOKNUM NF_INET_LOCAL_IN @
           enc_be32 NFTA_HOOK_PRIORITY FILTER_PRIORITY) @
        enc_be32 NFTA_CHAIN_POLICY NF_DROP @ enc_str NFTA_CHAIN_TYPE ''filter'')"

definition enc_rule :: "features \<Rightarrow> u32 \<Rightarrow> nft_expr list \<Rightarrow> byte list" where
  "enc_rule ft seq es =
     enc_msg (nft_msg NFT_MSG_NEWRULE) APPEND_FLAGS seq
       (nfgenmsg (TABLE_FAMILY ft) 0 @ enc_str NFTA_RULE_TABLE TABLE_NAME @
        enc_str NFTA_RULE_CHAIN CHAIN_NAME @
        enc_nested NFTA_RULE_EXPRESSIONS (enc_exprs es))"

definition enc_rules :: "features \<Rightarrow> nat \<Rightarrow> nft_expr list list \<Rightarrow> byte list list" where
  "enc_rules ft n ess = map (\<lambda>(i, es). enc_rule ft (word_of_nat i) es) (enumerate n ess)"

text \<open>The whole transaction as a list of messages, numbered from 1.\<close>

definition batch_messages :: "features \<Rightarrow> rule list \<Rightarrow> byte list list" where
  "batch_messages ft rules =
     [enc_edge NFNL_MSG_BATCH_BEGIN 1, enc_table ft 2, enc_chain ft 3] @
     enc_rules ft 4 (ruleset rules) @
     [enc_edge NFNL_MSG_BATCH_END (word_of_nat (length rules + 14))]"

lemma emits_msg:
  assumes "emits f xs" and "length xs < 2 ^ 16"
  shows "emits (\<lambda>b. case begin_msg ty flags seq b of (at, b1) \<Rightarrow> end_msg at (f b1))
    (enc_msg ty flags seq xs)"
  using msg.emits_block [OF assms(1), of "(ty, flags, seq)"] assms(2)
  by (simp add: enc_msg_def)

lemma emits_nfgenmsg: "emits (put_nfgenmsg family res_id) (nfgenmsg family res_id)"
  unfolding nfgenmsg_def by (rule emits_put_nfgenmsg)

lemma emits_begin:
  "emits (\<lambda>b. snd (begin_batch (seq, b))) (enc_edge NFNL_MSG_BATCH_BEGIN (tick seq))"
  using emits_msg [OF emits_nfgenmsg, of 0 NFNL_SUBSYS_NFTABLES NFNL_MSG_BATCH_BEGIN NLM_F_REQUEST "tick seq"]
  by (simp add: begin_batch_def enc_edge_def nfgenmsg_def Let_def case_prod_beta)

lemma names_short [simp]:
  "length (enc_str t TABLE_NAME) = 20" "length (enc_str t CHAIN_NAME) = 12"
  "length (enc_str t ''filter'') = 12"
  by (simp_all add: length_enc_str TABLE_NAME_def CHAIN_NAME_def align4_def)

lemma length_nfgenmsg [simp]: "length (nfgenmsg f r) = 4"
  by (simp add: nfgenmsg_def)

lemma emits_name:
  "emits (put_str t TABLE_NAME) (enc_str t TABLE_NAME)"
  "emits (put_str t CHAIN_NAME) (enc_str t CHAIN_NAME)"
  "emits (put_str t ''filter'') (enc_str t ''filter'')"
  by (simp_all add: emits_put_str TABLE_NAME_def CHAIN_NAME_def)

lemma emits_table: "emits (\<lambda>b. snd (add_table ft (seq, b))) (enc_table ft (tick seq))"
  using emits_msg [OF emits_comp [OF emits_nfgenmsg emits_name(1)], of "TABLE_FAMILY ft" 0
      NFTA_TABLE_NAME "nft_msg NFT_MSG_NEWTABLE" CREATE_FLAGS "tick seq"]
  by (simp add: add_table_def enc_table_def CREATE_FLAGS_def Let_def case_prod_beta)

lemma emits_chain: "emits (\<lambda>b. snd (add_chain ft (seq, b))) (enc_chain ft (tick seq))"
proof -
  have h: "emits (\<lambda>b. case begin_nested NFTA_CHAIN_HOOK b of (at, b1) \<Rightarrow> end_nested at
        (put_be32 NFTA_HOOK_PRIORITY FILTER_PRIORITY (put_be32 NFTA_HOOK_HOOKNUM NF_INET_LOCAL_IN b1)))
      (enc_nested NFTA_CHAIN_HOOK (enc_be32 NFTA_HOOK_HOOKNUM NF_INET_LOCAL_IN @
           enc_be32 NFTA_HOOK_PRIORITY FILTER_PRIORITY))"
    by (intro emits_nested emits_comp emits_put_be32) simp
  note body = emits_comp [OF emits_comp [OF emits_comp [OF emits_comp [OF emits_comp
        [OF emits_nfgenmsg emits_name(1)] emits_name(2)] h] emits_put_be32] emits_name(3)]
  from emits_msg [OF body, of "TABLE_FAMILY ft" 0 NFTA_CHAIN_TABLE NFTA_CHAIN_NAME
      NFTA_CHAIN_POLICY NF_DROP NFTA_CHAIN_TYPE "nft_msg NFT_MSG_NEWCHAIN" CREATE_FLAGS "tick seq"]
  show ?thesis
    by (simp add: add_chain_def enc_chain_def CREATE_FLAGS_def Let_def case_prod_beta)
qed

lemma emits_rule:
  assumes "good_rule es"
  shows "emits (rule_msg ft seq (fold build_expr es)) (enc_rule ft seq es)"
proof -
  have small: "list_all small_expr es" and "length es \<le> 10"
    using assms by (simp_all add: good_rule_def)
  then have l: "length (enc_exprs es) \<le> 1280" using length_enc_exprs [of es] by simp
  have n: "emits (\<lambda>b. case begin_nested NFTA_RULE_EXPRESSIONS b of (at, b1) \<Rightarrow>
      end_nested at (fold build_expr es b1)) (enc_nested NFTA_RULE_EXPRESSIONS (enc_exprs es))"
    using l by (intro emits_nested emits_exprs small) simp
  note body = emits_comp [OF emits_comp [OF emits_comp [OF emits_nfgenmsg emits_name(1)] emits_name(2)] n]
  from emits_msg [OF body, of "TABLE_FAMILY ft" 0 NFTA_RULE_TABLE NFTA_RULE_CHAIN
      "nft_msg NFT_MSG_NEWRULE" APPEND_FLAGS seq] l
  show ?thesis
    by (simp add: rule_msg_def [abs_def] enc_rule_def APPEND_FLAGS_def Let_def case_prod_beta)
qed

section \<open>The transaction as a whole\<close>

lemma unat_word_of_nat32: "n < 2 ^ 32 \<Longrightarrow> unat (word_of_nat n :: u32) = n"
  by (simp add: unat_of_nat take_bit_nat_eq_self)

lemma tick_nat: "n + 1 < 2 ^ 32 \<Longrightarrow> tick (word_of_nat n) = word_of_nat (n + 1)"
proof -
  assume n: "n + 1 < 2 ^ 32"
  have "unat (word_of_nat n :: u32) = n" using n by (simp add: unat_of_nat take_bit_nat_eq_self)
  then have "(word_of_nat n :: u32) \<noteq> 0xFFFFFFFF" using n by auto
  then show ?thesis by (simp add: tick_def)
qed

lemma add_rules:
  assumes "4 dvd length (nl_bytes b)" and "n + length ess < 2 ^ 32" and "\<forall>es\<in>set ess. good_rule es"
  shows "foldl (add_rule ft) (word_of_nat n, b) (map (fold build_expr) ess) =
    (word_of_nat (n + length ess),
     b\<lparr>nl_bytes := nl_bytes b @ concat (enc_rules ft (Suc n) ess)\<rparr>)"
  using assms
proof (induction ess arbitrary: n b)
  case Nil
  then show ?case by (simp add: enc_rules_def)
next
  case (Cons es ess)
  let ?m = "enc_rule ft (word_of_nat (Suc n)) es"
  have r: "emits (rule_msg ft (word_of_nat (Suc n)) (fold build_expr es)) ?m"
    using Cons.prems(3) by (intro emits_rule) simp
  have t: "tick (word_of_nat n) = word_of_nat (Suc n)"
    using Cons.prems(2) by (subst tick_nat) simp_all
  have "4 dvd length (nl_bytes (b\<lparr>nl_bytes := nl_bytes b @ ?m\<rparr>))"
    using Cons.prems(1) emits_aligned [OF r] by simp
  moreover have "Suc n + length ess < 2 ^ 32" using Cons.prems(2) by simp
  ultimately have "foldl (add_rule ft) (word_of_nat (Suc n), b\<lparr>nl_bytes := nl_bytes b @ ?m\<rparr>)
      (map (fold build_expr) ess) =
    (word_of_nat (Suc n + length ess), b\<lparr>nl_bytes := nl_bytes b @ ?m @
      concat (enc_rules ft (Suc (Suc n)) ess)\<rparr>)"
    using Cons.IH [of "b\<lparr>nl_bytes := nl_bytes b @ ?m\<rparr>" "Suc n"] Cons.prems(3) by simp
  moreover have "add_rule ft (word_of_nat n, b) (fold build_expr es) =
      (word_of_nat (Suc n), b\<lparr>nl_bytes := nl_bytes b @ ?m\<rparr>)"
    using emits_apply [OF r Cons.prems(1)] t by (simp add: add_rule_def Let_def del: of_nat_Suc)
  ultimately show ?case by (simp add: enc_rules_def del: of_nat_Suc of_nat_add)
qed

lemma enc_rules_aligned:
  "\<forall>es\<in>set ess. good_rule es \<Longrightarrow> 4 dvd length (concat (enc_rules ft n ess))"
proof (induction ess arbitrary: n)
  case (Cons es ess)
  then show ?case
    using emits_aligned [OF emits_rule [of es ft "word_of_nat n"]] by (simp add: enc_rules_def)
qed (simp add: enc_rules_def)

lemma fst_steps [simp]:
  "fst (begin_batch (s, b)) = tick s" "fst (add_table ft (s, b)) = tick s"
  "fst (add_chain ft (s, b)) = tick s"
  by (simp_all add: begin_batch_def add_table_def add_chain_def Let_def case_prod_beta)

lemma rules_phase:
  "foldl (\<lambda>st r. add_rule ft st (port_rule r))
     (add_rule ft
       (foldl (\<lambda>st t. add_rule ft st (icmpv6_rule t))
         (add_rule ft (add_rule ft (add_rule ft st loopback_rule) established_rule) invalid_rule)
         ICMPV6_ALLOWED_TYPES)
       icmpv4_rule) rules =
   foldl (add_rule ft) st (map (fold build_expr) (ruleset rules))"
  by (simp add: foldl_map closure_exprs ruleset_def)

lemma build_batch_bytes:
  assumes "length rules + 14 < 2 ^ 32"
  shows "build_batch ft rules =
    Inr \<lparr>b_bytes = concat (batch_messages ft rules), b_ackable = length rules + 12\<rparr>"
proof -
  have ticks: "tick 0 = 1" "tick 1 = 2" "tick 2 = (3::u32)" by (simp_all add: tick_def)
  let ?b1 = "\<lparr>nl_bytes = enc_edge NFNL_MSG_BATCH_BEGIN 1, nl_overflowed = False\<rparr>"
  let ?b2 = "\<lparr>nl_bytes = nl_bytes ?b1 @ enc_table ft 2, nl_overflowed = False\<rparr>"
  let ?b3 = "\<lparr>nl_bytes = nl_bytes ?b2 @ enc_chain ft 3, nl_overflowed = False\<rparr>"
  have al: "4 dvd length (nl_bytes ?b1)" "4 dvd length (nl_bytes ?b2)" "4 dvd length (nl_bytes ?b3)"
    using emits_aligned [OF emits_begin [of 0]] emits_aligned [OF emits_table [of ft 1]]
      emits_aligned [OF emits_chain [of ft 2]] by (simp_all add: ticks)
  have s1: "begin_batch (0, nl_default) = (1, ?b1)"
    using emits_apply [OF emits_begin, of nl_default 0]
    by (intro prod_eqI) (simp_all add: ticks nl_default_def)
  have s2: "add_table ft (1, ?b1) = (2, ?b2)"
    using emits_apply [OF emits_table al(1), of ft 1] by (intro prod_eqI) (simp_all add: ticks)
  have s3: "add_chain ft (2, ?b2) = (word_of_nat 3, ?b3)"
    using emits_apply [OF emits_chain al(2), of ft 2] by (intro prod_eqI) (simp_all add: ticks)
  let ?b4 = "?b3\<lparr>nl_bytes := nl_bytes ?b3 @ concat (enc_rules ft 4 (ruleset rules))\<rparr>"
  have "4 dvd length (concat (enc_rules ft 4 (ruleset rules)))"
    using enc_rules_aligned ruleset_good by blast
  with al(3) have "4 dvd length (nl_bytes ?b3) + length (concat (enc_rules ft 4 (ruleset rules)))"
    by (rule dvd_add)
  then have al4: "4 dvd length (nl_bytes ?b4)"
    by (simp only: nlbuf.select_convs nlbuf.update_convs length_append)
  have rs: "foldl (add_rule ft) (word_of_nat 3, ?b3) (map (fold build_expr) (ruleset rules)) =
      (word_of_nat (length rules + 13), ?b4)"
  proof -
    have n: "3 + length (ruleset rules) = length rules + 13" and "Suc 3 = 4" by simp_all
    have l: "3 + length (ruleset rules) < 2 ^ 32" and g: "\<forall>es\<in>set (ruleset rules). good_rule es"
      using assms ruleset_good by simp_all
    show ?thesis using add_rules [OF al(3) l g, of ft] unfolding n \<open>Suc 3 = 4\<close> .
  qed
  have t: "tick (word_of_nat (length rules + 13)) = word_of_nat (length rules + 14)"
    using assms by (subst tick_nat) simp_all
  have e: "end_msg at (put_nfgenmsg 0 NFNL_SUBSYS_NFTABLES b') =
      ?b4\<lparr>nl_bytes := nl_bytes ?b4 @ enc_edge NFNL_MSG_BATCH_END (word_of_nat (length rules + 14))\<rparr>"
    if "begin_msg NFNL_MSG_BATCH_END NLM_F_REQUEST (word_of_nat (length rules + 14)) ?b4 = (at, b')" for at b'
    using emits_apply [OF emits_msg [OF emits_nfgenmsg] al4, of 0 NFNL_SUBSYS_NFTABLES
        NFNL_MSG_BATCH_END NLM_F_REQUEST "word_of_nat (length rules + 14)"] that
    by (simp add: enc_edge_def)
  have u: "unat (word_of_nat (length rules + 14) :: u32) = length rules + 14"
    using assms by (rule unat_word_of_nat32)
  obtain at b' where bb: "begin_msg NFNL_MSG_BATCH_END NLM_F_REQUEST (word_of_nat (length rules + 14)) ?b4 = (at, b')"
    by (cases "begin_msg NFNL_MSG_BATCH_END NLM_F_REQUEST (word_of_nat (length rules + 14)) ?b4")
  show ?thesis
    unfolding build_batch_def Let_def rules_phase s1 s2 s3 rs
    by (simp only: prod.case t bb e [OF bb] u finish_def)
      (simp add: batch_messages_def)
qed

section \<open>Reading the transaction back\<close>

definition msg_flags :: "byte list \<Rightarrow> u16" where
  "msg_flags m = of_ne16 (take 2 (drop 6 m))"

definition msg_seq :: "byte list \<Rightarrow> u32" where
  "msg_seq m = of_ne32 (take 4 (drop 8 m))"

definition wants_ack :: "byte list \<Rightarrow> bool" where
  "wants_ack m \<longleftrightarrow> msg_flags m AND NLM_F_ACK \<noteq> 0"

definition framed :: "byte list \<Rightarrow> bool" where
  "framed m \<longleftrightarrow>
     (\<exists>ty flags seq body. m = enc_msg ty flags seq body \<and> 4 dvd length body \<and> length body < 2 ^ 16)"

lemma drop_exact: "n = length a \<Longrightarrow> drop n (a @ b) = b"
  by simp

lemma take_exact: "n = length a \<Longrightarrow> take n (a @ b) = a"
  by simp

lemma enc_msg_fields [simp]:
  "msg_flags (enc_msg ty flags seq body) = flags"
  "msg_seq (enc_msg ty flags seq body) = seq"
proof -
  let ?l = "ne32 (word_of_nat (16 + length body))"
  have "drop 6 (enc_msg ty flags seq body) = ne16 flags @ ne32 seq @ ne32 0 @ body"
    using drop_exact [of 6 "?l @ ne16 ty"] by (simp add: enc_msg_def)
  then show "msg_flags (enc_msg ty flags seq body) = flags"
    by (simp add: msg_flags_def take_exact)
  have "drop 8 (enc_msg ty flags seq body) = ne32 seq @ ne32 0 @ body"
    using drop_exact [of 8 "?l @ ne16 ty @ ne16 flags"] by (simp add: enc_msg_def)
  then show "msg_seq (enc_msg ty flags seq body) = seq"
    by (simp add: msg_seq_def take_exact)
qed

lemma length_enc_msg [simp]: "length (enc_msg ty flags seq body) = 16 + length body"
  by (simp add: enc_msg_def)

lemma split_message_framed:
  assumes "framed m"
  shows "split_message (m @ rest) = Inr (Some (m, rest))"
proof -
  obtain ty flags seq body where m: "m = enc_msg ty flags seq body"
    and al: "4 dvd length body" and l: "length body < 2 ^ 16"
    using assms by (auto simp: framed_def)
  let ?n = "16 + length body"
  have len: "length m = ?n" by (simp add: m)
  have g: "get_range 0 4 (m @ rest) = Some (ne32 (word_of_nat ?n))"
    by (simp add: m enc_msg_def get_range_def)
  have u: "unat (word_of_nat ?n :: u32) = ?n"
    using l by (intro unat_word_of_nat32) simp
  have "(?n + 3) mod 4 = 3" using al by (elim dvdE) simp
  then have a: "?n + (4 - 1) - (?n + (4 - 1)) mod 4 = ?n" by simp
  have s: "?n + (4 - 1) < 2 ^ 64" using l by simp
  have t: "take ?n (m @ rest) = m" and d: "drop ?n (m @ rest) = rest"
    using len by (simp_all add: m)
  show ?thesis
    unfolding split_message_def NLMSG_HDR_LEN_def NLMSG_ALIGNTO_def g option.case of_ne32_ne32 u Let_def a
    using s t d by (simp add: len)
qed

lemma framed_nonempty: "framed m \<Longrightarrow> m \<noteq> []"
  by (auto simp: framed_def dest: arg_cong [where f = length])

lemma messages_concat: "\<forall>m\<in>set ms. framed m \<Longrightarrow> messages (concat ms) = Inr ms"
proof (induction ms)
  case Nil
  show ?case by (simp add: messages.simps [of "[]"] split_message_def nums)
next
  case (Cons m ms)
  then show ?case
    by (simp add: messages.simps [of "m @ concat ms"] split_message_framed)
qed

lemma framed_enc_msg: "4 dvd length body \<Longrightarrow> length body < 2 ^ 16 \<Longrightarrow> framed (enc_msg ty flags seq body)"
  by (auto simp: framed_def)

lemma framed_rule:
  assumes "good_rule es"
  shows "framed (enc_rule ft seq es)"
proof -
  have "length (enc_exprs es) \<le> 1280"
    using assms length_enc_exprs [of es] by (simp add: good_rule_def)
  moreover have "4 dvd length (enc_exprs es)"
    using assms emits_aligned [OF emits_exprs] by (simp add: good_rule_def)
  ultimately show ?thesis
    unfolding enc_rule_def by (intro framed_enc_msg) simp_all
qed

lemma framed_edges: "framed (enc_edge ty seq)" "framed (enc_table ft seq)" "framed (enc_chain ft seq)"
  unfolding enc_edge_def enc_table_def enc_chain_def by (intro framed_enc_msg; simp)+

lemma set_enc_rules: "m \<in> set (enc_rules ft n ess) \<Longrightarrow> \<exists>i. \<exists>es\<in>set ess. m = enc_rule ft (word_of_nat i) es"
  by (auto simp: enc_rules_def enumerate_eq_zip dest: set_zip_rightD)

lemma framed_batch: "m \<in> set (batch_messages ft rules) \<Longrightarrow> framed m"
  using set_enc_rules [of m ft 4 "ruleset rules"] ruleset_good
  by (auto simp: batch_messages_def framed_edges intro: framed_rule)

lemma ack_flags:
  "wants_ack (enc_rule ft seq es)" "wants_ack (enc_table ft seq)" "wants_ack (enc_chain ft seq)"
  "\<not> wants_ack (enc_edge ty seq)"
  by (simp_all add: wants_ack_def enc_rule_def enc_table_def enc_chain_def enc_edge_def
    CREATE_FLAGS_def APPEND_FLAGS_def nums)

lemma acks_wanted: "length (filter wants_ack (batch_messages ft rules)) = length rules + 12"
proof -
  have "filter wants_ack (enc_rules ft 4 (ruleset rules)) = enc_rules ft 4 (ruleset rules)"
    using set_enc_rules ack_flags(1) by (fastforce intro: filter_True)
  moreover have "length (enc_rules ft 4 (ruleset rules)) = length rules + 10"
    by (simp add: enc_rules_def)
  ultimately show ?thesis by (simp add: batch_messages_def ack_flags)
qed

lemma seqs_rules: "map msg_seq (enc_rules ft n ess) = map word_of_nat [n..<n + length ess]"
  by (induction ess arbitrary: n) (simp_all add: enc_rules_def enc_rule_def upt_rec)

lemma seqs_batch:
  "map msg_seq (batch_messages ft rules) = map word_of_nat [1..<length rules + 15]"
proof -
  have "[1..<4 + length (ruleset rules)] = [1..<4] @ [4..<4 + length (ruleset rules)]"
    by (rule upt_add_eq_append) simp
  moreover have "[1..<Suc (length rules + 14)] = [1..<length rules + 14] @ [length rules + 14]"
    by (rule upt_Suc_append) simp
  moreover have "[1..<4] = [1, 2, 3 :: nat]" by (simp add: upt_rec)
  moreover have "4 + length (ruleset rules) = length rules + 14"
    and "Suc (length rules + 14) = length rules + 15" by simp_all
  ultimately have "[1..<length rules + 15] =
      [1, 2, 3] @ [4..<4 + length (ruleset rules)] @ [length rules + 14]"
    by (metis append_assoc)
  then show ?thesis
    by (simp add: batch_messages_def seqs_rules enc_edge_def enc_table_def enc_chain_def)
qed

text \<open>
  C12. For every list of rules the sequence counter can number, \<open>build_batch\<close> succeeds: no
  length field overflows, the reader's own \<open>split_message\<close> finds exactly the messages of the
  abstract ruleset in the bytes, they are numbered 1, 2, 3 and so on without a gap, and the number of acknowledgements
  \<open>send_batch\<close> will wait for is the number of messages that request one.
\<close>

theorem build_batch_accounting:
  assumes "length rules + 14 < 2 ^ 32"
  shows "\<exists>b. build_batch ft rules = Inr b \<and>
    messages (b_bytes b) = Inr (batch_messages ft rules) \<and>
    b_ackable b = length (filter wants_ack (batch_messages ft rules)) \<and>
    map msg_seq (batch_messages ft rules) = map word_of_nat [1..<length rules + 15]"
  using build_batch_bytes [OF assms, of ft] messages_concat framed_batch
  by (simp add: acks_wanted seqs_batch)

end
