(* ===== verification/FirewallPolicy.thy ===== *)
theory FirewallPolicy
  imports FirewallBatch
begin

text \<open>
  What the ruleset of \<open>guest/src/firewall.rs\<close> lets in. The evaluation of one \<open>nf_tables\<close> expression is
  the kernel's, so it is a parameter \<open>k\<close>; \<open>nft_semantics k\<close> states the documented behaviour
  of the seven expressions used (netfilter's nft manual: register loads, comparison,
  range, bitwise AND, immediate verdict; a rule ends at the first expression that does not match, a chain at the
  first rule with a verdict, and a base chain without a verdict applies its policy).
\<close>

section \<open>Evaluating a chain\<close>

text \<open>The parts of an inbound packet the expressions read.\<close>

record packet =
  pk_iifname :: "byte list"
  pk_nfproto :: u8
  pk_l4proto :: u8
  pk_ct_state :: u32
  pk_transport :: "byte list"

datatype step = Continue "byte list" | Break | Decide u32

type_synonym kernel = "packet \<Rightarrow> byte list \<Rightarrow> nft_expr \<Rightarrow> step"

definition nft_semantics :: "kernel \<Rightarrow> bool" where
  "nft_semantics k \<longleftrightarrow>
     (\<forall>p r. k p r (Meta_load NFT_META_IIFNAME) = Continue (take IFNAMSIZ (pk_iifname p))) \<and>
     (\<forall>p r. k p r (Meta_load NFT_META_NFPROTO) = Continue [pk_nfproto p]) \<and>
     (\<forall>p r. k p r (Meta_load NFT_META_L4PROTO) = Continue [pk_l4proto p]) \<and>
     (\<forall>p r. k p r Ct_state_load = Continue (ne32 (pk_ct_state p))) \<and>
     (\<forall>p r off len. k p r (Payload_load off len) =
        (case get_range (unat off) (unat off + unat len) (pk_transport p) of
           None \<Rightarrow> Break | Some v \<Rightarrow> Continue v)) \<and>
     (\<forall>p r v. k p r (Cmp NFT_CMP_EQ v) = (if r = v then Continue r else Break)) \<and>
     (\<forall>p r v. k p r (Cmp NFT_CMP_NEQ v) = (if r = v then Break else Continue r)) \<and>
     (\<forall>p r lo hi. k p r (Range lo hi) = (if lo \<le> r \<and> r \<le> hi then Continue r else Break)) \<and>
     (\<forall>p w m. k p (ne32 w) (Bitwise_mask m) = Continue (ne32 (w AND m))) \<and>
     (\<forall>p r v. k p r (Verdict v) = Decide v)"

fun run_rule :: "kernel \<Rightarrow> packet \<Rightarrow> byte list \<Rightarrow> nft_expr list \<Rightarrow> u32 option" where
  "run_rule k p r [] = None"
| "run_rule k p r (e # es) =
     (case k p r e of Continue r' \<Rightarrow> run_rule k p r' es | Break \<Rightarrow> None | Decide v \<Rightarrow> Some v)"

fun run_chain :: "kernel \<Rightarrow> u32 \<Rightarrow> packet \<Rightarrow> nft_expr list list \<Rightarrow> u32" where
  "run_chain k policy p [] = policy"
| "run_chain k policy p (es # ess) =
     (case run_rule k p [] es of Some v \<Rightarrow> v | None \<Rightarrow> run_chain k policy p ess)"

definition input_verdict :: "kernel \<Rightarrow> rule list \<Rightarrow> packet \<Rightarrow> u32" where
  "input_verdict k rules p = run_chain k NF_DROP p (ruleset rules)"

text \<open>The documented behaviour is consistent: this evaluator has it.\<close>

fun nft_ref :: kernel where
  "nft_ref p r (Meta_load key) =
     (if key = NFT_META_IIFNAME then Continue (take IFNAMSIZ (pk_iifname p))
      else if key = NFT_META_NFPROTO then Continue [pk_nfproto p]
      else if key = NFT_META_L4PROTO then Continue [pk_l4proto p]
      else Break)"
| "nft_ref p r Ct_state_load = Continue (ne32 (pk_ct_state p))"
| "nft_ref p r (Payload_load off len) =
     (case get_range (unat off) (unat off + unat len) (pk_transport p) of
        None \<Rightarrow> Break | Some v \<Rightarrow> Continue v)"
| "nft_ref p r (Cmp op v) =
     (if (r = v) = (op = NFT_CMP_EQ) then Continue r else Break)"
| "nft_ref p r (Range lo hi) = (if lo \<le> r \<and> r \<le> hi then Continue r else Break)"
| "nft_ref p r (Bitwise_mask m) = Continue (ne32 (of_ne32 r AND m))"
| "nft_ref p r (Verdict v) = Decide v"

lemma nft_ref_semantics: "nft_semantics nft_ref"
  by (simp add: nft_semantics_def nums)

section \<open>The policy\<close>

definition of_be16 :: "byte list \<Rightarrow> u16" where
  "of_be16 xs = of_ne16 (rev xs)"

definition has_icmp_type :: "u8 \<Rightarrow> packet \<Rightarrow> bool" where
  "has_icmp_type t p \<longleftrightarrow> (case pk_transport p of [] \<Rightarrow> False | x # _ \<Rightarrow> x = t)"

text \<open>The destination port is bytes 2 and 3 of a TCP or UDP header, in network order.\<close>

definition dst_port :: "packet \<Rightarrow> u16 option" where
  "dst_port p = map_option of_be16 (get_range 2 4 (pk_transport p))"

definition rule_admits :: "rule \<Rightarrow> packet \<Rightarrow> bool" where
  "rule_admits r p \<longleftrightarrow>
     pk_l4proto p = r_protocol r \<and>
     (case dst_port p of None \<Rightarrow> False | Some d \<Rightarrow> r_first_port r \<le> d \<and> d \<le> r_last_port r)"

definition admitted :: "rule list \<Rightarrow> packet \<Rightarrow> bool" where
  "admitted rules p \<longleftrightarrow>
     take IFNAMSIZ (pk_iifname p) = lo_name \<or>
     pk_ct_state p AND (CT_STATE_ESTABLISHED OR CT_STATE_RELATED) \<noteq> 0 \<or>
     (pk_ct_state p AND CT_STATE_INVALID = 0 \<and>
      (pk_nfproto p = NFPROTO_IPV6 \<and> pk_l4proto p = IPPROTO_ICMPV6 \<and>
         (\<exists>t\<in>set ICMPV6_ALLOWED_TYPES. has_icmp_type t p) \<or>
       pk_nfproto p = NFPROTO_IPV4 \<and> pk_l4proto p = IPPROTO_ICMP \<and>
         has_icmp_type ICMPV4_DEST_UNREACH p \<or>
       (\<exists>r\<in>set rules. rule_admits r p)))"

section \<open>Big-endian bytes and ports\<close>

lemma be16_le_iff [simp]: "be16 v \<le> be16 w \<longleftrightarrow> v \<le> w"
proof -
  have b: "unat x div 256 mod 256 = unat x div 256" for x :: u16
  proof -
    have "unat x < 2 ^ 16" using unsigned_less [of x] by simp
    then have "unat x div 256 < 256" by (simp add: less_mult_imp_div_less)
    then show ?thesis by simp
  qed
  have d: "unat (drop_bit 8 x) = unat x div 256" for x :: u16
    unfolding unat_drop_bit_eq by (simp add: drop_bit_eq_div)
  let ?h = "\<lambda>x :: u16. unat x div 256" and ?l = "\<lambda>x :: u16. unat x mod 256"
  have "be16 v \<le> be16 w \<longleftrightarrow> ?h v < ?h w \<or> ?h v = ?h w \<and> ?l v \<le> ?l w"
    by (simp add: be16_def ne16_def word_less_nat_alt word_le_nat_alt word_unat_eq_iff
      d unsigned_ucast_eq take_bit_eq_mod b le_less disj_ac conj_disj_distribL)
  also have "\<dots> \<longleftrightarrow> unat v \<le> unat w"
    using div_mult_mod_eq [of "unat v" 256] div_mult_mod_eq [of "unat w" 256]
      mod_less_divisor [of 256 "unat v"] mod_less_divisor [of 256 "unat w"]
    by linarith
  finally show ?thesis by (simp add: word_le_nat_alt)
qed

lemma of_be16_be16 [simp]: "of_be16 (be16 w) = w"
  by (simp add: of_be16_def be16_def)

lemma be16_of_be16:
  assumes "length xs = 2"
  shows "be16 (of_be16 xs) = xs"
proof -
  obtain a b where xs: "xs = [a, b]" using assms by (auto simp: numeral_2_eq_2 length_Suc_conv)
  have "ucast (drop_bit 8 (ucast b OR push_bit 8 (ucast a) :: u16)) = a"
    "ucast (ucast b OR push_bit 8 (ucast a) :: u16) = b"
    by (rule bit_word_eqI; auto simp: bit_simps dest: bit_imp_le_length)+
  then show ?thesis by (simp add: xs of_be16_def be16_def ne16_def)
qed

lemma transport_port:
  assumes "get_range 2 4 xs = Some v"
  obtains d where "v = be16 d" "of_be16 v = d"
proof (rule that [of "of_be16 v"])
  have "length v = 2" using assms by (auto simp: get_range_Some_iff)
  then show "v = be16 (of_be16 v)" by (simp add: be16_of_be16)
qed simp

section \<open>Evaluating the rules\<close>

lemma k_simps:
  assumes "nft_semantics k"
  shows
  "k p r (Meta_load NFT_META_IIFNAME) = Continue (take IFNAMSIZ (pk_iifname p))"
  "k p r (Meta_load NFT_META_NFPROTO) = Continue [pk_nfproto p]"
  "k p r (Meta_load NFT_META_L4PROTO) = Continue [pk_l4proto p]"
  "k p r Ct_state_load = Continue (ne32 (pk_ct_state p))"
  "k p r (Cmp NFT_CMP_EQ v) = (if r = v then Continue r else Break)"
  "k p r (Cmp NFT_CMP_NEQ v) = (if r = v then Break else Continue r)"
  "k p r (Range lo hi) = (if lo \<le> r \<and> r \<le> hi then Continue r else Break)"
  "k p (ne32 w) (Bitwise_mask m) = Continue (ne32 (w AND m))"
  "k p r (Verdict u) = Decide u"
  using assms by (simp_all add: nft_semantics_def)

lemma k_payload:
  assumes "nft_semantics k"
  shows "k p r (Payload_load off len) =
     (case get_range (unat off) (unat off + unat len) (pk_transport p) of
        None \<Rightarrow> Break | Some v \<Rightarrow> Continue v)"
  using assms by (simp add: nft_semantics_def)

lemma run_loopback:
  assumes sem: "nft_semantics k"
  shows "run_rule k p [] loopback_exprs =
     (if take IFNAMSIZ (pk_iifname p) = lo_name then Some NF_ACCEPT else None)"
  by (simp add: loopback_exprs_def k_simps [OF sem])

lemma run_ct:
  assumes sem: "nft_semantics k"
  shows "run_rule k p [] (ct_exprs bits v) = (if pk_ct_state p AND bits \<noteq> 0 then Some v else None)"
  by (simp add: ct_exprs_def k_simps [OF sem])

lemma run_icmp:
  assumes sem: "nft_semantics k"
  shows "run_rule k p [] (icmp_exprs family proto ty) =
     (if pk_nfproto p = family \<and> pk_l4proto p = proto \<and> has_icmp_type ty p
      then Some NF_ACCEPT else None)"
proof -
  have "get_range 0 1 (pk_transport p) =
      (case pk_transport p of [] \<Rightarrow> None | x # _ \<Rightarrow> Some [x])"
    by (simp add: get_range_def split: list.split)
  then show ?thesis
    by (simp add: icmp_exprs_def nfproto_exprs_def l4proto_exprs_def k_simps [OF sem] k_payload [OF sem]
      has_icmp_type_def split: list.split)
qed

lemma run_port:
  assumes sem: "nft_semantics k"
  shows "run_rule k p [] (port_exprs r) = (if rule_admits r p then Some NF_ACCEPT else None)"
proof (cases "get_range 2 4 (pk_transport p)")
  case None
  then show ?thesis
    by (simp add: port_exprs_def l4proto_exprs_def k_simps [OF sem] k_payload [OF sem] rule_admits_def dst_port_def)
next
  case (Some v)
  then obtain d where d: "v = be16 d" by (rule transport_port)
  with Some show ?thesis
    by (auto simp: port_exprs_def l4proto_exprs_def k_simps [OF sem] k_payload [OF sem] rule_admits_def dst_port_def)
qed

lemma run_chain_append:
  "\<forall>es\<in>set ess. run_rule k p [] es \<in> {None, Some NF_ACCEPT} \<Longrightarrow>
    run_chain k pol p (ess @ ess') =
      (if \<exists>es\<in>set ess. run_rule k p [] es = Some NF_ACCEPT then NF_ACCEPT
       else run_chain k pol p ess')"
  by (induction ess) auto

lemma chain_verdict:
  assumes sem: "nft_semantics k"
  shows "input_verdict k rules p = (if admitted rules p then NF_ACCEPT else NF_DROP)"
proof -
  let ?rest = "map (icmp_exprs NFPROTO_IPV6 IPPROTO_ICMPV6) ICMPV6_ALLOWED_TYPES @
     [icmp_exprs NFPROTO_IPV4 IPPROTO_ICMP ICMPV4_DEST_UNREACH] @ map port_exprs rules"
  have rest: "run_chain k NF_DROP p (?rest @ []) =
      (if \<exists>es\<in>set ?rest. run_rule k p [] es = Some NF_ACCEPT then NF_ACCEPT else NF_DROP)"
    by (subst run_chain_append) (auto simp: run_icmp [OF sem] run_port [OF sem])
  have ex: "(\<exists>es\<in>set ?rest. run_rule k p [] es = Some NF_ACCEPT) \<longleftrightarrow>
      pk_nfproto p = NFPROTO_IPV6 \<and> pk_l4proto p = IPPROTO_ICMPV6 \<and>
         (\<exists>t\<in>set ICMPV6_ALLOWED_TYPES. has_icmp_type t p) \<or>
      pk_nfproto p = NFPROTO_IPV4 \<and> pk_l4proto p = IPPROTO_ICMP \<and>
         has_icmp_type ICMPV4_DEST_UNREACH p \<or>
      (\<exists>r\<in>set rules. rule_admits r p)"
    by (simp add: bex_Un run_icmp [OF sem] run_port [OF sem]) blast
  show ?thesis
    using rest unfolding append_Nil2 ex
    by (auto simp: input_verdict_def ruleset_def run_loopback [OF sem] run_ct [OF sem] admitted_def)
qed


end
