(* ===== verification/GuestConfig.thy ===== *)
theory GuestConfig
  imports WireCodec InitScript SchemaProps FirewallPolicy
begin

text \<open>
  How the guest init reads the configuration back (\<open>guest/src/main.rs\<close>): the parsers of the baked constants,
  the resource limits and the app's ids. A build's constants are a function \<open>b\<close> from variable
  name to text; for an image built from configuration \<open>c\<close> it is \<open>image_consts c\<close>.
\<close>

section \<open>Parsers\<close>

definition parse_path_list :: "string \<Rightarrow> string list" where
  "parse_path_list raw = drop_empty (split_on (CHR '';'') raw)"

definition parse_pairs :: "string \<Rightarrow> string \<Rightarrow> fatal + (string \<times> string) list" where
  "parse_pairs raw what =
     traverse (\<lambda>pair. case split_once (CHR ''='') pair of
                        Some kv \<Rightarrow> Inr kv
                      | None \<Rightarrow> Inl (MalformedPair what pair))
       (drop_empty (split_on (CHR '';'') raw))"

definition baked_u32 :: "string \<Rightarrow> string \<Rightarrow> fatal + u32" where
  "baked_u32 raw what =
     ok_or (map_option word_of_nat (from_str_radix (2 ^ 32 - 1) 10 raw)) (BakedParse what)"

definition baked_u64 :: "string \<Rightarrow> string \<Rightarrow> fatal + u64" where
  "baked_u64 raw what =
     ok_or (map_option word_of_nat (from_str_radix (2 ^ 64 - 1) 10 raw)) (BakedParse what)"

definition validate_app_ids :: "u32 \<Rightarrow> u32 \<Rightarrow> bool" where
  "validate_app_ids uid gid = (\<not> list_ex (\<lambda>i. i = 0 \<or> i = 0xFFFFFFFF) [uid, gid])"

definition app_ids :: "(string \<Rightarrow> string) \<Rightarrow> fatal + u32 \<times> u32" where
  "app_ids b =
     res_bind (baked_u32 (b ''CARGO_UNIKERNEL_APP_UID'') ''CARGO_UNIKERNEL_APP_UID'') (\<lambda>uid.
     res_bind (baked_u32 (b ''CARGO_UNIKERNEL_APP_GID'') ''CARGO_UNIKERNEL_APP_GID'') (\<lambda>gid.
       if validate_app_ids uid gid then Inr (uid, gid) else Inl BadAppIds))"

record resource_limits =
  lim_nofile :: u64
  lim_nproc :: u64
  lim_memlock_bytes :: u64
  lim_address_space_bytes :: u64

definition MIB :: u64 where [nums]: "MIB = 1024 * 1024"

definition limit_mb_bytes :: "string \<Rightarrow> string \<Rightarrow> fatal + u64" where
  "limit_mb_bytes raw what =
     res_bind (baked_u64 raw what) (\<lambda>n.
       if unat n * unat MIB < 2 ^ 64 then Inr (n * MIB) else Inl (LimitTooLarge what))"

definition resource_limits_of :: "(string \<Rightarrow> string) \<Rightarrow> fatal + resource_limits" where
  "resource_limits_of b =
     res_bind (baked_u64 (b ''CARGO_UNIKERNEL_LIMIT_NOFILE'') ''CARGO_UNIKERNEL_LIMIT_NOFILE'') (\<lambda>nofile.
     res_bind (baked_u64 (b ''CARGO_UNIKERNEL_LIMIT_NPROC'') ''CARGO_UNIKERNEL_LIMIT_NPROC'') (\<lambda>nproc.
     res_bind (limit_mb_bytes (b ''CARGO_UNIKERNEL_LIMIT_MEMLOCK_MB'') ''CARGO_UNIKERNEL_LIMIT_MEMLOCK_MB'') (\<lambda>memlock.
     res_bind (limit_mb_bytes (b ''CARGO_UNIKERNEL_LIMIT_AS_MB'') ''CARGO_UNIKERNEL_LIMIT_AS_MB'') (\<lambda>as_bytes.
       Inr \<lparr>lim_nofile = nofile, lim_nproc = nproc, lim_memlock_bytes = memlock,
            lim_address_space_bytes = as_bytes\<rparr>))))"

section \<open>The constants of an image\<close>

definition image_consts :: "config \<Rightarrow> string \<Rightarrow> string" where
  "image_consts c = baked_value (map_of (env_table c))"

lemma map_of_some_entry: "map_of (some_entry n x) k = (if k = n then x else None)"
  by (auto simp: some_entry_def split: option.split)

lemma map_of_opt_entry: "map_of (opt_entry b n v) k = (if k = n \<and> b then Some v else None)"
  by (simp add: opt_entry_def)

lemmas consts_simps = image_consts_def baked_value_def env_table_def Let_def map_add_def
  map_of_some_entry map_of_opt_entry passthroughs_def

lemma consts_numbers:
  "image_consts c ''CARGO_UNIKERNEL_APP_UID'' = show_word (rt_uid (app_runtime (c_app c)))"
  "image_consts c ''CARGO_UNIKERNEL_APP_GID'' = show_word (rt_gid (app_runtime (c_app c)))"
  "image_consts c ''CARGO_UNIKERNEL_LIMIT_NOFILE'' =
     show_word (max_open_files (rt_limits (app_runtime (c_app c))))"
  "image_consts c ''CARGO_UNIKERNEL_LIMIT_NPROC'' =
     show_word (max_processes (rt_limits (app_runtime (c_app c))))"
  "image_consts c ''CARGO_UNIKERNEL_LIMIT_AS_MB'' =
     show_word (max_memory_mb (rt_limits (app_runtime (c_app c))))"
  "image_consts c ''CARGO_UNIKERNEL_LIMIT_MEMLOCK_MB'' =
     show_word (max_locked_memory_mb (rt_limits (app_runtime (c_app c))))"
  "image_consts c ''CARGO_UNIKERNEL_TMPFS_TMP_MB'' = show_word (tmp_mb (st_tmpfs (c_storage c)))"
  "image_consts c ''CARGO_UNIKERNEL_TMPFS_RUN_MB'' = show_word (run_mb (st_tmpfs (c_storage c)))"
  "image_consts c ''CARGO_UNIKERNEL_TMPFS_SHM_MB'' = show_word (shm_mb (st_tmpfs (c_storage c)))"
  "image_consts c ''CARGO_UNIKERNEL_TMPFS_VAR_TMP_MB'' = show_word (var_tmp_mb (st_tmpfs (c_storage c)))"
  by (simp_all add: consts_simps split: option.split)

lemma consts_lists:
  "image_consts c ''CARGO_UNIKERNEL_APP_ENV'' = encode_kv_pairs (rt_env (app_runtime (c_app c)))"
  "image_consts c ''CARGO_UNIKERNEL_EXTRA_SYSCTLS'' = encode_kv_pairs (h_extra_sysctls (c_hardening c))"
  "image_consts c ''CARGO_UNIKERNEL_LANDLOCK_RO'' =
     (if ll_enabled (rt_landlock (app_runtime (c_app c)))
      then encode_path_list (extra_read_paths (rt_landlock (app_runtime (c_app c)))) else [])"
  "image_consts c ''CARGO_UNIKERNEL_LANDLOCK_RW'' =
     (if ll_enabled (rt_landlock (app_runtime (c_app c)))
      then encode_path_list (extra_read_write_paths (rt_landlock (app_runtime (c_app c)))) else [])"
  "image_consts c ''CARGO_UNIKERNEL_FIREWALL_RULES'' =
     (if fw_enabled (net_firewall (c_network c)) \<and> has_any (net_mode (c_network c))
      then encode_inbound (fw_inbound (net_firewall (c_network c))) else [])"
  "image_consts c ''CARGO_UNIKERNEL_NAMESERVERS'' = encode_path_list (net_nameservers (c_network c))"
  by (simp_all add: consts_simps encode_kv_pairs_def encode_path_list_def split: option.split)

lemma consts_options:
  "image_consts c ''CARGO_UNIKERNEL_IPV6_STATIC'' =
     (case net_ipv6_static (c_network c) of None \<Rightarrow> []
      | Some v \<Rightarrow> v6_address v @ ''/'' @ show_word (v6_prefix_len v))"
  "image_consts c ''CARGO_UNIKERNEL_IPV6_GATEWAY'' =
     (case Option.bind (net_ipv6_static (c_network c)) v6_gateway of None \<Rightarrow> [] | Some g \<Rightarrow> g)"
  "image_consts c ''CARGO_UNIKERNEL_IPV6_IFACE'' =
     (case Option.bind (net_ipv6_static (c_network c)) v6_interface of None \<Rightarrow> [] | Some i \<Rightarrow> i)"
  "image_consts c ''CARGO_UNIKERNEL_DNS_SEARCH'' =
     (case net_search (c_network c) of None \<Rightarrow> [] | Some s \<Rightarrow> s)"
  "image_consts c ''CARGO_UNIKERNEL_PAYLOAD_DIR'' = ''/payload''"
  "image_consts c ''CARGO_UNIKERNEL_APP_PATH'' = ''/payload/app''"
  by (simp_all add: consts_simps split: option.split)

section \<open>The three wire formats\<close>

definition pair_ok :: "string \<times> string \<Rightarrow> bool" where
  "pair_ok kv \<longleftrightarrow>
     CHR '';'' \<notin> set (fst kv) \<and> CHR ''='' \<notin> set (fst kv) \<and> CHR '';'' \<notin> set (snd kv)"

definition path_ok :: "string \<Rightarrow> bool" where
  "path_ok p \<longleftrightarrow> p \<noteq> [] \<and> CHR '';'' \<notin> set p"

text \<open>The guest's rule for a configured entry.\<close>

definition rule_of :: "inbound_ports \<Rightarrow> rule" where
  "rule_of e =
     (case port_bounds (in_ports e) of
        Some (m, n) \<Rightarrow>
          \<lparr>r_protocol = (if in_proto e = ''tcp'' then IPPROTO_TCP else IPPROTO_UDP),
           r_first_port = word_of_nat m, r_last_port = word_of_nat n\<rparr>
      | None \<Rightarrow> \<lparr>r_protocol = 0, r_first_port = 0, r_last_port = 0\<rparr>)"

interpretation pairs: entry_codec "\<lambda>(k, v). k @ ''='' @ v"
  "\<lambda>pair. case split_once (CHR ''='') pair of
      Some kv \<Rightarrow> Inr kv | None \<Rightarrow> Inl (MalformedPair what pair)"
  pair_ok "\<lambda>kv. kv" for what
  by unfold_locales (auto simp: pair_ok_def)

interpretation paths: entry_codec "\<lambda>p. p" "\<lambda>p. Inr p :: fatal + string" path_ok "\<lambda>p. p"
  by unfold_locales (auto simp: path_ok_def)

lemma word16_le: "n \<le> 65535 \<Longrightarrow> unat (word_of_nat n :: u16) = n"
  by (simp add: unat_of_nat take_bit_nat_eq_self)

lemma port_bounds_le:
  assumes "port_bounds s = Some (m, n)"
  shows "m \<le> 65535 \<and> n \<le> 65535"
  using assms
  by (auto simp: port_bounds_def Let_def split: prod.splits option.splits dest: from_str_radix_le)

lemma port_bounds_chars:
  assumes "port_bounds s = Some (m, n)" and "ch \<in> set s"
  shows "ch = CHR ''-'' \<or> ch = CHR ''+'' \<or> to_digit 10 ch \<noteq> None"
proof (cases "split_once (CHR ''-'') s")
  case None
  with assms show ?thesis
    by (auto simp: port_bounds_def split: option.splits dest: from_str_radix_alphabet)
next
  case (Some p)
  obtain a b where p: "p = (a, b)" by (cases p)
  with Some have "s = a @ CHR ''-'' # b" by (simp add: split_once_Some_iff)
  with assms Some p show ?thesis
    by (auto simp: port_bounds_def split: option.splits dest: from_str_radix_alphabet)
qed

lemma parse_rule_inbound:
  assumes "inbound_ok e"
  shows "parse_rule (inbound_entry e) = Inr (rule_of e)"
proof -
  obtain m n where b: "port_bounds (in_ports e) = Some (m, n)" and mn: "1 \<le> m" "m \<le> n"
    and pr: "in_proto e = ''tcp'' \<or> in_proto e = ''udp''"
    using assms by (auto simp: inbound_ok_def)
  obtain x y where xy: "(case split_once (CHR ''-'') (in_ports e) of
      Some p \<Rightarrow> p | None \<Rightarrow> (in_ports e, in_ports e)) = (x, y)" by fastforce
  have px: "from_str_radix 65535 10 x = Some m" and py: "from_str_radix 65535 10 y = Some n"
    using b xy by (auto simp: port_bounds_def split: option.splits)
  have "split_once (CHR '':'') (inbound_entry e) = Some (in_proto e, in_ports e)"
    using pr by (auto simp: inbound_entry_def)
  moreover have "(word_of_nat m :: u16) \<noteq> 0" and "\<not> (word_of_nat n :: u16) < word_of_nat m"
    using mn port_bounds_le [OF b] word16_le [of m] word16_le [of n]
    by (auto simp: word_less_nat_alt)
  ultimately show ?thesis
    using pr xy px py b
    by (auto simp: parse_rule_def Let_def parse_u16_def rule_of_def)
qed

interpretation inbound: entry_codec inbound_entry parse_rule inbound_ok rule_of
proof
  fix e :: inbound_ports
  assume ok: "inbound_ok e"
  then obtain m n where b: "port_bounds (in_ports e) = Some (m, n)"
    and pr: "in_proto e = ''tcp'' \<or> in_proto e = ''udp''"
    by (auto simp: inbound_ok_def)
  have "CHR '';'' \<notin> set (in_ports e)"
    using port_bounds_chars [OF b, of "CHR '';''"] by (auto simp: to_digit_def)
  with pr show "CHR '';'' \<notin> set (inbound_entry e)" by (auto simp: inbound_entry_def)
  show "inbound_entry e \<noteq> []" by (simp add: inbound_entry_def)
  show "parse_rule (inbound_entry e) = Inr (rule_of e)" using ok by (rule parse_rule_inbound)
qed

section \<open>The guest reads what the host wrote\<close>

lemma parse_pairs_encode:
  "kv_safe m \<Longrightarrow> parse_pairs (encode_kv_pairs m) what = Inr m"
  using pairs.list_roundtrip [of m what]
  by (simp add: decode_list_def encode_list_def parse_pairs_def encode_kv_pairs_def kv_safe_def
    pair_ok_def case_prod_beta)

lemma parse_path_list_encode:
  "list_safe ps \<Longrightarrow> parse_path_list (encode_path_list ps) = drop_empty ps"
  unfolding parse_path_list_def encode_path_list_def
  by (rule drop_empty_split_join) (simp add: list_safe_def)

lemma parse_path_list_Nil: "parse_path_list [] = []"
  by (simp add: parse_path_list_def drop_empty_def)

lemma parse_rules_encode:
  "\<forall>e\<in>set es. inbound_ok e \<Longrightarrow> parse_rules (encode_inbound es) = Inr (map rule_of es)"
  using inbound.list_roundtrip [of es]
  by (simp add: decode_list_def encode_list_def parse_rules_def encode_inbound_def)


text \<open>
  C34. For a validated configuration with the packet filter on, the guest parses the baked rules
  without an error into one rule per configured entry, with the configured protocol and the two
  ends of the configured range.
\<close>

theorem firewall_transported:
  assumes "validate cli c = Inr ()" and "ft_firewall (features_of (init_features c))"
  shows "parse_rules (image_consts c ''CARGO_UNIKERNEL_FIREWALL_RULES'') =
    Inr (map rule_of (fw_inbound (net_firewall (c_network c))))"
  using assms
  by (simp add: consts_lists parse_rules_encode validate_iff valid_config_def firewall_feature)

section \<open>Ids and limits\<close>

lemma baked_show [simp]:
  "baked_u32 (show_word w) what = Inr w" "baked_u64 (show_word v) what = Inr v"
proof -
  have "unat w < 2 ^ 32" and "unat v < 2 ^ 64"
    using unsigned_less [of w] unsigned_less [of v] by simp_all
  then have "from_str_radix (2 ^ 32 - 1) 10 (show_nat (unat w)) = Some (unat w)"
    and "from_str_radix (2 ^ 64 - 1) 10 (show_nat (unat v)) = Some (unat v)"
    by (auto intro!: from_str_radix_show_nat)
  then show "baked_u32 (show_word w) what = Inr w" "baked_u64 (show_word v) what = Inr v"
    by (simp_all add: baked_u32_def baked_u64_def show_word_def)
qed

lemma limit_show:
  "limit_mb_bytes (show_word n) what =
     (if unat n < 2 ^ 44 then Inr (n * MIB) else Inl (LimitTooLarge what))"
proof -
  have "unat MIB = 2 ^ 20" by (simp add: MIB_def)
  then have "unat n * unat MIB < 2 ^ 64 \<longleftrightarrow> unat n < 2 ^ 44" by simp
  then show ?thesis by (simp add: limit_mb_bytes_def)
qed

lemma configured_ids:
  assumes "validate cli c = Inr ()"
  shows "app_ids (image_consts c) =
    (if rt_uid (app_runtime (c_app c)) = 0xFFFFFFFF \<or> rt_gid (app_runtime (c_app c)) = 0xFFFFFFFF
     then Inl BadAppIds
     else Inr (rt_uid (app_runtime (c_app c)), rt_gid (app_runtime (c_app c))))"
  using assms
  by (simp add: app_ids_def consts_numbers validate_app_ids_def validate_iff valid_config_def app_ok_def)

text \<open>
  The ids the guest drops to are the configured ones, and never root: for a validated
  configuration the only ids it refuses are the reserved all-ones ones, which \<open>validate\<close> lets
  through and on which the guest ends the boot.
\<close>

lemma app_ids_of_config:
  assumes "validate cli c = Inr ()"
  shows "app_ids (image_consts c) =
    (if rt_uid (app_runtime (c_app c)) = 0xFFFFFFFF \<or> rt_gid (app_runtime (c_app c)) = 0xFFFFFFFF
     then Inl BadAppIds
     else Inr (rt_uid (app_runtime (c_app c)), rt_gid (app_runtime (c_app c))))"
  using assms by (rule configured_ids)

lemma configured_limits:
  "resource_limits_of (image_consts c) =
     (let l = rt_limits (app_runtime (c_app c)) in
      if 2 ^ 44 \<le> unat (max_locked_memory_mb l)
      then Inl (LimitTooLarge ''CARGO_UNIKERNEL_LIMIT_MEMLOCK_MB'')
      else if 2 ^ 44 \<le> unat (max_memory_mb l)
      then Inl (LimitTooLarge ''CARGO_UNIKERNEL_LIMIT_AS_MB'')
      else Inr \<lparr>lim_nofile = max_open_files l, lim_nproc = max_processes l,
        lim_memlock_bytes = max_locked_memory_mb l * 2 ^ 20,
        lim_address_space_bytes = max_memory_mb l * 2 ^ 20\<rparr>)"
  by (simp add: resource_limits_of_def consts_numbers limit_show Let_def MIB_def not_less)

text \<open>
  C40. The resource limits are the configured ones, with the two sizes in MiB converted to bytes
  without a wrap-around: a size of \<open>2^44\<close> MiB or more ends the boot instead of becoming a small limit.
\<close>

theorem limits_of_config:
  "resource_limits_of (image_consts c) =
     (let l = rt_limits (app_runtime (c_app c)) in
      if 2 ^ 44 \<le> unat (max_locked_memory_mb l)
      then Inl (LimitTooLarge ''CARGO_UNIKERNEL_LIMIT_MEMLOCK_MB'')
      else if 2 ^ 44 \<le> unat (max_memory_mb l)
      then Inl (LimitTooLarge ''CARGO_UNIKERNEL_LIMIT_AS_MB'')
      else Inr \<lparr>lim_nofile = max_open_files l, lim_nproc = max_processes l,
        lim_memlock_bytes = max_locked_memory_mb l * 2 ^ 20,
        lim_address_space_bytes = max_memory_mb l * 2 ^ 20\<rparr>)"
  by (rule configured_limits)

text \<open>
  The extra Landlock paths the guest grants are the configured ones, in order, less the empty
  ones, and none when the sandbox is off.
\<close>

lemma landlock_paths_transported:
  assumes "validate cli c = Inr ()"
  shows "parse_path_list (image_consts c ''CARGO_UNIKERNEL_LANDLOCK_RO'') =
      (if ll_enabled (rt_landlock (app_runtime (c_app c)))
       then drop_empty (extra_read_paths (rt_landlock (app_runtime (c_app c)))) else []) \<and>
    parse_path_list (image_consts c ''CARGO_UNIKERNEL_LANDLOCK_RW'') =
      (if ll_enabled (rt_landlock (app_runtime (c_app c)))
       then drop_empty (extra_read_write_paths (rt_landlock (app_runtime (c_app c)))) else [])"
  using assms
  by (simp add: consts_lists parse_path_list_encode validate_iff valid_config_def
    parse_path_list_Nil)

end
