(* ===== verification/Network.thy ===== *)
theory Network
  imports Effects GuestConfig
begin

text \<open>
  Network bring-up (\<open>guest/src/network.rs\<close>): the \<open>ifreq\<close> and IPv6 ioctl arguments at their
  kernel layout, interface bring-up, the static IPv6 address and route, the readers of the
  kernel's route tables, the bounded wait for a default route, and the addresses that are read back after it.
\<close>

section \<open>Ioctl arguments\<close>

definition IFR_UNION :: nat where [nums]: "IFR_UNION = 16"

definition IFF_UP :: u16 where [nums]: "IFF_UP = 1"
definition IFF_RUNNING :: u16 where [nums]: "IFF_RUNNING = 0x40"

definition ifreq_for :: "string \<Rightarrow> byte list" where
  "ifreq_for name =
     (let ifr = replicate 40 0; bs = as_bytes name; len = min (length bs) 15
      in overwrite 0 (take len bs) ifr)"

text \<open>
  One ioctl on a throwaway socket: its errno, or the argument as the kernel left it.
\<close>

definition socket_ioctl :: "env \<Rightarrow> string \<Rightarrow> string \<Rightarrow> byte list \<Rightarrow> (nat + byte list) eff" where
  "socket_ioctl env family request arg =
     eff_bind (ask env (Ioctl family request arg)) (\<lambda>a.
       eff_return (case a of Failed n \<Rightarrow> Inl n | BytesAre bs \<Rightarrow> Inr bs | _ \<Rightarrow> Inr arg))"

definition ifreq_ioctl :: "env \<Rightarrow> string \<Rightarrow> byte list \<Rightarrow> (nat + byte list) eff" where
  "ifreq_ioctl env request ifr = socket_ioctl env ''AF_INET'' request ifr"

definition inet6_ioctl :: "env \<Rightarrow> string \<Rightarrow> byte list \<Rightarrow> (nat + byte list) eff" where
  "inet6_ioctl env request arg = socket_ioctl env ''AF_INET6'' request arg"

definition interface_index :: "env \<Rightarrow> string \<Rightarrow> (nat + u32) eff" where
  "interface_index env name =
     eff_bind (ifreq_ioctl env ''SIOCGIFINDEX'' (ifreq_for name)) (\<lambda>r.
       eff_return (map_sum id (\<lambda>ifr. of_ne32 (take 4 (drop IFR_UNION ifr))) r))"

text \<open>\<open>Ipv6Addr::octets\<close>: the segments in network order.\<close>

definition octets :: "u16 list \<Rightarrow> byte list" where
  "octets a = concat (map be16 a)"

definition in6_ifreq :: "byte list \<Rightarrow> u32 \<Rightarrow> u32 \<Rightarrow> byte list" where
  "in6_ifreq addr prefix_len ifindex = addr @ ne32 prefix_len @ ne32 ifindex"

record in6_rtmsg =
  rt_dst :: "byte list"
  rt_src :: "byte list"
  rt_gateway :: "byte list"
  rt_type :: u32
  rt_dst_len :: u16
  rt_src_len :: u16
  rt_metric :: u32
  rt_pad :: u32
  rt_info :: u64
  rt_flags :: u32
  rt_ifindex :: u32

definition ne64 :: "u64 \<Rightarrow> byte list" where
  "ne64 w = ne32 (ucast w) @ ne32 (ucast (drop_bit 32 w))"

definition in6_rtmsg_bytes :: "in6_rtmsg \<Rightarrow> byte list" where
  "in6_rtmsg_bytes m =
     rt_dst m @ rt_src m @ rt_gateway m @ ne32 (rt_type m) @ ne16 (rt_dst_len m) @
     ne16 (rt_src_len m) @ ne32 (rt_metric m) @ ne32 (rt_pad m) @ ne64 (rt_info m) @
     ne32 (rt_flags m) @ ne32 (rt_ifindex m)"

section \<open>Interfaces\<close>

definition non_loopback_interfaces :: "env \<Rightarrow> string list eff" where
  "non_loopback_interfaces env =
     eff_bind (ask env (ReadDir ''/sys/class/net'')) (\<lambda>a.
       eff_return (case a of NamesAre ns \<Rightarrow> filter (\<lambda>n. n \<noteq> ''lo'') ns | _ \<Rightarrow> []))"

definition sockaddr_v4 :: "byte list \<Rightarrow> byte list" where
  "sockaddr_v4 addr = ne16 2 @ [0, 0] @ addr @ replicate 8 0"

definition configure_loopback_v4 :: "env \<Rightarrow> (nat + byte list) eff" where
  "configure_loopback_v4 env =
     (let ifr = overwrite IFR_UNION (sockaddr_v4 [127, 0, 0, 1]) (ifreq_for ''lo'') in
      eff_bind (ifreq_ioctl env ''SIOCSIFADDR'' ifr) (\<lambda>r.
        (case r of
           Inl e \<Rightarrow> eff_return (Inl e)
         | Inr ifr \<Rightarrow>
             ifreq_ioctl env ''SIOCSIFNETMASK''
               (overwrite IFR_UNION (sockaddr_v4 [255, 0, 0, 0]) ifr))))"

definition ensure_interface_up :: "env \<Rightarrow> string \<Rightarrow> (nat + bool) eff" where
  "ensure_interface_up env name =
     eff_bind (ifreq_ioctl env ''SIOCGIFFLAGS'' (ifreq_for name)) (\<lambda>r.
       (case r of
          Inl e \<Rightarrow> eff_return (Inl e)
        | Inr ifr \<Rightarrow>
            let flags = of_ne16 (take 2 (drop IFR_UNION ifr)) in
            if flags AND IFF_UP \<noteq> 0 then eff_return (Inr False)
            else
              let new_flags = flags OR IFF_UP OR IFF_RUNNING in
              eff_bind (ifreq_ioctl env ''SIOCSIFFLAGS'' (overwrite IFR_UNION (ne16 new_flags) ifr)) (\<lambda>r.
                eff_return (map_sum id (\<lambda>_. True) r))))"

definition init_networking :: "features \<Rightarrow> env \<Rightarrow> unit eff" where
  "init_networking ft env =
     eff_then (eff_when (ft_net_ipv4 ft)
                (eff_bind (configure_loopback_v4 env) (\<lambda>_. eff_return ())))
       (eff_bind (non_loopback_interfaces env) (\<lambda>names.
          eff_all (\<lambda>name. eff_bind (ensure_interface_up env name) (\<lambda>_. eff_return ()))
            (''lo'' # names)))"

section \<open>The static address\<close>

definition parse_static_v6 :: "string \<Rightarrow> (u16 list \<times> u8) option" where
  "parse_static_v6 raw =
     Option.bind (split_once (CHR ''/'') raw) (\<lambda>(address, prefix_len).
     Option.bind (parse_ipv6 address) (\<lambda>address.
     Option.bind (from_str_radix 255 10 prefix_len) (\<lambda>prefix_len.
       if prefix_len = 0 \<or> prefix_len > 128 then None
       else Some (address, word_of_nat prefix_len))))"

definition STATIC_ROUTE_METRIC :: u32 where [nums]: "STATIC_ROUTE_METRIC = 2048"

definition assign_ipv6_address :: "env \<Rightarrow> string \<Rightarrow> u16 list \<Rightarrow> u8 \<Rightarrow> (nat + byte list) eff" where
  "assign_ipv6_address env name address prefix_len =
     eff_bind (interface_index env name) (\<lambda>r.
       (case r of
          Inl e \<Rightarrow> eff_return (Inl e)
        | Inr ifindex \<Rightarrow>
            inet6_ioctl env ''SIOCSIFADDR'' (in6_ifreq (octets address) (ucast prefix_len) ifindex)))"

definition RTF_UP :: u32 where [nums]: "RTF_UP = 1"
definition RTF_GATEWAY :: u32 where [nums]: "RTF_GATEWAY = 2"
definition RTF_REJECT :: u32 where [nums]: "RTF_REJECT = 0x200"

definition default_route :: "u16 list \<Rightarrow> u32 \<Rightarrow> in6_rtmsg" where
  "default_route gateway ifindex =
     \<lparr>rt_dst = replicate 16 0, rt_src = replicate 16 0, rt_gateway = octets gateway, rt_type = 0,
      rt_dst_len = 0, rt_src_len = 0, rt_metric = STATIC_ROUTE_METRIC, rt_pad = 0, rt_info = 0,
      rt_flags = RTF_UP OR RTF_GATEWAY, rt_ifindex = ifindex\<rparr>"

definition add_ipv6_default_route :: "env \<Rightarrow> string \<Rightarrow> u16 list \<Rightarrow> (nat + byte list) eff" where
  "add_ipv6_default_route env name gateway =
     eff_bind (interface_index env name) (\<lambda>r.
       (case r of
          Inl e \<Rightarrow> eff_return (Inl e)
        | Inr ifindex \<Rightarrow>
            inet6_ioctl env ''SIOCADDRT'' (in6_rtmsg_bytes (default_route gateway ifindex))))"

definition configure_static_ipv6 :: "env \<Rightarrow> string \<Rightarrow> string \<Rightarrow> string \<Rightarrow> unit eff" where
  "configure_static_ipv6 env static_v6 gateway interface =
     (if static_v6 = [] then eff_return ()
      else case parse_static_v6 static_v6 of
        None \<Rightarrow> eff_return ()
      | Some (address, prefix_len) \<Rightarrow>
          eff_bind (if interface = [] then
                      eff_bind (non_loopback_interfaces env) (\<lambda>candidates.
                        eff_return (case sort candidates of [] \<Rightarrow> None | name # _ \<Rightarrow> Some name))
                    else eff_return (Some interface)) (\<lambda>n.
            (case n of
               None \<Rightarrow> eff_return ()
             | Some name \<Rightarrow>
                 eff_bind (assign_ipv6_address env name address prefix_len) (\<lambda>_.
                   if gateway = [] then eff_return ()
                   else (case parse_ipv6 gateway of
                           None \<Rightarrow> eff_return ()
                         | Some gateway_addr \<Rightarrow>
                             eff_bind (add_ipv6_default_route env name gateway_addr) (\<lambda>_.
                               eff_return ()))))))"

section \<open>Route tables and addresses\<close>

definition nth_opt :: "'a list \<Rightarrow> nat \<Rightarrow> 'a option" where
  "nth_opt xs n = (if n < length xs then Some (xs ! n) else None)"

text \<open>\<open>RTF_UP\<close> set and \<open>RTF_REJECT\<close> clear, in a hexadecimal flags field.\<close>

definition usable_flags :: "string option \<Rightarrow> bool" where
  "usable_flags f =
     (case Option.bind f (from_str_radix (2 ^ 32 - 1) 16) of
        None \<Rightarrow> False
      | Some n \<Rightarrow> (word_of_nat n :: u32) AND (RTF_UP OR RTF_REJECT) = RTF_UP)"

definition route_v4_line :: "string \<Rightarrow> bool" where
  "route_v4_line line =
     (let fields = tl (split_whitespace line) in
      if nth_opt fields 0 \<noteq> Some ''00000000'' then False
      else
        let fields = drop 1 fields;
            usable = usable_flags (nth_opt fields 1);
            fields = drop 2 fields
        in usable \<and> nth_opt fields 3 = Some ''00000000'')"

definition route_v4_has_default :: "string \<Rightarrow> bool" where
  "route_v4_has_default routes = list_ex route_v4_line (drop 1 (lines routes))"

definition route_v6_line :: "string \<Rightarrow> bool" where
  "route_v6_line line =
     (let fields = split_whitespace line;
          dest = nth_opt fields 0;
          prefix_len = nth_opt fields 1
      in if dest \<noteq> Some (replicate 32 (CHR ''0'')) \<or> prefix_len \<noteq> Some ''00'' then False
         else usable_flags (nth_opt (drop 2 fields) 6))"

definition route_v6_has_default :: "string \<Rightarrow> bool" where
  "route_v6_has_default routes = list_ex route_v6_line (lines routes)"

text \<open>The two tables as they read at one moment; \<open>None\<close> when a file cannot be read.\<close>

definition has_default_route :: "features \<Rightarrow> string option \<Rightarrow> string option \<Rightarrow> bool" where
  "has_default_route ft v4 v6 =
     (if ft_net_ipv4 ft \<and> (case v4 of None \<Rightarrow> False | Some r \<Rightarrow> route_v4_has_default r) then True
      else if ft_net_ipv6 ft \<and> (case v6 of None \<Rightarrow> False | Some r \<Rightarrow> route_v6_has_default r) then True
      else False)"

definition is_global_unicast_v6 :: "u16 list \<Rightarrow> bool" where
  "is_global_unicast_v6 addr =
     (addr ! 0 AND 0xffc0 \<noteq> 0xfe80 \<and> addr ! 0 AND 0xffc0 \<noteq> 0xfec0 \<and>
      \<not> v6_is_loopback addr \<and> \<not> v6_is_multicast addr \<and> \<not> v6_is_unspecified addr)"

text \<open>\<open>from_str_radix\<close> of each two-byte chunk of the 32 hexadecimal digits.\<close>

fun hex_chunks :: "string \<Rightarrow> byte list option" where
  "hex_chunks (a # b # cs) =
     (case from_str_radix 255 16 [a, b] of
        None \<Rightarrow> None
      | Some n \<Rightarrow> map_option (\<lambda>bs. word_of_nat n # bs) (hex_chunks cs))"
| "hex_chunks _ = Some []"

text \<open>\<open>Ipv6Addr::from\<close> of the octets: the inverse of \<open>octets\<close>.\<close>

fun segments :: "byte list \<Rightarrow> u16 list" where
  "segments (a # b # bs) = of_ne16 [b, a] # segments bs"
| "segments _ = []"

definition interface_ipv6_addr :: "string \<Rightarrow> string \<Rightarrow> u16 list option" where
  "interface_ipv6_addr name line =
     (let fields = split_whitespace line in
      Option.bind (nth_opt fields 0) (\<lambda>addr_hex.
      Option.bind (nth_opt (drop 1 fields) 4) (\<lambda>dev_name.
        if dev_name \<noteq> name \<or> length addr_hex \<noteq> 32 then None
        else map_option segments (hex_chunks addr_hex))))"

definition interface_ipv6_addrs :: "env \<Rightarrow> string \<Rightarrow> u16 list list eff" where
  "interface_ipv6_addrs env name =
     eff_bind (ask env (ReadFile ''/proc/net/if_inet6'')) (\<lambda>a.
       eff_return (case a of
         TextIs content \<Rightarrow> List.map_filter (interface_ipv6_addr name) (lines content)
       | _ \<Rightarrow> []))"

definition dotted :: "byte list \<Rightarrow> string option" where
  "dotted bs =
     (case bs of
        [a, b, c, d] \<Rightarrow>
          Some (show_word a @ ''.'' @ show_word b @ ''.'' @ show_word c @ ''.'' @ show_word d)
      | _ \<Rightarrow> None)"

definition interface_ipv4_addr :: "env \<Rightarrow> string \<Rightarrow> string option eff" where
  "interface_ipv4_addr env name =
     eff_bind (ifreq_ioctl env ''SIOCGIFADDR'' (ifreq_for name)) (\<lambda>r.
       eff_return (case r of
         Inl _ \<Rightarrow> None
       | Inr ifr \<Rightarrow> Option.bind (get_range (IFR_UNION + 4) (IFR_UNION + 8) ifr) dotted))"

text \<open>The console lines about one interface, with the addresses as values.\<close>

datatype address_line =
    V4Address string string
  | V4Missing string
  | V6Unreachable string
  | V6Address string "u16 list" bool \<comment> \<open>whether it is logged as global\<close>

definition v4_lines :: "env \<Rightarrow> string \<Rightarrow> address_line list eff" where
  "v4_lines env name =
     eff_bind (interface_ipv4_addr env name) (\<lambda>found.
       eff_return [case found of Some addr \<Rightarrow> V4Address name addr | None \<Rightarrow> V4Missing name])"

definition v6_lines :: "env \<Rightarrow> string \<Rightarrow> address_line list eff" where
  "v6_lines env name =
     eff_bind (interface_ipv6_addrs env name) (\<lambda>addrs.
       eff_return ((if list_ex is_global_unicast_v6 addrs then [] else [V6Unreachable name]) @
         map (\<lambda>addr. V6Address name addr (is_global_unicast_v6 addr)) addrs))"

fun address_lines :: "features \<Rightarrow> env \<Rightarrow> string list \<Rightarrow> address_line list eff" where
  "address_lines ft env [] = eff_return []"
| "address_lines ft env (name # names) =
     eff_bind (if ft_net_ipv4 ft then v4_lines env name else eff_return []) (\<lambda>v4.
     eff_bind (if ft_net_ipv6 ft then v6_lines env name else eff_return []) (\<lambda>v6.
     eff_bind (address_lines ft env names) (\<lambda>rest.
       eff_return (v4 @ v6 @ rest))))"

definition log_interface_addresses :: "features \<Rightarrow> env \<Rightarrow> address_line list eff" where
  "log_interface_addresses ft env =
     eff_bind (non_loopback_interfaces env) (address_lines ft env)"

section \<open>Waiting for the network\<close>

text \<open>
  Each turn of the loop reads the clock and, before the deadline, the two tables. The
  result is whether a route appeared; \<open>None\<close> when the observations end first.
\<close>

fun settle_loop :: "features \<Rightarrow> nat \<Rightarrow> (nat \<times> string option \<times> string option) list \<Rightarrow> bool option" where
  "settle_loop ft deadline [] = None"
| "settle_loop ft deadline ((now, v4, v6) # obs) =
     (if now < deadline then
        (if has_default_route ft v4 v6 then Some True else settle_loop ft deadline obs)
      else Some False)"

text \<open>Either way the addresses are logged once the wait is over.\<close>

definition wait_for_network_settle ::
    "features \<Rightarrow> env \<Rightarrow> nat \<Rightarrow> nat \<Rightarrow> (nat \<times> string option \<times> string option) list \<Rightarrow> address_line list eff" where
  "wait_for_network_settle ft env start max_wait obs =
     eff_then (eff_wait (map_option (\<lambda>_. Inr ()) (settle_loop ft (start + max_wait) obs)))
       (log_interface_addresses ft env)"

end
