(* ===== verification/NetworkProps.thy ===== *)
theory NetworkProps
  imports Network Polling
begin

text \<open>
  Properties of the network bring-up: the ioctl arguments have the kernel's layout, an interface
  keeps its other flags, the static address of a validated configuration is the one assigned, and
  the settle wait is bounded.
\<close>

section \<open>Layout\<close>

lemma length_ne64 [simp]: "length (ne64 w) = 8"
  by (simp add: ne64_def)

lemma length_octets: "length (octets a) = 2 * length a"
  by (induction a) (simp_all add: octets_def)

text \<open>
  Every \<open>ifreq\<close> is 40 bytes long, holds at most the first 15 bytes of the name, and is zero
  from there on, so the name the kernel reads always ends inside its 16-byte field.
\<close>

lemma ifreq_name_terminated:
  "length (ifreq_for name) = 40 \<and> take 15 (as_bytes name) = take (min (length name) 15) (ifreq_for name) \<and>
   drop (min (length name) 15) (ifreq_for name) = replicate (40 - min (length name) 15) 0 \<and>
   ifreq_for name ! 15 = 0"
proof -
  let ?n = "min (length name) 15"
  have e: "ifreq_for name = take ?n (as_bytes name) @ replicate (40 - ?n) 0"
    by (simp add: ifreq_for_def overwrite_def Let_def)
  have l: "length (take ?n (as_bytes name)) = ?n" by simp
  have "ifreq_for name ! 15 = 0" unfolding e by (simp add: nth_append)
  then show ?thesis unfolding e using l by (auto simp: min_def)
qed

text \<open>
  The route message is 80 bytes with every field at the offset of the kernel's \<open>in6_rtmsg\<close>
  (the offsets the source asserts at compile time), and the address request 24 bytes.
\<close>

lemma rtmsg_layout:
  assumes "length gateway = 8"
  shows "let b = in6_rtmsg_bytes (default_route gateway ifindex) in
    length b = 80 \<and> get_range 0 16 b = Some (replicate 16 0) \<and>
    get_range 32 48 b = Some (octets gateway) \<and>
    get_range 52 54 b = Some (ne16 0) \<and> get_range 56 60 b = Some (ne32 STATIC_ROUTE_METRIC) \<and>
    get_range 72 76 b = Some (ne32 (RTF_UP OR RTF_GATEWAY)) \<and> get_range 76 80 b = Some (ne32 ifindex) \<and>
    length (in6_ifreq (octets gateway) p ifindex) = 24"
  using assms
  by (simp add: in6_rtmsg_bytes_def default_route_def in6_ifreq_def get_range_def length_octets Let_def)

section \<open>Interface flags\<close>

lemma iff_bits: "(flags OR IFF_UP OR IFF_RUNNING) AND IFF_UP \<noteq> 0" for flags :: u16
proof
  assume "(flags OR IFF_UP OR IFF_RUNNING) AND IFF_UP = 0"
  then have "bit ((flags OR IFF_UP OR IFF_RUNNING) AND IFF_UP) 0 = bit (0 :: u16) 0" by simp
  then show False by (simp add: bit_and_iff bit_or_iff IFF_UP_def)
qed

section \<open>The static address\<close>

definition v6_char :: "char \<Rightarrow> bool" where
  "v6_char c \<longleftrightarrow> to_digit 16 c \<noteq> None \<or> c = CHR '':'' \<or> c = CHR ''.''"

text \<open>A parser that succeeds has consumed a prefix of address characters.\<close>

definition consumes :: "'a parser \<Rightarrow> bool" where
  "consumes p \<longleftrightarrow> (\<forall>s x r. p s = Some (x, r) \<longrightarrow> (\<exists>u. s = u @ r \<and> list_all v6_char u))"

lemma consumesD: "consumes p \<Longrightarrow> p s = Some (x, r) \<Longrightarrow> \<exists>u. s = u @ r \<and> list_all v6_char u"
  unfolding consumes_def by blast

lemma to_digit_mono: "to_digit 10 c = Some d \<Longrightarrow> to_digit 16 c = Some d"
  by (auto simp: to_digit_def Let_def split: if_splits)

lemma read_digits_consumes:
  assumes "radix = 10 \<or> radix = 16"
  shows "read_digits radix m acc k s = Some (v, r) \<Longrightarrow> \<exists>u. s = u @ r \<and> list_all v6_char u"
proof (induction s arbitrary: acc k)
  case (Cons x xs)
  show ?case
  proof (cases "to_digit radix x")
    case None
    with Cons.prems show ?thesis by auto
  next
    case (Some d)
    with Cons.prems have "read_digits radix m (acc * radix + d) (k + 1) xs = Some (v, r)"
      by (auto split: if_splits)
    then obtain u where "xs = u @ r" "list_all v6_char u" using Cons.IH by blast
    moreover have "v6_char x" using Some assms to_digit_mono by (auto simp: v6_char_def)
    ultimately show ?thesis by (intro exI [of _ "x # u"]) simp
  qed
qed simp

lemma read_number_consumes:
  assumes "radix = 10 \<or> radix = 16"
  shows "consumes (read_number radix m mx z)"
  unfolding consumes_def
proof (intro allI impI)
  fix s x r
  assume "read_number radix m mx z s = Some (x, r)"
  then obtain n k where "read_digits radix m 0 0 s = Some ((n, k), r)"
    by (auto simp: read_number_def split: option.splits prod.splits if_splits)
  from read_digits_consumes [OF assms this] show "\<exists>u. s = u @ r \<and> list_all v6_char u" .
qed

lemma read_separator_consumes:
  assumes "consumes p" and "v6_char c"
  shows "consumes (read_separator c i p)"
  unfolding consumes_def
proof (intro allI impI)
  fix s x r
  assume h: "read_separator c i p s = Some (x, r)"
  show "\<exists>u. s = u @ r \<and> list_all v6_char u"
  proof (cases "i = 0")
    case True
    with h show ?thesis using consumesD [OF assms(1)] by (simp add: read_separator_def)
  next
    case False
    with h obtain rest where "s = c # rest" "p rest = Some (x, r)"
      by (cases s) (auto simp: read_separator_def split: if_splits)
    with consumesD [OF assms(1)] obtain u where "rest = u @ r" "list_all v6_char u" by blast
    with \<open>s = c # rest\<close> assms(2) show ?thesis by (intro exI [of _ "c # u"]) simp
  qed
qed

lemma v6_char_seps [simp]: "v6_char (CHR '':'')" "v6_char (CHR ''.'')"
  by (simp_all add: v6_char_def)

lemma append_consumed:
  "s = u @ t \<Longrightarrow> list_all v6_char u \<Longrightarrow> t = w @ r \<Longrightarrow> list_all v6_char w \<Longrightarrow>
    \<exists>u. s = u @ r \<and> list_all v6_char u"
  by (intro exI [of _ "u @ w"]) simp

lemma read_octets_consumes: "consumes (read_octets i n)"
proof (induction n arbitrary: i)
  case 0
  show ?case by (simp add: consumes_def)
next
  case (Suc n)
  have num: "consumes (read_separator (CHR ''.'') i (read_number 10 3 255 False))"
    by (intro read_separator_consumes read_number_consumes) simp_all
  show ?case
    unfolding consumes_def
  proof (intro allI impI)
    fix s x r
    assume "read_octets i (Suc n) s = Some (x, r)"
    then obtain d t ds where d: "read_separator (CHR ''.'') i (read_number 10 3 255 False) s = Some (d, t)"
      and t: "read_octets (i + 1) n t = Some (ds, r)"
      by (auto split: option.splits prod.splits)
    show "\<exists>u. s = u @ r \<and> list_all v6_char u"
      using consumesD [OF num d] consumesD [OF Suc t] append_consumed by blast
  qed
qed

lemma read_groups_consumes:
  "read_groups i n s = (gs, v4, r) \<Longrightarrow> \<exists>u. s = u @ r \<and> list_all v6_char u"
proof (induction n arbitrary: i s gs v4)
  case (Suc n)
  let ?p4 = "read_separator (CHR '':'') i read_ipv4_addr"
  let ?p = "read_separator (CHR '':'') i (read_number 16 4 65535 True)"
  have p4: "consumes ?p4" unfolding read_ipv4_addr_def
    by (intro read_separator_consumes read_octets_consumes) simp
  have p: "consumes ?p" by (intro read_separator_consumes read_number_consumes) simp_all
  show ?case
  proof (cases "if 0 < n then ?p4 s else None")
    case (Some v)
    obtain os t where v: "v = (os, t)" by (cases v)
    have "?p4 s = Some (os, t)" using Some v by (simp split: if_splits)
    moreover have "r = t" using Suc.prems Some v by (simp split: if_splits)
    ultimately show ?thesis using consumesD [OF p4] by blast
  next
    case None
    show ?thesis
    proof (cases "?p s")
      case None': None
      with Suc.prems None show ?thesis by (intro exI [of _ "[]"]) simp
    next
      case (Some v)
      obtain g t where v: "v = (g, t)" by (cases v)
      obtain gs' v4' r' where g: "read_groups (i + 1) n t = (gs', v4', r')"
        by (cases "read_groups (i + 1) n t")
      with Suc.prems None Some v have "r = r'" by auto
      with g Suc.IH have "\<exists>u. t = u @ r \<and> list_all v6_char u" by blast
      moreover have "\<exists>u. s = u @ t \<and> list_all v6_char u" using consumesD [OF p] Some v by blast
      ultimately show ?thesis using append_consumed by blast
    qed
  qed
qed simp

lemma parse_ipv6_chars:
  assumes "parse_ipv6 s = Some a"
  shows "list_all v6_char s"
proof -
  obtain h v4 r where h: "read_groups 0 8 s = (h, v4, r)" by (cases "read_groups 0 8 s")
  obtain u where u: "s = u @ r" "list_all v6_char u" using read_groups_consumes [OF h] by blast
  have "list_all v6_char r"
  proof (cases "length h = 8")
    case True
    with assms h show ?thesis
      by (simp add: parse_ipv6_def read_ipv6_addr_def split: list.splits)
  next
    case False
    with assms h obtain r' t b where r: "r = CHR '':'' # CHR '':'' # r'"
      and t: "read_groups 0 (8 - (length h + 1)) r' = (t, b, [])"
      by (cases r; cases "tl r")
        (auto simp: parse_ipv6_def read_ipv6_addr_def split: list.splits option.splits prod.splits if_splits)
    from read_groups_consumes [OF t] r show ?thesis by auto
  qed
  with u show ?thesis by simp
qed

text \<open>
  The static address of a validated configuration reaches the guest intact: it parses the
  baked text to the very address and prefix length the host checked, and the gateway, when there is
  one, to an address.
\<close>

lemma static_v6_transported:
  assumes "validate cli c = Inr ()" and "net_ipv6_static (c_network c) = Some v6"
  shows "\<exists>a. parse_ipv6 (v6_address v6) = Some a \<and> v6_routable a \<and>
    parse_static_v6 (image_consts c ''CARGO_UNIKERNEL_IPV6_STATIC'') = Some (a, v6_prefix_len v6) \<and>
    (\<forall>g. v6_gateway v6 = Some g \<longrightarrow>
       image_consts c ''CARGO_UNIKERNEL_IPV6_GATEWAY'' = g \<and> parse_ipv6 g \<noteq> None)"
proof -
  have ok: "v6_static_ok v6"
    using assms by (simp add: validate_iff valid_config_def)
  then obtain a where a: "parse_ipv6 (v6_address v6) = Some a" "v6_routable a"
    and p: "1 \<le> unat (v6_prefix_len v6)" "unat (v6_prefix_len v6) \<le> 128"
    by (auto simp: v6_static_ok_def)
  have "CHR ''/'' \<notin> set (v6_address v6)"
    using parse_ipv6_chars [OF a(1)] by (auto simp: list_all_iff v6_char_def to_digit_def)
  then have "split_once (CHR ''/'') (image_consts c ''CARGO_UNIKERNEL_IPV6_STATIC'') =
      Some (v6_address v6, show_nat (unat (v6_prefix_len v6)))"
    using assms(2) by (simp add: consts_options show_word_def)
  then have "parse_static_v6 (image_consts c ''CARGO_UNIKERNEL_IPV6_STATIC'') =
      Some (a, v6_prefix_len v6)"
    using a p by (simp add: parse_static_v6_def)
  moreover have "\<forall>g. v6_gateway v6 = Some g \<longrightarrow>
       image_consts c ''CARGO_UNIKERNEL_IPV6_GATEWAY'' = g \<and> parse_ipv6 g \<noteq> None"
    using ok assms(2) by (auto simp: consts_options v6_static_ok_def)
  ultimately show ?thesis using a by blast
qed

section \<open>The settle wait\<close>

interpretation settle: bounded_loop "settle_loop ft" "\<lambda>_. None"
    "\<lambda>d (now, v4, v6). if d \<le> now then Inr False else if has_default_route ft v4 v6 then Inr True else Inl d"
    "\<lambda>d (now, v4, v6). d \<le> now" for ft
  by unfold_locales (auto split: if_splits)

text \<open>
  The wait for a default route ends at the latest with the first look at the clock past the
  deadline, and it reports the network settled only when it read a usable default route before
  the deadline.
\<close>

lemma settle_wait_bounded:
  "((\<exists>(now, v4, v6)\<in>set obs. deadline \<le> now) \<longrightarrow> settle_loop ft deadline obs \<noteq> None) \<and>
   (settle_loop ft deadline obs = Some True \<longrightarrow>
     (\<exists>(now, v4, v6)\<in>set obs. now < deadline \<and> has_default_route ft v4 v6))"
proof (intro conjI impI)
  assume "\<exists>(now, v4, v6)\<in>set obs. deadline \<le> now"
  then show "settle_loop ft deadline obs \<noteq> None"
    by (intro settle.ends) (simp add: list_ex_iff)
next
  assume "settle_loop ft deadline obs = Some True"
  then have "\<exists>d. d = deadline \<and> (None = Some True \<or> (\<exists>x\<in>set obs. (case x of (now, v4, v6) \<Rightarrow>
      if d \<le> now then Inr False else if has_default_route ft v4 v6 then Inr True else Inl d) = (Inr True :: nat + bool)))"
    by (rule settle.outcome_from) (auto split: if_splits)
  then show "\<exists>(now, v4, v6)\<in>set obs. now < deadline \<and> has_default_route ft v4 v6"
    by (auto split: if_splits) force
qed

section \<open>Addresses read back\<close>

lemma segments_octets: "segments (octets a) = a"
  by (induction a) (simp_all add: octets_def be16_def ne16_def of_ne16_ne16 [unfolded ne16_def]
    del: of_ne16.simps)

end
