(* ===== verification/Mounts.thy ===== *)
theory Mounts
  imports Storage NetworkProps GuestConfig
begin

text \<open>
  The mounts of \<open>guest/src/mounts.rs\<close>: the mounts at the start of the boot and the lockdown before the app starts.
  The mount table that a history leaves is computed from the mount events the kernel accepted; in it, no mount stays
  both writable and executable.
\<close>

section \<open>Mounting the system\<close>

definition tmpfs_data :: "(string \<Rightarrow> string) \<Rightarrow> string \<Rightarrow> string \<Rightarrow> fatal + string" where
  "tmpfs_data b what rest =
     res_bind (baked_u64 (b what) what) (\<lambda>mb. Inr (''size='' @ show_word mb @ ''m,'' @ rest))"

definition mount_fatal ::
    "env \<Rightarrow> string \<Rightarrow> string \<Rightarrow> string \<Rightarrow> mflag set \<Rightarrow> string option \<Rightarrow> unit eff" where
  "mount_fatal env source target fstype flags data =
     or_fatal (mount env source target fstype flags data) (MountFailed target)"

definition remount_fatal :: "env \<Rightarrow> string \<Rightarrow> mflag set \<Rightarrow> string \<Rightarrow> unit eff" where
  "remount_fatal env target flags data = or_fatal (remount env target flags data) (RemountFailed target)"

type_synonym mount_entry = "string \<times> string \<times> string \<times> mflag set \<times> string option"

definition base_mounts :: "features \<Rightarrow> string \<Rightarrow> string \<Rightarrow> string \<Rightarrow> mount_entry list" where
  "base_mounts ft tmp_data run_data shm_data =
     [(''proc'', ''/proc'', ''proc'', NOSUID_NODEV_NOEXEC, Some ''hidepid=2''),
      (''sysfs'', ''/sys'', ''sysfs'', NOSUID_NODEV_NOEXEC, None),
      (''devtmpfs'', ''/dev'', ''devtmpfs'', {NOSUID, NOEXEC}, None),
      (''tmpfs'', ''/tmp'', ''tmpfs'', writable_exec_mount_flags ft, Some tmp_data),
      (''tmpfs'', ''/run'', ''tmpfs'', NOSUID_NODEV_NOEXEC, Some run_data),
      (''tmpfs'', ''/dev/shm'', ''tmpfs'', NOSUID_NODEV_NOEXEC, Some shm_data)]"

definition mount_base :: "env \<Rightarrow> mount_entry \<Rightarrow> unit eff" where
  "mount_base env = (\<lambda>(source, target, fstype, flags, data).
     eff_then (attempt env (MakeDirAll target)) (mount_fatal env source target fstype flags data))"

text \<open>The descriptor of the directory, or the error.\<close>

definition prepare_mount_directory :: "env \<Rightarrow> string \<Rightarrow> nat option eff" where
  "prepare_mount_directory env path =
     eff_bind (ask env (MakeDir path)) (\<lambda>a.
       if succeeded a \<or> a = Failed EEXIST then
         eff_bind (ask env (OpenDirNoFollow path)) (\<lambda>a.
           eff_return (case a of NumberIs fd \<Rightarrow> Some fd | _ \<Rightarrow> None))
       else eff_return None)"

definition mount_var_tmp :: "(string \<Rightarrow> string) \<Rightarrow> env \<Rightarrow> unit eff" where
  "mount_var_tmp b env =
     eff_bind (prepare_mount_directory env ''/var/tmp'') (\<lambda>var_tmp.
       case var_tmp of
         None \<Rightarrow> eff_fatal (UnsafeMountPoint ''/var/tmp'')
       | Some fd \<Rightarrow>
           eff_bind (eff_lift (tmpfs_data b ''CARGO_UNIKERNEL_TMPFS_VAR_TMP_MB'' ''mode=1777'')) (\<lambda>var_tmp_data.
             or_fatal (mount env ''tmpfs'' (''/proc/self/fd/'' @ show_nat fd) ''tmpfs'' NOSUID_NODEV_NOEXEC
                         (Some var_tmp_data))
               (MountFailed ''/var/tmp'')))"

definition mount_payload :: "env \<Rightarrow> string \<Rightarrow> unit eff" where
  "mount_payload env payload_dir =
     eff_then (or_fatal (bind_mount env payload_dir payload_dir) (MountFailed payload_dir))
       (remount_fatal env payload_dir {BIND, NOSUID, NODEV} [])"

definition prepare_system_env :: "features \<Rightarrow> (string \<Rightarrow> string) \<Rightarrow> env \<Rightarrow> string \<Rightarrow> unit eff" where
  "prepare_system_env ft b env payload_dir =
     eff_bind (eff_lift (tmpfs_data b ''CARGO_UNIKERNEL_TMPFS_TMP_MB'' ''mode=1777'')) (\<lambda>tmp_data.
     eff_bind (eff_lift (tmpfs_data b ''CARGO_UNIKERNEL_TMPFS_RUN_MB'' ''mode=0755'')) (\<lambda>run_data.
     eff_bind (eff_lift (tmpfs_data b ''CARGO_UNIKERNEL_TMPFS_SHM_MB'' ''mode=1777'')) (\<lambda>shm_data.
     eff_then (eff_all (mount_base env) (base_mounts ft tmp_data run_data shm_data))
    (eff_then (attempt env (MakeDir ''/dev/pts''))
    (eff_then (eff_bind (mount env ''devpts'' ''/dev/pts'' ''devpts'' {NOSUID, NOEXEC}
                           (Some ''mode=0620,ptmxmode=0666'')) (\<lambda>_. eff_return ()))
    (eff_then (attempt env (MakeDirAll ''/var''))
    (eff_then (if ft_storage_persistent ft then mount_persistent_var ft env
               else mount_fatal env ''tmpfs'' ''/var'' ''tmpfs'' (writable_exec_mount_flags ft)
                      (Some ''mode=0755''))
    (eff_then (mount_var_tmp b env)
    (eff_then (mount_payload env payload_dir)
       (eff_when (ft_net_ipv4 ft \<or> ft_net_ipv6 ft) (init_networking ft env)))))))))))"

section \<open>Lockdown\<close>

definition tmp_remount_flags :: "features \<Rightarrow> mflag set" where
  "tmp_remount_flags ft = writable_exec_mount_flags ft"

definition proc_remount_data :: "features \<Rightarrow> string" where
  "proc_remount_data ft = (if ft_proc_subset_pid ft then ''hidepid=2,subset=pid'' else ''hidepid=2'')"

definition seal_rootfs :: "env \<Rightarrow> unit eff" where
  "seal_rootfs env = eff_bind (remount env ''/'' {RDONLY} []) (\<lambda>_. eff_return ())"

definition lockdown_filesystem :: "features \<Rightarrow> (string \<Rightarrow> string) \<Rightarrow> env \<Rightarrow> string \<Rightarrow> unit eff" where
  "lockdown_filesystem ft b env payload_dir =
     eff_then (remount_fatal env ''/sys'' (NOSUID_NODEV_NOEXEC \<union> {RDONLY}) [])
    (eff_then (seal_rootfs env)
    (eff_then (remount_fatal env ''/proc'' NOSUID_NODEV_NOEXEC (proc_remount_data ft))
    (eff_then (remount_fatal env payload_dir {BIND, RDONLY, NOSUID, NODEV} [])
    (eff_bind (eff_lift (tmpfs_data b ''CARGO_UNIKERNEL_TMPFS_TMP_MB'' ''mode=1777'')) (\<lambda>tmp_data.
     eff_then (remount_fatal env ''/tmp'' (tmp_remount_flags ft) tmp_data)
    (eff_bind (eff_lift (tmpfs_data b ''CARGO_UNIKERNEL_TMPFS_RUN_MB'' ''mode=0755'')) (\<lambda>run_data.
       remount_fatal env ''/run'' {NOSUID, NODEV, NOEXEC} run_data)))))))"

section \<open>The mount table of a history\<close>

text \<open>The flags of every mount by target, after the mount events that the kernel accepted.\<close>

fun mount_effect :: "event \<Rightarrow> (string \<rightharpoonup> mflag set) \<Rightarrow> (string \<rightharpoonup> mflag set)" where
  "mount_effect (Mount s p ty fl d) t = t(p \<mapsto> fl)"
| "mount_effect (BindMount s p) t = t(p \<mapsto> {})"
| "mount_effect (Remount p fl d) t = t(p \<mapsto> fl)"
| "mount_effect (Unmount p) t = t(p := None)"
| "mount_effect _ t = t"

fun mount_run :: "env \<Rightarrow> event list \<Rightarrow> event list \<Rightarrow> (string \<rightharpoonup> mflag set) \<Rightarrow> (string \<rightharpoonup> mflag set)" where
  "mount_run env pre [] t = t"
| "mount_run env pre (ev # evs) t =
     mount_run env (pre @ [ev]) evs (if succeeded (env pre ev) then mount_effect ev t else t)"

definition mount_table :: "env \<Rightarrow> event list \<Rightarrow> (string \<rightharpoonup> mflag set)" where
  "mount_table env tr = mount_run env [] tr Map.empty"

definition sealed_flags :: "features \<Rightarrow> string \<Rightarrow> mflag set \<Rightarrow> bool" where
  "sealed_flags ft p fl \<longleftrightarrow> RDONLY \<in> fl \<or> NOEXEC \<in> fl \<or> ft_danger ft \<and> p \<in> {''/tmp'', ''/var''}"

lemma mount_run_append:
  "mount_run env pre (xs @ ys) t = mount_run env (pre @ xs) ys (mount_run env pre xs t)"
  by (induction xs arbitrary: pre t) auto

text \<open>
  An event that keeps every mount but the payload's sealed, and one that keeps them all sealed.
\<close>

fun mount_safe :: "features \<Rightarrow> string \<Rightarrow> event \<Rightarrow> bool" where
  "mount_safe ft pd (Mount s p ty fl d) = sealed_flags ft p fl"
| "mount_safe ft pd (BindMount s p) = (p = pd)"
| "mount_safe ft pd (Remount p fl d) = (p = pd \<or> sealed_flags ft p fl)"
| "mount_safe ft pd _ = True"

fun mount_strict :: "features \<Rightarrow> event \<Rightarrow> bool" where
  "mount_strict ft (Mount s p ty fl d) = sealed_flags ft p fl"
| "mount_strict ft (BindMount s p) = False"
| "mount_strict ft (Remount p fl d) = sealed_flags ft p fl"
| "mount_strict ft _ = True"

definition sealed_except :: "features \<Rightarrow> string set \<Rightarrow> (string \<rightharpoonup> mflag set) \<Rightarrow> bool" where
  "sealed_except ft open_set t \<longleftrightarrow> (\<forall>p fl. t p = Some fl \<longrightarrow> p \<in> open_set \<or> sealed_flags ft p fl)"

lemma mount_strict_safe: "mount_strict ft ev \<Longrightarrow> mount_safe ft pd ev"
  by (cases ev) auto

lemma mount_effect_safe:
  "mount_safe ft pd ev \<Longrightarrow> sealed_except ft {pd} t \<Longrightarrow> sealed_except ft {pd} (mount_effect ev t)"
  by (cases ev) (auto simp: sealed_except_def)

lemma mount_effect_strict:
  "mount_strict ft ev \<Longrightarrow> sealed_except ft S t \<Longrightarrow> sealed_except ft S (mount_effect ev t)"
  by (cases ev) (auto simp: sealed_except_def)

lemma mount_run_safe:
  "\<forall>ev\<in>set evs. mount_safe ft pd ev \<Longrightarrow> sealed_except ft {pd} t \<Longrightarrow>
     sealed_except ft {pd} (mount_run env pre evs t)"
  by (induction evs arbitrary: pre t) (auto simp: mount_effect_safe)

lemma mount_run_strict:
  "\<forall>ev\<in>set evs. mount_strict ft ev \<Longrightarrow> sealed_except ft S t \<Longrightarrow>
     sealed_except ft S (mount_run env pre evs t)"
  by (induction evs arbitrary: pre t) (auto simp: mount_effect_strict)

lemma sealed_payload:
  "sealed_except ft {pd} t \<Longrightarrow> sealed_flags ft pd fl \<Longrightarrow> sealed_except ft {} (t(pd \<mapsto> fl))"
  by (auto simp: sealed_except_def)

section \<open>No mount stays writable and executable\<close>

named_theorems sealed_intros \<open>which mounts each step makes\<close>

lemma sealed_noexec [simp]:
  "sealed_flags ft p NOSUID_NODEV_NOEXEC" "sealed_flags ft p {NOSUID, NOEXEC}"
  "sealed_flags ft p {NOSUID, NODEV, NOEXEC}" "sealed_flags ft p (insert RDONLY fl)"
  "sealed_flags ft p (fl \<union> {RDONLY})" "sealed_flags ft p (insert x (insert RDONLY fl))"
  by (simp_all add: sealed_flags_def NOSUID_NODEV_NOEXEC_def)

lemma sealed_writable [simp]:
  "p \<in> {''/tmp'', ''/var''} \<Longrightarrow> sealed_flags ft p (writable_exec_mount_flags ft)"
  by (simp add: sealed_flags_def writable_exec_mount_flags_def)

lemma only_mount [sealed_intros]:
  "(\<And>d. P (Mount s p ty fl d)) \<Longrightarrow> only P (mount env s p ty fl data)"
  by (auto simp: mount_def intro!: traced_intros split: sum.split)

lemma only_or_fatal [sealed_intros]: "only P m \<Longrightarrow> only P (or_fatal m e)"
  unfolding or_fatal_def by (intro traced_intros)

lemma only_mount_fatal [sealed_intros]:
  "(\<And>d. P (Mount s p ty fl d)) \<Longrightarrow> only P (mount_fatal env s p ty fl data)"
  unfolding mount_fatal_def by (intro sealed_intros)

lemma only_remount_fatal [sealed_intros]:
  "P (Remount p fl d) \<Longrightarrow> only P (remount_fatal env p fl d)"
  unfolding remount_fatal_def remount_def by (intro sealed_intros traced_intros)

lemma only_networking [sealed_intros]:
  "(\<And>f r a. P (Ioctl f r a)) \<Longrightarrow> (\<And>p. P (ReadDir p)) \<Longrightarrow> only P (init_networking ft env)"
  unfolding init_networking_def configure_loopback_v4_def ensure_interface_up_def
    non_loopback_interfaces_def ifreq_ioctl_def socket_ioctl_def Let_def
  by (auto intro!: traced_intros split: sum.split)

lemma only_persistent_var [sealed_intros]:
  "(\<And>d. P (Mount DEVICE_PATH MOUNT_TARGET ''ext4'' (writable_exec_mount_flags ft) d)) \<Longrightarrow>
   (\<And>p. P (OpenDevice p)) \<Longrightarrow> (\<And>p a n. P (ReadDevice p a n)) \<Longrightarrow> (\<And>p. P (SizeDevice p)) \<Longrightarrow>
   (\<And>p n. P (WriteZeros p n)) \<Longrightarrow> (\<And>p. P (SyncDevice p)) \<Longrightarrow> (\<And>p as. P (RunProgram p as)) \<Longrightarrow>
   only P (mount_persistent_var ft env)"
  unfolding mount_persistent_var_def device_carries_our_marker_def read_marker_def
    wipe_and_format_def wipe_device_def
  by (auto intro!: traced_intros sealed_intros split: option.split answer.split bool.split)

lemma prepare_system_env_safe:
  "only (mount_safe ft pd) (prepare_system_env ft b env pd)"
  unfolding prepare_system_env_def mount_var_tmp_def prepare_mount_directory_def mount_payload_def
    bind_mount_def
  by (auto simp: base_mounts_def mount_base_def MOUNT_TARGET_def
      intro!: traced_intros sealed_intros split: option.split answer.split)

lemma lockdown_strict:
  "pre = [Remount ''/sys'' (NOSUID_NODEV_NOEXEC \<union> {RDONLY}) [], Remount ''/'' {RDONLY} [],
          Remount ''/proc'' NOSUID_NODEV_NOEXEC (proc_remount_data ft)] \<Longrightarrow>
   lockdown_filesystem ft b env pd tr = (Some (Inr u), tr') \<Longrightarrow>
     succeeded (env (tr @ pre) (Remount pd {BIND, RDONLY, NOSUID, NODEV} [])) \<and>
     (\<exists>td rd. tr' = tr @ pre @ [Remount pd {BIND, RDONLY, NOSUID, NODEV} [],
        Remount ''/tmp'' (tmp_remount_flags ft) td, Remount ''/run'' {NOSUID, NODEV, NOEXEC} rd])"
  by (auto simp: lockdown_filesystem_def remount_fatal_def or_fatal_def remount_def seal_rootfs_def
      value_iffs split: if_splits)

lemma table_safe:
  "\<forall>ev\<in>set evs. mount_safe ft pd ev \<Longrightarrow> sealed_except ft {pd} (mount_table env evs)"
  unfolding mount_table_def by (rule mount_run_safe) (auto simp: sealed_except_def)

lemma table_strict:
  "\<forall>ev\<in>set evs. mount_strict ft ev \<Longrightarrow> sealed_except ft S (mount_table env tr) \<Longrightarrow>
     sealed_except ft S (mount_table env (tr @ evs))"
  unfolding mount_table_def mount_run_append by (rule mount_run_strict) simp_all

lemma table_snoc:
  "mount_table env (tr @ [ev]) =
     (if succeeded (env tr ev) then mount_effect ev (mount_table env tr) else mount_table env tr)"
  by (simp add: mount_table_def mount_run_append)

lemma table_remount_other:
  "p \<noteq> q \<Longrightarrow> mount_table env (tr @ [Remount q fl d]) p = mount_table env tr p"
  by (simp add: table_snoc)

text \<open>
  The mounts the boot leaves: sealed, with the payload and, if the kernel agreed, the root read-only.
\<close>

lemma lockdown_seals:
  assumes "\<forall>ev\<in>set tr1. mount_safe ft pd ev"
    and "lockdown_filesystem ft b env pd tr1 = (Some (Inr ()), tr3)"
  shows "sealed_except ft {} (mount_table env tr3)"
proof -
  define pre where "pre = [Remount ''/sys'' (NOSUID_NODEV_NOEXEC \<union> {RDONLY}) [], Remount ''/'' {RDONLY} [],
    Remount ''/proc'' NOSUID_NODEV_NOEXEC (proc_remount_data ft)]"
  let ?ro = "Remount pd {BIND, RDONLY, NOSUID, NODEV} []"
  obtain td rd where ok: "succeeded (env (tr1 @ pre) ?ro)"
    and tr3: "tr3 = ((tr1 @ pre) @ [?ro]) @ [Remount ''/tmp'' (tmp_remount_flags ft) td,
      Remount ''/run'' {NOSUID, NODEV, NOEXEC} rd]"
    using lockdown_strict [OF pre_def assms(2)] by auto
  have "\<forall>ev\<in>set pre. mount_strict ft ev" by (simp add: pre_def)
  then have "sealed_except ft {pd} (mount_table env (tr1 @ pre))"
    by (intro table_strict table_safe assms(1))
  then have "sealed_except ft {} (mount_table env ((tr1 @ pre) @ [?ro]))"
    unfolding table_snoc [of _ "tr1 @ pre"] by (simp add: ok sealed_payload)
  then show ?thesis
    unfolding tr3 by (rule table_strict [rotated]) (simp add: tmp_remount_flags_def)
qed

lemma lockdown_read_only:
  assumes "lockdown_filesystem ft b env pd tr1 = (Some (Inr ()), tr3)"
    and "pd \<notin> {''/'', ''/tmp'', ''/run''}"
  shows "mount_table env tr3 pd = Some {BIND, RDONLY, NOSUID, NODEV} \<and>
    (mount_table env tr3 ''/'' = Some {RDONLY} \<or>
      \<not> succeeded (env (tr1 @ [Remount ''/sys'' (NOSUID_NODEV_NOEXEC \<union> {RDONLY}) []]) (Remount ''/'' {RDONLY} [])))"
proof -
  let ?sys = "Remount ''/sys'' (NOSUID_NODEV_NOEXEC \<union> {RDONLY}) []"
  let ?root = "Remount ''/'' {RDONLY} []"
  let ?proc = "Remount ''/proc'' NOSUID_NODEV_NOEXEC (proc_remount_data ft)"
  let ?ro = "Remount pd {BIND, RDONLY, NOSUID, NODEV} []"
  define before where "before = ((tr1 @ [?sys]) @ [?root]) @ [?proc]"
  obtain td rd where ok: "succeeded (env before ?ro)"
    and tr3: "tr3 = ((before @ [?ro]) @ [Remount ''/tmp'' (tmp_remount_flags ft) td]) @
      [Remount ''/run'' {NOSUID, NODEV, NOEXEC} rd]"
    using lockdown_strict [OF refl assms(1)] unfolding before_def by auto
  have "mount_table env tr3 pd = Some {BIND, RDONLY, NOSUID, NODEV}"
    using assms(2) unfolding tr3
    by (subst table_remount_other, simp, subst table_remount_other, simp) (simp add: table_snoc ok)
  moreover have "mount_table env tr3 ''/'' = Some {RDONLY}" if "succeeded (env (tr1 @ [?sys]) ?root)"
  proof -
    have "mount_table env ((tr1 @ [?sys]) @ [?root]) ''/'' = Some {RDONLY}"
      by (simp only: table_snoc [of _ "tr1 @ [?sys]"] that) simp
    then have "mount_table env before ''/'' = Some {RDONLY}"
      unfolding before_def by (subst table_remount_other) simp_all
    then show ?thesis
      using assms(2) unfolding tr3
      by (subst table_remount_other, simp, subst table_remount_other, simp, subst table_remount_other, auto)
  qed
  ultimately show ?thesis by blast
qed


end
