(* ===== verification/Landlock.thy ===== *)
theory Landlock
  imports Effects
begin

unbundle bit_operations_syntax

text \<open>
  The Landlock sandbox of \<open>guest/src/landlock.rs\<close>: the access rights as bits of a \<open>u64\<close>, the built-in rules, and the
  construction of the ruleset before the fork. The kernel's side is the environment; the ruleset that a history
  leaves is the list of the rules it accepted, and a path may be used for a right exactly when a rule on it
  or above it grants the right, or the right is not handled.
\<close>

section \<open>Rights\<close>

definition MIN_ABI :: int where [nums]: "MIN_ABI = 5"

definition FS_EXECUTE :: u64 where [nums]: "FS_EXECUTE = push_bit 0 1"
definition FS_WRITE_FILE :: u64 where [nums]: "FS_WRITE_FILE = push_bit 1 1"
definition FS_READ_FILE :: u64 where [nums]: "FS_READ_FILE = push_bit 2 1"
definition FS_READ_DIR :: u64 where [nums]: "FS_READ_DIR = push_bit 3 1"
definition FS_REMOVE_DIR :: u64 where [nums]: "FS_REMOVE_DIR = push_bit 4 1"
definition FS_REMOVE_FILE :: u64 where [nums]: "FS_REMOVE_FILE = push_bit 5 1"
definition FS_MAKE_CHAR :: u64 where [nums]: "FS_MAKE_CHAR = push_bit 6 1"
definition FS_MAKE_DIR :: u64 where [nums]: "FS_MAKE_DIR = push_bit 7 1"
definition FS_MAKE_REG :: u64 where [nums]: "FS_MAKE_REG = push_bit 8 1"
definition FS_MAKE_SOCK :: u64 where [nums]: "FS_MAKE_SOCK = push_bit 9 1"
definition FS_MAKE_FIFO :: u64 where [nums]: "FS_MAKE_FIFO = push_bit 10 1"
definition FS_MAKE_BLOCK :: u64 where [nums]: "FS_MAKE_BLOCK = push_bit 11 1"
definition FS_MAKE_SYM :: u64 where [nums]: "FS_MAKE_SYM = push_bit 12 1"
definition FS_REFER :: u64 where [nums]: "FS_REFER = push_bit 13 1"
definition FS_TRUNCATE :: u64 where [nums]: "FS_TRUNCATE = push_bit 14 1"
definition FS_IOCTL_DEV :: u64 where [nums]: "FS_IOCTL_DEV = push_bit 15 1"
definition SCOPE_ABSTRACT_UNIX_SOCKET :: u64 where [nums]: "SCOPE_ABSTRACT_UNIX_SOCKET = push_bit 0 1"
definition SCOPE_SIGNAL :: u64 where [nums]: "SCOPE_SIGNAL = push_bit 1 1"

definition ruleset_attr_size :: "int \<Rightarrow> nat" where
  "ruleset_attr_size abi = (if abi \<ge> 6 then 24 else if abi \<ge> 4 then 16 else 8)"

definition handled_access_fs :: "int \<Rightarrow> u64" where
  "handled_access_fs abi =
     (let access = FS_EXECUTE OR FS_WRITE_FILE OR FS_READ_FILE OR FS_READ_DIR OR FS_REMOVE_DIR OR
        FS_REMOVE_FILE OR FS_MAKE_CHAR OR FS_MAKE_DIR OR FS_MAKE_REG OR FS_MAKE_SOCK OR FS_MAKE_FIFO OR
        FS_MAKE_BLOCK OR FS_MAKE_SYM OR FS_REFER OR FS_TRUNCATE
      in if abi \<ge> 5 then access OR FS_IOCTL_DEV else access)"

definition READ :: u64 where [nums]: "READ = FS_READ_FILE OR FS_READ_DIR"
definition READ_EXEC :: u64 where [nums]: "READ_EXEC = READ OR FS_EXECUTE"
definition READ_WRITE :: u64 where [nums]:
  "READ_WRITE = READ OR FS_WRITE_FILE OR FS_TRUNCATE OR FS_REMOVE_DIR OR FS_REMOVE_FILE OR FS_MAKE_DIR OR
     FS_MAKE_REG OR FS_MAKE_SOCK OR FS_MAKE_FIFO OR FS_MAKE_SYM OR FS_REFER"
definition DEV_READ_WRITE :: u64 where [nums]: "DEV_READ_WRITE = FS_READ_FILE OR FS_WRITE_FILE"
definition DEV_READ :: u64 where [nums]: "DEV_READ = FS_READ_FILE"
definition DEV_PTY :: u64 where [nums]: "DEV_PTY = FS_READ_FILE OR FS_WRITE_FILE OR FS_IOCTL_DEV"
definition DEV_ATTESTATION :: u64 where [nums]:
  "DEV_ATTESTATION = FS_READ_FILE OR FS_WRITE_FILE OR FS_IOCTL_DEV"

definition SCRATCH :: "features \<Rightarrow> u64" where
  "SCRATCH ft = (if ft_danger ft then READ_WRITE OR FS_EXECUTE else READ_WRITE)"

text \<open>The rights that \<open>add_rule\<close> keeps for a path that is not a directory.\<close>

definition FILE_RIGHTS :: u64 where [nums]:
  "FILE_RIGHTS = FS_EXECUTE OR FS_READ_FILE OR FS_WRITE_FILE OR FS_TRUNCATE OR FS_IOCTL_DEV"

section \<open>Rules\<close>

datatype presence = Required | Optional

record ll_rule =
  ll_path :: string
  ll_access :: u64
  ll_presence :: presence

definition required :: "string \<Rightarrow> u64 \<Rightarrow> ll_rule" where
  "required p a = \<lparr>ll_path = p, ll_access = a, ll_presence = Required\<rparr>"

definition optional :: "string \<Rightarrow> u64 \<Rightarrow> ll_rule" where
  "optional p a = \<lparr>ll_path = p, ll_access = a, ll_presence = Optional\<rparr>"

definition builtin_rules :: "features \<Rightarrow> string \<Rightarrow> ll_rule list" where
  "builtin_rules ft payload_dir =
     [required payload_dir READ_EXEC,
      required ''/tmp'' (SCRATCH ft),
      required ''/var'' (SCRATCH ft),
      required ''/var/tmp'' (SCRATCH ft),
      required ''/run'' READ_WRITE,
      required ''/dev/shm'' (SCRATCH ft),
      optional ''/etc'' READ,
      required ''/proc'' READ,
      optional ''/sys/devices/system/cpu'' READ,
      optional ''/dev/null'' DEV_READ_WRITE,
      optional ''/dev/zero'' DEV_READ_WRITE,
      optional ''/dev/full'' DEV_READ_WRITE,
      optional ''/dev/random'' DEV_READ,
      optional ''/dev/urandom'' DEV_READ,
      optional ''/dev/ptmx'' DEV_PTY,
      optional ''/dev/pts'' DEV_PTY] @
     (if ft_sev_snp ft then [optional ''/dev/sev-guest'' DEV_ATTESTATION] else [])"

definition rules_for :: "features \<Rightarrow> string \<Rightarrow> string list \<Rightarrow> string list \<Rightarrow> ll_rule list" where
  "rules_for ft payload_dir extra_read extra_read_write =
     builtin_rules ft payload_dir @ map (\<lambda>p. required p READ) extra_read @
     map (\<lambda>p. required p READ_WRITE) extra_read_write"

text \<open>\<open>S_IFMT\<close> and \<open>S_IFDIR\<close>.\<close>

definition is_directory_mode :: "nat \<Rightarrow> bool" where
  "is_directory_mode st_mode = ((word_of_nat st_mode :: u32) AND 0xF000 = 0x4000)"

definition granted :: "u64 \<Rightarrow> nat \<Rightarrow> u64" where
  "granted access st_mode = (if is_directory_mode st_mode then access else access AND FILE_RIGHTS)"

section \<open>Building the ruleset\<close>

definition abi_version :: "env \<Rightarrow> int eff" where
  "abi_version env =
     eff_bind (ask env LandlockVersion) (\<lambda>a.
       eff_return (case a of NumberIs n \<Rightarrow> if n < 2 ^ 31 then int n else -1 | _ \<Rightarrow> -1))"

definition add_rule :: "env \<Rightarrow> ll_rule \<Rightarrow> unit eff" where
  "add_rule env rule =
     (let path = ll_path rule in
      if CHR 0x00 \<in> set path then eff_fatal (LandlockNulPath path)
      else eff_bind (ask env (OpenPath path)) (\<lambda>a.
        if \<not> succeeded a then
          (if ll_presence rule = Optional then eff_return () else eff_fatal (LandlockOpenFailed path))
        else eff_bind (ask env (StatMode path)) (\<lambda>st.
          case st of
            NumberIs st_mode \<Rightarrow>
              require env (LandlockAddRule (granted (ll_access rule) st_mode) path) (LandlockAddFailed path)
          | _ \<Rightarrow> eff_fatal (LandlockStatFailed path))))"

definition scoped_for :: "int \<Rightarrow> u64" where
  "scoped_for abi = (if abi \<ge> 6 then SCOPE_ABSTRACT_UNIX_SOCKET OR SCOPE_SIGNAL else 0)"

definition build :: "features \<Rightarrow> env \<Rightarrow> string \<Rightarrow> string list \<Rightarrow> string list \<Rightarrow> unit eff" where
  "build ft env payload_dir extra_read extra_read_write =
     eff_bind (abi_version env) (\<lambda>abi.
       if abi < MIN_ABI then eff_fatal LandlockAbiTooOld
       else eff_then
         (require env (LandlockCreate (handled_access_fs abi) 0 (scoped_for abi) (ruleset_attr_size abi))
           LandlockCreateFailed)
         (eff_all (add_rule env) (rules_for ft payload_dir extra_read extra_read_write)))"

section \<open>What the ruleset allows\<close>

definition beneath :: "string \<Rightarrow> string \<Rightarrow> bool" where
  "beneath root p \<longleftrightarrow> p = root \<or> (\<exists>rest. p = root @ ''/'' @ rest)"

text \<open>The rules in a history, with the rights they grant.\<close>

fun added_rules :: "event list \<Rightarrow> (u64 \<times> string) list" where
  "added_rules [] = []"
| "added_rules (LandlockAddRule a p # evs) = (a, p) # added_rules evs"
| "added_rules (_ # evs) = added_rules evs"

definition may_use :: "event list \<Rightarrow> u64 \<Rightarrow> string \<Rightarrow> bool" where
  "may_use evs right p \<longleftrightarrow> (\<exists>(a, root)\<in>set (added_rules evs). a AND right \<noteq> 0 \<and> beneath root p)"

lemma added_rules_append [simp]: "added_rules (xs @ ys) = added_rules xs @ added_rules ys"
  by (induction xs rule: added_rules.induct) auto

lemma added_rules_iff: "(a, p) \<in> set (added_rules evs) \<longleftrightarrow> LandlockAddRule a p \<in> set evs"
  by (induction evs rule: added_rules.induct) auto

section \<open>What is asked of the kernel\<close>

lemma builtin_rights_cases:
  "rule \<in> set (rules_for ft pd ro rw) \<Longrightarrow>
    ll_access rule \<in> {READ_EXEC, SCRATCH ft, READ_WRITE, READ, DEV_READ_WRITE, DEV_READ, DEV_PTY, DEV_ATTESTATION}"
  by (auto simp: rules_for_def builtin_rules_def required_def optional_def split: if_splits)

lemmas right_values = nums SCRATCH_def handled_access_fs_def Let_def granted_def

lemma granted_usable:
  assumes "rule \<in> set (rules_for ft pd ro rw)"
  shows "granted (ll_access rule) m \<noteq> 0" and "granted (ll_access rule) m AND NOT (handled_access_fs 5) = 0"
  using builtin_rights_cases [OF assms]
  by (auto simp: right_values split: if_splits)

definition rule_request :: "ll_rule list \<Rightarrow> event \<Rightarrow> bool" where
  "rule_request rules ev =
     (case ev of
        LandlockAddRule a p \<Rightarrow> \<exists>rule\<in>set rules. \<exists>m. p = ll_path rule \<and> a = granted (ll_access rule) m
      | _ \<Rightarrow> True)"

lemma add_rule_requests:
  "rule \<in> set rules \<Longrightarrow> only (rule_request rules) (add_rule env rule)"
  by (fastforce simp: add_rule_def rule_request_def Let_def intro!: traced_intros split: answer.split)

lemma build_requests:
  "only (rule_request (rules_for ft pd ro rw)) (build ft env pd ro rw)"
  by (auto simp: build_def abi_version_def rule_request_def intro!: traced_intros add_rule_requests)

lemma add_rules_value:
  "eff_all (add_rule env) rules tr = (Some (Inr u), tr') \<Longrightarrow>
     \<exists>new. tr' = tr @ new \<and>
       (\<forall>rule\<in>set rules. ll_presence rule = Required \<longrightarrow> ll_path rule \<in> snd ` set (added_rules new))"
proof (induction rules arbitrary: tr)
  case (Cons rule rules)
  from Cons.prems obtain tr1 where one: "add_rule env rule tr = (Some (Inr ()), tr1)"
    and rest: "eff_all (add_rule env) rules tr1 = (Some (Inr u), tr')"
    by (auto simp: then_value_iff)
  from Cons.IH [OF rest] obtain new where new: "tr' = tr1 @ new"
      "\<forall>rule\<in>set rules. ll_presence rule = Required \<longrightarrow> ll_path rule \<in> snd ` set (added_rules new)"
    by blast
  have "\<exists>new1. tr1 = tr @ new1 \<and>
      (ll_presence rule = Required \<longrightarrow> ll_path rule \<in> snd ` set (added_rules new1))"
    using one
    by (auto simp: add_rule_def Let_def value_iffs split: if_splits answer.splits)
  then obtain new1 where new1: "tr1 = tr @ new1"
      "ll_presence rule = Required \<longrightarrow> ll_path rule \<in> snd ` set (added_rules new1)" by blast
  show ?case
    using new new1 by (intro exI [of _ "new1 @ new"]) auto
qed (simp add: return_value_iff)

text \<open>
  When the ruleset is built, every path that must be in it is in it, on a kernel that governs device
  \<open>ioctl\<close>s; and no rule the code ever asks for is one the kernel refuses: each grants at least one right and none that
  the ruleset does not handle, whatever the type of the file.
\<close>

lemma landlock_ruleset_complete:
  assumes "build ft env pd ro rw tr = (r, tr')"
  shows "\<exists>new. tr' = tr @ new \<and>
    (\<forall>(a, p)\<in>set (added_rules new). a \<noteq> 0 \<and> a AND NOT (handled_access_fs 5) = 0 \<and>
      p \<in> ll_path ` set (rules_for ft pd ro rw)) \<and>
    (r = Some (Inr ()) \<longrightarrow>
      (\<exists>n. env tr LandlockVersion = NumberIs n \<and> 5 \<le> n) \<and>
      (\<forall>rule\<in>set (rules_for ft pd ro rw). ll_presence rule = Required \<longrightarrow>
        ll_path rule \<in> snd ` set (added_rules new)))"
proof -
  obtain new where new: "tr' = tr @ new" "\<forall>ev\<in>set new. rule_request (rules_for ft pd ro rw) ev"
    using onlyD [OF build_requests assms] by blast
  have asked: "a \<noteq> 0 \<and> a AND NOT (handled_access_fs 5) = 0 \<and> p \<in> ll_path ` set (rules_for ft pd ro rw)"
    if "(a, p) \<in> set (added_rules new)" for a p
  proof -
    from that new(2) have "rule_request (rules_for ft pd ro rw) (LandlockAddRule a p)"
      by (simp add: added_rules_iff)
    then obtain rule m where "rule \<in> set (rules_for ft pd ro rw)" "p = ll_path rule"
      "a = granted (ll_access rule) m" by (auto simp: rule_request_def)
    then show ?thesis using granted_usable by simp
  qed
  have "(\<exists>n. env tr LandlockVersion = NumberIs n \<and> 5 \<le> n) \<and>
      (\<forall>rule\<in>set (rules_for ft pd ro rw). ll_presence rule = Required \<longrightarrow>
        ll_path rule \<in> snd ` set (added_rules new))" if "r = Some (Inr ())"
  proof -
    from assms that obtain abi where
      abi: "env tr LandlockVersion = NumberIs abi" "5 \<le> abi" and
      run: "eff_all (add_rule env) (rules_for ft pd ro rw)
        (tr @ [LandlockVersion, LandlockCreate (handled_access_fs (int abi)) 0 (scoped_for (int abi))
           (ruleset_attr_size (int abi))]) = (Some (Inr ()), tr')"
      by (auto simp: build_def abi_version_def value_iffs MIN_ABI_def split: if_splits answer.splits)
    from add_rules_value [OF run] obtain new' where
      new': "tr' = (tr @ [LandlockVersion, LandlockCreate (handled_access_fs (int abi)) 0 (scoped_for (int abi))
           (ruleset_attr_size (int abi))]) @ new'"
        "\<forall>rule\<in>set (rules_for ft pd ro rw). ll_presence rule = Required \<longrightarrow>
           ll_path rule \<in> snd ` set (added_rules new')" by blast
    with new(1) have "added_rules new = added_rules new'"
      by auto
    with abi new' show ?thesis by auto
  qed
  with new(1) asked show ?thesis by blast
qed

section \<open>What the app can reach\<close>

definition allowed_roots :: "features \<Rightarrow> string \<Rightarrow> string list \<Rightarrow> string list \<Rightarrow> u64 \<Rightarrow> string list" where
  "allowed_roots ft pd ro rw right =
     map ll_path (filter (\<lambda>rule. ll_access rule AND right \<noteq> 0) (rules_for ft pd ro rw))"

lemma granted_subset: "granted a m AND right \<noteq> 0 \<Longrightarrow> a AND right \<noteq> 0"
  by (auto simp: granted_def bit_eq_iff bit_simps split: if_splits)

lemma may_use_allowed:
  assumes "\<forall>ev\<in>set new. rule_request (rules_for ft pd ro rw) ev" and "may_use new right p"
  shows "\<exists>root\<in>set (allowed_roots ft pd ro rw right). beneath root p"
proof -
  from assms(2) obtain a root where "LandlockAddRule a root \<in> set new" "a AND right \<noteq> 0" "beneath root p"
    by (auto simp: may_use_def added_rules_iff)
  with assms(1) obtain rule m where "rule \<in> set (rules_for ft pd ro rw)" "root = ll_path rule"
    "granted (ll_access rule) m AND right \<noteq> 0" "beneath root p"
    by (fastforce simp: rule_request_def)
  then show ?thesis by (auto simp: allowed_roots_def dest: granted_subset)
qed

lemmas roots_simps = allowed_roots_def rules_for_def builtin_rules_def required_def optional_def
  SCRATCH_def filter_map comp_def

lemma allowed_exec:
  "\<not> ft_danger ft \<Longrightarrow> allowed_roots ft pd ro rw FS_EXECUTE = [pd]"
  by (simp add: roots_simps nums)

lemma allowed_ioctl:
  "set (allowed_roots ft pd ro rw FS_IOCTL_DEV) =
     {''/dev/ptmx'', ''/dev/pts''} \<union> (if ft_sev_snp ft then {''/dev/sev-guest''} else {})"
  by (auto simp: roots_simps nums)

lemma allowed_device_nodes:
  "allowed_roots ft pd ro rw FS_MAKE_CHAR = []" "allowed_roots ft pd ro rw FS_MAKE_BLOCK = []"
  by (simp_all add: roots_simps nums)

lemma allowed_write:
  "set (allowed_roots ft pd ro rw FS_WRITE_FILE) =
     {''/tmp'', ''/var'', ''/var/tmp'', ''/run'', ''/dev/shm'', ''/dev/null'', ''/dev/zero'', ''/dev/full'',
      ''/dev/ptmx'', ''/dev/pts''} \<union> (if ft_sev_snp ft then {''/dev/sev-guest''} else {}) \<union> set rw"
  by (simp add: roots_simps nums image_image)


end
