(* ===== verification/Hardening.thy ===== *)
theory Hardening
  imports Effects SchemaProps
begin

text \<open>
  The sysctl hardening of \<open>guest/src/hardening.rs\<close>: the settings of each category, gated by its Cargo feature, the
  settings of the interfaces that exist already, the extra settings of the configuration, and the tally of
  the writes. PID 1 writes them as root, so the lemmas show where the writes can go.
\<close>

section \<open>Writing settings\<close>

record summary =
  sm_applied :: u32
  sm_absent :: u32

type_synonym setting = "string \<times> string"

definition write_sysctl :: "env \<Rightarrow> string \<Rightarrow> string \<Rightarrow> summary \<Rightarrow> summary eff" where
  "write_sysctl env path val t =
     eff_bind (ask env (WriteFile path val)) (\<lambda>a.
       eff_return
         (if succeeded a then t\<lparr>sm_applied := sm_applied t + 1\<rparr>
          else if a = Failed ENOENT then t\<lparr>sm_absent := sm_absent t + 1\<rparr>
          else t))"

fun write_all :: "env \<Rightarrow> setting list \<Rightarrow> summary \<Rightarrow> summary eff" where
  "write_all env [] t = eff_return t"
| "write_all env ((path, val) # rest) t =
     eff_bind (write_sysctl env path val t) (\<lambda>t. write_all env rest t)"

section \<open>The categories\<close>

definition redirect_and_forwarding_protection :: "setting list" where
  "redirect_and_forwarding_protection =
     [(''/proc/sys/net/ipv4/conf/all/rp_filter'', ''1''),
      (''/proc/sys/net/ipv4/conf/default/rp_filter'', ''1''),
      (''/proc/sys/net/ipv4/conf/all/accept_redirects'', ''0''),
      (''/proc/sys/net/ipv4/conf/default/accept_redirects'', ''0''),
      (''/proc/sys/net/ipv4/conf/all/send_redirects'', ''0''),
      (''/proc/sys/net/ipv4/conf/default/send_redirects'', ''0''),
      (''/proc/sys/net/ipv4/conf/all/secure_redirects'', ''0''),
      (''/proc/sys/net/ipv4/conf/default/secure_redirects'', ''0''),
      (''/proc/sys/net/ipv6/conf/all/accept_redirects'', ''0''),
      (''/proc/sys/net/ipv6/conf/default/accept_redirects'', ''0''),
      (''/proc/sys/net/ipv4/ip_forward'', ''0''),
      (''/proc/sys/net/ipv6/conf/all/forwarding'', ''0'')]"

definition source_routing_protection :: "setting list" where
  "source_routing_protection =
     [(''/proc/sys/net/ipv4/conf/all/accept_source_route'', ''0''),
      (''/proc/sys/net/ipv4/conf/default/accept_source_route'', ''0''),
      (''/proc/sys/net/ipv6/conf/all/accept_source_route'', ''0''),
      (''/proc/sys/net/ipv6/conf/default/accept_source_route'', ''0'')]"

definition arp_hardening :: "setting list" where
  "arp_hardening =
     [(''/proc/sys/net/ipv4/conf/all/arp_filter'', ''1''),
      (''/proc/sys/net/ipv4/conf/all/arp_ignore'', ''1''),
      (''/proc/sys/net/ipv4/conf/all/drop_gratuitous_arp'', ''1''),
      (''/proc/sys/net/ipv4/conf/all/shared_media'', ''0'')]"

definition martian_logging :: "setting list" where
  "martian_logging =
     [(''/proc/sys/net/ipv4/conf/all/log_martians'', ''1''),
      (''/proc/sys/net/ipv4/conf/default/log_martians'', ''1'')]"

definition icmp_hardening :: "setting list" where
  "icmp_hardening =
     [(''/proc/sys/net/ipv4/icmp_echo_ignore_broadcasts'', ''1''),
      (''/proc/sys/net/ipv4/icmp_ignore_bogus_error_responses'', ''1''),
      (''/proc/sys/net/ipv4/icmp_echo_ignore_all'', ''1'')]"

definition tcp_hardening :: "setting list" where
  "tcp_hardening =
     [(''/proc/sys/net/ipv4/tcp_syncookies'', ''1''),
      (''/proc/sys/net/ipv4/tcp_rfc1337'', ''1''),
      (''/proc/sys/net/core/somaxconn'', ''8192''),
      (''/proc/sys/net/core/netdev_max_backlog'', ''16384''),
      (''/proc/sys/net/ipv4/tcp_max_syn_backlog'', ''8192''),
      (''/proc/sys/net/ipv4/tcp_synack_retries'', ''2''),
      (''/proc/sys/net/ipv4/tcp_fin_timeout'', ''10''),
      (''/proc/sys/net/ipv4/tcp_keepalive_time'', ''60''),
      (''/proc/sys/net/ipv4/tcp_keepalive_intvl'', ''10''),
      (''/proc/sys/net/ipv4/tcp_keepalive_probes'', ''6''),
      (''/proc/sys/net/ipv4/tcp_max_orphans'', ''16384''),
      (''/proc/sys/net/ipv4/tcp_tw_reuse'', ''1''),
      (''/proc/sys/net/ipv4/tcp_slow_start_after_idle'', ''0''),
      (''/proc/sys/net/ipv4/tcp_congestion_control'', ''bbr'')]"

definition info_leak_restriction :: "setting list" where
  "info_leak_restriction =
     [(''/proc/sys/kernel/kptr_restrict'', ''2''),
      (''/proc/sys/kernel/dmesg_restrict'', ''1''),
      (''/proc/sys/kernel/perf_event_paranoid'', ''3''),
      (''/proc/sys/kernel/sysrq'', ''0''),
      (''/proc/sys/kernel/panic_on_oops'', ''1''),
      (''/proc/sys/net/ipv4/tcp_timestamps'', ''0'')]"

definition ptrace_and_bpf_restriction :: "setting list" where
  "ptrace_and_bpf_restriction =
     [(''/proc/sys/kernel/unprivileged_bpf_disabled'', ''1''),
      (''/proc/sys/vm/unprivileged_userfaultfd'', ''0''),
      (''/proc/sys/kernel/yama/ptrace_scope'', ''3''),
      (''/proc/sys/net/core/bpf_jit_harden'', ''2''),
      (''/proc/sys/kernel/modules_disabled'', ''1''),
      (''/proc/sys/kernel/io_uring_disabled'', ''2'')]"

definition kexec_and_fs_protection :: "setting list" where
  "kexec_and_fs_protection =
     [(''/proc/sys/kernel/kexec_load_disabled'', ''1''),
      (''/proc/sys/fs/protected_symlinks'', ''1''),
      (''/proc/sys/fs/protected_hardlinks'', ''1''),
      (''/proc/sys/fs/protected_fifos'', ''2''),
      (''/proc/sys/fs/protected_regular'', ''2''),
      (''/proc/sys/fs/suid_dumpable'', ''0'')]"

definition baseline_tuning :: "setting list" where
  "baseline_tuning =
     [(''/proc/sys/vm/max_map_count'', ''1048576''),
      (''/proc/sys/kernel/randomize_va_space'', ''2'')]"

section \<open>Interfaces that exist already\<close>

definition interface_families :: "(string \<times> string list) list" where
  "interface_families =
     [(''ipv4'', [''accept_redirects'', ''send_redirects'', ''secure_redirects'', ''shared_media'']),
      (''ipv6'', [''accept_redirects'', ''accept_source_route''])]"

definition conf_dir :: "string \<Rightarrow> string" where
  "conf_dir family = ''/proc/sys/net/'' @ family @ ''/conf''"

definition interface_settings :: "string \<Rightarrow> string list \<Rightarrow> string list \<Rightarrow> setting list" where
  "interface_settings path knobs names =
     concat (map (\<lambda>name. if name = ''all'' \<or> name = ''default'' then []
                         else map (\<lambda>knob. (path @ ''/'' @ name @ ''/'' @ knob, ''0'')) knobs) names)"

fun apply_existing_interface_protection ::
    "env \<Rightarrow> (string \<times> string list) list \<Rightarrow> summary \<Rightarrow> summary eff" where
  "apply_existing_interface_protection env [] t = eff_return t"
| "apply_existing_interface_protection env ((family, knobs) # rest) t =
     eff_bind (ask env (ReadDir (conf_dir family))) (\<lambda>a.
       eff_bind
         (case a of
            NamesAre names \<Rightarrow> write_all env (interface_settings (conf_dir family) knobs names) t
          | _ \<Rightarrow> eff_return t)
         (\<lambda>t. apply_existing_interface_protection env rest t))"

definition apply_network_spoofing_protection :: "env \<Rightarrow> summary \<Rightarrow> summary eff" where
  "apply_network_spoofing_protection env t =
     eff_bind (write_all env redirect_and_forwarding_protection t) (\<lambda>t.
     eff_bind (write_all env source_routing_protection t) (\<lambda>t.
     eff_bind (write_all env arp_hardening t) (\<lambda>t.
     eff_bind (apply_existing_interface_protection env interface_families t) (\<lambda>t.
       write_all env martian_logging t))))"

section \<open>The extra settings, and all of them\<close>

definition is_sysctl_path :: "string \<Rightarrow> bool" where
  "is_sysctl_path path =
     (prefix ''/proc/sys/'' path \<and> \<not> list_ex (\<lambda>part. part = ''..'') (split_on (CHR ''/'') path))"

definition apply_extra :: "env \<Rightarrow> setting list \<Rightarrow> summary \<Rightarrow> summary eff" where
  "apply_extra env extra t = write_all env (filter (\<lambda>(path, val). is_sysctl_path path) extra) t"

definition apply_when :: "bool \<Rightarrow> (summary \<Rightarrow> summary eff) \<Rightarrow> summary \<Rightarrow> summary eff" where
  "apply_when on f t = (if on then f t else eff_return t)"

definition apply_hardening :: "features \<Rightarrow> env \<Rightarrow> setting list \<Rightarrow> summary eff" where
  "apply_hardening ft env extra =
     eff_bind (write_all env baseline_tuning \<lparr>sm_applied = 0, sm_absent = 0\<rparr>) (\<lambda>t.
     eff_bind (apply_when (ft_net_spoofing ft) (apply_network_spoofing_protection env) t) (\<lambda>t.
     eff_bind (apply_when (ft_icmp ft) (write_all env icmp_hardening) t) (\<lambda>t.
     eff_bind (apply_when (ft_tcp ft) (write_all env tcp_hardening) t) (\<lambda>t.
     eff_bind (apply_when (ft_info_leak ft) (write_all env info_leak_restriction) t) (\<lambda>t.
     eff_bind (apply_when (ft_ptrace_bpf ft) (write_all env ptrace_and_bpf_restriction) t) (\<lambda>t.
     eff_bind (apply_when (ft_kexec_fs ft) (write_all env kexec_and_fs_protection) t) (\<lambda>t.
       apply_extra env extra t)))))))"

section \<open>Where the writes go, and in which order\<close>

lemmas category_defs = redirect_and_forwarding_protection_def source_routing_protection_def
  arp_hardening_def martian_logging_def icmp_hardening_def tcp_hardening_def
  info_leak_restriction_def ptrace_and_bpf_restriction_def kexec_and_fs_protection_def
  baseline_tuning_def

definition in_proc_sys :: "event \<Rightarrow> bool" where
  "in_proc_sys ev = (case ev of WriteFile p v \<Rightarrow> is_sysctl_path p | _ \<Rightarrow> True)"

lemma is_sysctl_path_iff: "is_sysctl_path = sysctl_key_ok"
  by (rule ext) (auto simp: is_sysctl_path_def sysctl_key_ok_def list_ex_iff)

definition category_settings :: "features \<Rightarrow> setting list" where
  "category_settings ft =
     baseline_tuning @
     (if ft_net_spoofing ft then redirect_and_forwarding_protection @ source_routing_protection @
        arp_hardening @ martian_logging else []) @
     (if ft_icmp ft then icmp_hardening else []) @
     (if ft_tcp ft then tcp_hardening else []) @
     (if ft_info_leak ft then info_leak_restriction else []) @
     (if ft_ptrace_bpf ft then ptrace_and_bpf_restriction else []) @
     (if ft_kexec_fs ft then kexec_and_fs_protection else [])"

definition writes :: "setting list \<Rightarrow> event list" where
  "writes ws = map (\<lambda>(p, v). WriteFile p v) ws"

lemma writes_simps [simp]:
  "writes [] = []" "writes ((p, v) # ws) = WriteFile p v # writes ws"
  "writes (xs @ ys) = writes xs @ writes ys"
  by (simp_all add: writes_def)

text \<open>
  \<open>appends m P\<close>: from any history, \<open>m\<close> returns a value and appends events that satisfy \<open>P\<close>.
\<close>

definition appends :: "'a eff \<Rightarrow> (event list \<Rightarrow> bool) \<Rightarrow> bool" where
  "appends m P \<longleftrightarrow> (\<forall>tr. \<exists>x new. m tr = (Some (Inr x), tr @ new) \<and> P new)"

lemma appends_return: "P [] \<Longrightarrow> appends (eff_return x) P"
  by (simp add: appends_def eff_return_def)

lemma appends_bind:
  assumes "appends m P" and "\<And>x. appends (f x) Q"
    and "\<And>xs ys. P xs \<Longrightarrow> Q ys \<Longrightarrow> R (xs @ ys)"
  shows "appends (eff_bind m f) R"
  unfolding appends_def
proof
  fix tr
  obtain x new where m: "m tr = (Some (Inr x), tr @ new)" "P new"
    using assms(1) unfolding appends_def by blast
  obtain y new' where "f x (tr @ new) = (Some (Inr y), (tr @ new) @ new')" "Q new'"
    using assms(2) unfolding appends_def by blast
  with m assms(3) show "\<exists>x new. eff_bind m f tr = (Some (Inr x), tr @ new) \<and> R new"
    by (intro exI [of _ y] exI [of _ "new @ new'"]) (simp add: eff_bind_def)
qed

definition cat :: "(event list \<Rightarrow> bool) \<Rightarrow> (event list \<Rightarrow> bool) \<Rightarrow> event list \<Rightarrow> bool" where
  "cat P Q new \<longleftrightarrow> (\<exists>xs ys. P xs \<and> Q ys \<and> new = xs @ ys)"

lemma appends_seq: "appends m P \<Longrightarrow> (\<And>x. appends (f x) Q) \<Longrightarrow> appends (eff_bind m f) (cat P Q)"
  by (erule appends_bind, assumption) (auto simp: cat_def)

lemma appends_mono: "appends m P \<Longrightarrow> (\<And>new. P new \<Longrightarrow> Q new) \<Longrightarrow> appends m Q"
  unfolding appends_def by blast

lemma appends_write: "appends (write_sysctl env p v t) (\<lambda>new. new = [WriteFile p v])"
  by (simp add: appends_def write_sysctl_def eff_bind_def ask_def eff_return_def)

lemma appends_write_all: "appends (write_all env ws t) (\<lambda>new. new = writes ws)"
proof (induction env ws t rule: write_all.induct)
  case (1 env t)
  then show ?case by (simp add: appends_return)
next
  case (2 env p v rest t)
  show ?case
    unfolding write_all.simps by (rule appends_bind [OF appends_write 2]) simp
qed

lemma appends_when:
  "appends (apply_when on (write_all env ws) t) (\<lambda>new. new = (if on then writes ws else []))"
  by (simp add: apply_when_def appends_write_all appends_return)

text \<open>A directory entry's name, as the kernel promises it.\<close>

definition entry_name :: "string \<Rightarrow> bool" where
  "entry_name n \<longleftrightarrow> CHR ''/'' \<notin> set n \<and> n \<noteq> ''..''"

definition honest_dirs :: "env \<Rightarrow> bool" where
  "honest_dirs env \<longleftrightarrow> (\<forall>tr p ns. env tr (ReadDir p) = NamesAre ns \<longrightarrow> list_all entry_name ns)"

lemma split_on_sep: "split_on c (a @ c # b) = split_on c a @ split_on c b"
  by (induction a) (auto split: list.split simp: neq_Nil_conv)

lemma interface_setting_confined:
  assumes "list_all entry_name names" "(family, knobs) \<in> set interface_families"
    and "(p, v) \<in> set (interface_settings (conf_dir family) knobs names)"
  shows "is_sysctl_path p"
proof -
  from assms(1,3) obtain n k where p: "p = conf_dir family @ ''/'' @ n @ ''/'' @ k"
    and n: "entry_name n" and k: "k \<in> set knobs"
    by (auto simp: interface_settings_def list_all_iff split: if_splits)
  have pieces: "split_on (CHR ''/'') p =
      split_on (CHR ''/'') (conf_dir family) @ [n] @ split_on (CHR ''/'') k"
    using n by (simp add: p entry_name_def split_on_sep split_on_sepfree)
  show ?thesis
    using assms(2) k n
    by (auto simp: is_sysctl_path_def pieces) (auto simp: p interface_families_def conf_dir_def entry_name_def)
qed

lemma appends_interfaces:
  assumes "honest_dirs env" and "set fams \<subseteq> set interface_families"
  shows "appends (apply_existing_interface_protection env fams t) (list_all in_proc_sys)"
  using assms(2)
proof (induction fams arbitrary: t)
  case Nil
  then show ?case by (simp add: appends_return)
next
  case (Cons fk fams)
  obtain family knobs where fk: "fk = (family, knobs)" by force
  have fam: "(family, knobs) \<in> set interface_families" using Cons.prems fk by simp
  have step: "appends (case a of NamesAre names \<Rightarrow> write_all env (interface_settings (conf_dir family) knobs names) t
      | _ \<Rightarrow> eff_return t) (list_all in_proc_sys)"
    if "\<And>ns. a = NamesAre ns \<Longrightarrow> list_all entry_name ns" for a
  proof (cases a)
    case (NamesAre names)
    then have "list_all in_proc_sys (writes (interface_settings (conf_dir family) knobs names))"
      using that interface_setting_confined [OF _ fam] by (force simp: writes_def list_all_iff in_proc_sys_def)
    then show ?thesis using appends_write_all NamesAre unfolding appends_def by fastforce
  qed (simp_all add: appends_return)
  show ?case
    unfolding appends_def fk
  proof
    fix tr
    let ?a = "env tr (ReadDir (conf_dir family))"
    have "appends (eff_bind (case ?a of NamesAre names \<Rightarrow>
            write_all env (interface_settings (conf_dir family) knobs names) t | _ \<Rightarrow> eff_return t)
          (\<lambda>t. apply_existing_interface_protection env fams t)) (list_all in_proc_sys)"
      by (rule appends_bind [OF step Cons.IH])
        (use assms(1) Cons.prems in \<open>auto simp: honest_dirs_def\<close>)
    then obtain x new where "eff_bind (case ?a of NamesAre names \<Rightarrow>
            write_all env (interface_settings (conf_dir family) knobs names) t | _ \<Rightarrow> eff_return t)
          (\<lambda>t. apply_existing_interface_protection env fams t) (tr @ [ReadDir (conf_dir family)]) =
          (Some (Inr x), (tr @ [ReadDir (conf_dir family)]) @ new)" "list_all in_proc_sys new"
      unfolding appends_def by blast
    then show "\<exists>x new. apply_existing_interface_protection env ((family, knobs) # fams) t tr =
        (Some (Inr x), tr @ new) \<and> list_all in_proc_sys new"
      by (intro exI [of _ x] exI [of _ "ReadDir (conf_dir family) # new"])
        (simp add: eff_bind_def ask_def in_proc_sys_def)
  qed
qed

lemma confined_writes: "list_all in_proc_sys (writes ws) \<longleftrightarrow> (\<forall>(p, v)\<in>set ws. is_sysctl_path p)"
  by (auto simp: writes_def list_all_iff in_proc_sys_def)

lemma appends_spoofing:
  assumes "honest_dirs env"
  shows "appends (apply_network_spoofing_protection env t)
    (cat (\<lambda>new. new = writes redirect_and_forwarding_protection)
    (cat (\<lambda>new. new = writes source_routing_protection)
    (cat (\<lambda>new. new = writes arp_hardening)
    (cat (list_all in_proc_sys) (\<lambda>new. new = writes martian_logging)))))"
  unfolding apply_network_spoofing_protection_def
  by (intro appends_seq appends_write_all appends_interfaces assms subset_refl)

definition spoofing_trace :: "bool \<Rightarrow> event list \<Rightarrow> bool" where
  "spoofing_trace on new \<longleftrightarrow> list_all in_proc_sys new \<and>
     (on \<longrightarrow> set (writes (redirect_and_forwarding_protection @ source_routing_protection @
                           arp_hardening @ martian_logging)) \<subseteq> set new)"

lemma category_parts_confined:
  "list_all in_proc_sys (writes baseline_tuning)"
  "list_all in_proc_sys (writes redirect_and_forwarding_protection)"
  "list_all in_proc_sys (writes source_routing_protection)"
  "list_all in_proc_sys (writes arp_hardening)"
  "list_all in_proc_sys (writes martian_logging)"
  "list_all in_proc_sys (if b then writes icmp_hardening else [])"
  "list_all in_proc_sys (if b then writes tcp_hardening else [])"
  "list_all in_proc_sys (if b then writes info_leak_restriction else [])"
  "list_all in_proc_sys (if b then writes ptrace_and_bpf_restriction else [])"
  "list_all in_proc_sys (if b then writes kexec_and_fs_protection else [])"
  "list_all in_proc_sys (writes (filter (\<lambda>(p, v). is_sysctl_path p) extra))"
  by (simp_all add: category_defs is_sysctl_path_def in_proc_sys_def)
    (auto simp: confined_writes is_sysctl_path_def)

lemma spoofing_when:
  assumes "honest_dirs env"
  shows "appends (apply_when on (apply_network_spoofing_protection env) t) (spoofing_trace on)"
proof (cases on)
  case True
  have "appends (apply_network_spoofing_protection env t) (spoofing_trace True)"
    by (rule appends_mono [OF appends_spoofing [OF assms]])
      (auto simp: cat_def spoofing_trace_def category_parts_confined)
  with True show ?thesis by (simp add: apply_when_def)
qed (simp add: apply_when_def appends_return spoofing_trace_def)


end
