(* ===== verification/EtcFiles.thy ===== *)
theory EtcFiles
  imports Effects GuestConfig
begin

text \<open>
  The guest's \<open>/etc\<close>, \<open>guest/src/etcfiles.rs\<close>: the account files for the app's ids, and the choice of the resolver
  between the configured name servers and what the kernel's DHCP client learned.
\<close>

section \<open>Contents\<close>

definition KERNEL_PNP :: string where "KERNEL_PNP = ''/proc/net/pnp''"

definition PNP_DIRECTIVES :: "string list" where
  "PNP_DIRECTIVES = [''nameserver'', ''domain'', ''search'']"

definition TAB :: char where "TAB = CHR 0x09"
definition HOSTS :: string where
  "HOSTS = ''127.0.0.1'' @ [TAB] @ ''localhost'' @ [NL] @
     ''::1'' @ [TAB] @ ''localhost ip6-localhost ip6-loopback'' @ [NL]"

definition NSSWITCH :: string where
  "NSSWITCH = ''hosts: files dns'' @ [NL] @ ''passwd: files'' @ [NL] @ ''group: files'' @ [NL]"

definition NOBODY_ID :: u32 where [nums]: "NOBODY_ID = 65534"

definition passwd :: "u32 \<Rightarrow> u32 \<Rightarrow> string" where
  "passwd uid gid =
     (let s = ''root:x:0:0:root:/:/dev/null'' @ [NL] @
              ''app:x:'' @ show_word uid @ '':'' @ show_word gid @ '':app:/var:/dev/null'' @ [NL]
      in if uid \<noteq> NOBODY_ID then s @ ''nobody:x:65534:65534:nobody:/:/dev/null'' @ [NL] else s)"

definition group :: "u32 \<Rightarrow> string" where
  "group gid =
     (let s = ''root:x:0:'' @ [NL] @ ''app:x:'' @ show_word gid @ '':'' @ [NL]
      in if gid \<noteq> NOBODY_ID then s @ ''nobody:x:65534:'' @ [NL] else s)"

text \<open>\<open>haystack.contains(needle)\<close>.\<close>

fun contains_str :: "string \<Rightarrow> string \<Rightarrow> bool" where
  "contains_str needle [] = (needle = [])"
| "contains_str needle (c # cs) = (prefix needle (c # cs) \<or> contains_str needle cs)"

definition is_resolver_directive :: "string \<Rightarrow> bool" where
  "is_resolver_directive line =
     (case split_whitespace line of [] \<Rightarrow> False | first # _ \<Rightarrow> first \<in> set PNP_DIRECTIVES)"

definition resolv_conf_body :: "string \<Rightarrow> string \<Rightarrow> string \<Rightarrow> string" where
  "resolv_conf_body nameservers search pnp =
     (let body =
        (if nameservers = [] then
           concat (map (\<lambda>line. line @ [NL]) (filter is_resolver_directive (lines pnp)))
         else
           concat (map (\<lambda>server. ''nameserver '' @ server @ [NL])
             (drop_empty (split_on (CHR '';'') nameservers))))
      in if \<not> contains_str ''nameserver '' body then []
         else if search \<noteq> [] \<and> \<not> contains_str ''search '' body
         then body @ ''search '' @ search @ [NL] else body)"

section \<open>Writing the files\<close>

definition write_file :: "env \<Rightarrow> string \<Rightarrow> string \<Rightarrow> unit eff" where
  "write_file env path contents =
     eff_bind (ask env (WriteFile path contents)) (\<lambda>a.
       if succeeded a then attempt env (SetMode path 0x124) else eff_return ())"

definition write_resolv_conf :: "env \<Rightarrow> string \<Rightarrow> string \<Rightarrow> unit eff" where
  "write_resolv_conf env nameservers search =
     eff_bind (ask env (ReadFile KERNEL_PNP)) (\<lambda>a.
       let pnp = (case a of TextIs s \<Rightarrow> s | _ \<Rightarrow> []);
           body = resolv_conf_body nameservers search pnp
       in if body = [] then eff_return () else write_file env ''/etc/resolv.conf'' body)"

definition write_etc :: "env \<Rightarrow> u32 \<Rightarrow> u32 \<Rightarrow> string \<Rightarrow> string \<Rightarrow> unit eff" where
  "write_etc env uid gid nameservers search =
     eff_then (write_file env ''/etc/hosts'' HOSTS)
    (eff_then (write_file env ''/etc/nsswitch.conf'' NSSWITCH)
    (eff_then (write_file env ''/etc/passwd'' (passwd uid gid))
    (eff_then (write_file env ''/etc/group'' (group gid))
       (write_resolv_conf env nameservers search))))"

section \<open>The account files\<close>

text \<open>The \<open>n\<close>-th colon-separated field of every line.\<close>

definition fields_of :: "nat \<Rightarrow> string \<Rightarrow> string list" where
  "fields_of n file = map (\<lambda>l. split_on (CHR '':'') l ! n) (lines file)"

definition plain_line :: "string \<Rightarrow> bool" where
  "plain_line l \<longleftrightarrow> NL \<notin> set l \<and> (l = [] \<or> last l \<noteq> CHR 0x0D)"

lemma lines_Cons:
  assumes "plain_line l"
  shows "lines (l @ NL # rest) = l # lines rest"
proof -
  have "split_on (CHR 0x0A) (l @ NL # rest) = l # split_on (CHR 0x0A) rest"
    using assms by (simp add: plain_line_def NL_def split_on_append)
  then show ?thesis
    using assms by (auto simp: lines_def strip_cr_def plain_line_def Let_def)
qed

lemma plain_lines_concat:
  "\<forall>l\<in>set ls. plain_line l \<Longrightarrow> lines (concat (map (\<lambda>l. l @ [NL]) ls)) = ls"
proof (induction ls)
  case Nil
  then show ?case by (simp add: lines_def)
next
  case (Cons l ls)
  then show ?case by (simp add: lines_Cons)
qed

lemma show_word_chars: "c \<in> set (show_word w) \<Longrightarrow> is_digit_char c"
  by (simp add: show_word_def show_nat_digits)

lemma show_word_no_nul: "CHR 0x00 \<notin> set (show_word w)"
  using show_word_chars [of "CHR 0x00" w] by (auto simp: is_digit_char_def)

lemma show_word_plain:
  "CHR '':'' \<notin> set (show_word w)" "NL \<notin> set (show_word w)"
  using show_word_chars [of "CHR '':''" w] show_word_chars [of NL w]
  by (auto simp: is_digit_char_def NL_def)

lemma show_word_inject: "show_word v = show_word w \<longleftrightarrow> v = (w :: u32)"
  by (metis baked_show(1) sum.inject(2))

lemma show_word_values:
  "show_word w = ''0'' \<longleftrightarrow> w = (0 :: u32)" "''0'' = show_word w \<longleftrightarrow> w = (0 :: u32)"
  "show_word w = ''65534'' \<longleftrightarrow> w = NOBODY_ID"
proof -
  have "show_word (0 :: u32) = ''0''" "show_word NOBODY_ID = ''65534''"
    by (simp_all add: show_word_def show_nat.simps NOBODY_ID_def char_of_def bit_Suc_0_iff)
  then show "show_word w = ''0'' \<longleftrightarrow> w = (0 :: u32)" "''0'' = show_word w \<longleftrightarrow> w = (0 :: u32)"
    "show_word w = ''65534'' \<longleftrightarrow> w = NOBODY_ID"
    by (metis show_word_inject)+
qed

lemma passwd_lines:
  "lines (passwd uid gid) =
     [''root:x:0:0:root:/:/dev/null'',
      ''app:x:'' @ show_word uid @ '':'' @ show_word gid @ '':app:/var:/dev/null''] @
     (if uid \<noteq> NOBODY_ID then [''nobody:x:65534:65534:nobody:/:/dev/null''] else [])"
  (is "_ = ?ls")
proof -
  have "\<forall>l\<in>set ?ls. plain_line l"
    using show_word_plain(2) by (auto simp: plain_line_def NL_def)
  moreover have "passwd uid gid = concat (map (\<lambda>l. l @ [NL]) ?ls)"
    by (simp add: passwd_def Let_def)
  ultimately show ?thesis by (simp only: plain_lines_concat)
qed

lemma group_lines:
  "lines (group gid) =
     [''root:x:0:'', ''app:x:'' @ show_word gid @ '':''] @
     (if gid \<noteq> NOBODY_ID then [''nobody:x:65534:''] else [])"
  (is "_ = ?ls")
proof -
  have "\<forall>l\<in>set ?ls. plain_line l"
    using show_word_plain(2) by (auto simp: plain_line_def NL_def)
  moreover have "group gid = concat (map (\<lambda>l. l @ [NL]) ?ls)"
    by (simp add: group_def Let_def)
  ultimately show ?thesis by (simp only: plain_lines_concat)
qed

text \<open>
  For the ids the guest accepts, no two lines of \<open>/etc/passwd\<close> have the same name or the same uid and no two
  lines of \<open>/etc/group\<close> the same name or gid, also when the app runs as \<open>nobody\<close>'s 65534; and the app's
  line carries its own uid and gid.
\<close>

lemma accounts_unambiguous:
  assumes "validate_app_ids uid gid"
  shows "distinct (fields_of 0 (passwd uid gid)) \<and> distinct (fields_of 2 (passwd uid gid)) \<and>
    distinct (fields_of 0 (group gid)) \<and> distinct (fields_of 2 (group gid)) \<and>
    take 4 (split_on (CHR '':'') (lines (passwd uid gid) ! 1)) = [''app'', ''x'', show_word uid, show_word gid]"
  using assms
  by (auto simp: fields_of_def passwd_lines group_lines split_on_append show_word_plain show_word_values
      validate_app_ids_def)

section \<open>The resolver\<close>

lemma prefix_before:
  "prefix p (xs @ c # ys) \<Longrightarrow> c \<notin> set p \<Longrightarrow> prefix p xs"
  by (induction xs arbitrary: p) (auto simp: prefix_Cons)

lemma contains_str_line:
  "CHR '' '' \<in> set needle \<Longrightarrow> NL \<notin> set needle \<Longrightarrow> CHR '' '' \<notin> set l \<Longrightarrow>
     contains_str needle (l @ NL # rest) \<longleftrightarrow> contains_str needle rest"
proof (induction l)
  case Nil
  then show ?case by (auto simp: prefix_Cons)
next
  case (Cons c l)
  then have "\<not> prefix needle ((c # l) @ NL # rest)"
    using prefix_before [of needle "c # l" NL rest] set_mono_prefix by fastforce
  with Cons show ?case by simp
qed

lemma no_search_directive:
  "\<forall>s\<in>set servers. CHR '' '' \<notin> set s \<Longrightarrow>
     \<not> contains_str ''search '' (concat (map (\<lambda>server. ''nameserver '' @ server @ [NL]) servers))"
proof (induction servers)
  case (Cons s servers)
  have "NL \<notin> set ''search ''" by (simp add: NL_def)
  with Cons show ?case by (simp add: contains_str_line)
qed simp

text \<open>
  With name servers configured, \<open>/etc/resolv.conf\<close> has one \<open>nameserver\<close> line for each of them, in order, and the
  configured \<open>search\<close> line when there is one, and nothing of what DHCP said.
\<close>

lemma configured_resolvers_win:
  assumes "list_safe servers" and "drop_empty servers \<noteq> []"
    and "\<forall>s\<in>set servers. CHR '' '' \<notin> set s \<and> plain_line s" and "plain_line search"
  shows "lines (resolv_conf_body (encode_path_list servers) search pnp) =
    map (\<lambda>s. ''nameserver '' @ s) (drop_empty servers) @
    (if search = [] then [] else [''search '' @ search])"
proof -
  let ?servers = "drop_empty servers"
  let ?body = "concat (map (\<lambda>server. ''nameserver '' @ server @ [NL]) ?servers)"
  have sub: "set ?servers \<subseteq> set servers" by (auto simp: drop_empty_def)
  have raw: "drop_empty (split_on (CHR '';'') (encode_path_list servers)) = ?servers"
    using parse_path_list_encode [OF assms(1)] by (simp add: parse_path_list_def)
  then have "encode_path_list servers \<noteq> []" using assms(2) by (auto simp: drop_empty_def)
  moreover have "contains_str ''nameserver '' ?body" using assms(2) by (cases ?servers) simp_all
  moreover have "\<not> contains_str ''search '' ?body"
    using sub assms(3) by (intro no_search_directive) auto
  ultimately have body: "resolv_conf_body (encode_path_list servers) search pnp =
      (if search \<noteq> [] then ?body @ ''search '' @ search @ [NL] else ?body)"
    by (simp add: resolv_conf_body_def raw)
  let ?ls = "map (\<lambda>s. ''nameserver '' @ s) ?servers @ (if search = [] then [] else [''search '' @ search])"
  have "resolv_conf_body (encode_path_list servers) search pnp = concat (map (\<lambda>l. l @ [NL]) ?ls)"
    unfolding body by (simp add: comp_def)
  moreover have "\<forall>l\<in>set ?ls. plain_line l"
    using sub assms(3,4) by (auto simp: plain_line_def NL_def)
  ultimately show ?thesis by (simp only: plain_lines_concat)
qed

end
