(* ===== verification/Seccomp.thy ===== *)
theory Seccomp
  imports Features
begin

text \<open>
  The system call filters of \<open>guest/src/seccomp.rs\<close>: the six-instruction classic-BPF gate on the
  system call ABI and the denylist behind it. Two things outside the source are parameters: the
  kernel's BPF machine \<open>exec\<close> (its documented instructions are \<open>bpf_semantics\<close>) and the
  \<open>seccompiler\<close> crate's filter for a list of denied numbers (\<open>seccompiler_contract\<close>).
  System call numbers are those of x86-64, the only target the source compiles for.
\<close>

section \<open>The ABI gate\<close>

record sock_filter =
  sf_code :: u16
  sf_jt :: u8
  sf_jf :: u8
  sf_k :: u32

definition BPF_LD :: u16 where [nums]: "BPF_LD = 0x00"
definition BPF_W :: u16 where [nums]: "BPF_W = 0x00"
definition BPF_ABS :: u16 where [nums]: "BPF_ABS = 0x20"
definition BPF_JMP :: u16 where [nums]: "BPF_JMP = 0x05"
definition BPF_JEQ :: u16 where [nums]: "BPF_JEQ = 0x10"
definition BPF_JGE :: u16 where [nums]: "BPF_JGE = 0x30"
definition BPF_K :: u16 where [nums]: "BPF_K = 0x00"
definition BPF_RET :: u16 where [nums]: "BPF_RET = 0x06"
definition SECCOMP_DATA_NR_OFFSET :: u32 where [nums]: "SECCOMP_DATA_NR_OFFSET = 0"
definition SECCOMP_DATA_ARCH_OFFSET :: u32 where [nums]: "SECCOMP_DATA_ARCH_OFFSET = 4"
definition AUDIT_ARCH_X86_64 :: u32 where [nums]: "AUDIT_ARCH_X86_64 = 0xC000003E"
definition X32_SYSCALL_BIT :: u32 where [nums]: "X32_SYSCALL_BIT = 0x40000000"
definition SECCOMP_RET_ALLOW :: u32 where [nums]: "SECCOMP_RET_ALLOW = 0x7fff0000"
definition SECCOMP_RET_KILL_PROCESS :: u32 where [nums]: "SECCOMP_RET_KILL_PROCESS = 0x80000000"

definition ARCH_GATE_PROGRAM :: "sock_filter list" where
  "ARCH_GATE_PROGRAM =
     [\<lparr>sf_code = BPF_LD OR BPF_W OR BPF_ABS, sf_jt = 0, sf_jf = 0, sf_k = SECCOMP_DATA_ARCH_OFFSET\<rparr>,
      \<lparr>sf_code = BPF_JMP OR BPF_JEQ OR BPF_K, sf_jt = 0, sf_jf = 3, sf_k = AUDIT_ARCH_X86_64\<rparr>,
      \<lparr>sf_code = BPF_LD OR BPF_W OR BPF_ABS, sf_jt = 0, sf_jf = 0, sf_k = SECCOMP_DATA_NR_OFFSET\<rparr>,
      \<lparr>sf_code = BPF_JMP OR BPF_JGE OR BPF_K, sf_jt = 1, sf_jf = 0, sf_k = X32_SYSCALL_BIT\<rparr>,
      \<lparr>sf_code = BPF_RET OR BPF_K, sf_jt = 0, sf_jf = 0, sf_k = SECCOMP_RET_ALLOW\<rparr>,
      \<lparr>sf_code = BPF_RET OR BPF_K, sf_jt = 0, sf_jf = 0, sf_k = SECCOMP_RET_KILL_PROCESS\<rparr>]"

text \<open>What a filter sees of a system call.\<close>

record seccomp_data =
  sd_nr :: u32
  sd_arch :: u32

type_synonym bpf_machine = "sock_filter list \<Rightarrow> seccomp_data \<Rightarrow> nat \<Rightarrow> u32 \<Rightarrow> u32"

text \<open>
  The four instructions used, as the kernel documents them: absolute word load, the two
  conditional jumps (relative to the next instruction), return of a constant. \<open>exec P d pc a\<close> is the value the
  program returns from instruction \<open>pc\<close> with accumulator \<open>a\<close>.
\<close>

definition bpf_semantics :: "bpf_machine \<Rightarrow> bool" where
  "bpf_semantics exec \<longleftrightarrow>
     (\<forall>P d pc a i. pc < length P \<and> P ! pc = i \<longrightarrow>
        (sf_code i = BPF_LD OR BPF_W OR BPF_ABS \<and> sf_k i = SECCOMP_DATA_NR_OFFSET \<longrightarrow>
           exec P d pc a = exec P d (pc + 1) (sd_nr d)) \<and>
        (sf_code i = BPF_LD OR BPF_W OR BPF_ABS \<and> sf_k i = SECCOMP_DATA_ARCH_OFFSET \<longrightarrow>
           exec P d pc a = exec P d (pc + 1) (sd_arch d)) \<and>
        (sf_code i = BPF_JMP OR BPF_JEQ OR BPF_K \<longrightarrow>
           exec P d pc a = exec P d (pc + 1 + unat (if a = sf_k i then sf_jt i else sf_jf i)) a) \<and>
        (sf_code i = BPF_JMP OR BPF_JGE OR BPF_K \<longrightarrow>
           exec P d pc a = exec P d (pc + 1 + unat (if a \<ge> sf_k i then sf_jt i else sf_jf i)) a) \<and>
        (sf_code i = BPF_RET OR BPF_K \<longrightarrow> exec P d pc a = sf_k i))"

definition run_filter :: "bpf_machine \<Rightarrow> sock_filter list \<Rightarrow> seccomp_data \<Rightarrow> u32" where
  "run_filter exec P d = exec P d 0 0"

lemma bpf_steps:
  assumes "bpf_semantics exec" and "pc < length P"
  shows "sf_code (P ! pc) = BPF_LD OR BPF_W OR BPF_ABS \<Longrightarrow> sf_k (P ! pc) = SECCOMP_DATA_NR_OFFSET \<Longrightarrow>
      exec P d pc a = exec P d (pc + 1) (sd_nr d)"
    and "sf_code (P ! pc) = BPF_LD OR BPF_W OR BPF_ABS \<Longrightarrow> sf_k (P ! pc) = SECCOMP_DATA_ARCH_OFFSET \<Longrightarrow>
      exec P d pc a = exec P d (pc + 1) (sd_arch d)"
    and "sf_code (P ! pc) = BPF_JMP OR BPF_JEQ OR BPF_K \<Longrightarrow>
      exec P d pc a = exec P d (pc + 1 + unat (if a = sf_k (P ! pc) then sf_jt (P ! pc) else sf_jf (P ! pc))) a"
    and "sf_code (P ! pc) = BPF_JMP OR BPF_JGE OR BPF_K \<Longrightarrow>
      exec P d pc a = exec P d (pc + 1 + unat (if a \<ge> sf_k (P ! pc) then sf_jt (P ! pc) else sf_jf (P ! pc))) a"
    and "sf_code (P ! pc) = BPF_RET OR BPF_K \<Longrightarrow> exec P d pc a = sf_k (P ! pc)"
  using assms unfolding bpf_semantics_def by blast+

lemma gate_nth:
  "length ARCH_GATE_PROGRAM = 6"
  "ARCH_GATE_PROGRAM ! 0 =
     \<lparr>sf_code = BPF_LD OR BPF_W OR BPF_ABS, sf_jt = 0, sf_jf = 0, sf_k = SECCOMP_DATA_ARCH_OFFSET\<rparr>"
  "ARCH_GATE_PROGRAM ! 1 =
     \<lparr>sf_code = BPF_JMP OR BPF_JEQ OR BPF_K, sf_jt = 0, sf_jf = 3, sf_k = AUDIT_ARCH_X86_64\<rparr>"
  "ARCH_GATE_PROGRAM ! 2 =
     \<lparr>sf_code = BPF_LD OR BPF_W OR BPF_ABS, sf_jt = 0, sf_jf = 0, sf_k = SECCOMP_DATA_NR_OFFSET\<rparr>"
  "ARCH_GATE_PROGRAM ! 3 =
     \<lparr>sf_code = BPF_JMP OR BPF_JGE OR BPF_K, sf_jt = 1, sf_jf = 0, sf_k = X32_SYSCALL_BIT\<rparr>"
  "ARCH_GATE_PROGRAM ! 4 =
     \<lparr>sf_code = BPF_RET OR BPF_K, sf_jt = 0, sf_jf = 0, sf_k = SECCOMP_RET_ALLOW\<rparr>"
  "ARCH_GATE_PROGRAM ! 5 =
     \<lparr>sf_code = BPF_RET OR BPF_K, sf_jt = 0, sf_jf = 0, sf_k = SECCOMP_RET_KILL_PROCESS\<rparr>"
  by (simp_all add: ARCH_GATE_PROGRAM_def)

lemma arch_gate_run:
  assumes "bpf_semantics exec"
  shows "run_filter exec ARCH_GATE_PROGRAM d =
    (if sd_arch d = AUDIT_ARCH_X86_64 \<and> sd_nr d < X32_SYSCALL_BIT
     then SECCOMP_RET_ALLOW else SECCOMP_RET_KILL_PROCESS)"
proof -
  let ?P = ARCH_GATE_PROGRAM
  note step = bpf_steps [OF assms, where P = ?P]
  have "exec ?P d 0 0 = exec ?P d 1 (sd_arch d)"
    using step(2) [of 0] by (simp add: gate_nth)
  moreover have "exec ?P d 1 AUDIT_ARCH_X86_64 = exec ?P d 2 AUDIT_ARCH_X86_64"
    using step(3) [of 1 d AUDIT_ARCH_X86_64, unfolded gate_nth] by (simp add: numeral_2_eq_2)
  moreover have "exec ?P d 1 a = exec ?P d 5 a" if "a \<noteq> AUDIT_ARCH_X86_64" for a
    using step(3) [of 1 d a, unfolded gate_nth] that by simp
  moreover have "exec ?P d 2 a = exec ?P d 3 (sd_nr d)" for a
    using step(1) [of 2] by (simp add: gate_nth)
  moreover have "exec ?P d 3 a = exec ?P d (if X32_SYSCALL_BIT \<le> a then 5 else 4) a" for a
    using step(4) [of 3] by (simp add: gate_nth)
  moreover have "exec ?P d 4 a = SECCOMP_RET_ALLOW" for a
    using step(5) [of 4] by (simp add: gate_nth)
  moreover have "exec ?P d 5 a = SECCOMP_RET_KILL_PROCESS" for a
    using step(5) [of 5] by (simp add: gate_nth)
  ultimately show ?thesis
    by (cases "sd_arch d = AUDIT_ARCH_X86_64") (simp_all add: run_filter_def not_le [symmetric])
qed

text \<open>
  The gate allows a system call if and only if it comes in through the x86-64 ABI with a number
  below the x32 bit, and kills the process otherwise: both jump offsets land where they should.
\<close>

lemma arch_gate_decides:
  assumes "bpf_semantics exec"
  shows "run_filter exec ARCH_GATE_PROGRAM d =
    (if sd_arch d = AUDIT_ARCH_X86_64 \<and> sd_nr d < X32_SYSCALL_BIT
     then SECCOMP_RET_ALLOW else SECCOMP_RET_KILL_PROCESS)"
  using assms by (rule arch_gate_run)

text \<open>A machine with the assumed instructions.\<close>

function bpf_ref :: bpf_machine where
  "bpf_ref P d pc a =
     (if length P \<le> pc then SECCOMP_RET_KILL_PROCESS
      else let i = P ! pc in
        if sf_code i = BPF_LD OR BPF_W OR BPF_ABS then
          bpf_ref P d (pc + 1) (if sf_k i = SECCOMP_DATA_NR_OFFSET then sd_nr d
            else if sf_k i = SECCOMP_DATA_ARCH_OFFSET then sd_arch d else 0)
        else if sf_code i = BPF_JMP OR BPF_JEQ OR BPF_K then
          bpf_ref P d (pc + 1 + unat (if a = sf_k i then sf_jt i else sf_jf i)) a
        else if sf_code i = BPF_JMP OR BPF_JGE OR BPF_K then
          bpf_ref P d (pc + 1 + unat (if a \<ge> sf_k i then sf_jt i else sf_jf i)) a
        else sf_k i)"
  by pat_completeness auto
termination
  by (relation "measure (\<lambda>(P, d, pc, a). length P - pc)") auto

declare bpf_ref.simps [simp del]

lemma bpf_ref_semantics: "bpf_semantics bpf_ref"
  unfolding bpf_semantics_def
proof (intro allI impI)
  fix P d pc a and i :: sock_filter
  assume "pc < length P \<and> P ! pc = i"
  then have "bpf_ref P d pc a =
      (if sf_code i = BPF_LD OR BPF_W OR BPF_ABS then
          bpf_ref P d (pc + 1) (if sf_k i = SECCOMP_DATA_NR_OFFSET then sd_nr d
            else if sf_k i = SECCOMP_DATA_ARCH_OFFSET then sd_arch d else 0)
        else if sf_code i = BPF_JMP OR BPF_JEQ OR BPF_K then
          bpf_ref P d (pc + 1 + unat (if a = sf_k i then sf_jt i else sf_jf i)) a
        else if sf_code i = BPF_JMP OR BPF_JGE OR BPF_K then
          bpf_ref P d (pc + 1 + unat (if a \<ge> sf_k i then sf_jt i else sf_jf i)) a
        else sf_k i)"
    using bpf_ref.simps [of P d pc a] by (simp only: Let_def) auto
  then show "(sf_code i = BPF_LD OR BPF_W OR BPF_ABS \<and> sf_k i = SECCOMP_DATA_NR_OFFSET \<longrightarrow>
           bpf_ref P d pc a = bpf_ref P d (pc + 1) (sd_nr d)) \<and>
        (sf_code i = BPF_LD OR BPF_W OR BPF_ABS \<and> sf_k i = SECCOMP_DATA_ARCH_OFFSET \<longrightarrow>
           bpf_ref P d pc a = bpf_ref P d (pc + 1) (sd_arch d)) \<and>
        (sf_code i = BPF_JMP OR BPF_JEQ OR BPF_K \<longrightarrow>
           bpf_ref P d pc a = bpf_ref P d (pc + 1 + unat (if a = sf_k i then sf_jt i else sf_jf i)) a) \<and>
        (sf_code i = BPF_JMP OR BPF_JGE OR BPF_K \<longrightarrow>
           bpf_ref P d pc a = bpf_ref P d (pc + 1 + unat (if a \<ge> sf_k i then sf_jt i else sf_jf i)) a) \<and>
        (sf_code i = BPF_RET OR BPF_K \<longrightarrow> bpf_ref P d pc a = sf_k i)"
    by (simp add: nums)
qed

section \<open>The denylist\<close>

definition WRITE_EXECUTE_SYSCALLS :: "features \<Rightarrow> nat list" where
  "WRITE_EXECUTE_SYSCALLS ft = (if ft_danger ft then [] else [319, 447])" \<comment> \<open>memfd_create, memfd_secret\<close>

text \<open>In the order of the source: \<open>ptrace\<close>, \<open>process_vm_readv\<close>, ..., \<open>pidfd_getfd\<close>, \<open>process_madvise\<close>.\<close>

definition BASELINE_SYSCALLS :: "nat list" where
  "BASELINE_SYSCALLS =
     [101, 310, 311,                      \<comment> \<open>ptrace, process_vm_readv, process_vm_writev\<close>
      175, 313, 176,                      \<comment> \<open>init_module, finit_module, delete_module\<close>
      246, 320,                           \<comment> \<open>kexec_load, kexec_file_load\<close>
      165, 166, 155,                      \<comment> \<open>mount, umount2, pivot_root\<close>
      430, 431, 432, 429, 428, 442,       \<comment> \<open>fsopen, fsconfig, fsmount, move_mount, open_tree, mount_setattr\<close>
      304,                                \<comment> \<open>open_by_handle_at\<close>
      167, 168, 169,                      \<comment> \<open>swapon, swapoff, reboot\<close>
      172, 173, 163,                      \<comment> \<open>iopl, ioperm, acct\<close>
      248, 249, 250,                      \<comment> \<open>add_key, request_key, keyctl\<close>
      135, 321,                           \<comment> \<open>personality, bpf\<close>
      425, 426, 427,                      \<comment> \<open>io_uring_setup, io_uring_enter, io_uring_register\<close>
      272, 308,                           \<comment> \<open>unshare, setns\<close>
      298, 323, 312, 279,                 \<comment> \<open>perf_event_open, userfaultfd, kcmp, move_pages\<close>
      164, 227, 305, 159,                 \<comment> \<open>settimeofday, clock_settime, clock_adjtime, adjtimex\<close>
      103, 154, 134, 179,                 \<comment> \<open>syslog, modify_ldt, uselib, quotactl\<close>
      438, 440]                           \<comment> \<open>pidfd_getfd, process_madvise\<close>"

text \<open>
  The filter \<open>seccompiler\<close> compiles for a map from number to an empty rule chain, with match action
  \<open>KillProcess\<close> and default \<open>Allow\<close> on x86-64; \<open>None\<close> is a failure of its construction.
\<close>

type_synonym filter_compiler = "nat list \<Rightarrow> (seccomp_data \<Rightarrow> u32) option"

definition build_baseline_denylist ::
    "features \<Rightarrow> filter_compiler \<Rightarrow> fatal + (seccomp_data \<Rightarrow> u32)" where
  "build_baseline_denylist ft compile =
     ok_or (compile (BASELINE_SYSCALLS @ WRITE_EXECUTE_SYSCALLS ft)) SeccompBuildFailed"

definition seccompiler_contract :: "filter_compiler \<Rightarrow> bool" where
  "seccompiler_contract compile \<longleftrightarrow>
     (\<forall>nrs f d. compile nrs = Some f \<longrightarrow>
        f d = (if sd_arch d = AUDIT_ARCH_X86_64 \<and> unat (sd_nr d) \<notin> set nrs
               then SECCOMP_RET_ALLOW else SECCOMP_RET_KILL_PROCESS))"

text \<open>
  Stacked filters: the kernel runs all of them and takes the most restrictive result, so a
  call goes through when every filter allows it.
\<close>

definition permitted :: "(seccomp_data \<Rightarrow> u32) list \<Rightarrow> seccomp_data \<Rightarrow> bool" where
  "permitted fs d \<longleftrightarrow> (\<forall>f\<in>set fs. f d = SECCOMP_RET_ALLOW)"

definition app_filters ::
    "bpf_machine \<Rightarrow> (seccomp_data \<Rightarrow> u32) \<Rightarrow> (seccomp_data \<Rightarrow> u32) list" where
  "app_filters exec program = [run_filter exec ARCH_GATE_PROGRAM, program]"

lemma ret_distinct: "SECCOMP_RET_KILL_PROCESS \<noteq> SECCOMP_RET_ALLOW"
  by (simp add: nums)

lemma denylist_distinct: "distinct (BASELINE_SYSCALLS @ WRITE_EXECUTE_SYSCALLS ft)"
  by (simp add: BASELINE_SYSCALLS_def WRITE_EXECUTE_SYSCALLS_def)

text \<open>
  C16. Under the two stacked filters the app may make exactly the native x86-64 system calls
  that are on neither list: a denied call is killed whatever bits are set in its number, so
  no x32 alias of a denied call gets through.
\<close>

theorem app_syscalls_permitted:
  assumes "bpf_semantics exec" and "seccompiler_contract compile"
    and "build_baseline_denylist ft compile = Inr program"
  shows "permitted (app_filters exec program) d \<longleftrightarrow>
    sd_arch d = AUDIT_ARCH_X86_64 \<and> sd_nr d < X32_SYSCALL_BIT \<and>
    unat (sd_nr d) \<notin> set (BASELINE_SYSCALLS @ WRITE_EXECUTE_SYSCALLS ft)"
proof -
  have "compile (BASELINE_SYSCALLS @ WRITE_EXECUTE_SYSCALLS ft) = Some program"
    using assms(3) by (simp add: build_baseline_denylist_def)
  then have "program d = (if sd_arch d = AUDIT_ARCH_X86_64 \<and>
      unat (sd_nr d) \<notin> set (BASELINE_SYSCALLS @ WRITE_EXECUTE_SYSCALLS ft)
      then SECCOMP_RET_ALLOW else SECCOMP_RET_KILL_PROCESS)"
    by (rule assms(2) [unfolded seccompiler_contract_def, rule_format])
  then show ?thesis
    using ret_distinct by (auto simp: permitted_def app_filters_def arch_gate_run [OF assms(1)])
qed

text \<open>
  The app can be started at all, and can start threads and children: neither list has
  \<open>execve\<close>, \<open>execveat\<close>, \<open>clone\<close>, \<open>fork\<close>, \<open>vfork\<close>, \<open>clone3\<close>, \<open>mmap\<close>, \<open>mprotect\<close>, \<open>prctl\<close> or \<open>seccomp\<close>.
\<close>

lemma never_denied:
  "list_all (\<lambda>nr. nr \<notin> set (BASELINE_SYSCALLS @ WRITE_EXECUTE_SYSCALLS ft))
     [59, 322, 56, 57, 58, 435, 9, 10, 157, 317]"
proof -
  have "list_all (\<lambda>nr. nr \<notin> set (BASELINE_SYSCALLS @ [319, 447]))
      [59, 322, 56, 57, 58, 435, 9, 10, 157, 317]"
    by (simp add: BASELINE_SYSCALLS_def)
  then show ?thesis by (simp add: WRITE_EXECUTE_SYSCALLS_def)
qed

section \<open>Installation\<close>

text \<open>
  Between \<open>fork\<close> and \<open>execve\<close> the child makes a fixed sequence of system calls. Each outcome is the
  environment's: 0 or an errno, which may depend on the calls made so far. The chain stops at
  the first failure that the code does not ignore, and \<open>spawn\<close> then reports it.
\<close>

datatype child_op =
    SetRlimit string u64
  | CapbsetDrop nat
  | SetGroupsEmpty
  | SetGid u32
  | SetUid u32
  | SetMdwe
  | LandlockRestrictSelf
  | SetNoNewPrivs
  | InstallFilter "seccomp_data \<Rightarrow> u32"
  | ApplyFilter "seccomp_data \<Rightarrow> u32"

type_synonym child_env = "child_op list \<Rightarrow> child_op \<Rightarrow> nat"

text \<open>An operation with the errno its caller ignores, 0 for none.\<close>

type_synonym child_step = "child_op \<times> nat"

fun run_child :: "child_env \<Rightarrow> child_op list \<Rightarrow> child_step list \<Rightarrow> (nat + unit) \<times> child_op list" where
  "run_child env tr [] = (Inr (), tr)"
| "run_child env tr ((op, ignored) # steps) =
     (let errno = env tr op in
      if errno = 0 \<or> errno = ignored then run_child env (tr @ [op]) steps
      else (Inl errno, tr @ [op]))"

definition install_arch_gate :: "bpf_machine \<Rightarrow> child_step list" where
  "install_arch_gate exec =
     [(SetNoNewPrivs, 0), (InstallFilter (run_filter exec ARCH_GATE_PROGRAM), 0)]"

definition install_baseline_denylist ::
    "bpf_machine \<Rightarrow> (seccomp_data \<Rightarrow> u32) \<Rightarrow> child_step list" where
  "install_baseline_denylist exec program = install_arch_gate exec @ [(ApplyFilter program, 0)]"

lemma run_child_append:
  "run_child env tr (xs @ ys) =
     (case run_child env tr xs of (Inl e, tr') \<Rightarrow> (Inl e, tr') | (Inr _, tr') \<Rightarrow> run_child env tr' ys)"
  by (induction env tr xs rule: run_child.induct) (auto simp: Let_def)

text \<open>A chain that succeeds has made every call, in order, and each succeeded or failed as ignored.\<close>

fun chain_ok :: "child_env \<Rightarrow> child_op list \<Rightarrow> child_step list \<Rightarrow> bool" where
  "chain_ok env tr [] \<longleftrightarrow> True"
| "chain_ok env tr ((op, ignored) # steps) \<longleftrightarrow>
     env tr op \<in> {0, ignored} \<and> chain_ok env (tr @ [op]) steps"

lemma run_child_success:
  "run_child env tr steps = (Inr (), tr') \<longleftrightarrow> tr' = tr @ map fst steps \<and> chain_ok env tr steps"
  by (induction env tr steps rule: run_child.induct) (auto simp: Let_def)

lemma chain_ok_step:
  "chain_ok env tr (xs @ (op, 0) # ys) \<Longrightarrow> env (tr @ map fst xs) op = 0"
proof (induction xs arbitrary: tr)
  case (Cons x xs)
  then show ?case using Cons.IH [of "tr @ [fst x]"] by (cases x) simp
qed simp

end
