(* ===== verification/Samples.thy ===== *)
theory Samples
  imports Mounts Landlock Hardening EtcFiles Seccomp FirewallBatch NetlinkReply NetworkProps
begin

text \<open>
  A concrete deployment, and the properties with hypotheses applied to it: a dual-stack guest with a static IPv6
  address, two environment variables, an extra sysctl, one resolver and the default packet filter.
\<close>

section \<open>A configuration\<close>

definition sample_config :: config where
  "sample_config =
     \<lparr>c_project = \<lparr>pr_name = ''my-app'', pr_cli_version = None\<rparr>,
      c_profile = \<lparr>prof_kind = Casual\<rparr>,
      c_app = \<lparr>app_mode = ModeBinary, app_source = None, app_binary = Some \<lparr>bin_path = Some ''./app''\<rparr>,
        app_runtime = app_runtime_default
          \<lparr>rt_env := [(''LANG'', ''C''), (''RUST_LOG'', ''info,a=b'')],
           rt_landlock := landlock_default\<lparr>extra_read_paths := [''/usr/share'']\<rparr>\<rparr>\<rparr>,
      c_network = network_default
        \<lparr>net_mode := Dual,
         net_ipv6_static := Some \<lparr>v6_address = ''2001::1'', v6_prefix_len = 64,
           v6_gateway = Some ''fe80::1'', v6_interface = None\<rparr>,
         net_nameservers := [''9.9.9.9'']\<rparr>,
      c_storage = storage_default, c_kernel = kernel_default,
      c_toolchain = \<lparr>tp_apt_snapshot = None, tp_rust_version = None, tp_e2fsprogs_version = None,
        tp_e2fsprogs_sha256 = None\<rparr>,
      c_hardening = hardening_default\<lparr>h_extra_sysctls := [(''/proc/sys/vm/swappiness'', ''0'')]\<rparr>,
      c_sev_snp = None,
      c_output = \<lparr>out_formats = [FmtCpio], out_dir = default_output_dir\<rparr>,
      c_release = \<lparr>rel_assets = None, rel_title = None, rel_notes = None, rel_notes_file = None,
        rel_draft = False, rel_prerelease = False\<rparr>,
      c_logging = \<lparr>log_enabled = False\<rparr>\<rparr>"

lemma read_numerals:
  "read_octets i (numeral k) s =
     (case read_separator (CHR ''.'') i (read_number 10 3 255 False) s of
        None \<Rightarrow> None
      | Some (d, rest) \<Rightarrow>
          (case read_octets (i + 1) (pred_numeral k) rest of None \<Rightarrow> None | Some (ds, r) \<Rightarrow> Some (d # ds, r)))"
  "read_groups i (numeral k) s =
     (case (if 0 < pred_numeral k then read_separator (CHR '':'') i read_ipv4_addr s else None) of
        Some (os, rest) \<Rightarrow>
          ([word_of_nat (os ! 0 * 256 + os ! 1),
            word_of_nat (os ! 2 * 256 + os ! 3)], True, rest)
      | None \<Rightarrow>
          (case read_separator (CHR '':'') i (read_number 16 4 65535 True) s of
             None \<Rightarrow> ([], False, s)
           | Some (g, rest) \<Rightarrow>
               (case read_groups (i + 1) (pred_numeral k) rest of
                  (gs, v4, r) \<Rightarrow> (word_of_nat g # gs, v4, r))))"
  by (simp_all only: numeral_eq_Suc read_octets.simps read_groups.simps)

lemmas v6_eval = parse_ipv6_def read_ipv6_addr_def read_numerals read_separator_def read_number_def
  read_ipv4_addr_def to_digit_def

lemma replicate_numeral [simp]: "replicate (numeral k) x = x # replicate (pred_numeral k) x"
  by (simp only: numeral_eq_Suc replicate_Suc)

lemma sample_address: "parse_ipv6 ''2001::1'' = Some [0x2001, 0, 0, 0, 0, 0, 0, 1]"
  by (simp add: v6_eval numeral_2_eq_2 numeral_3_eq_3)

lemma sample_gateway: "parse_ipv6 ''fe80::1'' = Some [0xfe80, 0, 0, 0, 0, 0, 0, 1]"
  by (simp add: v6_eval)

lemmas sample_defs = sample_config_def app_runtime_default_def landlock_default_def app_limits_default_def
  default_uid_def default_gid_def network_default_def firewall_default_def default_firewall_inbound_def
  inbound_new_def storage_default_def default_storage_size_mib_def tmpfs_default_def kernel_default_def
  hardening_default_def kernel_hardening_default_def runtime_hardening_default_def default_output_dir_def

lemma sample_valid: "validate ''1.0.0'' sample_config = Inr ()"
proof -
  have "name_ok ''my-app''" by code_simp
  moreover have "kv_safe [(''LANG'', ''C''), (''RUST_LOG'', ''info,a=b'')]"
    "kv_safe [(''/proc/sys/vm/swappiness'', ''0'')]" by (simp_all add: kv_safe_def)
  moreover have "sysctl_key_ok ''/proc/sys/vm/swappiness''" by (simp add: sysctl_key_ok_def)
  moreover have "trim default_output_dir \<noteq> []" by code_simp
  moreover have "inbound_ok \<lparr>in_proto = ''tcp'', in_ports = ''80''\<rparr>"
    "inbound_ok \<lparr>in_proto = ''tcp'', in_ports = ''443''\<rparr>"
    "inbound_ok \<lparr>in_proto = ''udp'', in_ports = ''443''\<rparr>"
    by (simp_all add: inbound_ok_def port_bounds_def from_str_radix_def to_digit_def)
  moreover have "v6_static_ok \<lparr>v6_address = ''2001::1'', v6_prefix_len = 64, v6_gateway = Some ''fe80::1'',
      v6_interface = None\<rparr>"
    by (simp add: v6_static_ok_def sample_address sample_gateway v6_routable_def v6_is_loopback_def
      v6_is_multicast_def v6_is_unspecified_def)
  ultimately show ?thesis
    unfolding validate_iff valid_config_def output_ok_def
    by (simp add: sample_defs list_safe_def profile_ok_def app_ok_def has_ipv6_def has_any_def)
qed

section \<open>The configuration reaches the guest\<close>

lemma sysctl_keys_confined_witness:
  "\<exists>rest. lex_resolve [] (path_components ''/proc/sys/vm/swappiness'') = [''proc'', ''sys''] @ rest"
  by (rule sysctl_keys_confined [OF sample_valid, of _ "''0''"]) (simp add: sample_defs)

lemma output_dir_confined_witness:
  "\<exists>rest. lex_resolve [''home'', ''me''] (path_components ''dist/'') = [''home'', ''me''] @ rest"
  using output_dir_confined [OF sample_valid, of "[''home'', ''me'']"] by (simp add: sample_defs)


lemma firewall_transported_witness:
  "parse_rules (image_consts sample_config ''CARGO_UNIKERNEL_FIREWALL_RULES'') =
     Inr (map rule_of default_firewall_inbound)"
  using firewall_transported [OF sample_valid]
  by (simp add: firewall_feature) (simp add: sample_defs has_any_def)

lemma app_ids_of_config_witness: "app_ids (image_consts sample_config) = Inr (65534, 65534)"
  using app_ids_of_config [OF sample_valid] by (simp add: sample_defs)

lemma landlock_paths_transported_witness:
  "parse_path_list (image_consts sample_config ''CARGO_UNIKERNEL_LANDLOCK_RO'') = [''/usr/share''] \<and>
   parse_path_list (image_consts sample_config ''CARGO_UNIKERNEL_LANDLOCK_RW'') = []"
  using landlock_paths_transported [OF sample_valid] by (simp add: sample_defs drop_empty_def)

lemma sample_v6:
  "net_ipv6_static (c_network sample_config) = Some \<lparr>v6_address = ''2001::1'', v6_prefix_len = 64,
     v6_gateway = Some ''fe80::1'', v6_interface = None\<rparr>"
  by (simp add: sample_config_def)

lemma static_v6_transported_witness:
  "\<exists>a. parse_ipv6 ''2001::1'' = Some a \<and>
     parse_static_v6 (image_consts sample_config ''CARGO_UNIKERNEL_IPV6_STATIC'') = Some (a, 64) \<and>
     image_consts sample_config ''CARGO_UNIKERNEL_IPV6_GATEWAY'' = ''fe80::1''"
  using static_v6_transported [OF sample_valid sample_v6] by auto

section \<open>The packet filter\<close>

definition ssh_packet :: packet where
  "ssh_packet = \<lparr>pk_iifname = as_bytes ''eth0'', pk_nfproto = NFPROTO_IPV4, pk_l4proto = IPPROTO_TCP,
     pk_ct_state = 8, pk_transport = [0x80, 0, 0, 22]\<rparr>"

definition ssh_rule :: rule where
  "ssh_rule = \<lparr>r_protocol = IPPROTO_TCP, r_first_port = 22, r_last_port = 22\<rparr>"

lemma ssh_admitted: "admitted [ssh_rule] ssh_packet" "\<not> admitted [] ssh_packet"
  by (simp_all add: admitted_def ssh_rule_def ssh_packet_def rule_admits_def dst_port_def get_range_def
      of_be16_def has_icmp_type_def nums lo_name_def as_bytes_def overwrite_def)


lemma build_batch_accounting_witness:
  "\<exists>b. build_batch (features_of []) [ssh_rule] = Inr b \<and>
     messages (b_bytes b) = Inr (batch_messages (features_of []) [ssh_rule])"
  using build_batch_accounting [of "[ssh_rule]" "features_of []"] by auto

definition ack_message :: "byte list" where
  "ack_message = ne32 20 @ ne16 NLMSG_ERROR @ ne16 0 @ ne32 1 @ ne32 0 @ ne32 0"

definition good_socket :: sock_env where
  "good_socket = \<lparr>socket_res = Inr (), bind_res = Inr (), timeout_res = Inr (), send_res = (\<lambda>_. Inr ()),
     recvs = [Inr ack_message]\<rparr>"

lemma ack_eval: "drain 0 ack_message = Inr 1" "length ack_message = 20"
  by (simp_all add: drain.simps split_message_def check_reply_def ack_message_def nums get_range_def ne32_def
      ne16_def align4_def Let_def)


section \<open>The system call filters\<close>

lemma arch_gate_decides_witness:
  "run_filter bpf_ref ARCH_GATE_PROGRAM \<lparr>sd_nr = 59, sd_arch = AUDIT_ARCH_X86_64\<rparr> = SECCOMP_RET_ALLOW"
  using arch_gate_decides [OF bpf_ref_semantics, of "\<lparr>sd_nr = 59, sd_arch = AUDIT_ARCH_X86_64\<rparr>"]
  by (simp add: X32_SYSCALL_BIT_def)

definition list_compiler :: filter_compiler where
  "list_compiler nrs = Some (\<lambda>d. if sd_arch d = AUDIT_ARCH_X86_64 \<and> unat (sd_nr d) \<notin> set nrs
     then SECCOMP_RET_ALLOW else SECCOMP_RET_KILL_PROCESS)"

lemma app_syscalls_permitted_witness:
  "\<exists>program. build_baseline_denylist (features_of []) list_compiler = Inr program \<and>
     permitted (app_filters bpf_ref program) \<lparr>sd_nr = 59, sd_arch = AUDIT_ARCH_X86_64\<rparr> \<and>
     \<not> permitted (app_filters bpf_ref program) \<lparr>sd_nr = 101, sd_arch = AUDIT_ARCH_X86_64\<rparr>"
proof -
  have contract: "seccompiler_contract list_compiler"
    by (auto simp: seccompiler_contract_def list_compiler_def)
  obtain program where p: "build_baseline_denylist (features_of []) list_compiler = Inr program"
    by (simp add: build_baseline_denylist_def list_compiler_def)
  have "101 \<in> set BASELINE_SYSCALLS" by (simp add: BASELINE_SYSCALLS_def)
  moreover have "59 \<notin> set (BASELINE_SYSCALLS @ WRITE_EXECUTE_SYSCALLS (features_of []))"
    using never_denied [of "features_of []"] by simp
  ultimately show ?thesis
    using p app_syscalls_permitted [OF bpf_ref_semantics contract p]
    by (intro exI [of _ program]) (simp add: X32_SYSCALL_BIT_def)
qed

section \<open>Addresses, routes and waits\<close>

lemma rtmsg_layout_witness: "length (in6_rtmsg_bytes (default_route (replicate 8 0) 2)) = 80"
  using rtmsg_layout [of "replicate 8 0"] by (simp add: Let_def)

lemma settle_wait_bounded_witness:
  "settle_loop (features_of []) 10 [(0, None, None), (11, None, None)] \<noteq> None"
  using settle_wait_bounded [of "[(0, None, None), (11, None, None)]" 10 "features_of []"] by simp

section \<open>The volume and the mounts\<close>

lemma write_zeros_exact_witness:
  "list_all (\<lambda>n. 0 < n \<and> n \<le> 4) (the (write_zeros 10 4))"
  using write_zeros_exact [of 10 4] by (simp add: write_zeros_def list_all_iff)

lemma superblock_recognised_witness: "\<not> superblock_is_ours (replicate 136 0)"
  using superblock_recognised [of "replicate 136 0"] by (simp add: nums VOLUME_LABEL_def as_bytes_def)


definition calm_kernel :: env where
  "calm_kernel tr ev =
     (case ev of
        OpenDirNoFollow _ \<Rightarrow> NumberIs 7
      | LandlockVersion \<Rightarrow> NumberIs 6
      | StatMode _ \<Rightarrow> NumberIs 0x41ED
      | SpawnApp _ _ _ \<Rightarrow> NumberIs 42
      | ReadDevice _ _ n \<Rightarrow> BytesAre (replicate n 0)
      | SizeDevice _ \<Rightarrow> NumberIs 0
      | RunProgram _ _ \<Rightarrow> NumberIs 0
      | _ \<Rightarrow> Done)"

lemma calm_prepare:
  "\<exists>tr. prepare_system_env (features_of []) (image_consts sample_config) calm_kernel ''/app'' [] =
     (Some (Inr ()), tr)"
  by (simp add: prepare_system_env_def tmpfs_data_def consts_numbers mount_base_def base_mounts_def
      mount_var_tmp_def prepare_mount_directory_def mount_payload_def mount_fatal_def remount_fatal_def
      or_fatal_def mount_def mount_data_def bind_mount_def remount_def features_of_def show_word_no_nul
      eff_bind_def eff_then_def eff_lift_def eff_return_def ask_def attempt_def eff_when_def calm_kernel_def)

lemma calm_lockdown:
  "\<exists>tr'. lockdown_filesystem (features_of []) (image_consts sample_config) calm_kernel ''/app'' tr =
     (Some (Inr ()), tr')"
  by (simp add: lockdown_filesystem_def tmpfs_data_def consts_numbers remount_fatal_def or_fatal_def
      remount_def seal_rootfs_def eff_bind_def eff_then_def eff_lift_def eff_return_def ask_def calm_kernel_def)


lemma calm_landlock:
  "\<exists>new. build (features_of []) calm_kernel ''/app'' [] [] [] = (Some (Inr ()), [] @ new)"
  by (simp add: build_def abi_version_def MIN_ABI_def rules_for_def builtin_rules_def required_def optional_def
      add_rule_def features_of_def SCRATCH_def Let_def
      eff_bind_def eff_then_def eff_return_def ask_def require_def calm_kernel_def)

lemma payload_rule:
  "required ''/app'' READ_EXEC \<in> set (rules_for (features_of []) ''/app'' [] [])"
  "ll_presence (required ''/app'' READ_EXEC) = Required" "ll_path (required ''/app'' READ_EXEC) = ''/app''"
  by (simp_all add: rules_for_def builtin_rules_def required_def)

lemma landlock_ruleset_complete_witness:
  "\<exists>new. build (features_of []) calm_kernel ''/app'' [] [] [] = (Some (Inr ()), new) \<and>
     ''/app'' \<in> snd ` set (added_rules new)"
proof -
  obtain new where b: "build (features_of []) calm_kernel ''/app'' [] [] [] = (Some (Inr ()), [] @ new)"
    using calm_landlock by blast
  from landlock_ruleset_complete [OF b] obtain new' where "[] @ new = [] @ new'"
      "\<forall>rule\<in>set (rules_for (features_of []) ''/app'' [] []). ll_presence rule = Required \<longrightarrow>
         ll_path rule \<in> snd ` set (added_rules new')"
    by blast
  from this(2) [rule_format, OF payload_rule(1,2)] this(1) have "''/app'' \<in> snd ` set (added_rules new)"
    by (simp only: payload_rule(3) append_Nil)
  with b show ?thesis by auto
qed


section \<open>The files\<close>

lemma accounts_unambiguous_witness: "distinct (fields_of 2 (passwd 65534 65534))"
  using accounts_unambiguous [of 65534 65534] by (simp add: validate_app_ids_def)

lemma configured_resolvers_win_witness:
  "lines (resolv_conf_body (encode_path_list [''9.9.9.9'']) [] ''nameserver 10.0.2.3'') = [''nameserver 9.9.9.9'']"
  using configured_resolvers_win [of "[''9.9.9.9'']" "[]" "''nameserver 10.0.2.3''"]
  by (simp add: list_safe_def drop_empty_def plain_line_def NL_def)


end
