(* ===== verification/Entropy.thy ===== *)
theory Entropy
  imports Effects Polling
begin

text \<open>
  The entropy wait of \<open>guest/src/entropy.rs\<close>: \<open>/dev/random\<close> is polled until the kernel reports its generator
  seeded, and the boot ends when it does not within the deadline. Times are milliseconds.
\<close>

definition EINTR :: nat where [nums]: "EINTR = 4"
definition MAX_WAIT :: nat where [nums]: "MAX_WAIT = 30000"

text \<open>\<open>Ok(0)\<close>, an errno, or \<open>Ok(_)\<close> with whether \<open>revents\<close> contains \<open>POLLIN\<close>.\<close>

datatype poll_result = PollTimeout | PollFailed nat | PollReady bool

text \<open>
  Each turn reads the clock and, before the deadline, polls once. \<open>None\<close>: the observations end before the
  loop does.
\<close>

fun entropy_loop :: "nat \<Rightarrow> (nat \<times> poll_result) list \<Rightarrow> (fatal + unit) option" where
  "entropy_loop deadline [] = None"
| "entropy_loop deadline ((now, p) # obs) =
     (if now < deadline then
        (case p of
           PollTimeout \<Rightarrow> entropy_loop deadline obs
         | PollFailed e \<Rightarrow>
             if e = EINTR then entropy_loop deadline obs else Some (Inl EntropyPollFailed)
         | PollReady readable \<Rightarrow> if readable then Some (Inr ()) else entropy_loop deadline obs)
      else Some (Inl EntropyTimeout))"

definition wait_for_entropy :: "env \<Rightarrow> nat \<Rightarrow> (nat \<times> poll_result) list \<Rightarrow> unit eff" where
  "wait_for_entropy env start obs =
     eff_then (require env (OpenDevice ''/dev/random'') EntropyOpenFailed)
       (eff_wait (entropy_loop (start + MAX_WAIT) obs))"

text \<open>The kernel reported its generator seeded, in time, and no poll before that one failed for good.\<close>

definition seeded_in_time :: "nat \<Rightarrow> (nat \<times> poll_result) list \<Rightarrow> bool" where
  "seeded_in_time deadline obs \<longleftrightarrow>
     (\<exists>pre now post. obs = pre @ (now, PollReady True) # post \<and> now < deadline \<and>
        (\<forall>(t, p)\<in>set pre. t < deadline \<and> p \<in> {PollTimeout, PollFailed EINTR, PollReady False}))"

lemma seeded_Nil: "\<not> seeded_in_time d []"
  by (simp add: seeded_in_time_def)

lemma seeded_Cons:
  "seeded_in_time d ((t, p) # obs) \<longleftrightarrow>
     t < d \<and> (p = PollReady True \<or>
       p \<in> {PollTimeout, PollFailed EINTR, PollReady False} \<and> seeded_in_time d obs)"
  (is "?l \<longleftrightarrow> ?r")
proof
  assume ?l
  then obtain pre now post where s: "(t, p) # obs = pre @ (now, PollReady True) # post" "now < d"
    "\<forall>(t, p)\<in>set pre. t < d \<and> p \<in> {PollTimeout, PollFailed EINTR, PollReady False}"
    unfolding seeded_in_time_def by blast
  show ?r
  proof (cases pre)
    case Nil
    with s show ?thesis by simp
  next
    case (Cons x xs)
    with s have "seeded_in_time d obs" unfolding seeded_in_time_def by auto
    with s Cons show ?thesis by auto
  qed
next
  assume r: ?r
  then have "t < d" by simp
  from r consider "p = PollReady True"
    | "p \<in> {PollTimeout, PollFailed EINTR, PollReady False}" "seeded_in_time d obs" by auto
  then show ?l
  proof cases
    case 1
    with \<open>t < d\<close> show ?thesis
      unfolding seeded_in_time_def by (intro exI [of _ "[]"]) simp
  next
    case 2
    then obtain pre now post where s: "obs = pre @ (now, PollReady True) # post" "now < d"
      "\<forall>(t, p)\<in>set pre. t < d \<and> p \<in> {PollTimeout, PollFailed EINTR, PollReady False}"
      unfolding seeded_in_time_def by blast
    with 2 \<open>t < d\<close> show ?thesis
      unfolding seeded_in_time_def by (intro exI [of _ "(t, p) # pre"]) auto
  qed
qed

lemma entropy_loop_ready: "entropy_loop d obs = Some (Inr ()) \<longleftrightarrow> seeded_in_time d obs"
  by (induction d obs rule: entropy_loop.induct) (auto simp: seeded_Nil seeded_Cons split: poll_result.split)

text \<open>One turn, as the contract of the waiting loops has it.\<close>

definition entropy_turn :: "nat \<Rightarrow> nat \<times> poll_result \<Rightarrow> nat + (fatal + unit)" where
  "entropy_turn deadline = (\<lambda>(now, p).
     if deadline \<le> now then Inr (Inl EntropyTimeout)
     else if p = PollReady True then Inr (Inr ())
     else if p \<in> {PollTimeout, PollFailed EINTR, PollReady False} then Inl deadline
     else Inr (Inl EntropyPollFailed))"

interpretation entropy: bounded_loop entropy_loop "\<lambda>_. None" entropy_turn "\<lambda>d (t, p). d \<le> t"
  by unfold_locales (auto simp: entropy_turn_def split: poll_result.splits if_splits)

text \<open>
  C38. The wait returns exactly when the kernel reported its generator seeded before the deadline, with only
  timeouts, interruptions and unready polls before that; once the clock has passed the deadline it has an
  outcome, so an unseeded generator ends the boot instead of blocking it or letting the app start; and an outcome is final.
\<close>

theorem entropy_gate:
  "(entropy_loop d obs = Some (Inr ()) \<longleftrightarrow> seeded_in_time d obs) \<and>
   (list_ex (\<lambda>(t, p). d \<le> t) obs \<and> \<not> seeded_in_time d obs \<longrightarrow>
      entropy_loop d obs \<in> {Some (Inl EntropyPollFailed), Some (Inl EntropyTimeout)}) \<and>
   (entropy_loop d obs = Some r \<longrightarrow> entropy_loop d (obs @ later) = Some r)"
proof -
  have "entropy_loop d obs \<in> {None, Some (Inr ()), Some (Inl EntropyPollFailed), Some (Inl EntropyTimeout)}"
    by (induction d obs rule: entropy_loop.induct) (auto split: poll_result.split)
  then show ?thesis
    using entropy.ends [of d obs] entropy.stable [of d obs r later] entropy_loop_ready [of d obs] by auto
qed

lemma entropy_gate_witness:
  "entropy_loop 100 [(0, PollTimeout), (50, PollReady True)] = Some (Inr ()) \<and>
   entropy_loop 100 [(0, PollFailed EINTR), (250, PollReady True)] \<in>
     {Some (Inl EntropyPollFailed), Some (Inl EntropyTimeout)}"
  using entropy_gate [of 100 "[(0, PollTimeout), (50, PollReady True)]"]
    entropy_gate [of 100 "[(0, PollFailed EINTR), (250, PollReady True)]"]
  by (simp add: seeded_Nil seeded_Cons)

end
