(* ===== verification/Sandbox.thy ===== *)
theory Sandbox
  imports Effects Seccomp GuestConfig
begin

text \<open>
  The sandbox of the app (\<open>guest/src/main.rs\<close>): the calls the child makes between \<open>fork\<close> and \<open>execve\<close>, in their order, what
  each leaves behind in the child's credentials, and the privilege each needs. A successful chain leaves the
  complete sandbox, and the order of the chain lets every call have its privilege.
\<close>

section \<open>The chain\<close>

definition set_rlimit :: "string \<Rightarrow> u64 \<Rightarrow> child_step list" where
  "set_rlimit resource value = [(SetRlimit resource value, 0)]"

definition apply_resource_limits :: "resource_limits \<Rightarrow> child_step list" where
  "apply_resource_limits limits =
     set_rlimit ''NOFILE'' (lim_nofile limits) @ set_rlimit ''NPROC'' (lim_nproc limits) @
     set_rlimit ''MEMLOCK'' (lim_memlock_bytes limits) @
     (if 0 < lim_address_space_bytes limits then set_rlimit ''AS'' (lim_address_space_bytes limits) else [])"

definition drop_privileges :: "u32 \<Rightarrow> u32 \<Rightarrow> child_step list" where
  "drop_privileges uid gid =
     map (\<lambda>cap. (CapbsetDrop cap, EINVAL)) [0..<64] @
     [(SetGroupsEmpty, 0), (SetGid gid, 0), (SetUid uid, 0)]"

definition set_mdwe :: "features \<Rightarrow> child_step list" where
  "set_mdwe ft = (if ft_danger ft then [] else [(SetMdwe, 0)])"

definition restrict_self :: "child_step list" where
  "restrict_self = [(SetNoNewPrivs, 0), (LandlockRestrictSelf, 0)]"

text \<open>The \<open>pre_exec\<close> closures, in the order of their registration.\<close>

definition child_chain ::
    "features \<Rightarrow> bpf_machine \<Rightarrow> (seccomp_data \<Rightarrow> u32) \<Rightarrow> resource_limits \<Rightarrow> u32 \<Rightarrow> u32 \<Rightarrow> child_step list" where
  "child_chain ft exec program limits uid gid =
     apply_resource_limits limits @ drop_privileges uid gid @ set_mdwe ft @
     (if ft_landlock ft then restrict_self else []) @ install_baseline_denylist exec program"

section \<open>What the calls leave behind\<close>

record creds =
  cr_limits :: "string \<rightharpoonup> u64"
  cr_bounding :: "nat set"
  cr_groups :: bool \<comment> \<open>supplementary groups left\<close>
  cr_gid :: u32
  cr_uid :: u32
  cr_mdwe :: bool
  cr_no_new_privs :: bool
  cr_landlocked :: bool
  cr_filters :: "(seccomp_data \<Rightarrow> u32) list"

fun op_effect :: "child_op \<Rightarrow> creds \<Rightarrow> creds" where
  "op_effect (SetRlimit r v) c = c\<lparr>cr_limits := (cr_limits c)(r \<mapsto> v)\<rparr>"
| "op_effect (CapbsetDrop n) c = c\<lparr>cr_bounding := cr_bounding c - {n}\<rparr>"
| "op_effect SetGroupsEmpty c = c\<lparr>cr_groups := False\<rparr>"
| "op_effect (SetGid g) c = c\<lparr>cr_gid := g\<rparr>"
| "op_effect (SetUid u) c = c\<lparr>cr_uid := u\<rparr>"
| "op_effect SetMdwe c = c\<lparr>cr_mdwe := True\<rparr>"
| "op_effect SetNoNewPrivs c = c\<lparr>cr_no_new_privs := True\<rparr>"
| "op_effect LandlockRestrictSelf c = c\<lparr>cr_landlocked := True\<rparr>"
| "op_effect (InstallFilter f) c = c\<lparr>cr_filters := cr_filters c @ [f]\<rparr>"
| "op_effect (ApplyFilter f) c = c\<lparr>cr_filters := cr_filters c @ [f]\<rparr>"

text \<open>The credentials after the calls \<open>ops\<close> that follow \<open>tr\<close>: those the kernel accepted have their effect.\<close>

fun creds_after :: "child_env \<Rightarrow> child_op list \<Rightarrow> child_op list \<Rightarrow> creds \<Rightarrow> creds" where
  "creds_after env tr [] c = c"
| "creds_after env tr (op # ops) c =
     creds_after env (tr @ [op]) ops (if env tr op = 0 then op_effect op c else c)"

lemma creds_after_append:
  "creds_after env tr (xs @ ys) c = creds_after env (tr @ xs) ys (creds_after env tr xs c)"
  by (induction xs arbitrary: tr c) auto

text \<open>Calls that must all succeed have exactly the composition of their effects.\<close>

definition strict_effects :: "child_step list \<Rightarrow> creds \<Rightarrow> creds" where
  "strict_effects steps c = foldl (\<lambda>c s. op_effect (fst s) c) c steps"

lemma creds_after_strict:
  "chain_ok env tr steps \<Longrightarrow> list_all (\<lambda>s. snd s = 0) steps \<Longrightarrow>
     creds_after env tr (map fst steps) c = strict_effects steps c"
proof (induction steps arbitrary: tr c)
  case (Cons s steps)
  then show ?case by (cases s) (simp add: strict_effects_def)
qed (simp add: strict_effects_def)

lemma chain_ok_append:
  "chain_ok env tr (xs @ ys) \<longleftrightarrow> chain_ok env tr xs \<and> chain_ok env (tr @ map fst xs) ys"
  by (induction env tr xs rule: chain_ok.induct) auto

text \<open>The capabilities: each is dropped, or the kernel said, when asked, that it has no such capability.\<close>

definition unknown_cap :: "child_env \<Rightarrow> child_op list \<Rightarrow> nat \<Rightarrow> bool" where
  "unknown_cap env ops cap \<longleftrightarrow>
     (\<exists>pre post. ops = pre @ CapbsetDrop cap # post \<and> env pre (CapbsetDrop cap) = EINVAL)"

lemma caps_dropped:
  assumes "chain_ok env tr (map (\<lambda>cap. (CapbsetDrop cap, EINVAL)) caps)"
    and "ops = tr @ map CapbsetDrop caps @ post"
  shows "\<exists>S. creds_after env tr (map CapbsetDrop caps) c = c\<lparr>cr_bounding := S\<rparr> \<and>
    S \<subseteq> cr_bounding c \<and> (\<forall>cap\<in>set caps. cap \<in> S \<longrightarrow> unknown_cap env ops cap)"
  using assms
proof (induction caps arbitrary: tr c)
  case Nil
  show ?case by (rule exI [of _ "cr_bounding c"]) simp
next
  case (Cons cap caps)
  let ?c = "if env tr (CapbsetDrop cap) = 0 then op_effect (CapbsetDrop cap) c else c"
  obtain S where S: "creds_after env (tr @ [CapbsetDrop cap]) (map CapbsetDrop caps) ?c = ?c\<lparr>cr_bounding := S\<rparr>"
      "S \<subseteq> cr_bounding ?c" "\<forall>cap\<in>set caps. cap \<in> S \<longrightarrow> unknown_cap env ops cap"
    using Cons.IH [of "tr @ [CapbsetDrop cap]" ?c] Cons.prems by auto
  moreover have "?c\<lparr>cr_bounding := S\<rparr> = c\<lparr>cr_bounding := S\<rparr>" by simp
  moreover have "unknown_cap env ops cap" if "cap \<in> S"
  proof -
    have "env tr (CapbsetDrop cap) = EINVAL"
      using that S(2) Cons.prems(1) by (auto split: if_splits)
    with Cons.prems(2) show ?thesis unfolding unknown_cap_def by auto
  qed
  moreover have "S \<subseteq> cr_bounding c" using S(2) by (auto split: if_splits)
  ultimately show ?case by (intro exI [of _ S]) auto
qed

section \<open>The complete sandbox\<close>

definition sandboxed ::
    "features \<Rightarrow> bpf_machine \<Rightarrow> (seccomp_data \<Rightarrow> u32) \<Rightarrow> resource_limits \<Rightarrow> u32 \<Rightarrow> u32 \<Rightarrow> creds \<Rightarrow> bool" where
  "sandboxed ft exec program limits uid gid c \<longleftrightarrow>
     cr_uid c = uid \<and> cr_gid c = gid \<and> \<not> cr_groups c \<and>
     cr_limits c ''NOFILE'' = Some (lim_nofile limits) \<and>
     cr_limits c ''NPROC'' = Some (lim_nproc limits) \<and>
     cr_limits c ''MEMLOCK'' = Some (lim_memlock_bytes limits) \<and>
     (lim_address_space_bytes limits \<noteq> 0 \<longrightarrow> cr_limits c ''AS'' = Some (lim_address_space_bytes limits)) \<and>
     (\<not> ft_danger ft \<longrightarrow> cr_mdwe c) \<and> cr_no_new_privs c \<and> (ft_landlock ft \<longrightarrow> cr_landlocked c) \<and>
     (\<exists>before. cr_filters c = before @ app_filters exec program)"

definition after_caps ::
    "features \<Rightarrow> bpf_machine \<Rightarrow> (seccomp_data \<Rightarrow> u32) \<Rightarrow> u32 \<Rightarrow> u32 \<Rightarrow> child_step list" where
  "after_caps ft exec program uid gid =
     [(SetGroupsEmpty, 0), (SetGid gid, 0), (SetUid uid, 0)] @ set_mdwe ft @
     (if ft_landlock ft then restrict_self else []) @ install_baseline_denylist exec program"

lemma child_chain_split:
  "child_chain ft exec program limits uid gid =
     apply_resource_limits limits @ map (\<lambda>cap. (CapbsetDrop cap, EINVAL)) [0..<64] @
     after_caps ft exec program uid gid"
  by (simp add: child_chain_def drop_privileges_def after_caps_def)

lemmas chain_defs = apply_resource_limits_def set_rlimit_def after_caps_def set_mdwe_def
  restrict_self_def install_baseline_denylist_def install_arch_gate_def strict_effects_def

lemma strict_parts:
  "list_all (\<lambda>s. snd s = 0) (apply_resource_limits limits)"
  "list_all (\<lambda>s. snd s = 0) (after_caps ft exec program uid gid)"
  by (simp_all add: chain_defs)

lemma limits_effect:
  "strict_effects (apply_resource_limits limits) c = c\<lparr>cr_limits := (cr_limits c)
     (''NOFILE'' \<mapsto> lim_nofile limits, ''NPROC'' \<mapsto> lim_nproc limits, ''MEMLOCK'' \<mapsto> lim_memlock_bytes limits) ++
     (if 0 < lim_address_space_bytes limits then [''AS'' \<mapsto> lim_address_space_bytes limits] else Map.empty)\<rparr>"
  by (simp add: chain_defs)

lemma after_caps_effect:
  "sandboxed ft exec program limits uid gid
     (strict_effects (after_caps ft exec program uid gid)
        ((strict_effects (apply_resource_limits limits) c)\<lparr>cr_bounding := S\<rparr>))"
  "cr_bounding (strict_effects (after_caps ft exec program uid gid) c) = cr_bounding c"
  unfolding limits_effect
  by (simp_all add: chain_defs sandboxed_def app_filters_def word_gt_0)

lemma chain_sandboxes:
  assumes "run_child env [] (child_chain ft exec program limits uid gid) = (Inr (), ops)"
  shows "sandboxed ft exec program limits uid gid (creds_after env [] ops c) \<and>
    (\<forall>cap<64. cap \<in> cr_bounding (creds_after env [] ops c) \<longrightarrow> unknown_cap env ops cap)"
proof -
  let ?limits = "apply_resource_limits limits"
  let ?caps = "map (\<lambda>cap. (CapbsetDrop cap, EINVAL)) [0..<64]"
  let ?rest = "after_caps ft exec program uid gid"
  let ?c = "strict_effects ?limits c"
  have ops: "ops = map fst ?limits @ map CapbsetDrop [0..<64] @ map fst ?rest"
    and ok: "chain_ok env [] ?limits" "chain_ok env (map fst ?limits) ?caps"
      "chain_ok env (map fst ?limits @ map CapbsetDrop [0..<64]) ?rest"
    using assms unfolding child_chain_split run_child_success chain_ok_append
    by (simp_all add: comp_def)
  obtain S where S: "creds_after env (map fst ?limits) (map CapbsetDrop [0..<64]) ?c = ?c\<lparr>cr_bounding := S\<rparr>"
    "\<forall>cap\<in>set [0..<64]. cap \<in> S \<longrightarrow> unknown_cap env ops cap"
    using caps_dropped [OF ok(2) ops, of ?c] by blast
  have "creds_after env [] ops c = strict_effects ?rest (?c\<lparr>cr_bounding := S\<rparr>)"
    using creds_after_strict [OF ok(1) strict_parts(1), of c] creds_after_strict [OF ok(3) strict_parts(2)] S(1)
    unfolding ops by (simp only: creds_after_append append_Nil)
  then show ?thesis using S(2) after_caps_effect by simp
qed

text \<open>
  C10. Whatever the kernel answered, an app that gets to its \<open>execve\<close> is in the complete sandbox: the configured
  ids and limits, no supplementary groups, no privileges to gain, no writable memory turned executable (but in a
  danger build), Landlock when compiled in, both system call filters; and no capability is left in its bounding
  set unless the kernel answered that it does not exist.
\<close>

theorem app_sandboxed:
  assumes "run_child env [] (child_chain ft exec program limits uid gid) = (Inr (), ops)"
  shows "sandboxed ft exec program limits uid gid (creds_after env [] ops c) \<and>
    (\<forall>cap<64. cap \<in> cr_bounding (creds_after env [] ops c) \<longrightarrow> unknown_cap env ops cap)"
  using assms by (rule chain_sandboxes)

section \<open>Every call has its privilege\<close>

text \<open>
  What the kernel documents for a process with the given credentials: raising a limit, dropping a capability,
  and changing groups and ids take root's capabilities; a filter or a Landlock domain takes \<open>no_new_privs\<close> or root's
  capabilities. A kernel that grants every call its caller has the privilege for:
\<close>

fun privileged :: "creds \<Rightarrow> child_op \<Rightarrow> bool" where
  "privileged c (SetRlimit _ _) \<longleftrightarrow> cr_uid c = 0"
| "privileged c (CapbsetDrop _) \<longleftrightarrow> cr_uid c = 0"
| "privileged c SetGroupsEmpty \<longleftrightarrow> cr_uid c = 0"
| "privileged c (SetGid _) \<longleftrightarrow> cr_uid c = 0"
| "privileged c (SetUid _) \<longleftrightarrow> cr_uid c = 0"
| "privileged c SetMdwe \<longleftrightarrow> True"
| "privileged c SetNoNewPrivs \<longleftrightarrow> True"
| "privileged c LandlockRestrictSelf \<longleftrightarrow> cr_uid c = 0 \<or> cr_no_new_privs c"
| "privileged c (InstallFilter _) \<longleftrightarrow> cr_uid c = 0 \<or> cr_no_new_privs c"
| "privileged c (ApplyFilter _) \<longleftrightarrow> cr_uid c = 0 \<or> cr_no_new_privs c"

definition granting_kernel :: "child_env \<Rightarrow> creds \<Rightarrow> bool" where
  "granting_kernel env c \<longleftrightarrow>
     (\<forall>tr op. privileged (creds_after env [] tr c) op \<longrightarrow>
        env tr op = 0 \<or> (\<exists>cap. op = CapbsetDrop cap) \<and> env tr op = EINVAL)"

text \<open>The privileges a chain needs, with its calls taken to succeed; the bounding set plays no part.\<close>

fun privileges_suffice :: "creds \<Rightarrow> child_step list \<Rightarrow> bool" where
  "privileges_suffice c [] \<longleftrightarrow> True"
| "privileges_suffice c ((op, ignored) # steps) \<longleftrightarrow>
     privileged c op \<and> ((\<exists>cap. op = CapbsetDrop cap) \<longrightarrow> ignored = EINVAL) \<and>
     privileges_suffice (op_effect op c) steps"

lemma privileges_suffice_bounding:
  "privileges_suffice (c\<lparr>cr_bounding := S\<rparr>) steps = privileges_suffice c steps"
proof (induction c steps arbitrary: S rule: privileges_suffice.induct)
  case (2 c op ignored steps)
  have "privileged (c\<lparr>cr_bounding := S\<rparr>) op = privileged c op" by (cases op) simp_all
  moreover have "op_effect op (c\<lparr>cr_bounding := S\<rparr>) =
      (op_effect op c)\<lparr>cr_bounding := (case op of CapbsetDrop n \<Rightarrow> S - {n} | _ \<Rightarrow> S)\<rparr>"
    by (cases op) simp_all
  ultimately show ?case using 2 by auto
qed simp

lemma chain_ok_granted:
  "granting_kernel env c0 \<Longrightarrow> c = creds_after env [] tr c0 \<Longrightarrow> privileges_suffice c steps \<Longrightarrow> chain_ok env tr steps"
proof (induction steps arbitrary: tr c)
  case (Cons s steps)
  obtain op ignored where s: "s = (op, ignored)" by (cases s)
  let ?c = "creds_after env [] (tr @ [op]) c0"
  have granted: "env tr op = 0 \<or> (\<exists>cap. op = CapbsetDrop cap) \<and> env tr op = EINVAL"
    using Cons.prems s unfolding granting_kernel_def by auto
  then have "privileges_suffice ?c steps"
  proof
    assume "env tr op = 0"
    with Cons.prems s show ?thesis by (simp add: creds_after_append)
  next
    assume e: "(\<exists>cap. op = CapbsetDrop cap) \<and> env tr op = EINVAL"
    then have "op_effect op c = c\<lparr>cr_bounding := cr_bounding (op_effect op c)\<rparr>" by auto
    then have "privileges_suffice c steps"
      using Cons.prems(3) s privileges_suffice_bounding [where c = c and steps = steps] by (metis privileges_suffice.simps(2))
    with e Cons.prems(2) show ?thesis by (auto simp: creds_after_append EINVAL_def)
  qed
  then have "chain_ok env (tr @ [op]) steps"
    using Cons.IH [OF Cons.prems(1) refl] by blast
  with granted Cons.prems(3) s show ?case by auto
qed simp

lemma privileges_suffice_append:
  "privileges_suffice c (xs @ ys) \<longleftrightarrow> privileges_suffice c xs \<and> privileges_suffice (strict_effects xs c) ys"
  by (induction c xs rule: privileges_suffice.induct) (auto simp: strict_effects_def)

lemma privileges_suffice_caps:
  "cr_uid c = 0 \<Longrightarrow> privileges_suffice c (map (\<lambda>cap. (CapbsetDrop cap, EINVAL)) caps)"
  by (induction caps arbitrary: c) auto

lemma caps_keep_uid: "cr_uid (strict_effects (map (\<lambda>cap. (CapbsetDrop cap, e)) caps) c) = cr_uid c"
  by (induction caps arbitrary: c) (auto simp: strict_effects_def)

lemma chain_runs:
  assumes "cr_uid c = 0" and "granting_kernel env c"
  shows "\<exists>ops. run_child env [] (child_chain ft exec program limits uid gid) = (Inr (), ops)"
proof -
  let ?caps = "map (\<lambda>cap. (CapbsetDrop cap, EINVAL)) [0..<64]"
  let ?c = "strict_effects (apply_resource_limits limits) c"
  have limits: "privileges_suffice c (apply_resource_limits limits)" and uid: "cr_uid ?c = 0"
    using assms(1) by (simp_all add: chain_defs)
  have "privileges_suffice (strict_effects ?caps ?c) (after_caps ft exec program uid gid)"
    using caps_keep_uid [of EINVAL "[0..<64]" ?c] uid by (simp add: chain_defs)
  then have "privileges_suffice c (child_chain ft exec program limits uid gid)"
    using limits privileges_suffice_caps [OF uid]
    unfolding child_chain_split privileges_suffice_append by blast
  then have "chain_ok env [] (child_chain ft exec program limits uid gid)"
    by (intro chain_ok_granted [OF assms(2), of c]) simp
  then show ?thesis by (simp add: run_child_success)
qed

text \<open>
  The chain is in an order that works: started with root's credentials, on a kernel that grants every call its
  caller has the privilege for, no step of it fails. (The bounding set is emptied before \<open>setuid\<close> gives
  up the privilege to do so, the groups before the ids, and \<open>no_new_privs\<close> is set before the first step that needs it.)
\<close>

lemma chain_order_works:
  assumes "cr_uid c = 0" and "granting_kernel env c"
  shows "\<exists>ops. run_child env [] (child_chain ft exec program limits uid gid) = (Inr (), ops)"
  using assms by (rule chain_runs)

end
