(* ===== verification/Boot.thy ===== *)
theory Boot
  imports Entropy Sandbox Mounts Landlock Hardening EtcFiles FirewallBatch NetlinkReply NetworkProps
begin

text \<open>
  The boot of the guest init: \<open>main\<close> of \<open>guest/src/main.rs\<close> from its first call to the start of the watchdog, with the steps it
  makes itself and the trigger set-up of \<open>guest/src/shutdown.rs\<close>.
\<close>

section \<open>The machine\<close>

text \<open>
  What the boot runs on: whether it is PID 1, the kernel's answers, the netlink socket, the clocks and what the two
  waiting loops observe, the kernel's BPF machine, \<open>seccompiler\<close>, and the outcomes of the child's calls.
\<close>

record machine =
  m_pid1 :: bool
  m_env :: env
  m_sock :: sock_env
  m_entropy_start :: nat
  m_entropy :: "(nat \<times> poll_result) list"
  m_settle_start :: nat
  m_settle :: "(nat \<times> string option \<times> string option) list"
  m_bpf :: bpf_machine
  m_compile :: filter_compiler
  m_child :: child_env

section \<open>Steps of the boot\<close>

definition set_self_non_dumpable :: "env \<Rightarrow> unit eff" where
  "set_self_non_dumpable env = attempt env SetNonDumpable"

text \<open>The batch is sent and its replies are awaited; an image without the filter sends nothing.\<close>

definition install_firewall :: "features \<Rightarrow> (string \<Rightarrow> string) \<Rightarrow> machine \<Rightarrow> unit eff" where
  "install_firewall ft b M =
     eff_when (ft_firewall ft)
       (eff_bind (eff_lift (parse_rules (b ''CARGO_UNIKERNEL_FIREWALL_RULES''))) (\<lambda>rules.
          case build_batch ft rules of
            Inl _ \<Rightarrow> eff_fatal FirewallBuildFailed
          | Inr batch \<Rightarrow>
              eff_then (attempt (m_env M) (SendNetlink (b_bytes batch) (b_ackable batch)))
                (eff_wait (install ft (m_sock M) rules))))"

definition find_input_event_devices :: "env \<Rightarrow> string list eff" where
  "find_input_event_devices env =
     eff_bind (ask env (ReadDir ''/dev/input'')) (\<lambda>a.
       eff_return (case a of
         NamesAre names \<Rightarrow>
           map (\<lambda>n. ''/dev/input/'' @ n) (filter (\<lambda>n. take 5 n = ''event'') names)
       | _ \<Rightarrow> []))"

fun open_devices :: "env \<Rightarrow> string list \<Rightarrow> string list eff" where
  "open_devices env [] = eff_return []"
| "open_devices env (p # ps) =
     eff_bind (ask env (OpenInput p)) (\<lambda>a.
       if succeeded a then
         eff_then (require env (SetNonblocking p) TriggersFailed)
           (eff_bind (open_devices env ps) (\<lambda>ds. eff_return (p # ds)))
       else open_devices env ps)"

definition arm_shutdown_triggers :: "env \<Rightarrow> string list eff" where
  "arm_shutdown_triggers env =
     eff_then (require env HandleSigterm TriggersFailed)
       (eff_bind (find_input_event_devices env) (open_devices env))"

definition APP_OWNED_DIRS :: "string list" where
  "APP_OWNED_DIRS = [''/var'', ''/run'']"

definition chown_dirs_for_app :: "env \<Rightarrow> u32 \<Rightarrow> u32 \<Rightarrow> unit eff" where
  "chown_dirs_for_app env uid gid =
     eff_all (\<lambda>d. require env (Chown d uid gid) (ChownFailed d)) APP_OWNED_DIRS"

definition expose_sev_guest_device :: "env \<Rightarrow> unit eff" where
  "expose_sev_guest_device env =
     eff_bind (ask env (Exists ''/dev/sev-guest'')) (\<lambda>a.
       eff_when (succeeded a) (attempt env (SetMode ''/dev/sev-guest'' 0x1B6)))"

definition prepare_app_binary :: "(string \<Rightarrow> string) \<Rightarrow> env \<Rightarrow> unit eff" where
  "prepare_app_binary b env =
     eff_then (require env (Exists (b ''CARGO_UNIKERNEL_APP_PATH'')) AppMissing)
       (require env (SetMode (b ''CARGO_UNIKERNEL_APP_PATH'') 0x16D) AppChmodFailed)"

section \<open>Starting the app\<close>

text \<open>\<open>Command::spawn\<close>: the child's chain between \<open>fork\<close> and \<open>execve\<close>; a failure on either side is its error.\<close>

definition spawn :: "machine \<Rightarrow> child_step list \<Rightarrow> event \<Rightarrow> nat eff" where
  "spawn M chain program =
     (case fst (run_child (m_child M) [] chain) of
        Inl _ \<Rightarrow> eff_fatal SpawnFailed
      | Inr _ \<Rightarrow>
          eff_bind (ask (m_env M) program) (\<lambda>a.
            case a of NumberIs pid \<Rightarrow> eff_return pid | _ \<Rightarrow> eff_fatal SpawnFailed))"

text \<open>From the ids on; the Landlock ruleset is built before.\<close>

definition spawn_command ::
    "features \<Rightarrow> (string \<Rightarrow> string) \<Rightarrow> machine \<Rightarrow> (seccomp_data \<Rightarrow> u32) \<Rightarrow> resource_limits \<Rightarrow> nat eff" where
  "spawn_command ft b M seccomp_program limits =
     eff_bind (eff_lift (app_ids b)) (\<lambda>(uid, gid).
     eff_bind (eff_lift (parse_pairs (b ''CARGO_UNIKERNEL_APP_ENV'') ''[app.runtime].env'')) (\<lambda>vars.
       spawn M (child_chain ft (m_bpf M) seccomp_program limits uid gid)
         (SpawnApp (b ''CARGO_UNIKERNEL_APP_PATH'') vars (\<not> ft_app_console ft))))"

definition build_landlock :: "features \<Rightarrow> (string \<Rightarrow> string) \<Rightarrow> machine \<Rightarrow> unit eff" where
  "build_landlock ft b M =
     eff_when (ft_landlock ft)
       (build ft (m_env M) (b ''CARGO_UNIKERNEL_PAYLOAD_DIR'')
          (parse_path_list (b ''CARGO_UNIKERNEL_LANDLOCK_RO''))
          (parse_path_list (b ''CARGO_UNIKERNEL_LANDLOCK_RW'')))"

definition spawn_app :: "features \<Rightarrow> (string \<Rightarrow> string) \<Rightarrow> machine \<Rightarrow> nat eff" where
  "spawn_app ft b M =
     eff_bind (eff_lift (build_baseline_denylist ft (m_compile M))) (\<lambda>seccomp_program.
     eff_bind (eff_lift (resource_limits_of b)) (\<lambda>limits.
     eff_then (build_landlock ft b M) (spawn_command ft b M seccomp_program limits)))"

section \<open>The whole boot\<close>

text \<open>
  Between the mounts and the lockdown. Everything up to the mounts, and everything from the lockdown, follow.
\<close>

definition configure_system :: "features \<Rightarrow> (string \<Rightarrow> string) \<Rightarrow> machine \<Rightarrow> u32 \<Rightarrow> u32 \<Rightarrow> unit eff" where
  "configure_system ft b M uid gid =
     (let env = m_env M in
      eff_bind (arm_shutdown_triggers env) (\<lambda>_.
      eff_then (chown_dirs_for_app env uid gid)
     (eff_then (write_etc env uid gid (b ''CARGO_UNIKERNEL_NAMESERVERS'') (b ''CARGO_UNIKERNEL_DNS_SEARCH''))
     (eff_bind (eff_lift (parse_pairs (b ''CARGO_UNIKERNEL_EXTRA_SYSCTLS'') ''[hardening].extra_sysctls'')) (\<lambda>extra.
      eff_bind (apply_hardening ft env extra) (\<lambda>_.
      eff_then (wait_for_entropy env (m_entropy_start M) (m_entropy M))
     (eff_then (eff_when (ft_sev_snp ft) (expose_sev_guest_device env))
     (eff_then (eff_when (ft_net_ipv6 ft)
        (configure_static_ipv6 env (b ''CARGO_UNIKERNEL_IPV6_STATIC'') (b ''CARGO_UNIKERNEL_IPV6_GATEWAY'')
           (b ''CARGO_UNIKERNEL_IPV6_IFACE'')))
     (eff_then (eff_when (ft_net_ipv4 ft \<or> ft_net_ipv6 ft)
        (eff_bind (wait_for_network_settle ft env (m_settle_start M) 30000 (m_settle M)) (\<lambda>_. eff_return ())))
       (prepare_app_binary b env))))))))))"

definition start_app :: "features \<Rightarrow> (string \<Rightarrow> string) \<Rightarrow> machine \<Rightarrow> nat eff" where
  "start_app ft b M =
     eff_then (lockdown_filesystem ft b (m_env M) (b ''CARGO_UNIKERNEL_PAYLOAD_DIR''))
    (eff_bind (spawn_app ft b M) (\<lambda>app_pid.
     eff_then (require (m_env M) (SpawnWatcher app_pid) WatcherFailed) (eff_return app_pid)))"

definition boot :: "features \<Rightarrow> (string \<Rightarrow> string) \<Rightarrow> machine \<Rightarrow> nat eff" where
  "boot ft b M =
     eff_then (attempt (m_env M) MlockAll)
    (if \<not> m_pid1 M then eff_fatal NotPid1
     else
       eff_bind (eff_lift (app_ids b)) (\<lambda>(uid, gid).
       eff_then (set_self_non_dumpable (m_env M))
      (eff_then (install_firewall ft b M)
      (eff_then (prepare_system_env ft b (m_env M) (b ''CARGO_UNIKERNEL_PAYLOAD_DIR''))
      (eff_then (configure_system ft b M uid gid)
         (start_app ft b M))))))"

end
