(* ===== verification/BootProps.thy ===== *)
theory BootProps
  imports Boot
begin

text \<open>
  What the order of the boot guarantees: the packet filter is acknowledged before any interface is touched, and the app
  starts only on sealed mounts, with the generator seeded and inside its sandbox. Each phase is classified by the
  events it can cause; an event that a phase cannot cause shows that the phase has returned.
\<close>

section \<open>Reaching an event\<close>

lemma bind_reaches:
  assumes "eff_bind m f tr = (r, tr')" and "only N m" and "list_all N tr" and "\<not> list_all N tr'"
  shows "\<exists>x tr1. m tr = (Some (Inr x), tr1) \<and> list_all N tr1 \<and> f x tr1 = (r, tr')"
proof -
  obtain s tr1 where m: "m tr = (s, tr1)" by (cases "m tr")
  with onlyD [OF assms(2) m] assms(3) have "list_all N tr1" by (auto simp: list_all_iff)
  with m assms(1,4) show ?thesis by (auto simp: eff_bind_def split: option.splits sum.splits)
qed

lemma then_reaches:
  assumes "eff_then m k tr = (r, tr')" and "only N m" and "list_all N tr" and "\<not> list_all N tr'"
  shows "\<exists>tr1. m tr = (Some (Inr ()), tr1) \<and> list_all N tr1 \<and> k tr1 = (r, tr')"
  using bind_reaches [OF assms(1) [unfolded eff_then_def] assms(2-4)] by auto

lemma first_split:
  assumes "pre @ a # post = xs @ ys" and "list_all N xs" and "\<not> N a"
  shows "\<exists>mid. pre = xs @ mid"
  using assms by (auto simp: append_eq_append_conv2 Cons_eq_append_conv)

lemma first_same:
  assumes "pre @ a # post = xs @ c # ys" and "list_all N (xs @ ys)" and "\<not> N a" and "\<not> N c"
  shows "pre = xs \<and> a = c"
  using assms by (auto simp: append_eq_append_conv2 append_eq_Cons_conv Cons_eq_append_conv)

lemma lift_bind: "eff_bind (eff_lift (Inr x)) f = f x" "eff_bind (eff_lift (Inl e)) f = eff_fatal e"
  by (rule ext, simp add: eff_bind_def eff_lift_def eff_fatal_def)+

section \<open>What each phase can cause\<close>

text \<open>The start of the app; what touches an interface or a mount; and the events between the mounts and the lockdown.\<close>

fun not_spawn :: "event \<Rightarrow> bool" where
  "not_spawn (SpawnApp _ _ _) = False"
| "not_spawn _ = True"

fun before_network :: "event \<Rightarrow> bool" where
  "before_network (Ioctl _ _ _) = False"
| "before_network (Mount _ _ _ _ _) = False"
| "before_network (SpawnApp _ _ _) = False"
| "before_network _ = True"

fun calm :: "event \<Rightarrow> bool" where
  "calm (Mount _ _ _ _ _) = False"
| "calm (BindMount _ _) = False"
| "calm (Remount _ _ _) = False"
| "calm (Unmount _) = False"
| "calm (SpawnApp _ _ _) = False"
| "calm (SendNetlink _ _) = False"
| "calm _ = True"

text \<open>Calm, and without an ioctl: every phase that does not configure an interface.\<close>

fun offline :: "event \<Rightarrow> bool" where
  "offline (Ioctl _ _ _) = False"
| "offline ev = calm ev"

lemma offline_calm: "offline ev \<Longrightarrow> calm ev"
  by (cases ev) auto

lemma calm_strict: "calm ev \<Longrightarrow> mount_strict ft ev"
  by (cases ev) auto

lemma calm_not_spawn: "calm ev \<Longrightarrow> not_spawn ev"
  by (cases ev) auto

lemma before_network_not_spawn: "before_network ev \<Longrightarrow> not_spawn ev"
  by (cases ev) auto

lemma only_firewall:
  "(\<And>bs n. P (SendNetlink bs n)) \<Longrightarrow> only P (install_firewall ft b M)"
  unfolding install_firewall_def by (auto intro!: traced_intros split: sum.split)

lemma only_open_devices:
  "(\<And>p. P (OpenInput p)) \<Longrightarrow> (\<And>p. P (SetNonblocking p)) \<Longrightarrow> only P (open_devices env ps)"
  by (induction ps) (auto intro!: traced_intros)

lemma offline_triggers: "only offline (arm_shutdown_triggers env)"
  unfolding arm_shutdown_triggers_def find_input_event_devices_def
  by (auto intro!: traced_intros only_open_devices)

lemma offline_write_file: "only offline (write_file env p s)"
  unfolding write_file_def by (auto intro!: traced_intros)

lemma offline_write_etc: "only offline (write_etc env uid gid ns search)"
  unfolding write_etc_def write_resolv_conf_def Let_def
  by (auto intro!: traced_intros offline_write_file)

lemma offline_write_all: "only offline (write_all env ws t)"
  by (induction env ws t rule: write_all.induct)
    (auto simp: write_sysctl_def intro!: traced_intros)

lemma offline_interfaces: "only offline (apply_existing_interface_protection env fams t)"
  by (induction env fams t rule: apply_existing_interface_protection.induct)
    (auto intro!: traced_intros offline_write_all split: answer.split)

lemma offline_when: "only offline (m t) \<Longrightarrow> only offline (apply_when on m t)"
  by (simp add: apply_when_def traced_intros)

lemma offline_hardening: "only offline (apply_hardening ft env extra)"
  unfolding apply_hardening_def apply_network_spoofing_protection_def apply_extra_def
  by (intro traced_intros offline_when offline_write_all offline_interfaces)

lemma calm_static_v6: "only calm (configure_static_ipv6 env s g i)"
  unfolding configure_static_ipv6_def assign_ipv6_address_def add_ipv6_default_route_def
    interface_index_def inet6_ioctl_def ifreq_ioctl_def socket_ioctl_def non_loopback_interfaces_def
  by (auto intro!: traced_intros split: option.split sum.split list.split)

lemma only_address_lines:
  "(\<And>f r a. P (Ioctl f r a)) \<Longrightarrow> (\<And>p. P (ReadFile p)) \<Longrightarrow> only P (address_lines ft env names)"
  by (induction names)
    (auto simp: v4_lines_def v6_lines_def interface_ipv4_addr_def interface_ipv6_addrs_def ifreq_ioctl_def
      socket_ioctl_def intro!: traced_intros)

lemma calm_settle: "only calm (wait_for_network_settle ft env start w obs)"
  unfolding wait_for_network_settle_def log_interface_addresses_def non_loopback_interfaces_def
  by (intro traced_intros only_address_lines) simp_all

lemma offline_entropy: "only offline (wait_for_entropy env start obs)"
  unfolding wait_for_entropy_def by (intro traced_intros) simp

lemma offline_build_landlock: "only offline (build_landlock ft b M)"
  unfolding build_landlock_def build_def abi_version_def add_rule_def Let_def
  by (auto intro!: traced_intros split: answer.split)

lemmas offline_phases =
  offline_triggers offline_write_etc offline_hardening offline_entropy offline_build_landlock

lemma configure_events:
  assumes "\<And>ev. offline ev \<Longrightarrow> A ev" and "\<And>s g i. only A (configure_static_ipv6 (m_env M) s g i)"
    and "\<And>start w obs. only A (wait_for_network_settle ft (m_env M) start w obs)"
  shows "only A (configure_system ft b M uid gid)"
  unfolding configure_system_def Let_def chown_dirs_for_app_def expose_sev_guest_device_def
    prepare_app_binary_def
  by (intro traced_intros assms(2,3) offline_phases [THEN only_mono, OF assms(1)] assms(1)) simp_all

lemma calm_configure: "only calm (configure_system ft b M uid gid)"
  by (rule configure_events [OF offline_calm calm_static_v6 calm_settle])

lemma calm_build_landlock: "only calm (build_landlock ft b M)"
  by (rule only_mono [OF offline_build_landlock offline_calm])

lemma prepare_not_spawn: "only not_spawn (prepare_system_env ft b env pd)"
  unfolding prepare_system_env_def mount_var_tmp_def prepare_mount_directory_def mount_payload_def
    bind_mount_def mount_base_def
  by (auto intro!: traced_intros sealed_intros split: option.split answer.split)

lemma lockdown_not_spawn: "only not_spawn (lockdown_filesystem ft b env pd)"
  unfolding lockdown_filesystem_def seal_rootfs_def remount_def
  by (auto intro!: traced_intros sealed_intros)

lemma only_conj: "only A m \<Longrightarrow> only B m \<Longrightarrow> only (\<lambda>ev. A ev \<and> B ev) m"
  unfolding only_def traced_def by (metis same_append_eq)

section \<open>The phases of a boot that starts the app\<close>

lemma app_ids_nonroot: "app_ids b = Inr (uid, gid) \<Longrightarrow> uid \<noteq> 0 \<and> gid \<noteq> 0"
  by (auto simp: app_ids_def validate_app_ids_def res_bind_def split: sum.splits if_splits)

lemma boot_reaches:
  assumes "boot ft b M [] = (r, tr')" and "\<not> list_all N tr'"
    and "N MlockAll" and "N SetNonDumpable" and "\<And>bs n. N (SendNetlink bs n)"
  shows "\<exists>uid gid tr1 tr2. app_ids b = Inr (uid, gid) \<and> list_all N tr2 \<and>
    tr1 \<in> {[MlockAll, SetNonDumpable]} \<and> install_firewall ft b M tr1 = (Some (Inr ()), tr2) \<and>
    eff_then (prepare_system_env ft b (m_env M) (b ''CARGO_UNIKERNEL_PAYLOAD_DIR''))
      (eff_then (configure_system ft b M uid gid) (start_app ft b M)) tr2 = (r, tr')"
proof -
  have pid1: "m_pid1 M"
    using assms(1-3) by (auto simp: boot_def attempt_def eff_then_def eff_bind_def ask_def eff_return_def
      eff_fatal_def split: if_splits)
  have "app_ids b \<noteq> Inl e" for e
    using assms(1-3) pid1 by (auto simp: boot_def attempt_def eff_then_def eff_bind_def ask_def eff_return_def
      eff_lift_def)
  then obtain uid gid where ids: "app_ids b = Inr (uid, gid)"
    by (metis old.prod.exhaust sumE)
  have "eff_then (install_firewall ft b M)
      (eff_then (prepare_system_env ft b (m_env M) (b ''CARGO_UNIKERNEL_PAYLOAD_DIR''))
        (eff_then (configure_system ft b M uid gid) (start_app ft b M)))
      [MlockAll, SetNonDumpable] = (r, tr')"
    using assms(1) pid1 ids
    by (simp add: boot_def attempt_def set_self_non_dumpable_def eff_then_def [of "eff_bind (ask _ _) _"]
      eff_bind_def [of "ask _ _"] eff_bind_def [of "eff_lift _"] eff_bind_def [of "eff_bind (ask _ _) _"]
      ask_def eff_return_def eff_lift_def)
  then show ?thesis
    using then_reaches [of "install_firewall ft b M" _ _ r tr' N, OF _ only_firewall _ assms(2)] assms(3-5) ids
    by fastforce
qed

lemma install_value:
  assumes "install_firewall ft b M tr = (Some (Inr ()), tr')" and "ft_firewall ft"
  shows "\<exists>rules batch. parse_rules (b ''CARGO_UNIKERNEL_FIREWALL_RULES'') = Inr rules \<and>
    build_batch ft rules = Inr batch \<and> tr' = tr @ [SendNetlink (b_bytes batch) (b_ackable batch)] \<and>
    (\<exists>k\<le>length (recvs (m_sock M)). fully_acked (b_ackable batch) (take k (recvs (m_sock M))))"
proof -
  obtain rules where rules: "parse_rules (b ''CARGO_UNIKERNEL_FIREWALL_RULES'') = Inr rules"
    using assms by (auto simp: install_firewall_def value_iffs)
  then obtain batch where r: "build_batch ft rules = Inr batch"
    "tr' = tr @ [SendNetlink (b_bytes batch) (b_ackable batch)]" "install ft (m_sock M) rules = Some (Inr ())"
    using assms by (cases "build_batch ft rules") (auto simp: install_firewall_def value_iffs eff_wait_def)
  obtain z where z: "send_batch (m_sock M) batch = Some z"
    using r by (auto simp: install_def)
  with r have "send_batch (m_sock M) batch = Some (Inr ())"
    by (cases z) (auto simp: install_def)
  with rules r send_batch_success show ?thesis by blast
qed

text \<open>The child was spawned: everything \<open>spawn_app\<close> prepares for it, and the trace around the event.\<close>

definition app_confined :: "features \<Rightarrow> (string \<Rightarrow> string) \<Rightarrow> machine \<Rightarrow> bool" where
  "app_confined ft b M \<longleftrightarrow>
     (\<exists>uid gid limits program ops. app_ids b = Inr (uid, gid) \<and> uid \<noteq> 0 \<and> gid \<noteq> 0 \<and>
        resource_limits_of b = Inr limits \<and> build_baseline_denylist ft (m_compile M) = Inr program \<and>
        run_child (m_child M) [] (child_chain ft (m_bpf M) program limits uid gid) = (Inr (), ops) \<and>
        (\<forall>c. sandboxed ft (m_bpf M) program limits uid gid (creds_after (m_child M) [] ops c)))"

lemma spawn_app_reaches:
  assumes "spawn_app ft b M tr = (r, tr')" and "list_all not_spawn tr" and "\<not> list_all not_spawn tr'"
  shows "\<exists>new vars. app_confined ft b M \<and> list_all calm new \<and>
    parse_pairs (b ''CARGO_UNIKERNEL_APP_ENV'') ''[app.runtime].env'' = Inr vars \<and>
    tr' = tr @ new @ [SpawnApp (b ''CARGO_UNIKERNEL_APP_PATH'') vars (\<not> ft_app_console ft)]"
proof -
  obtain program limits where parts: "build_baseline_denylist ft (m_compile M) = Inr program"
    "resource_limits_of b = Inr limits"
    using assms
    by (cases "build_baseline_denylist ft (m_compile M)"; cases "resource_limits_of b")
      (auto simp: spawn_app_def lift_bind eff_fatal_def)
  then have "eff_then (build_landlock ft b M) (spawn_command ft b M program limits) tr = (r, tr')"
    using assms(1) by (simp add: spawn_app_def lift_bind)
  from then_reaches [OF this only_mono [OF calm_build_landlock calm_not_spawn] assms(2,3)] obtain tr1
    where ll: "build_landlock ft b M tr = (Some (Inr ()), tr1)" "list_all not_spawn tr1"
      "spawn_command ft b M program limits tr1 = (r, tr')" by blast
  from onlyD [OF calm_build_landlock ll(1)] obtain new where new: "tr1 = tr @ new" "list_all calm new"
    by (auto simp: list_all_iff)
  obtain uid gid vars where ids: "app_ids b = Inr (uid, gid)"
    and vars: "parse_pairs (b ''CARGO_UNIKERNEL_APP_ENV'') ''[app.runtime].env'' = Inr vars"
    using ll assms(3)
    by (cases "app_ids b"; cases "parse_pairs (b ''CARGO_UNIKERNEL_APP_ENV'') ''[app.runtime].env''")
      (auto simp: spawn_command_def lift_bind eff_fatal_def)
  let ?chain = "child_chain ft (m_bpf M) program limits uid gid"
  have spawn: "spawn M ?chain (SpawnApp (b ''CARGO_UNIKERNEL_APP_PATH'') vars (\<not> ft_app_console ft)) tr1 = (r, tr')"
    using ll(3) ids vars by (simp add: spawn_command_def lift_bind)
  then obtain ops where run: "run_child (m_child M) [] ?chain = (Inr (), ops)"
    using ll(2) assms(3)
    by (cases "run_child (m_child M) [] ?chain") (auto simp: spawn_def eff_fatal_def split: sum.splits)
  then have "tr' = tr1 @ [SpawnApp (b ''CARGO_UNIKERNEL_APP_PATH'') vars (\<not> ft_app_console ft)]"
    using spawn by (auto simp: spawn_def eff_bind_def ask_def eff_return_def eff_fatal_def split: answer.splits)
  moreover have "app_confined ft b M"
    unfolding app_confined_def using app_ids_nonroot [OF ids] ids parts run chain_sandboxes [OF run] by blast
  ultimately show ?thesis using new vars by auto
qed

lemma only_boot_rest:
  "only (\<lambda>_. True) (eff_then (configure_system ft b M uid gid) (start_app ft b M))"
  unfolding start_app_def spawn_app_def spawn_command_def spawn_def lockdown_filesystem_def seal_rootfs_def
    remount_def
  by (auto intro!: traced_intros sealed_intros only_mono [OF calm_configure] only_mono [OF calm_build_landlock]
      split: sum.split answer.split)

lemma configure_seeded:
  "configure_system ft b M uid gid tr = (Some (Inr ()), tr') \<Longrightarrow>
     seeded_in_time (m_entropy_start M + MAX_WAIT) (m_entropy M)"
  unfolding configure_system_def Let_def value_iffs wait_for_entropy_def eff_wait_def
  by (auto simp: entropy_loop_ready)

section \<open>What the order guarantees\<close>

lemma start_app_reaches:
  assumes "start_app ft b M tr = (r, tr')" and "list_all not_spawn tr" and "\<not> list_all not_spawn tr'"
  shows "\<exists>tr1 new vars rest.
    lockdown_filesystem ft b (m_env M) (b ''CARGO_UNIKERNEL_PAYLOAD_DIR'') tr = (Some (Inr ()), tr1) \<and>
    app_confined ft b M \<and> list_all calm new \<and> list_all not_spawn (tr1 @ new @ rest) \<and>
    parse_pairs (b ''CARGO_UNIKERNEL_APP_ENV'') ''[app.runtime].env'' = Inr vars \<and>
    tr' = (tr1 @ new) @ SpawnApp (b ''CARGO_UNIKERNEL_APP_PATH'') vars (\<not> ft_app_console ft) # rest"
proof -
  from then_reaches [OF assms(1) [unfolded start_app_def] lockdown_not_spawn assms(2,3)] obtain tr1
    where lock: "lockdown_filesystem ft b (m_env M) (b ''CARGO_UNIKERNEL_PAYLOAD_DIR'') tr = (Some (Inr ()), tr1)"
      "list_all not_spawn tr1"
    and spawn: "eff_bind (spawn_app ft b M) (\<lambda>app_pid.
      eff_then (require (m_env M) (SpawnWatcher app_pid) WatcherFailed) (eff_return app_pid)) tr1 = (r, tr')"
    by blast
  obtain r2 tr2 where s: "spawn_app ft b M tr1 = (r2, tr2)" by (cases "spawn_app ft b M tr1")
  have tail: "tr' = tr2 \<or> (\<exists>pid. tr' = tr2 @ [SpawnWatcher pid])"
    using spawn s
    by (auto simp: eff_bind_def eff_then_def require_def ask_def eff_return_def eff_fatal_def
        split: option.splits sum.splits if_splits)
  with assms(3) have "\<not> list_all not_spawn tr2" by auto
  from spawn_app_reaches [OF s lock(2) this] obtain new vars where
    n: "app_confined ft b M" "list_all calm new"
      "parse_pairs (b ''CARGO_UNIKERNEL_APP_ENV'') ''[app.runtime].env'' = Inr vars"
      "tr2 = tr1 @ new @ [SpawnApp (b ''CARGO_UNIKERNEL_APP_PATH'') vars (\<not> ft_app_console ft)]"
    by blast
  from tail obtain rest where "tr' = tr2 @ rest" "list_all not_spawn rest" by force
  moreover have "list_all not_spawn new" using n(2) calm_not_spawn by (auto simp: list_all_iff)
  ultimately show ?thesis using lock n by (intro exI [of _ tr1] exI [of _ new] exI [of _ vars] exI [of _ rest]) simp
qed

text \<open>
  C3. The packet filter is in force before the guest can receive a packet: in a build with the filter, whatever
  the kernel answers, the boot touches an interface, mounts a file system or starts the app only after it has
  sent the batch built from the configured rules and read an acknowledgement for each of its messages and no error.
\<close>

theorem filter_before_network:
  assumes "boot ft b M [] = (r, pre @ ev # post)" and "ft_firewall ft" and "\<not> before_network ev"
  shows "\<exists>rules batch. parse_rules (b ''CARGO_UNIKERNEL_FIREWALL_RULES'') = Inr rules \<and>
    build_batch ft rules = Inr batch \<and> SendNetlink (b_bytes batch) (b_ackable batch) \<in> set pre \<and>
    (\<exists>k\<le>length (recvs (m_sock M)). fully_acked (b_ackable batch) (take k (recvs (m_sock M))))"
proof -
  have "\<not> list_all before_network (pre @ ev # post)" using assms(3) by simp
  from boot_reaches [OF assms(1) this] obtain uid gid tr1 tr2 where
    tr2: "list_all before_network tr2" and fw: "install_firewall ft b M tr1 = (Some (Inr ()), tr2)"
    and rest: "eff_then (prepare_system_env ft b (m_env M) (b ''CARGO_UNIKERNEL_PAYLOAD_DIR''))
      (eff_then (configure_system ft b M uid gid) (start_app ft b M)) tr2 = (r, pre @ ev # post)"
    by auto
  have "only (\<lambda>_. True) (prepare_system_env ft b (m_env M) (b ''CARGO_UNIKERNEL_PAYLOAD_DIR''))"
    by (rule only_mono [OF prepare_not_spawn]) simp
  from onlyD [OF only_then [OF this only_boot_rest] rest] obtain mid where "pre @ ev # post = tr2 @ mid"
    by blast
  from first_split [OF this tr2 assms(3)] have "set tr2 \<subseteq> set pre" by auto
  then show ?thesis using install_value [OF fw assms(2)] by fastforce
qed


end
