(* ===== verification/BootLive.thy ===== *)
theory BootLive
  imports BootProps
begin

text \<open>
  A validated image boots: on a kernel that carries out what it is asked, the boot of an image built from a validated
  configuration gets to its watchdog, with the app started.
\<close>

section \<open>Code that returns\<close>

definition returns :: "'a eff \<Rightarrow> bool" where
  "returns m \<longleftrightarrow> (\<forall>tr. \<exists>x tr'. m tr = (Some (Inr x), tr'))"

named_theorems returns_intros \<open>code that returns on a willing kernel\<close>

lemma returns_return [returns_intros]: "returns (eff_return x)"
  by (simp add: returns_def eff_return_def)

lemma returns_lift [returns_intros]: "returns (eff_lift (Inr x))"
  by (simp add: returns_def eff_lift_def)

lemma returns_wait [returns_intros]: "r = Some (Inr x) \<Longrightarrow> returns (eff_wait r)"
  by (simp add: returns_def eff_wait_def)

lemma returns_ask [returns_intros]: "returns (ask env ev)"
  by (simp add: returns_def ask_def)

lemma returns_bind [returns_intros]:
  assumes "returns m" and "\<And>x. returns (f x)"
  shows "returns (eff_bind m f)"
  unfolding returns_def
proof
  fix tr
  obtain x tr1 where m: "m tr = (Some (Inr x), tr1)" using assms(1) unfolding returns_def by blast
  obtain y tr2 where "f x tr1 = (Some (Inr y), tr2)" using assms(2) unfolding returns_def by blast
  with m show "\<exists>y tr2. eff_bind m f tr = (Some (Inr y), tr2)" by (simp add: eff_bind_def)
qed

lemma returns_then [returns_intros]: "returns m \<Longrightarrow> returns k \<Longrightarrow> returns (eff_then m k)"
  unfolding eff_then_def by (rule returns_bind)

lemma returns_when [returns_intros]: "(b \<Longrightarrow> returns m) \<Longrightarrow> returns (eff_when b m)"
  by (simp add: eff_when_def returns_return)

lemma returns_if [returns_intros]: "(b \<Longrightarrow> returns m) \<Longrightarrow> (\<not> b \<Longrightarrow> returns k) \<Longrightarrow> returns (if b then m else k)"
  by simp

lemma returns_attempt [returns_intros]: "returns (attempt env ev)"
  unfolding attempt_def by (intro returns_intros)

lemma returns_all [returns_intros]: "(\<And>x. x \<in> set xs \<Longrightarrow> returns (f x)) \<Longrightarrow> returns (eff_all f xs)"
  by (induction xs) (auto intro: returns_intros)

lemma returns_bind_where:
  assumes "\<And>tr. \<exists>x tr'. m tr = (Some (Inr x), tr') \<and> Q x" and "\<And>x. Q x \<Longrightarrow> returns (f x)"
  shows "returns (eff_bind m f)"
  unfolding returns_def
proof
  fix tr
  obtain x tr1 where m: "m tr = (Some (Inr x), tr1)" "Q x" using assms(1) by blast
  then obtain y tr2 where "f x tr1 = (Some (Inr y), tr2)" using assms(2) unfolding returns_def by blast
  with m show "\<exists>y tr2. eff_bind m f tr = (Some (Inr y), tr2)" by (simp add: eff_bind_def)
qed

lemma returns_answer:
  "(\<And>tr. Q (env tr ev)) \<Longrightarrow> (\<And>a. Q a \<Longrightarrow> returns (f a)) \<Longrightarrow> returns (eff_bind (ask env ev) f)"
  by (rule returns_bind_where [where Q = Q]) (simp_all add: ask_def)

lemma returns_lift_bind [returns_intros]: "r = Inr x \<Longrightarrow> returns (f x) \<Longrightarrow> returns (eff_bind (eff_lift r) f)"
  by (simp add: lift_bind)

lemma appends_returns: "appends m P \<Longrightarrow> returns m"
  unfolding appends_def returns_def by blast

section \<open>A kernel that carries out what it is asked\<close>

definition willing :: "env \<Rightarrow> bool" where
  "willing env \<longleftrightarrow>
     (\<forall>tr ev. succeeded (env tr ev)) \<and>
     (\<forall>tr p. \<exists>fd. env tr (OpenDirNoFollow p) = NumberIs fd) \<and>
     (\<forall>tr. \<exists>abi\<ge>5. abi < 2 ^ 31 \<and> env tr LandlockVersion = NumberIs abi) \<and>
     (\<forall>tr p. \<exists>m. env tr (StatMode p) = NumberIs m) \<and>
     (\<forall>tr p vars q. \<exists>pid. env tr (SpawnApp p vars q) = NumberIs pid) \<and>
     (\<forall>tr p off n. \<exists>bs. length bs = n \<and> env tr (ReadDevice p off n) = BytesAre bs) \<and>
     (\<forall>tr p. \<exists>n. env tr (SizeDevice p) = NumberIs n) \<and>
     (\<forall>tr p as. env tr (RunProgram p as) = NumberIs 0)"

lemma willing_answers:
  assumes "willing env"
  shows "succeeded (env tr ev)" "\<exists>fd. env tr (OpenDirNoFollow p) = NumberIs fd"
    "\<exists>abi\<ge>5. abi < 2 ^ 31 \<and> env tr LandlockVersion = NumberIs abi" "\<exists>m. env tr (StatMode p) = NumberIs m"
    "\<exists>pid. env tr (SpawnApp p vars q) = NumberIs pid"
    "\<exists>bs. length bs = n \<and> env tr (ReadDevice p off n) = BytesAre bs"
    "\<exists>n. env tr (SizeDevice p) = NumberIs n" "env tr (RunProgram p as) = NumberIs 0"
  using assms unfolding willing_def by blast+

lemma willing_require [returns_intros]: "willing env \<Longrightarrow> returns (require env ev e)"
  unfolding require_def
  by (rule returns_answer [where Q = succeeded]) (auto intro: returns_intros willing_answers)

lemma willing_or_fatal: "willing env \<Longrightarrow> returns (or_fatal (ask env ev) e)"
  unfolding or_fatal_def
  by (rule returns_answer [where Q = succeeded]) (auto intro: returns_intros willing_answers)

lemma willing_mount:
  assumes "willing env" and "\<And>d. data = Some d \<Longrightarrow> CHR 0x00 \<notin> set d"
  shows "returns (mount_fatal env s p ty fl data)"
  using assms by (auto simp: mount_fatal_def mount_def mount_data_def willing_or_fatal split: option.split)

lemma willing_remount: "willing env \<Longrightarrow> returns (remount_fatal env p fl d)"
  by (simp add: remount_fatal_def remount_def willing_or_fatal)

lemma willing_persistent:
  assumes "willing env"
  shows "returns (mount_persistent_var ft env)"
proof -
  have wipe: "returns (wipe_and_format env)"
    unfolding wipe_and_format_def wipe_device_def write_zeros_def
    by (auto simp: WIPE_CHUNK_def willing_answers [OF assms] intro!: returns_intros assms
        returns_answer [where ev = "SizeDevice _" and Q = "\<lambda>a. \<exists>n. a = NumberIs n"]
        returns_answer [where ev = "RunProgram _ _" and Q = "\<lambda>a. a = NumberIs 0"])
  have "returns (mount_fatal env DEVICE_PATH MOUNT_TARGET ''ext4'' (writable_exec_mount_flags ft) None)"
    by (rule willing_mount [OF assms]) simp
  then have rest: "returns (eff_then (if ours then eff_return () else wipe_and_format env)
      (or_fatal (mount env DEVICE_PATH MOUNT_TARGET ''ext4'' (writable_exec_mount_flags ft) None)
        (MountFailed MOUNT_TARGET)))" for ours
    by (intro returns_intros wipe) (simp add: mount_fatal_def)
  show ?thesis
    unfolding mount_persistent_var_def
  proof (rule returns_bind_where [where Q = "\<lambda>v. v \<noteq> None"])
    show "\<exists>v tr'. device_carries_our_marker env tr = (Some (Inr v), tr') \<and> v \<noteq> None" for tr
      using willing_answers(6) [OF assms, of SUPERBLOCK_PREFIX_LEN "tr @ [OpenDevice DEVICE_PATH]" DEVICE_PATH
          SUPERBLOCK_OFFSET] willing_answers(1) [OF assms, of tr "OpenDevice DEVICE_PATH"]
      by (auto simp: device_carries_our_marker_def read_marker_def value_iffs)
  qed (use rest in \<open>auto split del: if_split\<close>)
qed

section \<open>Each phase of a configured image returns\<close>

lemma returns_networking: "returns (init_networking ft env)"
  unfolding init_networking_def configure_loopback_v4_def ensure_interface_up_def non_loopback_interfaces_def
    ifreq_ioctl_def socket_ioctl_def Let_def
  by (auto intro!: returns_intros split: sum.split)

lemma config_tmpfs_data:
  "tmpfs_data (image_consts c) ''CARGO_UNIKERNEL_TMPFS_TMP_MB'' rest =
     Inr (''size='' @ show_word (tmp_mb (st_tmpfs (c_storage c))) @ ''m,'' @ rest)"
  "tmpfs_data (image_consts c) ''CARGO_UNIKERNEL_TMPFS_RUN_MB'' rest =
     Inr (''size='' @ show_word (run_mb (st_tmpfs (c_storage c))) @ ''m,'' @ rest)"
  "tmpfs_data (image_consts c) ''CARGO_UNIKERNEL_TMPFS_SHM_MB'' rest =
     Inr (''size='' @ show_word (shm_mb (st_tmpfs (c_storage c))) @ ''m,'' @ rest)"
  "tmpfs_data (image_consts c) ''CARGO_UNIKERNEL_TMPFS_VAR_TMP_MB'' rest =
     Inr (''size='' @ show_word (var_tmp_mb (st_tmpfs (c_storage c))) @ ''m,'' @ rest)"
  by (simp_all add: tmpfs_data_def consts_numbers)

lemma willing_var_tmp:
  assumes "willing env"
  shows "returns (mount_var_tmp (image_consts c) env)"
  unfolding mount_var_tmp_def config_tmpfs_data lift_bind
proof (rule returns_bind_where [where Q = "\<lambda>v. v \<noteq> None"])
  show "\<exists>v tr'. prepare_mount_directory env ''/var/tmp'' tr = (Some (Inr v), tr') \<and> v \<noteq> None" for tr
    using willing_answers(1) [OF assms, of tr "MakeDir ''/var/tmp''"]
      willing_answers(2) [OF assms, of "tr @ [MakeDir ''/var/tmp'']" "''/var/tmp''"]
    by (auto simp: prepare_mount_directory_def value_iffs)
qed (auto simp: mount_def mount_data_def show_word_no_nul intro!: willing_or_fatal assms)

lemma willing_prepare:
  assumes "willing env"
  shows "returns (prepare_system_env ft (image_consts c) env pd)"
  unfolding prepare_system_env_def mount_payload_def bind_mount_def mount_base_def base_mounts_def
    config_tmpfs_data lift_bind
  by (auto intro!: returns_intros willing_persistent willing_var_tmp willing_mount willing_remount
      willing_or_fatal returns_networking assms
      simp: show_word_no_nul mount_def mount_data_def)

lemma willing_lockdown:
  assumes "willing env"
  shows "returns (lockdown_filesystem ft (image_consts c) env pd)"
  unfolding lockdown_filesystem_def seal_rootfs_def remount_def config_tmpfs_data lift_bind
  by (intro returns_intros willing_remount assms)

lemma returns_write_all: "returns (write_all env ws t)"
  using appends_write_all by (rule appends_returns)

lemma returns_interfaces: "returns (apply_existing_interface_protection env fams t)"
  by (induction env fams t rule: apply_existing_interface_protection.induct)
    (auto intro!: returns_intros returns_write_all split: answer.split)

lemma returns_apply_when: "(\<And>t. returns (m t)) \<Longrightarrow> returns (apply_when on m t)"
  by (simp add: apply_when_def returns_return)

lemma returns_hardening: "returns (apply_hardening ft env extra)"
  unfolding apply_hardening_def apply_network_spoofing_protection_def apply_extra_def
  by (intro returns_intros returns_apply_when returns_write_all returns_interfaces)

lemma returns_write_etc: "returns (write_etc env uid gid ns search)"
  unfolding write_etc_def write_resolv_conf_def write_file_def Let_def
  by (auto intro!: returns_intros)

lemma returns_static_v6: "returns (configure_static_ipv6 env s g i)"
  unfolding configure_static_ipv6_def assign_ipv6_address_def add_ipv6_default_route_def
    interface_index_def inet6_ioctl_def ifreq_ioctl_def socket_ioctl_def non_loopback_interfaces_def
  by (auto intro!: returns_intros split: option.split sum.split list.split)

lemma returns_address_lines: "returns (address_lines ft env names)"
  by (induction names)
    (auto simp: v4_lines_def v6_lines_def interface_ipv4_addr_def interface_ipv6_addrs_def ifreq_ioctl_def
      socket_ioctl_def intro!: returns_intros)

lemma returns_settle:
  "settle_loop ft (start + w) obs = Some found \<Longrightarrow> returns (wait_for_network_settle ft env start w obs)"
  unfolding wait_for_network_settle_def log_interface_addresses_def non_loopback_interfaces_def
  by (intro returns_intros returns_address_lines) simp_all

lemma willing_devices: "willing env \<Longrightarrow> returns (open_devices env ps)"
  by (induction ps) (auto intro!: returns_intros)

lemma willing_triggers: "willing env \<Longrightarrow> returns (arm_shutdown_triggers env)"
  unfolding arm_shutdown_triggers_def find_input_event_devices_def
  by (intro returns_intros willing_devices)

lemma willing_configure:
  assumes "willing (m_env M)" and "kv_safe (h_extra_sysctls (c_hardening c))"
    and "seeded_in_time (m_entropy_start M + MAX_WAIT) (m_entropy M)"
    and "settle_loop ft (m_settle_start M + 30000) (m_settle M) \<noteq> None"
  shows "returns (configure_system ft (image_consts c) M uid gid)"
proof -
  obtain found where settle: "settle_loop ft (m_settle_start M + 30000) (m_settle M) = Some found"
    using assms(4) by blast
  have extra: "parse_pairs (image_consts c ''CARGO_UNIKERNEL_EXTRA_SYSCTLS'') what =
      Inr (h_extra_sysctls (c_hardening c))" for what
    using assms(2) by (simp add: consts_lists parse_pairs_encode)
  show ?thesis
    unfolding configure_system_def Let_def chown_dirs_for_app_def expose_sev_guest_device_def
      prepare_app_binary_def wait_for_entropy_def extra lift_bind
    by (intro returns_intros willing_triggers returns_write_etc returns_hardening returns_static_v6
        returns_settle [OF settle] assms(1))
      (simp_all add: entropy_loop_ready assms(3))
qed

lemma landlock_no_nul:
  assumes "rule \<in> set (rules_for ft ''/payload'' ro rw)"
    and "list_all (\<lambda>p. CHR 0x00 \<notin> set p) (ro @ rw)"
  shows "CHR 0x00 \<notin> set (ll_path rule)"
  using assms
  by (auto simp: rules_for_def builtin_rules_def required_def optional_def list_all_iff split: if_splits)

lemma willing_landlock:
  assumes "willing (m_env M)"
    and "list_all (\<lambda>p. CHR 0x00 \<notin> set p)
      (parse_path_list (image_consts c ''CARGO_UNIKERNEL_LANDLOCK_RO'') @
       parse_path_list (image_consts c ''CARGO_UNIKERNEL_LANDLOCK_RW''))"
  shows "returns (build_landlock ft (image_consts c) M)"
proof -
  let ?b = "image_consts c"
  have no_nul: "CHR 0x00 \<notin> set (ll_path rule)"
    if "rule \<in> set (rules_for ft (?b ''CARGO_UNIKERNEL_PAYLOAD_DIR'')
      (parse_path_list (?b ''CARGO_UNIKERNEL_LANDLOCK_RO'')) (parse_path_list (?b ''CARGO_UNIKERNEL_LANDLOCK_RW'')))"
    for rule
    by (rule landlock_no_nul [OF that [unfolded consts_options(5)] assms(2)])
  have rule: "CHR 0x00 \<notin> set (ll_path rule) \<Longrightarrow> returns (add_rule (m_env M) rule)" for rule
    unfolding add_rule_def Let_def
    by (auto intro!: returns_intros assms(1) returns_answer [where ev = "OpenPath _" and Q = succeeded]
        returns_answer [where ev = "StatMode _" and Q = "\<lambda>a. \<exists>m. a = NumberIs m"]
        simp: willing_answers [OF assms(1)])
  have abi: "\<exists>x tr'. abi_version (m_env M) tr = (Some (Inr x), tr') \<and> MIN_ABI \<le> x" for tr
    using willing_answers(3) [OF assms(1), of tr] by (auto simp: abi_version_def value_iffs MIN_ABI_def)
  show ?thesis
    unfolding build_landlock_def build_def
    by (intro returns_intros returns_bind_where [OF abi]) (auto intro!: returns_intros rule no_nul assms(1))
qed

section \<open>The whole boot\<close>

text \<open>
  What the boot relies on outside itself: it is PID 1; the kernel is willing, acknowledges the filter, seeds its
  generator in time, and grants the child's calls; \<open>seccompiler\<close> compiles the list; the settle wait's clock goes on.
\<close>

definition good_machine :: "config \<Rightarrow> machine \<Rightarrow> creds \<Rightarrow> bool" where
  "good_machine c M root \<longleftrightarrow>
     m_pid1 M \<and> willing (m_env M) \<and>
     (\<forall>batch. build_batch (features_of (init_features c)) (map rule_of (fw_inbound (net_firewall (c_network c)))) =
        Inr batch \<longrightarrow> send_batch (m_sock M) batch = Some (Inr ())) \<and>
     seeded_in_time (m_entropy_start M + MAX_WAIT) (m_entropy M) \<and>
     settle_loop (features_of (init_features c)) (m_settle_start M + 30000) (m_settle M) \<noteq> None \<and>
     (\<forall>nrs. m_compile M nrs \<noteq> None) \<and> cr_uid root = 0 \<and> granting_kernel (m_child M) root"

text \<open>What the host's check lets through and the guest cannot carry out, with the sizes no configuration has.\<close>

definition bootable_values :: "config \<Rightarrow> bool" where
  "bootable_values c \<longleftrightarrow>
     rt_uid (app_runtime (c_app c)) \<noteq> 0xFFFFFFFF \<and> rt_gid (app_runtime (c_app c)) \<noteq> 0xFFFFFFFF \<and>
     unat (max_locked_memory_mb (rt_limits (app_runtime (c_app c)))) < 2 ^ 44 \<and>
     unat (max_memory_mb (rt_limits (app_runtime (c_app c)))) < 2 ^ 44 \<and>
     list_all (\<lambda>p. CHR 0x00 \<notin> set p)
       (parse_path_list (image_consts c ''CARGO_UNIKERNEL_LANDLOCK_RO'') @
        parse_path_list (image_consts c ''CARGO_UNIKERNEL_LANDLOCK_RW'')) \<and>
     length (fw_inbound (net_firewall (c_network c))) + 14 < 2 ^ 32"

lemma configured_firewall:
  assumes "validate cli c = Inr ()" and "good_machine c M root" and "bootable_values c"
  shows "returns (install_firewall (features_of (init_features c)) (image_consts c) M)"
proof (cases "ft_firewall (features_of (init_features c))")
  case True
  let ?ft = "features_of (init_features c)" and ?rules = "map rule_of (fw_inbound (net_firewall (c_network c)))"
  have rules: "parse_rules (image_consts c ''CARGO_UNIKERNEL_FIREWALL_RULES'') = Inr ?rules"
    using assms(1) True
    by (simp add: consts_lists parse_rules_encode validate_iff valid_config_def firewall_feature)
  obtain batch where batch: "build_batch ?ft ?rules = Inr batch"
    using build_batch_bytes [of ?rules ?ft] assms(3) by (simp add: bootable_values_def)
  then have "install ?ft (m_sock M) ?rules = Some (Inr ())"
    using assms(2) unfolding good_machine_def install_def by simp
  then show ?thesis
    unfolding install_firewall_def rules lift_bind by (auto simp: batch intro!: returns_intros)
qed (simp add: install_firewall_def eff_when_def returns_return)

lemma configured_spawn:
  assumes "validate cli c = Inr ()" and "good_machine c M root" and "bootable_values c"
    and "app_ids (image_consts c) = Inr (uid, gid)"
  shows "returns (spawn_app (features_of (init_features c)) (image_consts c) M)"
proof -
  let ?ft = "features_of (init_features c)"
  have M: "willing (m_env M)" "\<forall>nrs. m_compile M nrs \<noteq> None" "cr_uid root = 0" "granting_kernel (m_child M) root"
    using assms(2) unfolding good_machine_def by blast+
  obtain program where program: "build_baseline_denylist ?ft (m_compile M) = Inr program"
    using M(2) [rule_format, of "BASELINE_SYSCALLS @ WRITE_EXECUTE_SYSCALLS ?ft"]
    by (auto simp: build_baseline_denylist_def)
  obtain limits where limits: "resource_limits_of (image_consts c) = Inr limits"
    using assms(3) by (simp add: bootable_values_def configured_limits Let_def)
  have vars: "parse_pairs (image_consts c ''CARGO_UNIKERNEL_APP_ENV'') what = Inr (rt_env (app_runtime (c_app c)))"
    for what using assms(1) by (simp add: consts_lists parse_pairs_encode validate_iff valid_config_def)
  obtain ops where run: "run_child (m_child M) [] (child_chain ?ft (m_bpf M) program limits uid gid) = (Inr (), ops)"
    using chain_runs [OF M(3,4)] by blast
  have "returns (spawn_command ?ft (image_consts c) M program limits)"
    unfolding spawn_command_def assms(4) lift_bind prod.case vars spawn_def run fst_conv sum.case
    by (rule returns_answer [where Q = "\<lambda>a. \<exists>pid. a = NumberIs pid"])
      (auto simp: willing_answers [OF M(1)] intro: returns_intros)
  moreover have "returns (build_landlock ?ft (image_consts c) M)"
    by (rule willing_landlock [OF M(1)]) (use assms(3) in \<open>simp add: bootable_values_def\<close>)
  ultimately show ?thesis
    unfolding spawn_app_def program limits lift_bind by (rule returns_then [rotated])
qed

lemma spawn_value: "spawn M chain ev tr = (Some (Inr pid), tr') \<Longrightarrow> tr' = tr @ [ev]"
  by (cases "fst (run_child (m_child M) [] chain)") (auto simp: spawn_def value_iffs split: answer.splits)

lemma start_app_value:
  "start_app ft b M tr = (Some (Inr pid), tr') \<Longrightarrow>
     \<exists>pre vars. parse_pairs (b ''CARGO_UNIKERNEL_APP_ENV'') ''[app.runtime].env'' = Inr vars \<and>
       tr' = pre @ [SpawnApp (b ''CARGO_UNIKERNEL_APP_PATH'') vars (\<not> ft_app_console ft), SpawnWatcher pid]"
  by (auto simp: start_app_def spawn_app_def spawn_command_def value_iffs split: prod.splits dest!: spawn_value)

lemma image_boots:
  assumes "validate cli c = Inr ()" and "good_machine c M root" and "bootable_values c"
  shows "\<exists>pid pre. boot (features_of (init_features c)) (image_consts c) M [] =
    (Some (Inr pid), pre @ [SpawnApp ''/payload/app'' (rt_env (app_runtime (c_app c)))
       (\<not> rt_console (app_runtime (c_app c))), SpawnWatcher pid])"
proof -
  let ?ft = "features_of (init_features c)" and ?b = "image_consts c"
  have M: "m_pid1 M" "willing (m_env M)" "seeded_in_time (m_entropy_start M + MAX_WAIT) (m_entropy M)"
    "settle_loop ?ft (m_settle_start M + 30000) (m_settle M) \<noteq> None"
    using assms(2) unfolding good_machine_def by blast+
  have safe: "kv_safe (h_extra_sysctls (c_hardening c))"
    and vars: "parse_pairs (?b ''CARGO_UNIKERNEL_APP_ENV'') what = Inr (rt_env (app_runtime (c_app c)))" for what
    using assms(1) by (simp_all add: consts_lists parse_pairs_encode validate_iff valid_config_def)
  obtain uid gid where ids: "app_ids ?b = Inr (uid, gid)"
    using assms(1,3) configured_ids by (simp add: bootable_values_def)
  have "returns (boot ?ft ?b M)"
    unfolding boot_def ids lift_bind prod.case set_self_non_dumpable_def start_app_def
    by (intro returns_intros configured_firewall [OF assms] willing_prepare willing_configure willing_lockdown
        configured_spawn [OF assms ids] M safe) (simp add: M(1))
  then obtain pid tr where run: "boot ?ft ?b M [] = (Some (Inr pid), tr)" unfolding returns_def by blast
  then obtain tr4 where "start_app ?ft ?b M tr4 = (Some (Inr pid), tr)"
    by (auto simp: boot_def ids lift_bind value_iffs M(1))
  from start_app_value [OF this] run vars consts_options(6) [of c]
  show ?thesis by (auto simp: console_feature)
qed


end
