(* ===== verification/NetworkTypes.thy ===== *)
theory NetworkTypes
  imports BootProps
begin

text \<open>
  The types of the ioctls. \<open>socket_ioctl\<close> (\<open>guest/src/network.rs\<close>) is \<open>unsafe\<close>: it hands the kernel a pointer and relies on
  each caller for an argument of the structure the request names. Here every ioctl of the boot is checked against the
  structure the kernel documents for its socket family and request.
\<close>

section \<open>What the kernel reads and writes\<close>

definition ifreq_requests :: "string list" where
  "ifreq_requests = [''SIOCGIFINDEX'', ''SIOCSIFADDR'', ''SIOCSIFNETMASK'', ''SIOCGIFFLAGS'', ''SIOCSIFFLAGS'', ''SIOCGIFADDR'']"

text \<open>\<open>struct ifreq\<close>: 40 bytes whose first 16 are a name ended by a zero byte.\<close>

definition is_ifreq :: "byte list \<Rightarrow> bool" where
  "is_ifreq arg \<longleftrightarrow> length arg = 40 \<and> 0 \<in> set (take 16 arg)"

text \<open>\<open>struct in6_ifreq\<close>: the address, a prefix length the kernel takes, and the index.\<close>

definition is_in6_ifreq :: "byte list \<Rightarrow> bool" where
  "is_in6_ifreq arg \<longleftrightarrow> length arg = 24 \<and> of_ne32 (take 4 (drop 16 arg)) \<in> {1..128}"

text \<open>\<open>struct in6_rtmsg\<close>: three addresses, and after them 32 bytes of fixed fields.\<close>

definition is_in6_rtmsg :: "byte list \<Rightarrow> bool" where
  "is_in6_rtmsg arg \<longleftrightarrow> length arg = 80"

definition ioctl_typed :: "string \<Rightarrow> string \<Rightarrow> byte list \<Rightarrow> bool" where
  "ioctl_typed family request arg \<longleftrightarrow>
     (if family = ''AF_INET'' then request \<in> set ifreq_requests \<and> is_ifreq arg
      else if family = ''AF_INET6'' then
        request = ''SIOCSIFADDR'' \<and> is_in6_ifreq arg \<or> request = ''SIOCADDRT'' \<and> is_in6_rtmsg arg
      else False)"

text \<open>The kernel answers into the union behind the name: it keeps the size and the name.\<close>

definition keeps_names :: "env \<Rightarrow> bool" where
  "keeps_names env \<longleftrightarrow>
     (\<forall>tr family request arg bs. env tr (Ioctl family request arg) = BytesAre bs \<longrightarrow>
        length bs = length arg \<and> take 16 bs = take 16 arg)"

fun typed :: "event \<Rightarrow> bool" where
  "typed (Ioctl family request arg) = ioctl_typed family request arg"
| "typed _ = True"

section \<open>The arguments that the code builds\<close>

lemma length_overwrite: "at + length src \<le> length xs \<Longrightarrow> length (overwrite at src xs) = length xs"
  by (simp add: overwrite_def)

lemma take_overwrite: "n \<le> at \<Longrightarrow> at \<le> length xs \<Longrightarrow> take n (overwrite at src xs) = take n xs"
  by (simp add: overwrite_def min_def)

lemma ifreq_for_typed: "is_ifreq (ifreq_for name)"
proof -
  have "ifreq_for name ! min (length (as_bytes name)) 15 = 0"
    by (simp add: ifreq_for_def overwrite_def Let_def nth_append)
  moreover have "length (ifreq_for name) = 40"
    by (simp add: ifreq_for_def length_overwrite Let_def)
  ultimately show ?thesis
    by (auto simp: is_ifreq_def in_set_conv_nth intro!: exI [of _ "min (length (as_bytes name)) 15"])
qed

lemma overwrite_typed: "is_ifreq ifr \<Longrightarrow> length src \<le> 24 \<Longrightarrow> is_ifreq (overwrite IFR_UNION src ifr)"
  by (simp add: is_ifreq_def length_overwrite take_overwrite IFR_UNION_def)

lemma in6_ifreq_typed:
  assumes "length address = 8" and "0 < prefix_len" and "prefix_len \<le> 128"
  shows "is_in6_ifreq (in6_ifreq (octets address) (ucast (prefix_len :: u8)) ifindex)"
proof -
  have "length (octets address) = 16"
    using assms(1) by (simp add: octets_def length_concat comp_def sum_list_triv)
  moreover have "(ucast prefix_len :: u32) \<in> {1..128}"
    using assms(2,3) by (auto simp: word_le_nat_alt word_less_nat_alt unsigned_ucast_eq take_bit_nat_eq_self)
  ultimately show ?thesis by (simp add: is_in6_ifreq_def in6_ifreq_def)
qed

lemma default_route_typed: "length gateway = 8 \<Longrightarrow> is_in6_rtmsg (in6_rtmsg_bytes (default_route gateway ifindex))"
  by (simp add: is_in6_rtmsg_def in6_rtmsg_bytes_def default_route_def ne64_def octets_def length_concat comp_def
      sum_list_triv)

section \<open>Every ioctl of the boot\<close>

lemma typed_ioctl:
  assumes "keeps_names env" and "ioctl_typed family request arg"
    and "\<And>e. only typed (f (Inl e))"
    and "\<And>bs. length bs = length arg \<Longrightarrow> take 16 bs = take 16 arg \<Longrightarrow> only typed (f (Inr bs))"
  shows "only typed (eff_bind (socket_ioctl env family request arg) f)"
  unfolding only_def
proof (rule traced_bind)
  show "traced (socket_ioctl env family request arg)
      (\<lambda>new r. new = [Ioctl family request arg] \<and>
         (\<forall>bs. r = Some (Inr (Inr bs)) \<longrightarrow> length bs = length arg \<and> take 16 bs = take 16 arg))"
    using assms(1)
    by (auto simp: traced_def socket_ioctl_def eff_bind_def ask_def eff_return_def keeps_names_def
        split: answer.split)
next
  fix x :: "nat + byte list" and new
  assume "new = [Ioctl family request arg] \<and> (\<forall>bs. Some (Inr x) = Some (Inr (Inr bs)) \<longrightarrow>
      length bs = length arg \<and> take 16 bs = take 16 arg)"
  then have "new = [Ioctl family request arg]" and keeps: "\<And>bs. x = Inr bs \<Longrightarrow>
      length bs = length arg \<and> take 16 bs = take 16 arg" by blast+
  moreover have "only typed (f x)"
  proof (cases x)
    case (Inl e)
    then show ?thesis using assms(3) by blast
  next
    case (Inr bs)
    then show ?thesis using assms(4) keeps by blast
  qed
  ultimately show "traced (f x) (\<lambda>new' _. \<forall>ev\<in>set (new @ new'). typed ev)"
    using assms(2) by (simp add: only_def)
qed (use assms(2) in simp_all)

lemma typed_ifreq:
  assumes "keeps_names env" and "request \<in> set ifreq_requests" and "is_ifreq ifr"
    and "\<And>e. only typed (f (Inl e))" and "\<And>bs. is_ifreq bs \<Longrightarrow> only typed (f (Inr bs))"
  shows "only typed (eff_bind (ifreq_ioctl env request ifr) f)"
  unfolding ifreq_ioctl_def using assms
  by (intro typed_ioctl) (auto simp: ioctl_typed_def is_ifreq_def)

lemma typed_last:
  "keeps_names env \<Longrightarrow> ioctl_typed family request arg \<Longrightarrow> only typed (socket_ioctl env family request arg)"
  by (auto simp: socket_ioctl_def intro!: traced_intros)

lemma typed_interface_index:
  assumes "keeps_names env" and "\<And>r. only typed (f r)"
  shows "only typed (eff_bind (interface_index env name) f)"
  using assms(2) unfolding interface_index_def
  by (intro only_bind typed_ifreq assms(1) ifreq_for_typed only_return) (simp_all add: ifreq_requests_def)

lemma typed_loopback: "keeps_names env \<Longrightarrow> only typed (configure_loopback_v4 env)"
  unfolding configure_loopback_v4_def Let_def sockaddr_v4_def
  by (rule typed_ifreq)
    (auto simp: ifreq_requests_def ifreq_ioctl_def ioctl_typed_def
      intro!: traced_intros overwrite_typed ifreq_for_typed typed_last)

lemma typed_interface_up: "keeps_names env \<Longrightarrow> only typed (ensure_interface_up env name)"
  unfolding ensure_interface_up_def Let_def
  by (rule typed_ifreq)
    (auto simp: ifreq_requests_def ifreq_ioctl_def ioctl_typed_def
      intro!: traced_intros overwrite_typed ifreq_for_typed typed_last)

lemma typed_networking: "keeps_names env \<Longrightarrow> only typed (init_networking ft env)"
  unfolding init_networking_def non_loopback_interfaces_def
  by (intro traced_intros typed_loopback typed_interface_up) simp_all

lemma typed_assign:
  "keeps_names env \<Longrightarrow> length address = 8 \<Longrightarrow> 0 < prefix_len \<Longrightarrow> prefix_len \<le> 128 \<Longrightarrow>
     only typed (assign_ipv6_address env name address prefix_len)"
  unfolding assign_ipv6_address_def
  by (rule typed_interface_index)
    (auto simp: inet6_ioctl_def ioctl_typed_def in6_ifreq_typed intro!: traced_intros typed_last split: sum.split)

lemma typed_route:
  "keeps_names env \<Longrightarrow> length gateway = 8 \<Longrightarrow> only typed (add_ipv6_default_route env name gateway)"
  unfolding add_ipv6_default_route_def
  by (rule typed_interface_index)
    (auto simp: inet6_ioctl_def ioctl_typed_def default_route_typed intro!: traced_intros typed_last split: sum.split)

lemma parse_static_v6_typed:
  assumes "parse_static_v6 raw = Some (address, prefix_len)"
  shows "length address = 8 \<and> 0 < prefix_len \<and> prefix_len \<le> 128"
proof -
  obtain n where "n \<noteq> 0" "n \<le> 128" "prefix_len = word_of_nat n"
    using assms by (auto simp: parse_static_v6_def bind_eq_Some_conv split: if_splits prod.splits)
  moreover then have "unat prefix_len = n" by (simp add: unat_of_nat)
  ultimately show ?thesis
    using assms parse_ipv6_length
    by (auto simp: parse_static_v6_def bind_eq_Some_conv word_le_nat_alt word_less_nat_alt
        split: if_splits prod.splits)
qed

lemma typed_static_v6:
  assumes "keeps_names env"
  shows "only typed (configure_static_ipv6 env s g i)"
  unfolding configure_static_ipv6_def non_loopback_interfaces_def
  using parse_static_v6_typed parse_ipv6_length assms
  by (auto intro!: traced_intros typed_assign typed_route split: option.split list.split)

lemma typed_address_lines: "keeps_names env \<Longrightarrow> only typed (address_lines ft env names)"
  by (induction names)
    (auto simp: v4_lines_def v6_lines_def interface_ipv4_addr_def interface_ipv6_addrs_def ifreq_ioctl_def
      ioctl_typed_def ifreq_requests_def ifreq_for_typed intro!: traced_intros typed_last)

lemma typed_settle: "keeps_names env \<Longrightarrow> only typed (wait_for_network_settle ft env start w obs)"
  unfolding wait_for_network_settle_def log_interface_addresses_def non_loopback_interfaces_def
  by (intro traced_intros typed_address_lines) simp_all

lemma offline_typed: "offline ev \<Longrightarrow> typed ev"
  by (cases ev) auto

lemma typed_prepare: "keeps_names env \<Longrightarrow> only typed (prepare_system_env ft b env pd)"
  unfolding prepare_system_env_def mount_var_tmp_def prepare_mount_directory_def mount_payload_def
    bind_mount_def mount_base_def
  by (auto intro!: traced_intros typed_networking only_or_fatal only_mount only_mount_fatal only_remount_fatal
      only_persistent_var split: option.split answer.split)

lemma typed_start_app: "only typed (start_app ft b M)"
  unfolding start_app_def spawn_app_def spawn_command_def spawn_def lockdown_filesystem_def seal_rootfs_def
    remount_def
  by (auto intro!: traced_intros sealed_intros only_mono [OF offline_build_landlock offline_typed]
      split: sum.split answer.split)

lemma typed_boot: "keeps_names (m_env M) \<Longrightarrow> only typed (boot ft b M)"
  unfolding boot_def set_self_non_dumpable_def
  by (auto intro!: traced_intros only_firewall typed_prepare typed_start_app
      configure_events [OF offline_typed typed_static_v6 typed_settle])

text \<open>
  C17. Every ioctl of the boot gets an argument of the structure that its request names on its socket family, whatever the
  baked constants and the kernel's answers are, as long as an answer keeps the size and the name of what it was given:
  the name in an \<open>ifreq\<close> is ended by a zero byte, an address comes with a prefix length from 1 to 128, and there is no
  other request.
\<close>

theorem ioctls_well_typed:
  assumes "keeps_names (m_env M)" and "boot ft b M [] = (r, tr)" and "Ioctl family request arg \<in> set tr"
  shows "ioctl_typed family request arg"
  using onlyD [OF typed_boot [OF assms(1)] assms(2)] assms(3) by fastforce

end
