(* ===== verification/Scrub.thy ===== *)
theory Scrub
  imports Storage
begin

text \<open>
  The scrub of a writable directory (\<open>overwrite_file\<close>, \<open>scrub_dir\<close> and \<open>scrub_open_dir\<close> of \<open>guest/src/shutdown.rs\<close>)
  over a tree of files: what is overwritten, what is removed, what stays, with every call allowed to fail.
\<close>

section \<open>Trees and outcomes\<close>

datatype node =
    File "byte list"
  | Directory dir
  | Symlink string
  | Special \<comment> \<open>a device, a FIFO or a socket\<close>
and dir = Empty | Entry string node dir

type_synonym path = "string list"

text \<open>
  The outcome of each call, by path: whether a directory can be read, whether the file system fills in \<open>d_type\<close>, whether
  an entry opens, after how many bytes a write or the sync fails if it does, and whether the entry can be unlinked.
\<close>

record fs_env =
  fs_reads :: "path \<Rightarrow> bool"
  fs_has_type :: "path \<Rightarrow> bool"
  fs_opens :: "path \<Rightarrow> bool"
  fs_fails_after :: "path \<Rightarrow> nat option"
  fs_unlinks :: "path \<Rightarrow> bool"

definition SCRUB_CHUNK :: nat where [nums]: "SCRUB_CHUNK = 16 * 1024"
definition MAX_SCRUB_DEPTH :: nat where [nums]: "MAX_SCRUB_DEPTH = 64"

section \<open>The scrub\<close>

text \<open>The contents after the overwrite of an opened regular file, and whether it succeeded.\<close>

definition zero_front :: "nat \<Rightarrow> byte list \<Rightarrow> byte list" where
  "zero_front n bs = replicate (min n (length bs)) 0 @ drop n bs"

definition overwrite_file :: "fs_env \<Rightarrow> path \<Rightarrow> byte list \<Rightarrow> byte list \<times> bool" where
  "overwrite_file fs p bs =
     (case write_zeros (length bs) SCRUB_CHUNK of
        None \<Rightarrow> (bs, False)
      | Some ns \<Rightarrow>
          (case fs_fails_after fs p of
             None \<Rightarrow> (zero_front (sum_list ns) bs, True)
           | Some n \<Rightarrow> (zero_front n bs, False)))"

text \<open>
  An entry at path \<open>p\<close> of a directory at \<open>depth\<close>: what is left of it, and the files written, each with its path and
  its contents when it was closed. A regular file is unlinked whether or not its overwrite succeeded; one whose type
  had to be probed only when it did.
\<close>

fun scrub_entry :: "fs_env \<Rightarrow> path \<Rightarrow> nat \<Rightarrow> node \<Rightarrow> node option \<times> (path \<times> byte list) list"
  and scrub_entries :: "fs_env \<Rightarrow> path \<Rightarrow> nat \<Rightarrow> dir \<Rightarrow> dir \<times> (path \<times> byte list) list"
where
  "scrub_entry fs p depth (Directory d) =
     (if fs_opens fs p then
        let (d', written) =
              (if MAX_SCRUB_DEPTH \<le> Suc depth \<or> \<not> fs_reads fs p then (d, []) else scrub_entries fs p (Suc depth) d)
        in (if d' = Empty \<and> fs_unlinks fs p then None else Some (Directory d'), written)
      else (Some (Directory d), []))"
| "scrub_entry fs p depth (File bs) =
     (if fs_opens fs p then
        let (bs', ok) = overwrite_file fs p bs
        in (if (fs_has_type fs p \<or> ok) \<and> fs_unlinks fs p then None else Some (File bs'), [(p, bs')])
      else (Some (File bs), []))"
| "scrub_entry fs p depth (Symlink target) =
     (if fs_has_type fs p \<and> fs_unlinks fs p then None else Some (Symlink target), [])"
| "scrub_entry fs p depth Special = (Some Special, [])"
| "scrub_entries fs p depth Empty = (Empty, [])"
| "scrub_entries fs p depth (Entry name n rest) =
     (let (rest', more) = scrub_entries fs p depth rest in
      if name = ''.'' \<or> name = ''..'' then (Entry name n rest', more)
      else
        let (n', written) = scrub_entry fs (p @ [name]) depth n
        in (case n' of None \<Rightarrow> rest' | Some n' \<Rightarrow> Entry name n' rest', written @ more))"

definition scrub_open_dir :: "fs_env \<Rightarrow> path \<Rightarrow> nat \<Rightarrow> dir \<Rightarrow> dir \<times> (path \<times> byte list) list" where
  "scrub_open_dir fs p depth d =
     (if MAX_SCRUB_DEPTH \<le> depth \<or> \<not> fs_reads fs p then (d, []) else scrub_entries fs p depth d)"

text \<open>The root is opened without following a symbolic link: a root that is not a directory is left alone.\<close>

definition scrub_dir :: "fs_env \<Rightarrow> nat \<Rightarrow> node \<Rightarrow> node \<times> (path \<times> byte list) list" where
  "scrub_dir fs depth root =
     (case root of
        Directory d \<Rightarrow>
          if fs_opens fs [] then let (d', written) = scrub_open_dir fs [] depth d in (Directory d', written)
          else (root, [])
      | _ \<Rightarrow> (root, []))"

section \<open>The files of a tree\<close>

fun files :: "path \<Rightarrow> node \<Rightarrow> (path \<times> byte list) list"
  and dir_files :: "path \<Rightarrow> dir \<Rightarrow> (path \<times> byte list) list"
where
  "files p (File bs) = [(p, bs)]"
| "files p (Directory d) = dir_files p d"
| "files p (Symlink t) = []"
| "files p Special = []"
| "dir_files p Empty = []"
| "dir_files p (Entry name n rest) = files (p @ [name]) n @ dir_files p rest"

text \<open>No entry is named \<open>.\<close> or \<open>..\<close>; how deep a tree is; and whether only special files are left.\<close>

fun plain_names :: "node \<Rightarrow> bool" and plain_dir :: "dir \<Rightarrow> bool" where
  "plain_names (Directory d) = plain_dir d"
| "plain_names _ = True"
| "plain_dir Empty = True"
| "plain_dir (Entry name n rest) \<longleftrightarrow>
     name \<noteq> ''.'' \<and> name \<noteq> ''..'' \<and> plain_names n \<and> plain_dir rest"

fun node_depth :: "node \<Rightarrow> nat" and dir_depth :: "dir \<Rightarrow> nat" where
  "node_depth (Directory d) = Suc (dir_depth d)"
| "node_depth _ = 0"
| "dir_depth Empty = 0"
| "dir_depth (Entry name n rest) = max (node_depth n) (dir_depth rest)"

fun has_special :: "node \<Rightarrow> bool" and dir_has_special :: "dir \<Rightarrow> bool" where
  "has_special Special = True"
| "has_special (Directory d) = dir_has_special d"
| "has_special _ = False"
| "dir_has_special Empty = False"
| "dir_has_special (Entry name n rest) \<longleftrightarrow> has_special n \<or> dir_has_special rest"

text \<open>A file system on which every call succeeds.\<close>

definition faultless :: "fs_env \<Rightarrow> bool" where
  "faultless fs \<longleftrightarrow> (\<forall>p. fs_reads fs p \<and> fs_has_type fs p \<and> fs_opens fs p \<and> fs_fails_after fs p = None \<and> fs_unlinks fs p)"

section \<open>What is written\<close>

lemma overwrite_file_eq:
  "overwrite_file fs p bs =
     (case fs_fails_after fs p of
        None \<Rightarrow> (replicate (length bs) 0, True) | Some n \<Rightarrow> (zero_front n bs, False))"
  by (auto simp: overwrite_file_def write_zeros_def SCRUB_CHUNK_def zero_chunks_sum zero_front_def split: option.split)

lemma zero_front_length [simp]: "length (zero_front n bs) = length bs"
  by (simp add: zero_front_def)

text \<open>
  The contents of a file during and after its overwrite: a front of zeros, and the original behind it.
\<close>

definition zeroing :: "byte list \<Rightarrow> byte list \<Rightarrow> bool" where
  "zeroing bs bs' \<longleftrightarrow> (\<exists>n. bs' = zero_front n bs)"

lemma overwrite_zeroing: "zeroing bs (fst (overwrite_file fs p bs))"
  unfolding zeroing_def overwrite_file_eq
  by (cases "fs_fails_after fs p") (auto simp: zero_front_def intro: exI [of _ "length bs"])

lemma zeroing_refl [simp]: "zeroing bs bs"
  unfolding zeroing_def by (rule exI [of _ 0]) (simp add: zero_front_def)

lemma scrub_keeps_contents:
  "(q, bs') \<in> set (snd (scrub_entry fs p depth n)) \<union>
      (case fst (scrub_entry fs p depth n) of None \<Rightarrow> {} | Some n' \<Rightarrow> set (files p n')) \<Longrightarrow>
     \<exists>bs. (q, bs) \<in> set (files p n) \<and> zeroing bs bs'"
  "(q, bs') \<in> set (snd (scrub_entries fs p depth d)) \<union> set (dir_files p (fst (scrub_entries fs p depth d))) \<Longrightarrow>
     \<exists>bs. (q, bs) \<in> set (dir_files p d) \<and> zeroing bs bs'"
proof (induction fs p depth n and fs p depth d rule: scrub_entry_scrub_entries.induct)
  case (1 fs p depth d)
  then show ?case by (auto simp: Let_def split: if_splits prod.splits)
next
  case (2 fs p depth bs)
  then show ?case using overwrite_zeroing [of bs fs p] by (auto simp: Let_def split: if_splits prod.splits)
next
  case (6 fs p depth name n rest)
  then show ?case by (fastforce simp: Let_def split: if_splits prod.splits option.splits)
qed (auto split: if_splits)

text \<open>
  C33. The scrub only ever overwrites in place: whatever fails, every file it has written, and every file it leaves, is a
  file of the tree with the same length as before, its front zeroed and the rest untouched; nothing is truncated before it
  is overwritten, nothing is created, and nothing outside the tree or behind a symbolic link is written.
\<close>

theorem scrub_overwrites_in_place:
  assumes "scrub_dir fs 0 root = (root', written)"
    and "(q, bs') \<in> set written \<union> set (files [] root')"
  shows "\<exists>bs n. (q, bs) \<in> set (files [] root) \<and> bs' = zero_front n bs \<and> length bs' = length bs"
proof -
  have "\<exists>bs. (q, bs) \<in> set (files [] root) \<and> zeroing bs bs'"
    using assms scrub_keeps_contents(2) [of q bs' fs "[]" 0]
    by (cases root) (auto simp: scrub_dir_def scrub_open_dir_def intro: zeroing_refl split: if_splits prod.splits)
  then show ?thesis unfolding zeroing_def by (metis zero_front_length)
qed

section \<open>A faultless scrub\<close>

lemma dir_files_longer: "(q, bs) \<in> set (files p n) \<Longrightarrow> length p \<le> length q"
  "(q, bs) \<in> set (dir_files p d) \<Longrightarrow> length p < length q"
  by (induction p n and p d rule: files_dir_files.induct) fastforce+

definition within :: "path \<times> byte list \<Rightarrow> bool" where
  "within f \<longleftrightarrow> length (fst f) \<le> MAX_SCRUB_DEPTH"

definition zeroed :: "path \<times> byte list \<Rightarrow> path \<times> byte list" where
  "zeroed f = (fst f, replicate (length (snd f)) 0)"

lemma deep_files: "MAX_SCRUB_DEPTH \<le> length p \<Longrightarrow> filter within (dir_files p d) = []"
  "MAX_SCRUB_DEPTH \<le> length p \<Longrightarrow> filter (\<lambda>f. \<not> within f) (dir_files p d) = dir_files p d"
  by (auto simp: filter_empty_conv filter_id_conv within_def dest: dir_files_longer)

lemma scrub_faultless:
  "faultless fs \<Longrightarrow> plain_names n \<Longrightarrow> length p = Suc depth \<Longrightarrow> depth < MAX_SCRUB_DEPTH \<Longrightarrow>
     snd (scrub_entry fs p depth n) = map zeroed (filter within (files p n)) \<and>
     (case fst (scrub_entry fs p depth n) of None \<Rightarrow> [] | Some n' \<Rightarrow> files p n') =
       filter (\<lambda>f. \<not> within f) (files p n)"
  "faultless fs \<Longrightarrow> plain_dir d \<Longrightarrow> length p = depth \<Longrightarrow> depth < MAX_SCRUB_DEPTH \<Longrightarrow>
     snd (scrub_entries fs p depth d) = map zeroed (filter within (dir_files p d)) \<and>
     dir_files p (fst (scrub_entries fs p depth d)) = filter (\<lambda>f. \<not> within f) (dir_files p d)"
proof (induction fs p depth n and fs p depth d rule: scrub_entry_scrub_entries.induct)
  case (1 fs p depth d)
  then show ?case
    by (auto simp: Let_def faultless_def deep_files split: if_splits prod.splits)
next
  case (2 fs p depth bs)
  then show ?case by (simp add: Let_def faultless_def overwrite_file_eq within_def zeroed_def)
next
  case (6 fs p depth name n rest)
  then show ?case by (auto simp: Let_def split: prod.splits option.splits)
qed (auto simp: faultless_def)

lemma scrub_empties:
  "faultless fs \<Longrightarrow> plain_names n \<Longrightarrow> \<not> has_special n \<Longrightarrow> depth + node_depth n < MAX_SCRUB_DEPTH \<Longrightarrow>
     fst (scrub_entry fs p depth n) = None"
  "faultless fs \<Longrightarrow> plain_dir d \<Longrightarrow> \<not> dir_has_special d \<Longrightarrow> depth + dir_depth d < MAX_SCRUB_DEPTH \<Longrightarrow>
     fst (scrub_entries fs p depth d) = Empty"
proof (induction fs p depth n and fs p depth d rule: scrub_entry_scrub_entries.induct)
  case (1 fs p depth d)
  then show ?case by (auto simp: Let_def faultless_def split: prod.splits)
next
  case (6 fs p depth name n rest)
  then show ?case by (auto simp: Let_def split: prod.splits)
qed (auto simp: faultless_def overwrite_file_eq)

text \<open>
  When no call fails, the scrub reaches every file down to its depth ceiling: it overwrites each file whose path has
  at most 64 names with zeros, over its whole length, and removes it, and leaves the deeper ones as they were; and a
  tree within the ceiling with no special files is emptied.
\<close>

lemma scrub_complete:
  assumes "faultless fs" and "plain_dir d"
  shows "snd (scrub_dir fs 0 (Directory d)) = map zeroed (filter within (dir_files [] d)) \<and>
    files [] (fst (scrub_dir fs 0 (Directory d))) = filter (\<lambda>f. \<not> within f) (dir_files [] d) \<and>
    (\<not> dir_has_special d \<and> dir_depth d < MAX_SCRUB_DEPTH \<longrightarrow> fst (scrub_dir fs 0 (Directory d)) = Directory Empty)"
  using scrub_faultless(2) [OF assms, of "[]" 0] scrub_empties(2) [OF assms, of 0 "[]"] assms(1)
  by (auto simp: scrub_dir_def scrub_open_dir_def faultless_def MAX_SCRUB_DEPTH_def split: prod.splits)

end
