(* ===== verification/Trigger.thy ===== *)
theory Trigger
  imports Effects
begin

text \<open>
  The shutdown triggers of \<open>guest/src/shutdown.rs\<close>: the power button, and the \<open>SIGTERM\<close> handler against the watcher thread
  that waits for it, as a step relation over the two flags and the pipe they share.
\<close>

section \<open>The power button\<close>

definition EV_KEY :: u16 where [nums]: "EV_KEY = 1"
definition KEY_POWER :: u16 where [nums]: "KEY_POWER = 116"

text \<open>\<open>InputEvent\<close>: two 64-bit times, then type, code and value.\<close>

record input_event =
  ev_time :: "byte list"
  ev_type :: u16
  ev_code :: u16
  ev_value :: u32

definition INPUT_EVENT_SIZE :: nat where [nums]: "INPUT_EVENT_SIZE = 24"

definition input_event_of :: "byte list \<Rightarrow> input_event" where
  "input_event_of bs =
     \<lparr>ev_time = take 16 bs, ev_type = of_ne16 (take 2 (drop 16 bs)), ev_code = of_ne16 (take 2 (drop 18 bs)),
      ev_value = of_ne32 (take 4 (drop 20 bs))\<rparr>"

definition is_power_press :: "input_event \<Rightarrow> bool" where
  "is_power_press ev = (ev_type ev = EV_KEY \<and> ev_code ev = KEY_POWER \<and> ev_value ev = 1)"

text \<open>
  The successive reads of the non-blocking device, \<open>None\<close> an error; the end of the list is the \<open>EAGAIN\<close> of an
  empty queue.
\<close>

fun power_button_pressed :: "bool \<Rightarrow> byte list option list \<Rightarrow> bool" where
  "power_button_pressed pressed [] = pressed"
| "power_button_pressed pressed (r # reads) =
     (case r of
        Some bs \<Rightarrow>
          if length bs = INPUT_EVENT_SIZE
          then power_button_pressed (pressed \<or> is_power_press (input_event_of bs)) reads
          else pressed
      | None \<Rightarrow> pressed)"

definition whole_event :: "byte list option \<Rightarrow> bool" where
  "whole_event r \<longleftrightarrow> (\<exists>bs. r = Some bs \<and> length bs = INPUT_EVENT_SIZE)"

lemma power_button_pressed_iff:
  "power_button_pressed pressed reads \<longleftrightarrow>
     pressed \<or> list_ex (\<lambda>r. is_power_press (input_event_of (the r))) (takeWhile whole_event reads)"
  by (induction pressed reads rule: power_button_pressed.induct)
    (auto simp: whole_event_def split: option.splits)

section \<open>The signal and the watcher\<close>

text \<open>
  Where the watcher is: setting up \<open>epoll\<close>, the pipe and the registration of its read end; about to publish the write end; about to
  read the flag; registering the devices; in \<open>epoll_wait\<close>; in the polling fallback; or back from \<open>wait_for_trigger\<close>.
\<close>

datatype watcher = SettingUp | Publishing | CheckingFlag | Registering | InEpoll | Polling | Triggered

text \<open>
  The two atomics (\<open>SIGTERM_PIPE_WRITE_FD\<close> as whether it is set), the bytes in the pipe, the watcher, and how
  many runs of the handler are before its store, before its load, and before its write.
\<close>

record trigger_state =
  tg_received :: bool
  tg_published :: bool
  tg_pipe :: nat
  tg_watcher :: watcher
  tg_storing :: nat
  tg_loading :: nat
  tg_writing :: nat

definition trigger_init :: trigger_state where
  "trigger_init = \<lparr>tg_received = False, tg_published = False, tg_pipe = 0, tg_watcher = SettingUp,
     tg_storing = 0, tg_loading = 0, tg_writing = 0\<rparr>"

text \<open>\<open>on_sigterm\<close>: delivered, then its three accesses, one step each; a write to a full pipe adds no byte.\<close>

inductive handler_step :: "trigger_state \<Rightarrow> trigger_state \<Rightarrow> bool" where
  delivered: "handler_step s (s\<lparr>tg_storing := Suc (tg_storing s)\<rparr>)"
| store: "tg_storing s = Suc n \<Longrightarrow>
    handler_step s (s\<lparr>tg_storing := n, tg_loading := Suc (tg_loading s), tg_received := True\<rparr>)"
| load_set: "tg_loading s = Suc n \<Longrightarrow> tg_published s \<Longrightarrow>
    handler_step s (s\<lparr>tg_loading := n, tg_writing := Suc (tg_writing s)\<rparr>)"
| load_unset: "tg_loading s = Suc n \<Longrightarrow> \<not> tg_published s \<Longrightarrow> handler_step s (s\<lparr>tg_loading := n\<rparr>)"
| write_byte: "tg_writing s = Suc n \<Longrightarrow> handler_step s (s\<lparr>tg_writing := n, tg_pipe := Suc (tg_pipe s)\<rparr>)"
| write_full: "tg_writing s = Suc n \<Longrightarrow> 0 < tg_pipe s \<Longrightarrow> handler_step s (s\<lparr>tg_writing := n\<rparr>)"

text \<open>\<open>wait_for_trigger\<close>; \<open>pressed\<close> is whether a device has a power press at this wake-up.\<close>

inductive watcher_step :: "bool \<Rightarrow> trigger_state \<Rightarrow> trigger_state \<Rightarrow> bool" where
  setup_failed: "tg_watcher s = SettingUp \<Longrightarrow> watcher_step pressed s (s\<lparr>tg_watcher := Polling\<rparr>)"
| set_up: "tg_watcher s = SettingUp \<Longrightarrow> watcher_step pressed s (s\<lparr>tg_watcher := Publishing\<rparr>)"
| publish: "tg_watcher s = Publishing \<Longrightarrow>
    watcher_step pressed s (s\<lparr>tg_published := True, tg_watcher := CheckingFlag\<rparr>)"
| check_set: "tg_watcher s = CheckingFlag \<Longrightarrow> tg_received s \<Longrightarrow> watcher_step pressed s (s\<lparr>tg_watcher := Triggered\<rparr>)"
| check_unset: "tg_watcher s = CheckingFlag \<Longrightarrow> \<not> tg_received s \<Longrightarrow>
    watcher_step pressed s (s\<lparr>tg_watcher := Registering\<rparr>)"
| register_failed: "tg_watcher s = Registering \<Longrightarrow> watcher_step pressed s (s\<lparr>tg_watcher := Polling\<rparr>)"
| register: "tg_watcher s = Registering \<Longrightarrow> watcher_step pressed s (s\<lparr>tg_watcher := InEpoll\<rparr>)"
| epoll_pipe: "tg_watcher s = InEpoll \<Longrightarrow> 0 < tg_pipe s \<Longrightarrow> watcher_step pressed s (s\<lparr>tg_watcher := Triggered\<rparr>)"
| epoll_device: "tg_watcher s = InEpoll \<Longrightarrow> pressed \<Longrightarrow> watcher_step pressed s (s\<lparr>tg_watcher := Triggered\<rparr>)"
| poll_flag: "tg_watcher s = Polling \<Longrightarrow> tg_received s \<Longrightarrow> watcher_step pressed s (s\<lparr>tg_watcher := Triggered\<rparr>)"
| poll_device: "tg_watcher s = Polling \<Longrightarrow> pressed \<Longrightarrow> watcher_step pressed s (s\<lparr>tg_watcher := Triggered\<rparr>)"

inductive trigger_run :: "trigger_state \<Rightarrow> bool" where
  start: "trigger_run trigger_init"
| handler: "trigger_run s \<Longrightarrow> handler_step s s' \<Longrightarrow> trigger_run s'"
| watcher: "trigger_run s \<Longrightarrow> watcher_step pressed s s' \<Longrightarrow> trigger_run s'"

inductive_cases handler_stepE: "handler_step s s'"
inductive_cases watcher_stepE: "watcher_step pressed s s'"

text \<open>
  The invariant: past the check of the flag the pipe is published, and a signal that has set the flag has left a
  byte in the pipe, or its handler is still on its way to one.
\<close>

definition trigger_inv :: "trigger_state \<Rightarrow> bool" where
  "trigger_inv s \<longleftrightarrow>
     (tg_watcher s \<in> {CheckingFlag, Registering, InEpoll} \<longrightarrow> tg_published s) \<and>
     (tg_watcher s \<in> {Registering, InEpoll} \<and> tg_received s \<longrightarrow>
        0 < tg_pipe s \<or> 0 < tg_loading s \<or> 0 < tg_writing s)"

lemma trigger_inv_handler: "trigger_inv s \<Longrightarrow> handler_step s s' \<Longrightarrow> trigger_inv s'"
  unfolding trigger_inv_def by (erule handler_stepE) auto

lemma trigger_inv_watcher: "trigger_inv s \<Longrightarrow> watcher_step pressed s s' \<Longrightarrow> trigger_inv s'"
  unfolding trigger_inv_def by (erule watcher_stepE) auto

lemma trigger_inv_run: "trigger_run s \<Longrightarrow> trigger_inv s"
proof (induction rule: trigger_run.induct)
  case start
  show ?case by (simp add: trigger_inv_def trigger_init_def)
qed (auto intro: trigger_inv_handler trigger_inv_watcher)

text \<open>
  The watcher's own steps, with no device pressed, end in \<open>Triggered\<close> whichever way its calls turn out: it is never
  stuck before.
\<close>

inductive watcher_returns :: "trigger_state \<Rightarrow> bool" where
  returned: "tg_watcher s = Triggered \<Longrightarrow> watcher_returns s"
| goes_on: "watcher_step False s t \<Longrightarrow> (\<And>s'. watcher_step False s s' \<Longrightarrow> watcher_returns s') \<Longrightarrow> watcher_returns s"

lemma returns_polling:
  assumes "tg_watcher s = Polling" and "tg_received s"
  shows "watcher_returns s"
  by (rule goes_on [OF poll_flag [OF assms]], erule watcher_stepE) (use assms returned in auto)

lemma returns_epoll:
  assumes "tg_watcher s = InEpoll" and "0 < tg_pipe s"
  shows "watcher_returns s"
  by (rule goes_on [OF epoll_pipe [OF assms]], erule watcher_stepE) (use assms returned in auto)

lemma returns_registering:
  assumes "tg_watcher s = Registering" and "tg_received s" and "0 < tg_pipe s"
  shows "watcher_returns s"
  by (rule goes_on [OF register [OF assms(1)]], erule watcher_stepE)
    (use assms in \<open>auto intro: returns_epoll returns_polling\<close>)

lemma returns_checking:
  assumes "tg_watcher s = CheckingFlag" and "tg_received s"
  shows "watcher_returns s"
  by (rule goes_on [OF check_set [OF assms]], erule watcher_stepE) (use assms returned in auto)

lemma returns_publishing:
  assumes "tg_watcher s = Publishing" and "tg_received s"
  shows "watcher_returns s"
  by (rule goes_on [OF publish [OF assms(1)]], erule watcher_stepE)
    (use assms in \<open>auto intro: returns_checking\<close>)

lemma returns_setting_up:
  assumes "tg_watcher s = SettingUp" and "tg_received s"
  shows "watcher_returns s"
  by (rule goes_on [OF set_up [OF assms(1)]], erule watcher_stepE)
    (use assms in \<open>auto intro: returns_publishing returns_polling\<close>)

text \<open>
  C18. No \<open>SIGTERM\<close> is lost, at whatever point of the watcher's set-up it is handled: in every reachable state in which the
  signal has been recorded and no handler is still running, the watcher returns by its own steps, whichever of
  its calls fail; and once it is in \<open>epoll_wait\<close>, the pipe is readable, so it is not blocked.
\<close>

theorem sigterm_never_lost:
  assumes "trigger_run s" and "tg_received s" and "tg_loading s = 0 \<and> tg_writing s = 0"
  shows "watcher_returns s \<and> (tg_watcher s = InEpoll \<longrightarrow> 0 < tg_pipe s)"
proof -
  have inv: "tg_watcher s \<in> {Registering, InEpoll} \<Longrightarrow> 0 < tg_pipe s"
    using trigger_inv_run [OF assms(1)] assms(2,3) by (auto simp: trigger_inv_def)
  have "watcher_returns s"
    using returns_setting_up returns_publishing returns_checking returns_registering returns_epoll
      returns_polling returned inv assms(2)
    by (cases "tg_watcher s") auto
  with inv show ?thesis by simp
qed

end
