(* ===== verification/Shutdown.thy ===== *)
theory Shutdown
  imports Effects Trigger Polling
begin

text \<open>
  The shutdown protocol of \<open>guest/src/shutdown.rs\<close> and the watchdog's part in it: any number of threads of PID 1 may
  start it, gracefully or on a fatal error, at any time; the step relation interleaves them with the app's exit,
  the wipe's deadline thread and the power-off.
\<close>

section \<open>Waiting\<close>

definition SIGTERM_GRACE :: nat where [nums]: "SIGTERM_GRACE = 10000"
definition KILL_SETTLE_TIMEOUT :: nat where [nums]: "KILL_SETTLE_TIMEOUT = 2000"

text \<open>The grace period: each turn probes the app and then reads the clock. Whether the app exited in time.\<close>

fun grace_loop :: "nat \<Rightarrow> (bool \<times> nat) list \<Rightarrow> bool option" where
  "grace_loop deadline [] = None"
| "grace_loop deadline ((alive, now) # obs) =
     (if \<not> alive then Some True else if deadline \<le> now then Some False else grace_loop deadline obs)"

text \<open>
  Waiting for the killed processes: each turn reads the clock, reaps, and probes \<open>kill(-1, 0)\<close>. Whether they are gone.
\<close>

fun wait_for_processes_to_exit :: "nat \<Rightarrow> (nat \<times> bool) list \<Rightarrow> bool option" where
  "wait_for_processes_to_exit deadline [] = None"
| "wait_for_processes_to_exit deadline ((now, others) # obs) =
     (if now < deadline then
        if \<not> others then Some True else wait_for_processes_to_exit deadline obs
      else Some False)"

interpretation grace: bounded_loop grace_loop "\<lambda>_. None"
    "\<lambda>d (alive, now). if \<not> alive then Inr True else if d \<le> now then Inr False else Inl d"
    "\<lambda>d (alive, now). d \<le> now"
  by unfold_locales (auto split: if_splits)

interpretation processes: bounded_loop wait_for_processes_to_exit "\<lambda>_. None"
    "\<lambda>d (now, others). if d \<le> now then Inr False else if \<not> others then Inr True else Inl d"
    "\<lambda>d (now, others). d \<le> now"
  by unfold_locales (auto split: if_splits)

section \<open>The wipe\<close>

datatype wipe_op = ScrubDir string | UnmountVar | Sync

definition wipe_writable_state :: "features \<Rightarrow> wipe_op list" where
  "wipe_writable_state ft =
     [ScrubDir ''/var/tmp'', ScrubDir ''/tmp'', ScrubDir ''/run'', ScrubDir ''/dev/shm''] @
     (if ft_storage_persistent ft then [UnmountVar] else [ScrubDir ''/var'']) @ [Sync]"

text \<open>
  Where a thread is. \<open>Flagging\<close>: about to set \<open>SHUTDOWN_IN_PROGRESS\<close>, on the graceful path (\<open>True\<close>) or the fatal one;
  \<open>Terming\<close>: sending \<open>SIGTERM\<close> and in the grace period; \<open>AtSwap\<close>: about to swap \<open>WIPE_STARTED\<close>; \<open>AtArm\<close>: about to
  spawn the deadline thread; then killing, waiting, wiping and powering off, with the fallbacks of \<open>force_power_off\<close>.
\<close>

datatype stage =
    Working
  | Flagging bool
  | Terming bool \<comment> \<open>whether \<open>SIGTERM\<close> is still to be sent\<close>
  | AtSwap
  | AtArm
  | AtKill
  | Settling
  | Wiping "wipe_op list"
  | AtPowerOff
  | AtHalt
  | AtExit

datatype action = KillAll | Wipe wipe_op | PowerOff

text \<open>
  \<open>sd_log\<close> is what the machine has been through; thread \<open>0\<close> is the main thread, in the watchdog. Once \<open>sd_off\<close> nothing runs.
\<close>

record shutdown_state =
  sd_in_progress :: bool
  sd_wipe_started :: bool
  sd_stage :: "nat \<Rightarrow> stage"
  sd_deadlines :: nat
  sd_app_alive :: bool
  sd_app_termed :: bool
  sd_log :: "action list"
  sd_off :: bool

definition shutdown_init :: shutdown_state where
  "shutdown_init = \<lparr>sd_in_progress = False, sd_wipe_started = False, sd_stage = (\<lambda>_. Working), sd_deadlines = 0,
     sd_app_alive = True, sd_app_termed = False, sd_log = [], sd_off = False\<rparr>"

definition goto :: "nat \<Rightarrow> stage \<Rightarrow> shutdown_state \<Rightarrow> shutdown_state" where
  "goto t pc s = s\<lparr>sd_stage := (sd_stage s)(t := pc)\<rparr>"

definition logged :: "action \<Rightarrow> shutdown_state \<Rightarrow> shutdown_state" where
  "logged a s = s\<lparr>sd_log := sd_log s @ [a]\<rparr>"

definition powered_off :: "shutdown_state \<Rightarrow> shutdown_state" where
  "powered_off s = logged PowerOff (s\<lparr>sd_off := True\<rparr>)"

text \<open>
  The steps of thread \<open>t\<close>: \<open>request\<close> is the end of \<open>wait_for_trigger\<close>, \<open>failure\<close> a call of \<open>fatal_shutdown\<close> anywhere,
  \<open>app_exit_seen\<close> the watchdog's verdict. A wipe that hangs is one that takes no step.
\<close>

inductive thread_step :: "features \<Rightarrow> nat \<Rightarrow> shutdown_state \<Rightarrow> shutdown_state \<Rightarrow> bool" for ft t where
  request: "sd_stage s t = Working \<Longrightarrow> thread_step ft t s (goto t (Flagging True) s)"
| failure: "sd_stage s t \<in> {Working, Terming False} \<Longrightarrow> thread_step ft t s (goto t (Flagging False) s)"
| app_exit_seen: "t = 0 \<Longrightarrow> sd_stage s t = Working \<Longrightarrow> \<not> sd_app_alive s \<Longrightarrow> \<not> sd_in_progress s \<Longrightarrow>
    thread_step ft t s (goto t (Flagging False) s)"
| flag_graceful: "sd_stage s t = Flagging True \<Longrightarrow>
    thread_step ft t s (goto t (Terming True) (s\<lparr>sd_in_progress := True\<rparr>))"
| flag_fatal: "sd_stage s t = Flagging False \<Longrightarrow>
    thread_step ft t s (goto t AtSwap (s\<lparr>sd_in_progress := True\<rparr>))"
| send_term: "sd_stage s t = Terming True \<Longrightarrow> thread_step ft t s (goto t (Terming False) (s\<lparr>sd_app_termed := True\<rparr>))"
| grace_over: "sd_stage s t = Terming False \<Longrightarrow> thread_step ft t s (goto t AtSwap s)"
| swap_first: "sd_stage s t = AtSwap \<Longrightarrow> \<not> sd_wipe_started s \<Longrightarrow>
    thread_step ft t s (goto t AtArm (s\<lparr>sd_wipe_started := True\<rparr>))"
| swap_second: "sd_stage s t = AtSwap \<Longrightarrow> sd_wipe_started s \<Longrightarrow> thread_step ft t s (goto t AtPowerOff s)"
| armed: "sd_stage s t = AtArm \<Longrightarrow>
    thread_step ft t s (goto t AtKill (s\<lparr>sd_deadlines := Suc (sd_deadlines s)\<rparr>))"
| not_armed: "sd_stage s t = AtArm \<Longrightarrow> thread_step ft t s (goto t AtPowerOff s)"
| kill: "sd_stage s t = AtKill \<Longrightarrow>
    thread_step ft t s (goto t Settling (logged KillAll (s\<lparr>sd_app_alive := False\<rparr>)))"
| settled: "sd_stage s t = Settling \<Longrightarrow> thread_step ft t s (goto t (Wiping (wipe_writable_state ft)) s)"
| wipe: "sd_stage s t = Wiping (op # ops) \<Longrightarrow> thread_step ft t s (goto t (Wiping ops) (logged (Wipe op) s))"
| wiped: "sd_stage s t = Wiping [] \<Longrightarrow> thread_step ft t s (goto t AtPowerOff s)"
| power_off: "sd_stage s t = AtPowerOff \<Longrightarrow> thread_step ft t s (powered_off s)"
| refused: "sd_stage s t = AtPowerOff \<Longrightarrow> thread_step ft t s (goto t AtHalt s)"
| halt: "sd_stage s t = AtHalt \<Longrightarrow> thread_step ft t s (powered_off s)"
| halt_refused: "sd_stage s t = AtHalt \<Longrightarrow> thread_step ft t s (goto t AtExit s)"
| exit_panics: "sd_stage s t = AtExit \<Longrightarrow> thread_step ft t s (powered_off s)"

text \<open>Outside the threads: the app exits, by itself (\<open>crash\<close>) or on \<open>SIGTERM\<close>; a deadline thread wakes up.\<close>

inductive shutdown_step :: "features \<Rightarrow> bool \<Rightarrow> shutdown_state \<Rightarrow> shutdown_state \<Rightarrow> bool" for ft crashes where
  by_thread: "\<not> sd_off s \<Longrightarrow> thread_step ft t s s' \<Longrightarrow> shutdown_step ft crashes s s'"
| app_termed: "\<not> sd_off s \<Longrightarrow> sd_app_termed s \<Longrightarrow> shutdown_step ft crashes s (s\<lparr>sd_app_alive := False\<rparr>)"
| app_crash: "\<not> sd_off s \<Longrightarrow> crashes \<Longrightarrow> shutdown_step ft crashes s (s\<lparr>sd_app_alive := False\<rparr>)"
| deadline: "\<not> sd_off s \<Longrightarrow> 0 < sd_deadlines s \<Longrightarrow> shutdown_step ft crashes s (powered_off s)"

inductive shutdown_run :: "features \<Rightarrow> bool \<Rightarrow> shutdown_state \<Rightarrow> bool" for ft crashes where
  start: "shutdown_run ft crashes shutdown_init"
| step: "shutdown_run ft crashes s \<Longrightarrow> shutdown_step ft crashes s s' \<Longrightarrow> shutdown_run ft crashes s'"

inductive_cases thread_stepE: "thread_step ft t s s'"
inductive_cases shutdown_stepE: "shutdown_step ft crashes s s'"

section \<open>One wipe, in order\<close>

definition wipe_script :: "features \<Rightarrow> action list" where
  "wipe_script ft = KillAll # map Wipe (wipe_writable_state ft)"

fun wiper_stage :: "stage \<Rightarrow> bool" where
  "wiper_stage AtArm = True"
| "wiper_stage AtKill = True"
| "wiper_stage Settling = True"
| "wiper_stage (Wiping _) = True"
| "wiper_stage _ = False"

text \<open>What is still to be done by the thread that is wiping, and whether its deadline thread runs.\<close>

fun still_to_do :: "features \<Rightarrow> stage \<Rightarrow> action list" where
  "still_to_do ft Settling = map Wipe (wipe_writable_state ft)"
| "still_to_do ft (Wiping ops) = map Wipe ops"
| "still_to_do ft _ = wipe_script ft"

definition wipe_inv :: "features \<Rightarrow> shutdown_state \<Rightarrow> bool" where
  "wipe_inv ft s \<longleftrightarrow>
     (\<exists>past rest. sd_log s = past @ (if sd_off s then [PowerOff] else []) \<and> wipe_script ft = past @ rest \<and>
        (\<not> sd_wipe_started s \<longrightarrow> past = []) \<and>
        (\<forall>t. wiper_stage (sd_stage s t) \<longrightarrow> rest = still_to_do ft (sd_stage s t))) \<and>
     (\<forall>t u. wiper_stage (sd_stage s t) \<and> wiper_stage (sd_stage s u) \<longrightarrow> t = u) \<and>
     (\<forall>t. wiper_stage (sd_stage s t) \<longrightarrow> sd_wipe_started s) \<and>
     (\<forall>t. wiper_stage (sd_stage s t) \<and> sd_stage s t \<noteq> AtArm \<longrightarrow> 0 < sd_deadlines s)"

lemma wipe_inv_init: "wipe_inv ft shutdown_init"
  by (simp add: wipe_inv_def shutdown_init_def)

lemma goto_simps [simp]:
  "sd_stage (goto t pc s) = (sd_stage s)(t := pc)" "sd_log (goto t pc s) = sd_log s"
  "sd_off (goto t pc s) = sd_off s" "sd_wipe_started (goto t pc s) = sd_wipe_started s"
  "sd_deadlines (goto t pc s) = sd_deadlines s" "sd_in_progress (goto t pc s) = sd_in_progress s"
  "sd_app_alive (goto t pc s) = sd_app_alive s" "sd_app_termed (goto t pc s) = sd_app_termed s"
  by (simp_all add: goto_def)

lemma logged_simps [simp]:
  "sd_stage (logged a s) = sd_stage s" "sd_log (logged a s) = sd_log s @ [a]"
  "sd_off (logged a s) = sd_off s" "sd_wipe_started (logged a s) = sd_wipe_started s"
  "sd_deadlines (logged a s) = sd_deadlines s" "sd_in_progress (logged a s) = sd_in_progress s"
  "sd_app_alive (logged a s) = sd_app_alive s" "sd_app_termed (logged a s) = sd_app_termed s"
  by (simp_all add: logged_def)

lemma wipe_inv_off: "wipe_inv ft s \<Longrightarrow> \<not> sd_off s \<Longrightarrow> wipe_inv ft (powered_off s)"
  unfolding wipe_inv_def powered_off_def by auto

text \<open>A step that leaves the log and the wiping threads alone keeps the invariant.\<close>

lemma wipe_inv_goto:
  assumes "wipe_inv ft s" and "sd_log s' = sd_log s" and "sd_off s' = sd_off s"
    and "sd_wipe_started s' = sd_wipe_started s" and "sd_deadlines s' = sd_deadlines s"
    and "sd_stage s' = (sd_stage s)(t := pc)" and "\<not> wiper_stage pc"
  shows "wipe_inv ft s'"
  using assms unfolding wipe_inv_def by auto

lemma wipe_inv_at:
  assumes "wipe_inv ft s" and "\<not> sd_off s" and "wiper_stage (sd_stage s t)"
  shows "wipe_script ft = sd_log s @ still_to_do ft (sd_stage s t)" and "sd_wipe_started s"
    and "\<And>u. wiper_stage (sd_stage s u) \<Longrightarrow> u = t" and "sd_stage s t \<noteq> AtArm \<Longrightarrow> 0 < sd_deadlines s"
  using assms unfolding wipe_inv_def by auto

text \<open>A step that leaves \<open>t\<close> the only thread wiping.\<close>

lemma wipe_inv_wiper:
  assumes "\<not> sd_off s'" and "sd_wipe_started s'" and "sd_stage s' = (sd_stage s)(t := pc)" and "wiper_stage pc"
    and "\<And>u. wiper_stage (sd_stage s u) \<Longrightarrow> u = t" and "wipe_script ft = sd_log s' @ still_to_do ft pc"
    and "pc \<noteq> AtArm \<Longrightarrow> 0 < sd_deadlines s'"
  shows "wipe_inv ft s'"
  unfolding wipe_inv_def using assms by (auto split: if_splits)

lemma wipe_inv_thread:
  assumes "wipe_inv ft s" and "\<not> sd_off s" and "thread_step ft t s s'"
  shows "wipe_inv ft s'"
  using assms(3)
proof (cases rule: thread_step.cases)
  case swap_first
  then have "\<not> wiper_stage (sd_stage s u)" "sd_log s = []" for u
    using assms(1,2) unfolding wipe_inv_def by auto
  with swap_first assms(2) show ?thesis
    by (intro wipe_inv_wiper [where s = s and t = t and pc = AtArm]) auto
next
  case armed
  with wipe_inv_at [OF assms(1,2), of t] assms(2) show ?thesis
    by (intro wipe_inv_wiper [where s = s and t = t and pc = AtKill]) auto
next
  case kill
  with wipe_inv_at [OF assms(1,2), of t] assms(2) show ?thesis
    by (intro wipe_inv_wiper [where s = s and t = t and pc = Settling]) (auto simp: wipe_script_def)
next
  case settled
  with wipe_inv_at [OF assms(1,2), of t] assms(2) show ?thesis
    by (intro wipe_inv_wiper [where s = s and t = t and pc = "Wiping (wipe_writable_state ft)"]) auto
next
  case (wipe op ops)
  with wipe_inv_at [OF assms(1,2), of t] assms(2) show ?thesis
    by (intro wipe_inv_wiper [where s = s and t = t and pc = "Wiping ops"]) auto
qed (use assms(1,2) wipe_inv_off wipe_inv_goto [OF assms(1)] in auto)

lemma wipe_inv_run: "shutdown_run ft crashes s \<Longrightarrow> wipe_inv ft s"
proof (induction rule: shutdown_run.induct)
  case (step s s')
  from step.hyps(2) show ?case
  proof (cases rule: shutdown_step.cases)
    case (by_thread t)
    with step.IH show ?thesis by (blast intro: wipe_inv_thread)
  next
    case deadline
    with step.IH show ?thesis by (simp add: wipe_inv_off)
  qed (use step.IH in \<open>simp_all add: wipe_inv_def\<close>)
qed (rule wipe_inv_init)

text \<open>
  C5. However many threads start a shutdown, gracefully or fatally, and however they interleave: the machine is killed and
  wiped at most once, by one thread; every process is killed before anything is scrubbed; the scrub goes in the order of
  \<open>wipe_writable_state\<close>, \<open>/var\<close> after its mounts and before the sync; and nothing happens after the power-off.
\<close>

theorem one_wipe_in_order:
  assumes "shutdown_run ft crashes s"
  shows "(\<exists>past. prefix past (KillAll # map Wipe (wipe_writable_state ft)) \<and>
      sd_log s = past @ (if sd_off s then [PowerOff] else [])) \<and>
    (\<exists>t. {u. wiper_stage (sd_stage s u)} \<subseteq> {t})"
proof -
  have inv: "wipe_inv ft s" using assms by (rule wipe_inv_run)
  then obtain past rest where "sd_log s = past @ (if sd_off s then [PowerOff] else [])"
    "wipe_script ft = past @ rest" unfolding wipe_inv_def by blast
  moreover have "\<exists>t. {u. wiper_stage (sd_stage s u)} \<subseteq> {t}"
    using inv unfolding wipe_inv_def by (cases "\<exists>t. wiper_stage (sd_stage s t)") blast+
  ultimately show ?thesis unfolding wipe_script_def by auto
qed

section \<open>Refinement of a one-shot wipe\<close>

text \<open>
  What the protocol implements, without threads, flags and deadlines: a script of actions that is carried out once,
  from the front, and cut off by the power-off, the only way out.
\<close>

datatype one_shot = Pending "action list" | Off

inductive one_shot_step :: "one_shot \<Rightarrow> action \<Rightarrow> one_shot \<Rightarrow> bool" where
  next_action: "one_shot_step (Pending (a # rest)) a (Pending rest)"
| cut_off: "one_shot_step (Pending rest) PowerOff Off"

inductive one_shot_trace :: "one_shot \<Rightarrow> action list \<Rightarrow> one_shot \<Rightarrow> bool" where
  none: "one_shot_trace a [] a"
| further: "one_shot_trace a l b \<Longrightarrow> one_shot_step b x c \<Longrightarrow> one_shot_trace a (l @ [x]) c"

definition wipe_abs :: "features \<Rightarrow> shutdown_state \<Rightarrow> one_shot" where
  "wipe_abs ft s = (if sd_off s then Off else Pending (drop (length (sd_log s)) (wipe_script ft)))"

text \<open>A step that leaves the log alone is a stutter; one that adds to it is a step of the script.\<close>

definition simulates :: "features \<Rightarrow> shutdown_state \<Rightarrow> shutdown_state \<Rightarrow> bool" where
  "simulates ft s s' \<longleftrightarrow>
     sd_log s' = sd_log s \<and> wipe_abs ft s' = wipe_abs ft s \<or>
     (\<exists>a. sd_log s' = sd_log s @ [a] \<and> one_shot_step (wipe_abs ft s) a (wipe_abs ft s'))"

lemma simulates_stutter: "sd_log s' = sd_log s \<Longrightarrow> sd_off s' = sd_off s \<Longrightarrow> simulates ft s s'"
  by (simp add: simulates_def wipe_abs_def)

lemma simulates_off: "\<not> sd_off s \<Longrightarrow> simulates ft s (powered_off s)"
  by (simp add: simulates_def wipe_abs_def powered_off_def cut_off)

lemma simulates_action:
  assumes "\<not> sd_off s" "\<not> sd_off s'" "sd_log s' = sd_log s @ [a]" "wipe_script ft = sd_log s @ a # rest"
  shows "simulates ft s s'"
  unfolding simulates_def wipe_abs_def using assms next_action [of a rest] by simp

lemma thread_step_simulates:
  assumes "wipe_inv ft s" and "\<not> sd_off s" and "thread_step ft t s s'"
  shows "simulates ft s s'"
  using assms(3)
proof (cases rule: thread_step.cases)
  case kill
  with wipe_inv_at(1) [OF assms(1,2), of t] have "wipe_script ft = sd_log s @ KillAll # map Wipe (wipe_writable_state ft)"
    by (simp add: wipe_script_def)
  with kill assms(2) show ?thesis by (intro simulates_action) auto
next
  case (wipe op ops)
  with wipe_inv_at(1) [OF assms(1,2), of t] have "wipe_script ft = sd_log s @ Wipe op # map Wipe ops" by simp
  with wipe assms(2) show ?thesis by (intro simulates_action) auto
qed (use assms(2) in \<open>auto intro: simulates_stutter simulates_off\<close>)

lemma shutdown_step_simulates:
  assumes "wipe_inv ft s" and "shutdown_step ft crashes s s'"
  shows "simulates ft s s'"
  using assms(2)
proof (cases rule: shutdown_step.cases)
  case (by_thread t)
  with assms(1) show ?thesis by (intro thread_step_simulates)
qed (auto intro: simulates_stutter simulates_off)

lemma shutdown_log_trace:
  "shutdown_run ft crashes s \<Longrightarrow> one_shot_trace (Pending (wipe_script ft)) (sd_log s) (wipe_abs ft s)"
proof (induction rule: shutdown_run.induct)
  case start
  show ?case by (simp add: wipe_abs_def shutdown_init_def none)
next
  case (step s s')
  have "simulates ft s s'"
    using wipe_inv_run [OF step.hyps(1)] step.hyps(2) by (rule shutdown_step_simulates)
  with step.IH show ?case unfolding simulates_def by (auto intro: further)
qed


section \<open>The machine goes off\<close>

text \<open>By the thread's own steps, whichever way its calls turn out.\<close>

inductive thread_ends :: "features \<Rightarrow> nat \<Rightarrow> shutdown_state \<Rightarrow> bool" for ft t where
  off: "sd_off s \<Longrightarrow> thread_ends ft t s"
| goes_on: "thread_step ft t s s1 \<Longrightarrow> (\<And>s'. thread_step ft t s s' \<Longrightarrow> thread_ends ft t s') \<Longrightarrow> thread_ends ft t s"

text \<open>How far a thread is from the power-off; a thread in its grace period may still fail, and start over.\<close>

fun distance :: "features \<Rightarrow> stage \<Rightarrow> nat" where
  "distance ft Working = 0"
| "distance ft (Flagging g) = length (wipe_writable_state ft) + (if g then 12 else 9)"
| "distance ft (Terming first) = length (wipe_writable_state ft) + (if first then 11 else 10)"
| "distance ft AtSwap = length (wipe_writable_state ft) + 8"
| "distance ft AtArm = length (wipe_writable_state ft) + 7"
| "distance ft AtKill = length (wipe_writable_state ft) + 6"
| "distance ft Settling = length (wipe_writable_state ft) + 5"
| "distance ft (Wiping ops) = length ops + 4"
| "distance ft AtPowerOff = 3"
| "distance ft AtHalt = 2"
| "distance ft AtExit = 1"

lemma thread_step_closer:
  assumes "thread_step ft t s s'" and "sd_stage s t \<noteq> Working"
  shows "sd_off s' \<or> sd_stage s' t \<noteq> Working \<and> distance ft (sd_stage s' t) < distance ft (sd_stage s t)"
  using assms by (cases rule: thread_step.cases) (auto simp: powered_off_def)

lemma thread_step_exists:
  assumes "sd_stage s t \<noteq> Working"
  shows "\<exists>s'. thread_step ft t s s'"
proof (cases "sd_stage s t")
  case (Flagging g)
  then show ?thesis by (cases g) (fastforce intro: flag_graceful flag_fatal)+
next
  case (Terming first)
  then show ?thesis by (cases first) (fastforce intro: send_term grace_over)+
next
  case (Wiping ops)
  then show ?thesis using wipe [of s t _ _ ft] wiped [of s t ft] by (cases ops) blast+
next
  case AtSwap
  then show ?thesis using swap_first [of s t ft] swap_second [of s t ft] by blast
qed (use assms in \<open>blast intro: armed kill settled power_off halt exit_panics\<close>)+

lemma thread_ends: "sd_stage s t \<noteq> Working \<Longrightarrow> thread_ends ft t s"
proof (induction "distance ft (sd_stage s t)" arbitrary: s rule: less_induct)
  case less
  from thread_step_exists [OF less.prems] obtain s1 where "thread_step ft t s s1" by blast
  then show ?case
  proof (rule goes_on)
    fix s' assume "thread_step ft t s s'"
    from thread_step_closer [OF this less.prems] less.hyps show "thread_ends ft t s'"
      by (auto intro: thread_ends.off)
  qed
qed


section \<open>The watchdog\<close>

definition ECHILD :: nat where [nums]: "ECHILD = 10"

text \<open>What \<open>waitpid(-1)\<close> returned, and the shutdown flag read after it.\<close>

datatype wait_result = Reaped int | NothingReaped | WaitFailed nat

fun watchdog_loop :: "nat \<Rightarrow> (wait_result \<times> bool) list \<Rightarrow> fatal option" where
  "watchdog_loop app_pid [] = None"
| "watchdog_loop app_pid ((r, shutting_down) # obs) =
     (case r of
        WaitFailed e \<Rightarrow>
          if e = ECHILD \<and> \<not> shutting_down then Some NoProcessesLeft else watchdog_loop app_pid obs
      | NothingReaped \<Rightarrow> watchdog_loop app_pid obs
      | Reaped raw \<Rightarrow>
          let pid = (if raw < 0 then 0 else nat raw) in
          if pid \<noteq> app_pid then watchdog_loop app_pid obs
          else if shutting_down then watchdog_loop app_pid obs
          else Some AppExited)"

text \<open>The watchdog has no deadline.\<close>

definition watchdog_turn :: "nat \<Rightarrow> wait_result \<times> bool \<Rightarrow> nat + fatal" where
  "watchdog_turn app_pid = (\<lambda>(r, shutting_down).
     if shutting_down then Inl app_pid
     else if r = WaitFailed ECHILD then Inr NoProcessesLeft
     else if r \<in> Reaped ` {raw. (if raw < 0 then 0 else nat raw) = app_pid} then Inr AppExited
     else Inl app_pid)"

interpretation watchdog: observed_loop watchdog_loop "\<lambda>_. None" watchdog_turn
  by unfold_locales (auto simp: watchdog_turn_def Let_def split: wait_result.splits if_splits)

definition reaped :: "nat \<Rightarrow> wait_result \<Rightarrow> bool" where
  "reaped app_pid r \<longleftrightarrow> (\<exists>raw. r = Reaped raw \<and> (if raw < 0 then 0 else nat raw) = app_pid)"

text \<open>
  The watchdog ends the guest exactly when, with no shutdown in progress, it reaps the app or finds that no process is
  left; other children and other errors never do.
\<close>

lemma watchdog_verdict:
  "watchdog_loop app_pid obs \<noteq> None \<longleftrightarrow>
     list_ex (\<lambda>(r, shutting_down). \<not> shutting_down \<and> (reaped app_pid r \<or> r = WaitFailed ECHILD)) obs"
  by (induction app_pid obs rule: watchdog_loop.induct) (auto simp: reaped_def Let_def split: wait_result.splits)

section \<open>A graceful stop is not a compromise\<close>

fun before_flag :: "stage \<Rightarrow> bool" where
  "before_flag Working = True"
| "before_flag (Flagging _) = True"
| "before_flag _ = False"

definition flag_inv :: "shutdown_state \<Rightarrow> bool" where
  "flag_inv s \<longleftrightarrow>
     ((sd_app_termed s \<or> \<not> sd_app_alive s) \<longrightarrow> sd_in_progress s) \<and>
     (\<forall>t. \<not> before_flag (sd_stage s t) \<longrightarrow> sd_in_progress s)"

lemma flag_inv_step: "flag_inv s \<Longrightarrow> shutdown_step ft False s s' \<Longrightarrow> flag_inv s'"
proof (erule shutdown_stepE)
  fix t assume inv: "flag_inv s" and step: "thread_step ft t s s'"
  have "before_flag (sd_stage s t) \<or> sd_in_progress s" using inv unfolding flag_inv_def by blast
  with step inv show "flag_inv s'"
    by (cases rule: thread_step.cases) (auto simp: flag_inv_def powered_off_def split: if_splits)
qed (auto simp: flag_inv_def powered_off_def)

text \<open>
  C32. As long as the app does not exit on its own, the watchdog never takes its exit for a compromise: whenever the app is
  gone, the flag the watchdog reads afterwards is already set, and the exit it reaps does not end the guest.
\<close>

theorem graceful_stop_no_compromise:
  assumes "shutdown_run ft False s" and "\<not> sd_app_alive s"
  shows "sd_in_progress s \<and>
    watchdog_loop app_pid [(Reaped (int app_pid), sd_in_progress s), (WaitFailed ECHILD, sd_in_progress s)] = None"
proof -
  have "flag_inv s"
    using assms(1)
  proof (induction rule: shutdown_run.induct)
    case start
    show ?case by (simp add: flag_inv_def shutdown_init_def)
  qed (rule flag_inv_step)
  with assms(2) show ?thesis by (simp add: flag_inv_def Let_def)
qed

end
