(* ===== verification/Wipe.thy ===== *)
theory Wipe
  imports Scrub Shutdown
begin

text \<open>
  What a shutdown leaves on the file systems: the actions in the log of the shutdown protocol (\<open>Shutdown\<close>) carried out on
  the tree of all mounted files by the scrub (\<open>Scrub\<close>).
\<close>

section \<open>The tree under a log\<close>

text \<open>
  The tree is the one that a walk from the root of the guest sees, with what is mounted in its place, so that the scrub of
  \<open>/var\<close> walks into \<open>/var/tmp\<close>. A subtree is changed where its path leads through directories only.
\<close>

fun change_at :: "path \<Rightarrow> (node \<Rightarrow> node) \<Rightarrow> node \<Rightarrow> node"
  and change_entry :: "string \<Rightarrow> path \<Rightarrow> (node \<Rightarrow> node) \<Rightarrow> dir \<Rightarrow> dir"
where
  "change_at [] f n = f n"
| "change_at (x # p) f (Directory d) = Directory (change_entry x p f d)"
| "change_at (x # p) f n = n"
| "change_entry x p f Empty = Empty"
| "change_entry x p f (Entry name n rest) =
     Entry name (if name = x then change_at p f n else n) (change_entry x p f rest)"

definition path_of :: "string \<Rightarrow> path" where
  "path_of p = filter (\<lambda>c. c \<noteq> []) (split_on (CHR ''/'') p)"

text \<open>\<open>fs d\<close> is the outcome of the calls below the scrubbed directory \<open>d\<close>.\<close>

fun wipe_effect :: "(path \<Rightarrow> fs_env) \<Rightarrow> wipe_op \<Rightarrow> node \<Rightarrow> node" where
  "wipe_effect fs (ScrubDir d) root =
     change_at (path_of d) (\<lambda>n. fst (scrub_dir (fs (path_of d)) 0 n)) root"
| "wipe_effect fs UnmountVar root = root"
| "wipe_effect fs Sync root = root"

fun act :: "(path \<Rightarrow> fs_env) \<Rightarrow> action \<Rightarrow> node \<Rightarrow> node" where
  "act fs (Wipe op) root = wipe_effect fs op root"
| "act fs _ root = root"

definition tree_after :: "(path \<Rightarrow> fs_env) \<Rightarrow> action list \<Rightarrow> node \<Rightarrow> node" where
  "tree_after fs log root = fold (act fs) log root"

section \<open>Files of a changed subtree\<close>

lemma files_shift: "set (files (p @ q) n) = (\<lambda>(r, bs). (p @ r, bs)) ` set (files q n)"
  "set (dir_files (p @ q) d) = (\<lambda>(r, bs). (p @ r, bs)) ` set (dir_files q d)"
  by (induction q n and q d rule: files_dir_files.induct) (simp_all add: image_Un)

lemma files_below: "(q, bs) \<in> set (files p n) \<longleftrightarrow> (\<exists>r. q = p @ r \<and> (r, bs) \<in> set (files [] n))"
  using files_shift(1) [of p "[]" n] by auto

lemma dir_files_below: "(q, bs) \<in> set (dir_files p d) \<longleftrightarrow> (\<exists>r. q = p @ r \<and> (r, bs) \<in> set (dir_files [] d))"
  using files_shift(2) [of p "[]" d] by auto

text \<open>A file of the changed tree is one outside the subtree, as it was, or one of a changed subtree.\<close>

lemma change_at_files:
  "(q, bs) \<in> set (files p (change_at d f n)) \<Longrightarrow>
     \<not> prefix (p @ d) q \<and> (q, bs) \<in> set (files p n) \<or>
     (\<exists>m r. q = p @ d @ r \<and> (r, bs) \<in> set (files [] (f m)) \<and> (\<forall>b. (r, b) \<in> set (files [] m) \<longrightarrow> (q, b) \<in> set (files p n)))"
  "(q, bs) \<in> set (dir_files p (change_entry x d f e)) \<Longrightarrow>
     \<not> prefix (p @ x # d) q \<and> (q, bs) \<in> set (dir_files p e) \<or>
     (\<exists>m r. q = p @ x # d @ r \<and> (r, bs) \<in> set (files [] (f m)) \<and> (\<forall>b. (r, b) \<in> set (files [] m) \<longrightarrow> (q, b) \<in> set (dir_files p e)))"
proof (induction d f n and x d f e arbitrary: p and p rule: change_at_change_entry.induct)
  case (1 f n)
  then obtain r where r: "q = p @ r" "(r, bs) \<in> set (files [] (f n))"
    using files_below [of q bs p "f n"] by auto
  moreover have "(q, b) \<in> set (files p n)" if "(r, b) \<in> set (files [] n)" for b
    using that r(1) files_below [of q b p n] by blast
  ultimately show ?case by auto
next
  case (5 x d f name n rest)
  have other: "\<not> prefix (p @ x # d) q" if "name \<noteq> x" "(q, bs) \<in> set (files (p @ [name]) n)"
    using that files_below [of q bs "p @ [name]" n] by auto
  from "5.prems" consider "name = x" "(q, bs) \<in> set (files (p @ [x]) (change_at d f n))"
    | "name \<noteq> x" "(q, bs) \<in> set (files (p @ [name]) n)" | "(q, bs) \<in> set (dir_files p (change_entry x d f rest))"
    by (auto split: if_splits)
  then show ?case
  proof cases
    case 1
    with "5.IH"(1) [of "p @ [x]"] show ?thesis by fastforce
  next
    case 2
    with other show ?thesis by simp
  next
    case 3
    with "5.IH"(2) [of p] show ?thesis by fastforce
  qed
qed (auto simp: prefix_def)

section \<open>What a scrub erases\<close>

text \<open>No directory stays unread and no write fails; types may be missing, and nothing need be removable.\<close>

definition reachable :: "fs_env \<Rightarrow> bool" where
  "reachable fs \<longleftrightarrow> (\<forall>p. fs_reads fs p \<and> fs_opens fs p \<and> fs_fails_after fs p = None)"

definition erased :: "byte list \<Rightarrow> bool" where
  "erased bs \<longleftrightarrow> set bs \<subseteq> {0}"

lemma zeroing_erased: "zeroing bs bs' \<Longrightarrow> erased bs \<Longrightarrow> erased bs'"
  unfolding zeroing_def zero_front_def erased_def using set_drop_subset by fastforce

lemma zero_front_nth: "i < length bs \<Longrightarrow> zero_front n bs ! i = (if i < n then 0 else bs ! i)"
  by (simp add: zero_front_def nth_append)

lemma zeroing_trans:
  assumes "zeroing a b" and "zeroing b c"
  shows "zeroing a c"
proof -
  have "zero_front m (zero_front n a) = zero_front (max m n) a" for m n
    by (rule nth_equalityI) (auto simp: zero_front_nth less_max_iff_disj)
  with assms show ?thesis unfolding zeroing_def by metis
qed

definition named :: "path \<Rightarrow> bool" where
  "named q \<longleftrightarrow> ''.'' \<notin> set q \<and> ''..'' \<notin> set q"

lemma scrub_erases:
  "reachable fs \<Longrightarrow> length p = Suc depth \<Longrightarrow> depth < MAX_SCRUB_DEPTH \<Longrightarrow> named q \<Longrightarrow> length q \<le> MAX_SCRUB_DEPTH \<Longrightarrow>
     fst (scrub_entry fs p depth n) = Some n' \<Longrightarrow> (q, bs) \<in> set (files p n') \<Longrightarrow> erased bs"
  "reachable fs \<Longrightarrow> length p = depth \<Longrightarrow> depth < MAX_SCRUB_DEPTH \<Longrightarrow> named q \<Longrightarrow> length q \<le> MAX_SCRUB_DEPTH \<Longrightarrow>
     (q, bs) \<in> set (dir_files p (fst (scrub_entries fs p depth d))) \<Longrightarrow> erased bs"
proof (induction fs p depth n and fs p depth d arbitrary: n' and rule: scrub_entry_scrub_entries.induct)
  case (1 fs p depth d)
  then show ?case
    using dir_files_longer(2) [of q bs p d] by (auto simp: Let_def reachable_def split: if_splits prod.splits)
next
  case (2 fs p depth bs)
  then show ?case by (auto simp: Let_def reachable_def overwrite_file_eq erased_def split: if_splits)
next
  case (6 fs p depth name n rest)
  have "named q \<Longrightarrow> (q, bs) \<in> set (files (p @ [name]) n) \<Longrightarrow> name \<noteq> ''.'' \<and> name \<noteq> ''..''"
    using files_below [of q bs "p @ [name]" n] by (auto simp: named_def)
  with 6 show ?case by (auto simp: Let_def split: if_splits prod.splits option.splits)
qed (auto split: if_splits)

lemma scrub_dir_cases:
  "fst (scrub_dir fs 0 m) = m \<and> (reachable fs \<longrightarrow> (\<forall>d. m \<noteq> Directory d)) \<or>
   (\<exists>d. m = Directory d \<and> fst (scrub_dir fs 0 m) = Directory (fst (scrub_entries fs [] 0 d)))"
  by (cases m) (auto simp: scrub_dir_def scrub_open_dir_def reachable_def MAX_SCRUB_DEPTH_def split: prod.splits)

lemma file_at_root: "(r, bs) \<in> set (files [] m) \<Longrightarrow> \<forall>d. m \<noteq> Directory d \<Longrightarrow> r = []"
  by (cases m) auto

lemma scrub_dir_erases:
  assumes "(r, bs) \<in> set (files [] (fst (scrub_dir fs 0 m)))"
  shows "\<exists>b. (r, b) \<in> set (files [] m) \<and> zeroing b bs"
    and "reachable fs \<Longrightarrow> named r \<Longrightarrow> r \<noteq> [] \<Longrightarrow> length r \<le> MAX_SCRUB_DEPTH \<Longrightarrow> erased bs"
proof -
  show "\<exists>b. (r, b) \<in> set (files [] m) \<and> zeroing b bs"
    using scrub_dir_cases [of fs m]
  proof (elim disjE exE conjE)
    fix d assume d: "m = Directory d" "fst (scrub_dir fs 0 m) = Directory (fst (scrub_entries fs [] 0 d))"
    with assms have "(r, bs) \<in> set (dir_files [] (fst (scrub_entries fs [] 0 d)))" by simp
    with d(1) scrub_keeps_contents(2) [of r bs fs "[]" 0 d] show ?thesis by simp
  qed (use assms in \<open>auto intro: zeroing_refl\<close>)
  assume "reachable fs" "named r" "r \<noteq> []" "length r \<le> MAX_SCRUB_DEPTH"
  with scrub_dir_cases [of fs m] assms file_at_root [of r bs m] scrub_erases(2) [of fs "[]" 0 r bs]
  show "erased bs" by (fastforce simp: MAX_SCRUB_DEPTH_def)
qed

section \<open>What the wipe erases\<close>

text \<open>A file below one of the directories, no deeper than the ceiling.\<close>

definition below :: "path set \<Rightarrow> path \<Rightarrow> bool" where
  "below ds q \<longleftrightarrow> (\<exists>d\<in>ds. \<exists>r. q = d @ r \<and> r \<noteq> [] \<and> length r \<le> MAX_SCRUB_DEPTH)"

definition wiped_tree :: "path set \<Rightarrow> node \<Rightarrow> node \<Rightarrow> bool" where
  "wiped_tree ds root root' \<longleftrightarrow>
     (\<forall>(q, bs)\<in>set (files [] root').
        (named q \<and> below ds q \<longrightarrow> erased bs) \<and>
        (\<exists>b. (q, b) \<in> set (files [] root) \<and> zeroing b bs \<and> ((\<forall>d\<in>ds. \<not> prefix d q) \<longrightarrow> b = bs)))"

lemma wiped_none: "wiped_tree {} root root"
  by (auto simp: wiped_tree_def below_def intro: zeroing_refl)

fun scrubbed_of :: "action \<Rightarrow> path set" where
  "scrubbed_of (Wipe (ScrubDir d)) = {path_of d}"
| "scrubbed_of _ = {}"

lemma wiped_scrub:
  assumes "wiped_tree ds root t" and "reachable fs"
  shows "wiped_tree (insert d ds) root (change_at d (\<lambda>n. fst (scrub_dir fs 0 n)) t)"
  unfolding wiped_tree_def
proof (clarify, rule conjI)
  fix q bs assume q: "(q, bs) \<in> set (files [] (change_at d (\<lambda>n. fst (scrub_dir fs 0 n)) t))"
  obtain b where b: "(q, b) \<in> set (files [] t)" "zeroing b bs" "\<not> prefix d q \<Longrightarrow> b = bs"
    and new: "named q \<Longrightarrow> q \<in> {d @ r |r. r \<noteq> [] \<and> length r \<le> MAX_SCRUB_DEPTH} \<Longrightarrow> erased bs"
  proof (cases "prefix d q")
    case True
    with change_at_files(1) [OF q] obtain m r where r: "q = d @ r" "(r, bs) \<in> set (files [] (fst (scrub_dir fs 0 m)))"
      "\<And>b. (r, b) \<in> set (files [] m) \<Longrightarrow> (q, b) \<in> set (files [] t)" by auto
    have "named q \<Longrightarrow> named r" by (simp add: r(1) named_def)
    with True r scrub_dir_erases(1) [OF r(2)] scrub_dir_erases(2) [OF r(2) assms(2)] that show ?thesis by fastforce
  next
    case False
    with change_at_files(1) [OF q] have "(q, bs) \<in> set (files [] t)" by auto
    with False that [of bs] show ?thesis by (auto simp: prefix_def)
  qed
  from assms(1) b(1) have old: "named q \<and> below ds q \<longrightarrow> erased b"
    "\<exists>a. (q, a) \<in> set (files [] root) \<and> zeroing a b \<and> ((\<forall>d\<in>ds. \<not> prefix d q) \<longrightarrow> a = b)"
    unfolding wiped_tree_def by blast+
  show "named q \<and> below (insert d ds) q \<longrightarrow> erased bs"
    using old(1) new zeroing_erased [OF b(2)] unfolding below_def by blast
  show "\<exists>a. (q, a) \<in> set (files [] root) \<and> zeroing a bs \<and> ((\<forall>d'\<in>insert d ds. \<not> prefix d' q) \<longrightarrow> a = bs)"
    using old(2) b(2,3) zeroing_trans by blast
qed

lemma wiped_log:
  assumes "\<And>d. reachable (fs d)" and "wiped_tree ds root t"
  shows "wiped_tree (ds \<union> \<Union> (scrubbed_of ` set log)) root (tree_after fs log t)"
  using assms(2)
proof (induction log arbitrary: ds t)
  case (Cons a log)
  have "wiped_tree (ds \<union> scrubbed_of a) root (act fs a t)"
    using Cons.prems wiped_scrub [OF Cons.prems assms(1)] by (cases a rule: scrubbed_of.cases) auto
  from Cons.IH [OF this] show ?case by (simp add: tree_after_def Un_assoc)
qed (simp add: tree_after_def)

section \<open>What a shutdown erases\<close>

definition scratch_dirs :: "features \<Rightarrow> path set" where
  "scratch_dirs ft = {[''var'', ''tmp''], [''tmp''], [''run''], [''dev'', ''shm'']} \<union>
     (if ft_storage_persistent ft then {} else {[''var'']})"

lemma script_scrubs: "\<Union> (scrubbed_of ` set (wipe_script ft)) = scratch_dirs ft"
  by (simp add: wipe_script_def wipe_writable_state_def scratch_dirs_def path_of_def insert_commute)

text \<open>The sync is the last action of the script, so a log that has it has the whole script.\<close>

lemma synced_log:
  assumes "shutdown_run ft crashes s" and "Wipe Sync \<in> set (sd_log s)"
  shows "sd_log s = wipe_script ft @ (if sd_off s then [PowerOff] else [])"
proof -
  obtain past rest where log: "sd_log s = past @ (if sd_off s then [PowerOff] else [])" "wipe_script ft = past @ rest"
    using wipe_inv_run [OF assms(1)] unfolding wipe_inv_def by blast
  have "Wipe Sync \<in> set past" using assms(2) log(1) by (auto split: if_splits)
  moreover obtain front where front: "wipe_script ft = front @ [Wipe Sync]" "Wipe Sync \<notin> set front"
    by (auto simp: wipe_script_def wipe_writable_state_def)
  ultimately have "rest = []"
    using log(2) by (cases rest rule: rev_cases) auto
  with log show ?thesis by simp
qed


end
