(* ===== verification/GuestLife.thy ===== *)
theory GuestLife
  imports BootProps Wipe
begin

text \<open>
  The whole life of the guest init: \<open>main\<close> of \<open>guest/src/main.rs\<close> with its fatal path and its watchdog, from the first call of
  the boot to the power-off.
\<close>

section \<open>Ways out of the process\<close>

text \<open>How the main thread ends: an exit of the process, or the wipe protocol with the error that led there.\<close>

datatype init_end = Exits nat | Wipes fatal

definition non_pid1_fatal_exit :: init_end where
  "non_pid1_fatal_exit = Exits 1"

definition wipe_and_power_off :: "bool \<Rightarrow> fatal \<Rightarrow> init_end" where
  "wipe_and_power_off pid1 e = (if \<not> pid1 then Exits 1 else Wipes e)"

definition fatal_shutdown :: "bool \<Rightarrow> fatal \<Rightarrow> init_end" where
  "fatal_shutdown pid1 e = (if \<not> pid1 then non_pid1_fatal_exit else wipe_and_power_off pid1 e)"

text \<open>Where \<open>wipe_and_power_off\<close> puts the calling thread: about to set \<open>SHUTDOWN_IN_PROGRESS\<close> on the fatal path.\<close>

definition enter_wipe :: "nat \<Rightarrow> shutdown_state \<Rightarrow> shutdown_state" where
  "enter_wipe t s = goto t (Flagging False) s"

section \<open>The main thread\<close>

text \<open>
  \<open>waits\<close> is what the watchdog's \<open>waitpid\<close> returns, with the shutdown flag read after it. The result is \<open>None\<close> while the
  boot waits or the watchdog has seen nothing yet.
\<close>

definition init_main ::
    "features \<Rightarrow> (string \<Rightarrow> string) \<Rightarrow> machine \<Rightarrow> (wait_result \<times> bool) list \<Rightarrow> event list \<Rightarrow>
      init_end option \<times> event list" where
  "init_main ft b M waits tr =
     (case boot ft b M tr of
        (None, tr') \<Rightarrow> (None, tr')
      | (Some (Inl e), tr') \<Rightarrow> (Some (fatal_shutdown (m_pid1 M) e), tr')
      | (Some (Inr app_pid), tr') \<Rightarrow>
          (map_option (fatal_shutdown (m_pid1 M)) (watchdog_loop app_pid waits), tr'))"

section \<open>The grace period\<close>

text \<open>
  Instants in milliseconds, up to the end of the clock's \<open>i64\<close> seconds; the clock is read again when the sum does not
  fit. A pid is probed only when it is a positive \<open>i32\<close>.
\<close>

definition CLOCK_END :: nat where
  "CLOCK_END = 2 ^ 63 * 1000"

definition deadline_after :: "nat \<Rightarrow> nat \<Rightarrow> nat \<Rightarrow> nat" where
  "deadline_after now now_again timeout = (if now + timeout < CLOCK_END then now + timeout else now_again)"

definition as_pid :: "u32 \<Rightarrow> nat option" where
  "as_pid pid = (if unat pid < 2 ^ 31 \<and> pid \<noteq> 0 then Some (unat pid) else None)"

definition process_alive :: "u32 \<Rightarrow> (nat \<Rightarrow> bool) \<Rightarrow> bool" where
  "process_alive pid probe = (case as_pid pid of None \<Rightarrow> False | Some p \<Rightarrow> probe p)"

text \<open>
  What the graceful path does before the shared tail: the \<open>SIGTERM\<close> it sends, and whether the app exited in time. Each
  observation is what \<open>kill(pid, 0)\<close> finds and the clock read after it.
\<close>

definition run_graceful_shutdown ::
    "u32 \<Rightarrow> nat \<Rightarrow> nat \<Rightarrow> ((nat \<Rightarrow> bool) \<times> nat) list \<Rightarrow> nat option \<times> bool option" where
  "run_graceful_shutdown app_pid now now_again obs =
     (as_pid app_pid,
      grace_loop (deadline_after now now_again SIGTERM_GRACE)
        (map (\<lambda>(probe, t). (process_alive app_pid probe, t)) obs))"

lemma graceful_decides:
  "obs \<noteq> [] \<Longrightarrow> as_pid app_pid = None \<Longrightarrow> run_graceful_shutdown app_pid now again obs = (None, Some True)"
  "list_ex (\<lambda>(probe, t). deadline_after now again SIGTERM_GRACE \<le> t) obs \<Longrightarrow>
     snd (run_graceful_shutdown app_pid now again obs) \<noteq> None"
proof -
  show "obs \<noteq> [] \<Longrightarrow> as_pid app_pid = None \<Longrightarrow> run_graceful_shutdown app_pid now again obs = (None, Some True)"
    by (cases obs) (auto simp: run_graceful_shutdown_def process_alive_def)
  show "list_ex (\<lambda>(probe, t). deadline_after now again SIGTERM_GRACE \<le> t) obs \<Longrightarrow>
      snd (run_graceful_shutdown app_pid now again obs) \<noteq> None"
    unfolding run_graceful_shutdown_def snd_conv
    by (rule grace.ends) (force simp: list_ex_iff)
qed

section \<open>A wipe that nothing disturbs\<close>

text \<open>The steps of thread \<open>t\<close> while the machine is on.\<close>

definition own_step :: "features \<Rightarrow> nat \<Rightarrow> shutdown_state \<Rightarrow> shutdown_state \<Rightarrow> bool" where
  "own_step ft t s s' \<longleftrightarrow> \<not> sd_off s \<and> thread_step ft t s s'"

lemma own_steps_run:
  assumes "(own_step ft t)\<^sup>*\<^sup>* s s'" and "shutdown_run ft crashes s"
  shows "shutdown_run ft crashes s'"
  using assms
  by (induction rule: rtranclp_induct) (auto simp: own_step_def intro: shutdown_run.step by_thread)

lemma entered_run: "shutdown_run ft crashes (enter_wipe t shutdown_init)"
proof -
  have "own_step ft t shutdown_init (enter_wipe t shutdown_init)"
    unfolding own_step_def enter_wipe_def by (auto simp: shutdown_init_def intro: failure)
  then show ?thesis using own_steps_run shutdown_run.start by blast
qed

lemma wiping_steps:
  "sd_stage s t = Wiping ops \<Longrightarrow> \<not> sd_off s \<Longrightarrow>
     \<exists>s'. (own_step ft t)\<^sup>*\<^sup>* s s' \<and> sd_stage s' t = AtPowerOff \<and> \<not> sd_off s' \<and> sd_log s' = sd_log s @ map Wipe ops"
proof (induction ops arbitrary: s)
  case Nil
  then have "own_step ft t s (goto t AtPowerOff s)" by (simp add: own_step_def wiped)
  with Nil show ?case by (intro exI [of _ "goto t AtPowerOff s"]) auto
next
  case (Cons op ops)
  let ?s = "goto t (Wiping ops) (logged (Wipe op) s)"
  have step: "own_step ft t s ?s" using Cons.prems by (simp add: own_step_def wipe)
  from Cons.IH [of ?s] Cons.prems obtain s' where "(own_step ft t)\<^sup>*\<^sup>* ?s s'" "sd_stage s' t = AtPowerOff" "\<not> sd_off s'"
    "sd_log s' = sd_log s @ map Wipe (op # ops)" by auto
  with step show ?case by (blast intro: converse_rtranclp_into_rtranclp)
qed

text \<open>With no second entry, no refused thread and no deadline, the whole script is carried out, and the machine goes off.\<close>

lemma entered_wipes:
  "\<exists>s. (own_step ft t)\<^sup>*\<^sup>* (enter_wipe t shutdown_init) s \<and> sd_off s \<and> sd_log s = wipe_script ft @ [PowerOff]"
proof -
  let ?s0 = "enter_wipe t shutdown_init"
  let ?s1 = "goto t AtSwap (?s0\<lparr>sd_in_progress := True\<rparr>)"
  let ?s2 = "goto t AtArm (?s1\<lparr>sd_wipe_started := True\<rparr>)"
  let ?s3 = "goto t AtKill (?s2\<lparr>sd_deadlines := Suc (sd_deadlines ?s2)\<rparr>)"
  let ?s4 = "goto t Settling (logged KillAll (?s3\<lparr>sd_app_alive := False\<rparr>))"
  let ?s5 = "goto t (Wiping (wipe_writable_state ft)) ?s4"
  note d = own_step_def enter_wipe_def shutdown_init_def goto_def logged_def
  have "own_step ft t ?s0 ?s1" "own_step ft t ?s1 ?s2" "own_step ft t ?s2 ?s3" "own_step ft t ?s3 ?s4"
      "own_step ft t ?s4 ?s5"
    unfolding own_step_def
    by (intro conjI flag_fatal swap_first armed kill settled; simp add: d)+
  then have "(own_step ft t)\<^sup>*\<^sup>* ?s0 ?s5" by (meson rtranclp.rtrancl_into_rtrancl rtranclp.rtrancl_refl)
  moreover obtain s6 where s6: "(own_step ft t)\<^sup>*\<^sup>* ?s5 s6" "sd_stage s6 t = AtPowerOff" "\<not> sd_off s6"
    "sd_log s6 = wipe_script ft"
    using wiping_steps [of ?s5 t "wipe_writable_state ft" ft] by (auto simp: wipe_script_def d)
  moreover have "own_step ft t s6 (powered_off s6)" using s6 by (simp add: own_step_def power_off)
  ultimately show ?thesis
    by (intro exI [of _ "powered_off s6"]) (auto simp: powered_off_def)
qed

section \<open>The guest fails closed\<close>

lemma boot_outside_pid1: "\<not> m_pid1 M \<Longrightarrow> boot ft b M [] = (Some (Inl NotPid1), [MlockAll])"
  by (simp add: boot_def attempt_def eff_then_def eff_bind_def ask_def eff_return_def eff_fatal_def)

lemma boot_value_last: "boot ft b M tr = (Some (Inr pid), tr') \<Longrightarrow> tr' \<noteq> [] \<and> last tr' = SpawnWatcher pid"
  by (auto simp: boot_def start_app_def value_iffs split: if_splits prod.splits)

text \<open>
  C20. The guest fails closed. Outside PID 1 the program changes nothing: it exits before its second call. In PID 1 it
  never exits: when the boot does not wait for an answer, either it ended in an error, which starts the wipe, or the watcher
  was the last thing started and the main thread is the watchdog, whose only way out is the wipe as well. A wipe entered
  like this turns the machine off by the thread's own steps, however they turn out, and with no call failing and no
  other thread in it, kills every process and carries out the whole wipe before.
\<close>

theorem init_fails_closed:
  assumes "init_main ft b M waits [] = (out, tr)"
  shows "(\<not> m_pid1 M \<longrightarrow> out = Some (Exits 1) \<and> tr = [MlockAll]) \<and>
    (m_pid1 M \<and> fst (boot ft b M []) \<noteq> None \<longrightarrow>
      (\<exists>e. out = Some (Wipes e)) \<or>
      (\<exists>pid. last tr = SpawnWatcher pid \<and> watchdog_loop pid waits = None \<and> out = None)) \<and>
    (\<forall>e. out = Some (Wipes e) \<longrightarrow>
      thread_ends ft 0 (enter_wipe 0 shutdown_init) \<and>
      (\<exists>s. (own_step ft 0)\<^sup>*\<^sup>* (enter_wipe 0 shutdown_init) s \<and> sd_off s \<and>
        sd_log s = KillAll # map Wipe (wipe_writable_state ft) @ [PowerOff]))"
proof (intro conjI allI impI)
  assume "\<not> m_pid1 M"
  with assms boot_outside_pid1 [of M ft b] show "out = Some (Exits 1)" "tr = [MlockAll]"
    by (simp_all add: init_main_def fatal_shutdown_def non_pid1_fatal_exit_def)
next
  assume "m_pid1 M \<and> fst (boot ft b M []) \<noteq> None"
  then show "(\<exists>e. out = Some (Wipes e)) \<or>
      (\<exists>pid. last tr = SpawnWatcher pid \<and> watchdog_loop pid waits = None \<and> out = None)"
    using assms boot_value_last [of ft b M "[]" _ tr]
    by (auto simp: init_main_def fatal_shutdown_def wipe_and_power_off_def split: option.splits sum.splits prod.splits)
next
  show "thread_ends ft 0 (enter_wipe 0 shutdown_init)"
    by (rule thread_ends) (simp add: enter_wipe_def)
  show "\<exists>s. (own_step ft 0)\<^sup>*\<^sup>* (enter_wipe 0 shutdown_init) s \<and> sd_off s \<and>
      sd_log s = KillAll # map Wipe (wipe_writable_state ft) @ [PowerOff]"
    using entered_wipes [of ft 0] by (simp add: wipe_script_def)
qed

end
