(* ===== verification/Runs.thy ===== *)
theory Runs
  imports Samples BootLive NetworkTypes GuestLife
begin

text \<open>
  Concrete runs: the sample image booting on a machine that does its part, a small tree scrubbed, and shutdowns, with the
  properties of the boot and of the shutdown applied to them.
\<close>

section \<open>A machine\<close>

definition root_creds :: creds where
  "root_creds = \<lparr>cr_limits = Map.empty, cr_bounding = {..40}, cr_groups = True, cr_gid = 0, cr_uid = 0, cr_mdwe = False,
     cr_no_new_privs = False, cr_landlocked = False, cr_filters = []\<rparr>"

definition acking_socket :: sock_env where
  "acking_socket = good_socket\<lparr>recvs := replicate 15 (Inr ack_message)\<rparr>"

definition sample_machine :: machine where
  "sample_machine =
     \<lparr>m_pid1 = True, m_env = calm_kernel, m_sock = acking_socket, m_entropy_start = 0,
      m_entropy = [(0, PollTimeout), (250, PollReady True)], m_settle_start = 0,
      m_settle = [(0, None, None), (40000, None, None)], m_bpf = bpf_ref, m_compile = list_compiler,
      m_child = (\<lambda>_ _. 0)\<rparr>"

lemma ack_drain: "drain a ack_message = Inr (Suc a)"
  by (simp add: drain.simps split_message_def check_reply_def ack_message_def nums get_range_def ne32_def
      ne16_def align4_def Let_def)

lemma acks_arrive:
  "ackable \<le> acks + k \<Longrightarrow> recv_loop ackable acks (replicate k (Inr ack_message)) = Some (Inr ())"
  by (induction k arbitrary: acks) (simp_all add: recv_loop.simps ack_eval ack_drain RECV_BUF_def)

lemma acking_socket_sends: "b_ackable batch \<le> 15 \<Longrightarrow> send_batch acking_socket batch = Some (Inr ())"
  using acks_arrive [of "b_ackable batch" 0 15]
  by (simp add: send_batch_def acking_socket_def good_socket_def del: replicate_numeral)

lemma calm_willing: "willing calm_kernel"
proof -
  have "succeeded (calm_kernel tr ev)" for tr ev by (cases ev) (simp_all add: calm_kernel_def)
  then show ?thesis by (simp add: willing_def calm_kernel_def)
qed

lemma sample_good: "good_machine sample_config sample_machine root_creds"
proof -
  let ?inbound = "fw_inbound (net_firewall (c_network sample_config))"
  have "length ?inbound = 3" by (simp add: sample_defs)
  then have "send_batch acking_socket batch = Some (Inr ())" if "build_batch ft (map rule_of ?inbound) = Inr batch" for ft batch
    using that build_batch_bytes [of "map rule_of ?inbound" ft] by (intro acking_socket_sends) auto
  then show ?thesis
    by (auto simp: good_machine_def sample_machine_def calm_willing seeded_Cons seeded_Nil MAX_WAIT_def root_creds_def
        list_compiler_def granting_kernel_def has_default_route_def)
qed

lemma sample_bootable: "bootable_values sample_config"
  by (simp add: bootable_values_def consts_lists parse_path_list_def encode_path_list_def)
    (simp add: sample_defs drop_empty_def)

lemma sample_boots:
  "\<exists>pid pre. boot (features_of (init_features sample_config)) (image_consts sample_config) sample_machine [] =
    (Some (Inr pid), pre @ [SpawnApp ''/payload/app'' [(''LANG'', ''C''), (''RUST_LOG'', ''info,a=b'')] True,
       SpawnWatcher pid])"
  using image_boots [OF sample_valid sample_good sample_bootable] by (simp add: sample_defs)


lemma sample_firewall: "ft_firewall (features_of (init_features sample_config))"
  by (simp add: firewall_feature) (simp add: sample_defs has_any_def)

lemma filter_before_network_witness:
  "\<exists>tr bs. snd (boot (features_of (init_features sample_config)) (image_consts sample_config) sample_machine []) = tr \<and>
     SendNetlink bs 15 \<in> set tr"
proof -
  obtain pid pre where run: "boot (features_of (init_features sample_config)) (image_consts sample_config) sample_machine []
      = (Some (Inr pid), pre @ SpawnApp ''/payload/app'' [(''LANG'', ''C''), (''RUST_LOG'', ''info,a=b'')] True #
          [SpawnWatcher pid])"
    using sample_boots by auto
  obtain rules batch where "parse_rules (image_consts sample_config ''CARGO_UNIKERNEL_FIREWALL_RULES'') = Inr rules"
    "build_batch (features_of (init_features sample_config)) rules = Inr batch"
    "SendNetlink (b_bytes batch) (b_ackable batch) \<in> set pre"
    using filter_before_network [OF run sample_firewall] by auto
  moreover have "parse_rules (image_consts sample_config ''CARGO_UNIKERNEL_FIREWALL_RULES'') =
      Inr (map rule_of default_firewall_inbound)"
    using sample_firewall
    by (simp add: consts_lists firewall_feature parse_rules_encode sample_valid [unfolded validate_iff valid_config_def])
      (simp add: sample_defs has_any_def)
  moreover have "length (map rule_of default_firewall_inbound) = 3" by (simp add: sample_defs)
  ultimately have "SendNetlink (b_bytes batch) 15 \<in> set pre"
    using build_batch_bytes [of "map rule_of default_firewall_inbound" "features_of (init_features sample_config)"] by auto
  with run show ?thesis by auto
qed


lemma init_fails_closed_witness:
  "fst (init_main (features_of []) (\<lambda>_. []) (sample_machine\<lparr>m_pid1 := False\<rparr>) [] []) = Some (Exits 1) \<and>
   (\<exists>e. fst (init_main (features_of (init_features sample_config)) (image_consts sample_config) sample_machine
      [(WaitFailed ECHILD, False)] []) = Some (Wipes e))"
proof -
  let ?outside = "init_main (features_of []) (\<lambda>_. []) (sample_machine\<lparr>m_pid1 := False\<rparr>) [] []"
  let ?orphaned = "init_main (features_of (init_features sample_config)) (image_consts sample_config) sample_machine
      [(WaitFailed ECHILD, False)] []"
  have "?outside = (fst ?outside, snd ?outside)" by simp
  from init_fails_closed [OF this] have "fst ?outside = Some (Exits 1)" by simp
  moreover have "?orphaned = (fst ?orphaned, snd ?orphaned)" by simp
  from init_fails_closed [OF this] have "\<exists>e. fst ?orphaned = Some (Wipes e)"
    using sample_boots by (auto simp: sample_machine_def)
  ultimately show ?thesis by blast
qed

section \<open>An ioctl of a boot\<close>

definition v6_only :: features where "v6_only = features_of [''net-ipv6'']"

lemma lo_down: "of_ne16 (take 2 (drop IFR_UNION (ifreq_for ''lo''))) AND IFF_UP = 0"
proof -
  have "drop IFR_UNION (ifreq_for ''lo'') = replicate 24 0"
    by (simp add: ifreq_for_def overwrite_def Let_def nums)
  then show ?thesis by (simp add: numeral_eq_Suc)
qed

lemma v6_prepare:
  "\<exists>tr. prepare_system_env v6_only (image_consts sample_config) calm_kernel ''/payload'' tr0 = (Some (Inr ()), tr) \<and>
     Ioctl ''AF_INET'' ''SIOCGIFFLAGS'' (ifreq_for ''lo'') \<in> set tr"
  by (simp add: prepare_system_env_def tmpfs_data_def consts_numbers mount_base_def base_mounts_def v6_only_def
      mount_var_tmp_def prepare_mount_directory_def mount_payload_def mount_fatal_def remount_fatal_def
      or_fatal_def mount_def mount_data_def bind_mount_def remount_def features_of_def show_word_no_nul
      init_networking_def non_loopback_interfaces_def ensure_interface_up_def ifreq_ioctl_def socket_ioctl_def lo_down
      Let_def eff_bind_def eff_then_def eff_lift_def eff_return_def ask_def attempt_def eff_when_def calm_kernel_def)

lemma ioctls_well_typed_witness: "ioctl_typed ''AF_INET'' ''SIOCGIFFLAGS'' (ifreq_for ''lo'')"
proof -
  let ?b = "image_consts sample_config"
  obtain uid gid where ids: "app_ids ?b = Inr (uid, gid)"
    using configured_ids [OF sample_valid] by (simp add: sample_defs)
  have pd: "?b ''CARGO_UNIKERNEL_PAYLOAD_DIR'' = ''/payload''" by (simp add: consts_options)
  obtain tr where p: "prepare_system_env v6_only ?b calm_kernel ''/payload'' [MlockAll, SetNonDumpable] =
      (Some (Inr ()), tr)" "Ioctl ''AF_INET'' ''SIOCGIFFLAGS'' (ifreq_for ''lo'') \<in> set tr"
    using v6_prepare by blast
  let ?rest = "eff_then (configure_system v6_only ?b sample_machine uid gid) (start_app v6_only ?b sample_machine)"
  obtain r tr' where run: "?rest tr = (r, tr')" by (cases "?rest tr")
  have "\<not> ft_firewall v6_only" by (simp add: v6_only_def features_of_def)
  then have "boot v6_only ?b sample_machine [] = (r, tr')"
    using run ids p(1) unfolding eff_then_def [of "configure_system _ _ _ _ _"]
    by (simp add: boot_def attempt_def set_self_non_dumpable_def install_firewall_def eff_when_def eff_then_def
      eff_bind_def ask_def eff_return_def eff_lift_def pd sample_machine_def)
  moreover have "Ioctl ''AF_INET'' ''SIOCGIFFLAGS'' (ifreq_for ''lo'') \<in> set tr'"
    using onlyD [OF only_boot_rest run] p(2) by auto
  moreover have "keeps_names (m_env sample_machine)"
    by (simp add: keeps_names_def sample_machine_def calm_kernel_def)
  ultimately show ?thesis using ioctls_well_typed by blast
qed

section \<open>The app's child process\<close>

definition sample_limits :: resource_limits where
  "sample_limits = \<lparr>lim_nofile = 1024, lim_nproc = 256, lim_memlock_bytes = 65536, lim_address_space_bytes = 0\<rparr>"

lemma chain_ok_always: "chain_ok (\<lambda>_ _. 0) tr steps"
  by (induction steps arbitrary: tr) auto

lemma app_sandboxed_witness:
  "cr_uid (creds_after (\<lambda>_ _. 0) [] (map fst (child_chain (features_of []) bpf_ref (\<lambda>_. 0) sample_limits 1000 1000))
     root_creds) = 1000"
proof -
  have "run_child (\<lambda>_ _. 0) [] (child_chain (features_of []) bpf_ref (\<lambda>_. 0) sample_limits 1000 1000) =
      (Inr (), map fst (child_chain (features_of []) bpf_ref (\<lambda>_. 0) sample_limits 1000 1000))"
    by (simp add: run_child_success chain_ok_always)
  from app_sandboxed [OF this, of root_creds] show ?thesis by (simp add: sandboxed_def)
qed

lemma chain_order_works_witness:
  "\<exists>ops. run_child (\<lambda>_ _. 0) [] (child_chain (features_of []) bpf_ref (\<lambda>_. 0) sample_limits 1000 1000) = (Inr (), ops)"
  by (rule chain_order_works [of root_creds]) (simp_all add: root_creds_def granting_kernel_def)

section \<open>A scrubbed tree\<close>

definition sample_tree :: dir where
  "sample_tree = Entry ''a'' (File [1, 2, 3]) (Entry ''b'' (Directory (Entry ''c'' (File [7]) Empty))
     (Entry ''d'' (Symlink ''/etc'') Empty))"

definition sound_disk :: fs_env where
  "sound_disk = \<lparr>fs_reads = (\<lambda>_. True), fs_has_type = (\<lambda>_. True), fs_opens = (\<lambda>_. True), fs_fails_after = (\<lambda>_. None),
     fs_unlinks = (\<lambda>_. True)\<rparr>"

definition full_disk :: fs_env where
  "full_disk = sound_disk\<lparr>fs_fails_after := (\<lambda>_. Some 2), fs_unlinks := (\<lambda>_. False)\<rparr>"

lemma scrub_overwrites_in_place_witness:
  "\<exists>bs n. ([''a''], bs) \<in> set (files [] (Directory sample_tree)) \<and> [0, 0, 3] = zero_front n bs"
proof -
  obtain root written where s: "scrub_dir full_disk 0 (Directory sample_tree) = (root, written)" by fastforce
  then have "([''a''], [0, 0, 3]) \<in> set written \<union> set (files [] root)"
    by (auto simp: scrub_dir_def scrub_open_dir_def sample_tree_def full_disk_def sound_disk_def overwrite_file_eq
        zero_front_def MAX_SCRUB_DEPTH_def Let_def split: prod.splits)
  from scrub_overwrites_in_place [OF s this] show ?thesis by blast
qed

lemma scrub_complete_witness:
  "scrub_dir sound_disk 0 (Directory sample_tree) = (Directory Empty, [([''a''], [0, 0, 0]), ([''b'', ''c''], [0])])"
proof -
  have "faultless sound_disk" "plain_dir sample_tree" "\<not> dir_has_special sample_tree" "dir_depth sample_tree = 1"
    by (simp_all add: faultless_def sound_disk_def sample_tree_def)
  from scrub_complete [OF this(1,2)] this(3,4) show ?thesis
    by (auto simp: MAX_SCRUB_DEPTH_def sample_tree_def within_def zeroed_def prod_eq_iff)
qed

text \<open>A guest whose file systems refuse every removal.\<close>

definition stuck_disk :: fs_env where
  "stuck_disk = sound_disk\<lparr>fs_unlinks := (\<lambda>_. False)\<rparr>"

definition guest_tree :: node where
  "guest_tree = Directory (Entry ''etc'' (Directory (Entry ''hosts'' (File [5]) Empty))
     (Entry ''var'' (Directory (Entry ''tmp'' (Directory (Entry ''key'' (File [1, 2]) Empty)) Empty)) Empty))"

lemma guest_tree_wiped:
  "files [] (tree_after (\<lambda>_. stuck_disk) (wipe_script (features_of []) @ [PowerOff]) guest_tree) =
     [([''etc'', ''hosts''], [5]), ([''var'', ''tmp'', ''key''], [0, 0])]"
  by (simp add: tree_after_def wipe_script_def wipe_writable_state_def features_of_def path_of_def guest_tree_def
      scrub_dir_def scrub_open_dir_def overwrite_file_eq stuck_disk_def sound_disk_def MAX_SCRUB_DEPTH_def Let_def)


section \<open>Shutdowns\<close>

text \<open>A signal handled before the watcher has published its pipe.\<close>

definition early_signal :: trigger_state where
  "early_signal = trigger_init\<lparr>tg_received := True\<rparr>"

lemma early_signal_run: "trigger_run early_signal"
proof -
  let ?s1 = "trigger_init\<lparr>tg_storing := Suc (tg_storing trigger_init)\<rparr>"
  let ?s2 = "?s1\<lparr>tg_storing := 0, tg_loading := Suc (tg_loading ?s1), tg_received := True\<rparr>"
  have 1: "trigger_run ?s1"
    using trigger_run.start trigger_run.handler handler_step.delivered by blast
  have 2: "trigger_run ?s2"
    by (rule trigger_run.handler [OF 1 handler_step.store]) (simp add: trigger_init_def)
  have "trigger_run (?s2\<lparr>tg_loading := 0\<rparr>)"
    by (rule trigger_run.handler [OF 2 handler_step.load_unset]) (simp_all add: trigger_init_def)
  then show ?thesis by (simp add: early_signal_def trigger_init_def)
qed

lemma sigterm_never_lost_witness: "watcher_returns early_signal"
  using sigterm_never_lost [OF early_signal_run] by (simp add: early_signal_def trigger_init_def)

lemma run_thread: "shutdown_run ft crashes s \<Longrightarrow> \<not> sd_off s \<Longrightarrow> thread_step ft t s s' \<Longrightarrow> shutdown_run ft crashes s'"
  by (blast intro: shutdown_run.step by_thread)

text \<open>A graceful request on thread 1, up to the grace period.\<close>

definition termed_state :: shutdown_state where
  "termed_state = goto 1 (Terming False) (shutdown_init\<lparr>sd_in_progress := True, sd_app_termed := True\<rparr>)"

lemma termed_run: "shutdown_run ft crashes termed_state"
proof -
  let ?s1 = "goto 1 (Flagging True) shutdown_init"
  let ?s2 = "goto 1 (Terming True) (?s1\<lparr>sd_in_progress := True\<rparr>)"
  have 1: "shutdown_run ft crashes ?s1"
    by (rule run_thread [OF shutdown_run.start _ thread_step.request]) (simp_all add: shutdown_init_def)
  have 2: "shutdown_run ft crashes ?s2"
    by (rule run_thread [OF 1 _ thread_step.flag_graceful]) (simp_all add: shutdown_init_def)
  have "shutdown_run ft crashes (goto 1 (Terming False) (?s2\<lparr>sd_app_termed := True\<rparr>))"
    by (rule run_thread [OF 2 _ thread_step.send_term]) (simp_all add: shutdown_init_def goto_def)
  then show ?thesis by (simp add: termed_state_def goto_def)
qed

lemma one_wipe_in_order_witness: "\<exists>t. {u. wiper_stage (sd_stage termed_state u)} \<subseteq> {t}"
  using one_wipe_in_order [OF termed_run [of "features_of []" True]] by blast


lemma graceful_stop_no_compromise_witness: "sd_in_progress (termed_state\<lparr>sd_app_alive := False\<rparr>)"
proof -
  have "shutdown_run (features_of []) False (termed_state\<lparr>sd_app_alive := False\<rparr>)"
    by (rule shutdown_run.step [OF termed_run app_termed]) (simp_all add: termed_state_def goto_def shutdown_init_def)
  from graceful_stop_no_compromise [OF this] show ?thesis by simp
qed


end
