(* ===== verification/KernelEnv.thy ===== *)
theory KernelEnv
  imports InitScript
begin

text \<open>
  The kernel a configuration asks for: the environment of \<open>build_kernel.sh\<close> (\<open>src/pipeline/kernel.rs\<close>)
  and the command line it boots with (\<open>src/pipeline/docker/cmdline.rs\<close>).
\<close>

section \<open>Kernel fragments\<close>

definition profile_env_value :: "profile_kind \<Rightarrow> string" where
  "profile_env_value kind = (case kind of Casual \<Rightarrow> ''casual'' | SevSnpProfile \<Rightarrow> ''sev-snp'')"

definition hardening_env_vars :: "kernel_hardening \<Rightarrow> (string \<times> string) list" where
  "hardening_env_vars kh =
     (let flag = (\<lambda>v. if (case v of None \<Rightarrow> True | Some b \<Rightarrow> b) then ''1'' else ''0'') in
      [(''CARGO_UNIKERNEL_KHARD_LEGACY_SUBSYSTEMS'', flag (kh_disable_legacy_subsystems kh)),
       (''CARGO_UNIKERNEL_KHARD_DEBUG_INTERFACES'', flag (kh_disable_debug_interfaces kh)),
       (''CARGO_UNIKERNEL_KHARD_SELF_PROTECTION'', flag (kh_kernel_self_protection kh)),
       (''CARGO_UNIKERNEL_KHARD_EXPLOIT_MITIGATIONS'', flag (kh_exploit_mitigations kh)),
       (''CARGO_UNIKERNEL_KHARD_SECCOMP'', flag (kh_seccomp kh))])"

definition env_bit :: "bool \<Rightarrow> string" where
  "env_bit b = (if b then ''1'' else ''0'')"

definition network_env_vars :: "network_mode \<Rightarrow> (string \<times> string) list" where
  "network_env_vars mode =
     [(''CARGO_UNIKERNEL_NET_IPV4'', env_bit (has_ipv4 mode)),
      (''CARGO_UNIKERNEL_NET_IPV6'', env_bit (has_ipv6 mode))]"

definition fips_env_var :: "kernel_hardening \<Rightarrow> string \<times> string" where
  "fips_env_var kh = (''CARGO_UNIKERNEL_KHARD_FIPS'', if kh_fips kh then ''1'' else ''0'')"

definition firewall_env_var :: "network \<Rightarrow> string \<times> string" where
  "firewall_env_var network =
     (''CARGO_UNIKERNEL_FIREWALL'',
      if fw_enabled (net_firewall network) \<and> has_any (net_mode network) then ''1'' else ''0'')"

definition storage_env_var :: "storage_mode \<Rightarrow> string \<times> string" where
  "storage_env_var mode =
     (''CARGO_UNIKERNEL_STORAGE_PERSISTENT'', if mode = Persistent then ''1'' else ''0'')"

text \<open>The exports of the kernel stage after the profile and the source's version, in order.\<close>

definition kernel_vars :: "config \<Rightarrow> (string \<times> string) list" where
  "kernel_vars c =
     network_env_vars (net_mode (c_network c)) @
     hardening_env_vars (h_kernel (c_hardening c)) @
     [fips_env_var (h_kernel (c_hardening c)), storage_env_var (st_mode (c_storage c)),
      firewall_env_var (c_network c)]"

section \<open>The command line\<close>

definition CASUAL_CMDLINE_PREFIX :: string where
  "CASUAL_CMDLINE_PREFIX = ''console=ttyS0''"

definition CASUAL_CMDLINE_SUFFIX :: string where
  "CASUAL_CMDLINE_SUFFIX = ''quiet loglevel=3 panic=-1 random.trust_cpu=off '' @
     ''random.trust_bootloader=off page_alloc.shuffle=1 lockdown=integrity '' @
     ''transparent_hugepage=madvise init_on_alloc=1 init_on_free=1''"

definition network_cmdline_fragment :: "network_mode \<Rightarrow> string" where
  "network_cmdline_fragment mode = (if has_ipv4 mode then ''ip=dhcp '' else [])"

definition casual_cmdline :: "network_mode \<Rightarrow> string" where
  "casual_cmdline mode =
     CASUAL_CMDLINE_PREFIX @ '' '' @ network_cmdline_fragment mode @ CASUAL_CMDLINE_SUFFIX"

definition cmdline_for :: "config \<Rightarrow> string" where
  "cmdline_for c =
     (case c_sev_snp c of
        None \<Rightarrow> casual_cmdline (net_mode (c_network c))
      | Some sev \<Rightarrow> snp_kernel_cmdline sev)"

lemma dhcp_word: "''ip=dhcp'' \<in> set (split_on (CHR '' '') (casual_cmdline mode)) \<longleftrightarrow> has_ipv4 mode"
proof (cases mode)
  case Ipv4
  have "''ip=dhcp'' \<in> set (split_on (CHR '' '') (casual_cmdline Ipv4))" by code_simp
  then show ?thesis by (simp add: Ipv4 has_ipv4_def)
next
  case Ipv6
  have "''ip=dhcp'' \<notin> set (split_on (CHR '' '') (casual_cmdline Ipv6))" by code_simp
  then show ?thesis by (simp add: Ipv6 has_ipv4_def)
next
  case Dual
  have "''ip=dhcp'' \<in> set (split_on (CHR '' '') (casual_cmdline Dual))" by code_simp
  then show ?thesis by (simp add: Dual has_ipv4_def)
next
  case NoNetwork
  have "''ip=dhcp'' \<notin> set (split_on (CHR '' '') (casual_cmdline NoNetwork))" by code_simp
  then show ?thesis by (simp add: NoNetwork has_ipv4_def)
qed

lemma features_network:
  "ft_sev_snp (features_of (init_features c)) \<longleftrightarrow> prof_kind (c_profile c) = SevSnpProfile"
  "ft_net_ipv4 (features_of (init_features c)) = has_ipv4 (net_mode (c_network c))"
  "ft_net_ipv6 (features_of (init_features c)) = has_ipv6 (net_mode (c_network c))"
  "ft_storage_persistent (features_of (init_features c)) \<longleftrightarrow> st_mode (c_storage c) = Persistent"
  by (simp_all add: features_of_def in_init_features feature_table_def Let_def default_on_def)

section \<open>Kernel and guest agree\<close>


end
