(* ===== verification/Host.thy ===== *)
theory Host
  imports Stdlib
begin

text \<open>
  The effects of the host tool. Code that touches the host is a function from the operations done so
  far to its result and the operations after it, as in the guest; the host's answers are a
  record of functions of that history. Console output is not an operation.
\<close>

section \<open>Operations and answers\<close>

datatype io_error = AlreadyExists | NotFound | OtherIo nat

datatype host_op =
    Canonicalize string
  | CreateDir string
  | CreateDirAll string
  | PathExists string
  | IsFile string
  | CreateFile string \<comment> \<open>truncates an existing file\<close>
  | SetLen string nat
  | ReadHostFile string
  | WriteHostFile string string
  | SetPermissions string nat
  | CommandOutput string "string list"
  | CommandStatus string "string list"
  | RenameFile string string
  | WalkDir string

type_synonym history = "host_op list"

text \<open>
  \<open>canonicalize\<close> returns an absolute path whose components are all names; it is the list of
  these names. A directory that is walked is a finite tree, as the walk sees it: a link to a
  directory is a directory. A command that has run has an exit status, standard output and standard error.
\<close>

datatype host_tree = HostFile | HostDir host_dir
and host_dir = Unreadable | Listing host_entries
and host_entries = EndOfDir | BadEntry | NextEntry string host_tree host_entries

record host =
  h_canonicalize :: "history \<Rightarrow> string \<Rightarrow> io_error + string list"
  h_create_dir :: "history \<Rightarrow> string \<Rightarrow> io_error + unit"
  h_create_dir_all :: "history \<Rightarrow> string \<Rightarrow> io_error + unit"
  h_exists :: "history \<Rightarrow> string \<Rightarrow> bool"
  h_is_file :: "history \<Rightarrow> string \<Rightarrow> bool"
  h_create_file :: "history \<Rightarrow> string \<Rightarrow> io_error + unit"
  h_set_len :: "history \<Rightarrow> string \<Rightarrow> nat \<Rightarrow> io_error + unit"
  h_read :: "history \<Rightarrow> string \<Rightarrow> io_error + string"
  h_write :: "history \<Rightarrow> string \<Rightarrow> string \<Rightarrow> io_error + unit"
  h_set_permissions :: "history \<Rightarrow> string \<Rightarrow> nat \<Rightarrow> io_error + unit"
  h_output :: "history \<Rightarrow> string \<Rightarrow> string list \<Rightarrow> io_error + bool \<times> string \<times> string"
  h_status :: "history \<Rightarrow> string \<Rightarrow> string list \<Rightarrow> io_error + bool"
  h_rename :: "history \<Rightarrow> string \<Rightarrow> string \<Rightarrow> io_error + unit"
  h_tree :: "history \<Rightarrow> string \<Rightarrow> host_dir"
  h_var :: "string \<Rightarrow> string option"

section \<open>Sequencing\<close>

type_synonym ('e, 'a) io = "history \<Rightarrow> ('e + 'a) \<times> history"

definition io_return :: "'a \<Rightarrow> ('e, 'a) io" where
  "io_return x tr = (Inr x, tr)"

definition io_fail :: "'e \<Rightarrow> ('e, 'a) io" where
  "io_fail e tr = (Inl e, tr)"

definition io_bind :: "('e, 'a) io \<Rightarrow> ('a \<Rightarrow> ('e, 'b) io) \<Rightarrow> ('e, 'b) io" where
  "io_bind m f tr = (case m tr of (Inr x, tr') \<Rightarrow> f x tr' | (Inl e, tr') \<Rightarrow> (Inl e, tr'))"

definition io_then :: "('e, unit) io \<Rightarrow> ('e, 'b) io \<Rightarrow> ('e, 'b) io" where
  "io_then m k = io_bind m (\<lambda>_. k)"

definition io_lift :: "'e + 'a \<Rightarrow> ('e, 'a) io" where
  "io_lift r tr = (r, tr)"

text \<open>One operation, with the host's answer as the value.\<close>

definition perform :: "(history \<Rightarrow> 'a) \<Rightarrow> host_op \<Rightarrow> ('e, 'a) io" where
  "perform answer ev tr = (Inr (answer tr), tr @ [ev])"

text \<open>The same with \<open>with_context(...)?\<close> after it.\<close>

definition perform_or :: "'e \<Rightarrow> (history \<Rightarrow> io_error + 'a) \<Rightarrow> host_op \<Rightarrow> ('e, 'a) io" where
  "perform_or e answer ev =
     io_bind (perform answer ev) (\<lambda>r. case r of Inr x \<Rightarrow> io_return x | Inl _ \<Rightarrow> io_fail e)"

fun io_all :: "('a \<Rightarrow> ('e, unit) io) \<Rightarrow> 'a list \<Rightarrow> ('e, unit) io" where
  "io_all f [] = io_return ()"
| "io_all f (x # xs) = io_then (f x) (io_all f xs)"

lemma io_all_cong [fundef_cong]:
  "xs = ys \<Longrightarrow> (\<And>x. x \<in> set ys \<Longrightarrow> f x = g x) \<Longrightarrow> io_all f xs = io_all g ys"
  by (induction xs arbitrary: ys) auto

section \<open>Outcomes\<close>

named_theorems io_outcomes \<open>when a piece of host code returns a value\<close>

lemma io_return_iff [io_outcomes]: "io_return x tr = (Inr y, tr') \<longleftrightarrow> y = x \<and> tr' = tr"
  by (auto simp: io_return_def)

lemma io_fail_iff [io_outcomes]: "io_fail e tr \<noteq> (Inr y, tr')"
  by (simp add: io_fail_def)

lemma io_bind_iff [io_outcomes]:
  "io_bind m f tr = (Inr y, tr'') \<longleftrightarrow> (\<exists>x tr'. m tr = (Inr x, tr') \<and> f x tr' = (Inr y, tr''))"
  by (auto simp: io_bind_def split: prod.splits sum.splits)

lemma io_then_iff [io_outcomes]:
  "io_then m k tr = (Inr y, tr'') \<longleftrightarrow> (\<exists>tr'. m tr = (Inr (), tr') \<and> k tr' = (Inr y, tr''))"
  by (simp add: io_then_def io_bind_iff)

lemma io_lift_iff [io_outcomes]: "io_lift r tr = (Inr y, tr') \<longleftrightarrow> r = Inr y \<and> tr' = tr"
  by (auto simp: io_lift_def)

lemma perform_iff [io_outcomes]:
  "perform answer ev tr = (Inr y, tr') \<longleftrightarrow> y = answer tr \<and> tr' = tr @ [ev]"
  by (auto simp: perform_def)

lemma perform_or_iff [io_outcomes]:
  "perform_or e answer ev tr = (Inr y, tr') \<longleftrightarrow> answer tr = Inr y \<and> tr' = tr @ [ev]"
  by (auto simp: perform_or_def io_outcomes split: sum.splits)

text \<open>Running a sequence step by step.\<close>

lemma io_bind_Inr: "m tr = (Inr x, tr') \<Longrightarrow> io_bind m f tr = f x tr'"
  by (simp add: io_bind_def)

lemma io_bind_Inl: "m tr = (Inl e, tr') \<Longrightarrow> io_bind m f tr = (Inl e, tr')"
  by (simp add: io_bind_def)

lemma io_bind_perform: "io_bind (perform answer ev) f tr = f (answer tr) (tr @ [ev])"
  by (simp add: io_bind_def perform_def)

lemma io_bind_perform_or:
  "io_bind (perform_or e answer ev) f tr =
     (case answer tr of Inr x \<Rightarrow> f x (tr @ [ev]) | Inl _ \<Rightarrow> (Inl e, tr @ [ev]))"
  by (simp add: perform_or_def io_bind_def perform_def io_return_def io_fail_def split: sum.split)

lemma io_bind_lift:
  "io_bind (io_lift r) f tr = (case r of Inr x \<Rightarrow> f x tr | Inl e \<Rightarrow> (Inl e, tr))"
  by (simp add: io_lift_def io_bind_def)

lemma io_bind_return: "io_bind (io_return x) f tr = f x tr"
  by (simp add: io_return_def io_bind_def)

lemma perform_or_run:
  "perform_or e answer ev tr = (case answer tr of Inr x \<Rightarrow> (Inr x, tr @ [ev]) | Inl _ \<Rightarrow> (Inl e, tr @ [ev]))"
  by (simp add: perform_or_def io_bind_def perform_def io_return_def io_fail_def split: sum.split)

lemmas io_steps = perform_or_run io_bind_lift io_bind_return io_bind_perform io_bind_perform_or io_then_def io_return_def io_fail_def io_lift_def

text \<open>
  \<open>does A m\<close>: whatever the host answers, \<open>m\<close> only adds operations in \<open>A\<close> to the history.
\<close>

definition does :: "(host_op \<Rightarrow> bool) \<Rightarrow> ('e, 'a) io \<Rightarrow> bool" where
  "does A m \<longleftrightarrow> (\<forall>tr. \<exists>new. snd (m tr) = tr @ new \<and> (\<forall>ev\<in>set new. A ev))"

named_theorems does_intros \<open>which operations a piece of host code can do\<close>

lemma doesD: "does A m \<Longrightarrow> m tr = (r, tr') \<Longrightarrow> \<exists>new. tr' = tr @ new \<and> (\<forall>ev\<in>set new. A ev)"
  unfolding does_def by (metis snd_conv)

lemma does_mono: "does A m \<Longrightarrow> (\<And>ev. A ev \<Longrightarrow> B ev) \<Longrightarrow> does B m"
  unfolding does_def by meson

lemma does_return [does_intros]: "does A (io_return x)"
  by (simp add: does_def io_return_def)

lemma does_fail [does_intros]: "does A (io_fail e)"
  by (simp add: does_def io_fail_def)

lemma does_lift [does_intros]: "does A (io_lift r)"
  by (simp add: does_def io_lift_def)

lemma does_perform [does_intros]: "A ev \<Longrightarrow> does A (perform answer ev)"
  by (simp add: does_def perform_def)

lemma does_bind [does_intros]:
  assumes m: "does A m" and f: "\<And>x. does A (f x)"
  shows "does A (io_bind m f)"
  unfolding does_def
proof
  fix tr
  obtain r tr' where run: "m tr = (r, tr')" by (cases "m tr")
  obtain new where new: "tr' = tr @ new" "\<forall>ev\<in>set new. A ev" using doesD [OF m run] by blast
  show "\<exists>new. snd (io_bind m f tr) = tr @ new \<and> (\<forall>ev\<in>set new. A ev)"
  proof (cases r)
    case (Inr x)
    obtain r2 tr2 where run2: "f x tr' = (r2, tr2)" by (cases "f x tr'")
    obtain new2 where "tr2 = tr' @ new2" "\<forall>ev\<in>set new2. A ev" using doesD [OF f run2] by blast
    with new run run2 Inr show ?thesis by (auto simp: io_bind_def)
  qed (use run new in \<open>simp add: io_bind_def\<close>)
qed

lemma does_then [does_intros]: "does A m \<Longrightarrow> does A k \<Longrightarrow> does A (io_then m k)"
  unfolding io_then_def by (rule does_bind)

lemma does_perform_or [does_intros]: "A ev \<Longrightarrow> does A (perform_or e answer ev)"
  unfolding perform_or_def
  by (auto intro!: does_intros split: sum.splits simp: does_return does_fail)

lemma does_if [does_intros]:
  "(b \<Longrightarrow> does A m) \<Longrightarrow> (\<not> b \<Longrightarrow> does A k) \<Longrightarrow> does A (if b then m else k)"
  by simp

lemma does_all [does_intros]: "(\<And>x. x \<in> set xs \<Longrightarrow> does A (f x)) \<Longrightarrow> does A (io_all f xs)"
  by (induction xs) (auto intro: does_intros)

section \<open>Paths as text\<close>

text \<open>\<open>Path::join\<close>: an absolute second path replaces the first.\<close>

definition path_join :: "string \<Rightarrow> string \<Rightarrow> string" where
  "path_join p q =
     (if prefix ''/'' q then q
      else if p = [] \<or> last p = CHR ''/'' then p @ q
      else p @ ''/'' @ q)"

text \<open>The text of a canonical path.\<close>

definition path_text :: "string list \<Rightarrow> string" where
  "path_text names = (if names = [] then ''/'' else concat (map (\<lambda>n. ''/'' @ n) names))"

definition canonicalize :: "host \<Rightarrow> 'e \<Rightarrow> string \<Rightarrow> ('e, string list) io" where
  "canonicalize h e p = perform_or e (\<lambda>tr. h_canonicalize h tr p) (Canonicalize p)"

definition path_exists :: "host \<Rightarrow> string \<Rightarrow> ('e, bool) io" where
  "path_exists h p = perform (\<lambda>tr. h_exists h tr p) (PathExists p)"

definition create_dir_all :: "host \<Rightarrow> 'e \<Rightarrow> string \<Rightarrow> ('e, unit) io" where
  "create_dir_all h e p = perform_or e (\<lambda>tr. h_create_dir_all h tr p) (CreateDirAll p)"

definition read_file :: "host \<Rightarrow> 'e \<Rightarrow> string \<Rightarrow> ('e, string) io" where
  "read_file h e p = perform_or e (\<lambda>tr. h_read h tr p) (ReadHostFile p)"

definition write_file :: "host \<Rightarrow> 'e \<Rightarrow> string \<Rightarrow> string \<Rightarrow> ('e, unit) io" where
  "write_file h e p body = perform_or e (\<lambda>tr. h_write h tr p body) (WriteHostFile p body)"

lemma path_text_snoc: "path_text (ns @ [n]) = (if ns = [] then ''/'' @ n else path_text ns @ ''/'' @ n)"
  by (simp add: path_text_def)

end
