(* ===== verification/HostDirs.thy ===== *)
theory HostDirs
  imports Shell Host
begin

text \<open>
  The places on the host a build reads and writes: the output directory (\<open>src/pipeline/mod.rs\<close>), the
  disk image of persistent storage (\<open>storage.rs\<close>), the app (\<open>app_source.rs\<close>) and the OVMF firmware
  (\<open>ovmf.rs\<close>). The host's answers are those of \<open>Host\<close>.
\<close>

datatype place_error =
    CanonicalizeFailed string
  | OutputDirEmpty
  | OutputDirNotRelative
  | OutputDirNotCreated string
  | OutputDirOutside
  | ImageNotCreated string
  | ImageNotSized string
  | NoAppBinary
  | NoAppBinaryPath
  | AppBinaryMissing string
  | AppBinaryOutside string
  | NoAppSource
  | NoAppSourcePath
  | AppSourceMissing string
  | AppSourceOutside
  | NoCargoManifest string
  | OvmfSourceMissing
  | OvmfDirNotCreated string
  | OvmfNotRead string
  | OvmfNotWritten string

section \<open>The output directory\<close>

fun dist_loop :: "host \<Rightarrow> string list \<Rightarrow> string list \<Rightarrow> path_component list \<Rightarrow> (place_error, string list) io" where
  "dist_loop h proj out [] = io_return out"
| "dist_loop h proj out (component # rest) =
     (case component of
        CurDir \<Rightarrow> dist_loop h proj out rest
      | Normal name \<Rightarrow>
          let dir = path_text (out @ [name]) in
          io_bind (perform (\<lambda>tr. h_create_dir h tr dir) (CreateDir dir)) (\<lambda>created.
            if created = Inr () \<or> created = Inl AlreadyExists
            then io_bind (canonicalize h (CanonicalizeFailed dir) dir) (\<lambda>out.
                   if prefix proj out then dist_loop h proj out rest
                   else io_fail OutputDirOutside)
            else io_fail (OutputDirNotCreated dir))
      | _ \<Rightarrow> io_fail OutputDirNotRelative)"

definition host_dist_dir :: "host \<Rightarrow> config \<Rightarrow> string \<Rightarrow> (place_error, string list) io" where
  "host_dist_dir h c project_dir =
     io_bind (canonicalize h (CanonicalizeFailed project_dir) project_dir) (\<lambda>proj.
       if trim (out_dir (c_output c)) = [] then io_fail OutputDirEmpty
       else dist_loop h proj proj (path_components (out_dir (c_output c))))"

section \<open>The disk image\<close>

definition data_image_path :: "string list \<Rightarrow> string \<Rightarrow> string" where
  "data_image_path dist_dir name = path_join (path_text dist_dir) (name @ ''.data.img'')"

definition saturating_mul :: "u64 \<Rightarrow> u64 \<Rightarrow> u64" where
  "saturating_mul a b = (if unat a * unat b < 2 ^ 64 then a * b else - 1)"

definition storage_stage :: "host \<Rightarrow> config \<Rightarrow> string \<Rightarrow> (place_error, unit) io" where
  "storage_stage h c project_dir =
     (if st_mode (c_storage c) \<noteq> Persistent then io_return ()
      else
        io_bind (host_dist_dir h c project_dir) (\<lambda>dist_dir.
        let path = data_image_path dist_dir (pr_name (c_project c)) in
        io_bind (path_exists h path) (\<lambda>present.
          if present then io_return ()
          else
            let len = unat (saturating_mul (saturating_mul (ucast (st_size_mib (c_storage c))) 1024) 1024) in
            io_then (perform_or (ImageNotCreated path) (\<lambda>tr. h_create_file h tr path) (CreateFile path))
                    (perform_or (ImageNotSized path) (\<lambda>tr. h_set_len h tr path len) (SetLen path len)))))"

section \<open>The app\<close>

datatype acquired_app = AcquiredBinary string | LocalSource string

text \<open>\<open>strip_prefix\<close> of one canonical path from another.\<close>

definition strip_prefix_text :: "string list \<Rightarrow> string list \<Rightarrow> string" where
  "strip_prefix_text base p = join_with (CHR ''/'') (drop (length base) p)"

definition acquire_binary :: "host \<Rightarrow> config \<Rightarrow> string \<Rightarrow> (place_error, acquired_app) io" where
  "acquire_binary h c project_dir =
     io_bind (io_lift (ok_or (app_binary (c_app c)) NoAppBinary)) (\<lambda>binary.
     io_bind (io_lift (ok_or (bin_path binary) NoAppBinaryPath)) (\<lambda>path.
     let candidate = path_join project_dir path in
     io_bind (canonicalize h (CanonicalizeFailed project_dir) project_dir) (\<lambda>canonical_project.
     io_bind (canonicalize h (AppBinaryMissing path) candidate) (\<lambda>canonical_candidate.
       if \<not> prefix canonical_project canonical_candidate then io_fail (AppBinaryOutside path)
       else io_return (AcquiredBinary
              (path_join ''/workspace'' (strip_prefix_text canonical_project canonical_candidate)))))))"

definition acquire_source :: "host \<Rightarrow> config \<Rightarrow> string \<Rightarrow> (place_error, acquired_app) io" where
  "acquire_source h c project_dir =
     io_bind (io_lift (ok_or (app_source (c_app c)) NoAppSource)) (\<lambda>source.
     io_bind (io_lift (ok_or (src_path source) NoAppSourcePath)) (\<lambda>path.
     io_bind (canonicalize h (CanonicalizeFailed project_dir) project_dir) (\<lambda>canonical_project.
     let candidate = path_join (path_join project_dir path) (src_package_path source) in
     io_bind (canonicalize h (AppSourceMissing candidate) candidate) (\<lambda>canonical_candidate.
       if \<not> prefix canonical_project canonical_candidate then io_fail AppSourceOutside
       else
         let manifest = path_join (path_text canonical_candidate) ''Cargo.toml'';
             found = LocalSource (strip_prefix_text canonical_project canonical_candidate) in
         if src_toolchain source = Rust
         then io_bind (perform (\<lambda>tr. h_is_file h tr manifest) (IsFile manifest)) (\<lambda>is_file.
                if is_file then io_return found else io_fail (NoCargoManifest candidate))
         else io_return found))))"

definition acquire :: "host \<Rightarrow> config \<Rightarrow> string \<Rightarrow> (place_error, acquired_app) io" where
  "acquire h c project_dir =
     (case app_mode (c_app c) of
        ModeBinary \<Rightarrow> acquire_binary h c project_dir
      | ModeSource \<Rightarrow> acquire_source h c project_dir)"

section \<open>The firmware\<close>

definition ovmf_in_container_path :: "ovmf_source \<Rightarrow> string \<Rightarrow> string" where
  "ovmf_in_container_path ovmf output_dir =
     (if ovmf_preset ovmf \<noteq> None then ''/assets/ovmf/OVMF.amdsev.fd''
      else ''/workspace/'' @ trim_end_matches (CHR ''/'') output_dir @ ''/.ovmf-cache/OVMF.fd'')"

definition ovmf_host_path :: "string \<Rightarrow> string" where
  "ovmf_host_path dist_dir = path_join dist_dir ''.ovmf-cache/OVMF.fd''"

definition ovmf_stage :: "host \<Rightarrow> ovmf_source \<Rightarrow> string \<Rightarrow> string \<Rightarrow> (place_error, unit) io" where
  "ovmf_stage h ovmf project_dir output_dir =
     (if ovmf_preset ovmf \<noteq> None then io_return ()
      else (case ovmf_path ovmf of
        None \<Rightarrow> io_fail OvmfSourceMissing
      | Some path \<Rightarrow>
          let dest_dir = path_join (path_join project_dir (trim_end_matches (CHR ''/'') output_dir)) ''.ovmf-cache'' in
          io_then (create_dir_all h (OvmfDirNotCreated dest_dir) dest_dir)
         (let dest = path_join dest_dir ''OVMF.fd'';
              src = path_join project_dir path in
          io_bind (read_file h (OvmfNotRead src) src) (\<lambda>bytes.
            write_file h (OvmfNotWritten dest) dest bytes))))"

section \<open>Confinement\<close>

text \<open>A new directory is made directly in a directory of the project.\<close>

definition dir_within :: "string list \<Rightarrow> host_op \<Rightarrow> bool" where
  "dir_within proj ev =
     (case ev of
        CreateDir p \<Rightarrow> \<exists>dir name. p = path_text (dir @ [name]) \<and> prefix proj dir \<and>
          name \<noteq> [] \<and> name \<noteq> ''.'' \<and> name \<noteq> ''..'' \<and> CHR ''/'' \<notin> set name
      | Canonicalize _ \<Rightarrow> True
      | _ \<Rightarrow> False)"

definition plain_component :: "path_component \<Rightarrow> bool" where
  "plain_component x \<longleftrightarrow>
     (\<forall>n. x = Normal n \<longrightarrow> n \<noteq> [] \<and> n \<noteq> ''.'' \<and> n \<noteq> ''..'' \<and> CHR ''/'' \<notin> set n)"

lemma path_components_plain: "x \<in> set (path_components s) \<Longrightarrow> plain_component x"
  by (auto simp: plain_component_def path_components_def Let_def dest: split_on_pieces split: if_splits)

lemma dist_loop_does:
  "prefix proj out \<Longrightarrow> \<forall>x\<in>set comps. plain_component x \<Longrightarrow>
     does (dir_within proj) (dist_loop h proj out comps)"
proof (induction comps arbitrary: out)
  case (Cons x comps)
  show ?case
  proof (cases x)
    case (Normal name)
    have "dir_within proj (CreateDir (path_text (out @ [name])))"
      using Cons.prems Normal by (auto simp: dir_within_def plain_component_def)
    moreover have "dir_within proj (Canonicalize p)" for p by (simp add: dir_within_def)
    ultimately show ?thesis
      using Cons Normal by (auto simp: canonicalize_def Let_def intro!: does_intros)
  qed (use Cons in \<open>auto intro: does_intros\<close>)
qed (auto intro: does_intros)

lemma dist_loop_within:
  "prefix proj out \<Longrightarrow> dist_loop h proj out comps tr = (Inr d, tr') \<Longrightarrow> prefix proj d"
proof (induction comps arbitrary: out tr)
  case (Cons x comps)
  then show ?case
    by (cases x)
      (auto simp: io_outcomes Let_def canonicalize_def split: if_splits)
qed (simp add: io_outcomes)

lemma dist_dir_within:
  assumes "host_dist_dir h c project_dir tr = (r, tr')"
  shows "\<exists>new. tr' = tr @ Canonicalize project_dir # new \<and>
    (\<forall>ev\<in>set new. \<exists>proj. h_canonicalize h tr project_dir = Inr proj \<and> dir_within proj ev) \<and>
    (\<forall>d. r = Inr d \<longrightarrow> (\<exists>proj. h_canonicalize h tr project_dir = Inr proj \<and> prefix proj d))"
proof (cases "h_canonicalize h tr project_dir")
  case (Inl e)
  with assms show ?thesis
    by (auto simp: host_dist_dir_def canonicalize_def perform_or_def perform_def io_bind_def io_fail_def)
next
  case (Inr proj)
  let ?comps = "path_components (out_dir (c_output c))" and ?tr = "tr @ [Canonicalize project_dir]"
  have run: "(if trim (out_dir (c_output c)) = [] then io_fail OutputDirEmpty
      else dist_loop h proj proj ?comps) ?tr = (r, tr')"
    using assms Inr
    by (simp add: host_dist_dir_def canonicalize_def perform_or_def perform_def io_bind_def io_return_def)
  have "does (dir_within proj) (dist_loop h proj proj ?comps)"
    using path_components_plain by (intro dist_loop_does) auto
  then have "does (dir_within proj) (if trim (out_dir (c_output c)) = [] then io_fail OutputDirEmpty
      else dist_loop h proj proj ?comps)"
    by (intro does_intros)
  from doesD [OF this run] obtain new where "tr' = ?tr @ new" "\<forall>ev\<in>set new. dir_within proj ev"
    by blast
  moreover have "prefix proj d" if "r = Inr d" for d
    using run that by (auto simp: io_outcomes split: if_splits intro: dist_loop_within [OF prefix_order.refl])
  ultimately show ?thesis using Inr by auto
qed

text \<open>
  C9. Whatever symbolic links the host's file system has, resolving the output directory makes new
  directories only directly inside directories of the canonical project directory, by one
  plain name each, and the directory it returns is the project directory or below it; a link
  that leads out of the project ends the build.
\<close>

theorem dist_dir_confined:
  assumes "host_dist_dir h c project_dir tr = (r, tr')"
  shows "\<exists>new. tr' = tr @ Canonicalize project_dir # new \<and>
    (\<forall>ev\<in>set new. \<exists>proj. h_canonicalize h tr project_dir = Inr proj \<and> dir_within proj ev) \<and>
    (\<forall>d. r = Inr d \<longrightarrow> (\<exists>proj. h_canonicalize h tr project_dir = Inr proj \<and> prefix proj d))"
  by (rule dist_dir_within [OF assms])

text \<open>A 32-bit number of MiB never saturates.\<close>

lemma image_len:
  fixes s :: u32
  shows "unat (saturating_mul (saturating_mul (ucast s) 1024) 1024) = unat s * 2 ^ 20"
proof -
  have s: "unat s < 2 ^ 32" using unsigned_less [where ?'a = nat, of s] by simp
  have u: "unat (ucast s :: u64) = unat s" using s by (simp add: unsigned_ucast_eq take_bit_nat_eq_self)
  have k: "saturating_mul (ucast s) 1024 = ucast s * 1024" "unat (ucast s * 1024 :: u64) = unat s * 1024"
    using s u by (simp_all add: saturating_mul_def unat_word_ariths)
  have "unat (ucast s * 1024 * 1024 :: u64) = unat s * 1024 * 1024"
    using s u by (simp add: unat_word_ariths)
  then show ?thesis using s k by (simp add: saturating_mul_def)
qed

text \<open>
  C25. Staging the persistent volume's disk image never touches an image that is there: the image file,
  in the output directory below the project, is created (which would truncate an old one) only right
  after it was found missing, and then given exactly the configured number of MiB; nothing happens
  in RAM mode, and success means that the image was there or has just been made.
\<close>

theorem data_image_preserved:
  assumes "storage_stage h c project_dir tr = (r, tr')"
  shows "\<exists>new tail. tr' = tr @ new @ tail \<and>
    (st_mode (c_storage c) \<noteq> Persistent \<longrightarrow> new @ tail = []) \<and>
    (\<forall>ev\<in>set new. ev = Canonicalize project_dir \<or>
       (\<exists>proj. h_canonicalize h tr project_dir = Inr proj \<and> dir_within proj ev)) \<and>
    (tail = [] \<or>
      (\<exists>proj dist. h_canonicalize h tr project_dir = Inr proj \<and> prefix proj dist \<and>
        (let p = data_image_path dist (pr_name (c_project c));
             len = unat (st_size_mib (c_storage c)) * 2 ^ 20 in
         (tail = [PathExists p] \<and> h_exists h (tr @ new) p \<or>
          tail = [PathExists p, CreateFile p] \<and> \<not> h_exists h (tr @ new) p \<and> r \<noteq> Inr () \<or>
          tail = [PathExists p, CreateFile p, SetLen p len] \<and> \<not> h_exists h (tr @ new) p)))) \<and>
    (r = Inr () \<and> st_mode (c_storage c) = Persistent \<longrightarrow> tail \<noteq> [])"
proof (cases "st_mode (c_storage c) = Persistent")
  case False
  with assms have "tr' = tr @ [] @ []" by (simp add: storage_stage_def io_return_def)
  with False show ?thesis by (intro exI [of _ "[]"]) simp
next
  case True
  obtain d tr1 where dir: "host_dist_dir h c project_dir tr = (d, tr1)"
    by (cases "host_dist_dir h c project_dir tr")
  from dist_dir_within [OF dir] obtain more where new: "tr1 = tr @ Canonicalize project_dir # more"
      "\<forall>ev\<in>set more. \<exists>proj. h_canonicalize h tr project_dir = Inr proj \<and> dir_within proj ev"
    and within: "\<forall>x. d = Inr x \<longrightarrow> (\<exists>proj. h_canonicalize h tr project_dir = Inr proj \<and> prefix proj x)"
    by blast
  let ?new = "Canonicalize project_dir # more"
  show ?thesis
  proof (cases d)
    case (Inl e)
    with assms dir True new have "tr' = tr @ ?new @ []" "r = Inl e"
      by (simp_all add: storage_stage_def io_bind_def)
    with new show ?thesis using True by (intro exI [of _ ?new] exI [of _ "[]"]) auto
  next
    case (Inr dist)
    with within obtain proj where proj: "h_canonicalize h tr project_dir = Inr proj" "prefix proj dist"
      by blast
    define p where "p = data_image_path dist (pr_name (c_project c))"
    define len where "len = unat (st_size_mib (c_storage c)) * 2 ^ 20"
    have bind: "io_bind (host_dist_dir h c project_dir) f tr = f dist tr1"
      for f :: "string list \<Rightarrow> (place_error, unit) io"
      using dir Inr by (simp add: io_bind_def)
    from assms True
    have "(if h_exists h tr1 p then io_return ()
        else io_then (perform_or (ImageNotCreated p) (\<lambda>tr. h_create_file h tr p) (CreateFile p))
          (perform_or (ImageNotSized p) (\<lambda>tr. h_set_len h tr p len) (SetLen p len)))
        (tr1 @ [PathExists p]) = (r, tr')"
      by (simp add: storage_stage_def bind image_len Let_def
        path_exists_def io_bind_perform p_def len_def cong: if_cong)
    then consider
        "tr' = tr1 @ [PathExists p]" "h_exists h tr1 p"
      | "tr' = tr1 @ [PathExists p, CreateFile p]" "\<not> h_exists h tr1 p" "r \<noteq> Inr ()"
      | "tr' = tr1 @ [PathExists p, CreateFile p, SetLen p len]" "\<not> h_exists h tr1 p"
      by (auto simp: io_then_def io_bind_def perform_or_def perform_def io_return_def io_fail_def
        split: if_splits sum.splits)
    then show ?thesis
    proof cases
      case 1
      with new proj True show ?thesis
        by (intro exI [of _ ?new] exI [of _ "[PathExists p]"]) (auto simp: p_def Let_def)
    next
      case 2
      with new proj True show ?thesis
        by (intro exI [of _ ?new] exI [of _ "[PathExists p, CreateFile p]"]) (auto simp: p_def Let_def)
    next
      case 3
      with new proj True show ?thesis
        by (intro exI [of _ ?new] exI [of _ "[PathExists p, CreateFile p, SetLen p len]"])
          (auto simp: p_def len_def Let_def)
    qed
  qed
qed

text \<open>
  C26. The app that goes into the image comes from inside the project: the configured path was resolved by
  the host to a place in or below the canonical project directory, and what the container is told
  is that place's path relative to the project, under the mount point of the project for a binary.
\<close>

theorem app_confined:
  assumes "acquire h c project_dir tr = (Inr a, tr')"
  shows "\<exists>proj rel path. h_canonicalize h tr project_dir = Inr proj \<and>
    h_canonicalize h (tr @ [Canonicalize project_dir]) path = Inr (proj @ rel) \<and>
    (case app_mode (c_app c) of
       ModeBinary \<Rightarrow>
         (\<exists>b p. app_binary (c_app c) = Some b \<and> bin_path b = Some p \<and> path = path_join project_dir p) \<and>
         a = AcquiredBinary (path_join ''/workspace'' (join_with (CHR ''/'') rel))
     | ModeSource \<Rightarrow>
         (\<exists>s p. app_source (c_app c) = Some s \<and> src_path s = Some p \<and>
            path = path_join (path_join project_dir p) (src_package_path s)) \<and>
         a = LocalSource (join_with (CHR ''/'') rel))"
proof (cases "app_mode (c_app c)")
  case ModeBinary
  with assms show ?thesis
    by (auto simp: acquire_def acquire_binary_def canonicalize_def Let_def io_outcomes
      strip_prefix_text_def prefix_def split: if_splits)
next
  case ModeSource
  with assms show ?thesis
    by (auto simp: acquire_def acquire_source_def canonicalize_def Let_def io_outcomes
      strip_prefix_text_def prefix_def split: if_splits)
qed

end
