(* ===== verification/BuildScript.thy ===== *)
theory BuildScript
  imports KernelEnv HostDirs
begin

text \<open>
  The script that runs in the build container: one definition per stage of
  \<open>src/pipeline/docker\<close> (\<open>kernel_script.rs\<close>, \<open>app_script.rs\<close>, \<open>guest_init_script.rs\<close>,
  \<open>rootfs_script.rs\<close>, \<open>measurement_script.rs\<close>) and their concatenation in \<open>mod.rs\<close>. The texts are the
  generated ones byte for byte; \<open>sq\<close> and \<open>dq\<close> put quotes around a literal of the source.
\<close>

section \<open>Text\<close>

definition sq :: "string \<Rightarrow> string" where
  "sq s = [CHR 0x27] @ s @ [CHR 0x27]"

definition dq :: "string \<Rightarrow> string" where
  "dq s = [CHR 0x22] @ s @ [CHR 0x22]"

definition bs :: string where
  "bs = [CHR 0x5C]"

definition line :: "string \<Rightarrow> string" where
  "line s = s @ [NL]"

definition EM_DASH :: string where
  "EM_DASH = [CHR 0xE2, CHR 0x80, CHR 0x94]"

datatype script_error = AppSourceUnset | BuildCommandUnset | OutputBinaryUnset

section \<open>The kernel\<close>

definition script_kernel_build :: "config \<Rightarrow> string" where
  "script_kernel_build c =
     (let s = write_export ''CARGO_UNIKERNEL_PROFILE'' (profile_env_value (prof_kind (c_profile c))) [];
          s = s @ line (''export CARGO_UNIKERNEL_KERNEL_VERSION='' @ shell_quote (k_version (c_kernel c)));
          s = (case sha256_for_build (c_kernel c) of
                 None \<Rightarrow> s
               | Some sha256 \<Rightarrow> s @ line (''export CARGO_UNIKERNEL_KERNEL_SHA256='' @ shell_quote sha256));
          s = fold (\<lambda>(name, val) s. write_export name val s) (kernel_vars c) s;
          s = (if h_extra_kernel_config (c_hardening c) = [] then s
               else s @ line (''export CARGO_UNIKERNEL_EXTRA_KCONFIG_FILE='' @
                              dq ''/build-meta/generated/extra-kconfig.config''))
      in s @ line ''/assets/kernel/build_kernel.sh'' @ line [])"

section \<open>The app\<close>

definition profile_dir :: "string \<Rightarrow> string" where
  "profile_dir cargo_profile = (if cargo_profile = ''dev'' then ''debug'' else cargo_profile)"

definition script_build_at :: "app_source \<Rightarrow> string \<Rightarrow> script_error + string" where
  "script_build_at source package_dir =
     (let package_dir_q = shell_quote package_dir in
      case src_toolchain source of
        Rust \<Rightarrow>
          let features_flag =
                (if src_features source = [] then []
                 else '' --features '' @ shell_quote (join_with (CHR '','') (src_features source)))
          in Inr (rustflags_export @
            line (''CARGO_TARGET_DIR=/tmp/cargo-target-app cargo build --locked --profile '' @
              shell_quote (src_cargo_profile source) @ '' --target x86_64-unknown-linux-musl'' @
              features_flag @ '' --manifest-path '' @ package_dir_q @ ''/Cargo.toml'') @
            line (''mapfile -t APP_CANDIDATES < <(find /tmp/cargo-target-app/x86_64-unknown-linux-musl/'' @
              shell_quote (profile_dir (src_cargo_profile source)) @
              '' -maxdepth 1 -type f -executable -print | sort)'') @
            line (''if [ '' @ dq ''${#APP_CANDIDATES[@]}'' @ '' -ne 1 ]; then'') @
            line (''    echo '' @ dq ''Expected exactly one app binary, found ${#APP_CANDIDATES[@]}'' @ '' >&2'') @
            line (''    printf '' @ sq (''  %s'' @ bs @ ''n'') @ '' '' @ dq ''${APP_CANDIDATES[@]}'' @ '' >&2'') @
            line ''    exit 1'' @
            line ''fi'' @
            line ''APP_BIN=${APP_CANDIDATES[0]}'')
      | Generic \<Rightarrow>
          let packages =
                (if src_extra_apt_packages source = [] then []
                 else line (''apt-get update && apt-get install -y '' @
                   join_with (CHR '' '') (map shell_quote (src_extra_apt_packages source))))
          in res_bind (ok_or (src_build_command source) BuildCommandUnset) (\<lambda>build_command.
             res_bind (ok_or (src_output_binary source) OutputBinaryUnset) (\<lambda>output_binary.
               Inr (packages @
                 line (''(cd '' @ package_dir_q @ '' && '' @ build_command @ '')'') @
                 line (''APP_BIN='' @ package_dir_q @ ''/'' @ shell_quote output_binary)))))"

definition echo_err :: "string \<Rightarrow> string" where
  "echo_err s = line (''echo '' @ dq s @ '' >&2'')"

definition RULE :: string where
  "RULE = replicate 70 (CHR ''='')"

definition script_verify_static_binary :: string where
  "script_verify_static_binary =
     line [] @
     line (''if readelf -l '' @ dq ''$APP_BIN'' @ '' 2>/dev/null | grep -q '' @ sq ''INTERP'' @
       '' || readelf -d '' @ dq ''$APP_BIN'' @ '' 2>/dev/null | grep -q '' @ sq ''NEEDED'' @ ''; then'') @
     line (''NEEDED=$(readelf -d '' @ dq ''$APP_BIN'' @ '' 2>/dev/null | grep NEEDED | sed -E '' @
       sq (''s/.*'' @ bs @ ''[(.*)'' @ bs @ ''].*/  - '' @ bs @ ''1/'') @ '')'') @
     echo_err [] @
     echo_err RULE @
     echo_err (''ERROR: app binary is dynamically linked '' @ EM_DASH @ '' this image cannot boot it.'') @
     echo_err RULE @
     echo_err ''The unikernel guest ships no dynamic linker and no shared libraries at'' @
     echo_err (''all (only your app binary and a tiny init) '' @ EM_DASH @ '' a dynamically-linked app'') @
     echo_err ''would fail to even start after boot.'' @
     line (''if [ -n '' @ dq ''$NEEDED'' @ '' ]; then'') @
     echo_err [] @
     echo_err ''This binary requires these shared libraries at runtime:'' @
     echo_err ''$NEEDED'' @
     line ''fi'' @
     echo_err [] @
     echo_err ''Statically link your app instead, e.g.:'' @
     echo_err ''  Rust:  --target x86_64-unknown-linux-musl (already the default here)'' @
     echo_err ''  Go:    CGO_ENABLED=0 go build'' @
     echo_err ''  C/C++: gcc -static ...'' @
     echo_err ''  Zig:   zig build -Dtarget=x86_64-linux-musl'' @
     echo_err ''If this pulls in OpenSSL specifically, switch to a statically-linked build'' @
     echo_err ''(e.g. a vendored/static openssl-sys feature) or a pure-Rust TLS stack (e.g.'' @
     echo_err (''rustls) '' @ EM_DASH @ '' a dynamically-linked OpenSSL cannot be satisfied by this image.'') @
     echo_err RULE @
     line ''exit 1'' @
     line ''fi''"

definition script_app_build :: "config \<Rightarrow> acquired_app \<Rightarrow> script_error + string" where
  "script_app_build c app =
     res_bind
       (case app of
          LocalSource package_path \<Rightarrow>
            res_bind (ok_or (app_source (c_app c)) AppSourceUnset) (\<lambda>source.
              script_build_at source (''/workspace/'' @ package_path))
        | AcquiredBinary path \<Rightarrow> Inr (line (''APP_BIN='' @ shell_quote path)))
       (\<lambda>s. Inr (s @ script_verify_static_binary))"

section \<open>The guest init\<close>

definition script_guest_init_build :: "config \<Rightarrow> string" where
  "script_guest_init_build c =
     (let s = line ''export CARGO_TARGET_DIR=/tmp/cargo-target'';
          s = s @ rustflags_export;
          s = app_env_exports c s;
          features = join_with (CHR '','') (init_features c);
          features_flag = (if features = [] then [] else ''--features '' @ features)
      in s @ line (''cargo build --locked --release --target x86_64-unknown-linux-musl '' @
                   ''--manifest-path /assets-guest/Cargo.toml '' @ features_flag) @ line [])"

section \<open>The images\<close>

definition rootfs_format :: "config \<Rightarrow> output_format \<Rightarrow> string" where
  "rootfs_format c format =
     (let dist_q = shell_quote (in_container_dist c);
          name_q = shell_quote (pr_name (c_project c)) in
      case format of
        FmtCpio \<Rightarrow>
          line (''cp /build-meta/'' @ name_q @ ''.cpio '' @ dist_q @ ''/'' @ name_q @ ''.cpio && '' @
                ''cp /build-meta/'' @ name_q @ ''.bzImage '' @ dist_q @ ''/'' @ name_q @ ''.bzImage'')
      | FmtBinary \<Rightarrow>
          line (''cp '' @ dq ''$APP_BIN'' @ '' '' @ dist_q @ ''/'' @ name_q @ ''.bin && chmod 555 '' @
                dist_q @ ''/'' @ name_q @ ''.bin'')
      | FmtUki \<Rightarrow>
          let cmdline_q = shell_quote (cmdline_for c);
              uname_q = shell_quote (k_version (c_kernel c)) in
          line (''PYTHONHASHSEED=0 ukify build --linux=/build-meta/'' @ name_q @ ''.bzImage '' @
                ''--initrd=/build-meta/'' @ name_q @ ''.cpio --cmdline='' @ cmdline_q @ '' --uname='' @
                uname_q @ '' --output='' @ dist_q @ ''/'' @ name_q @ ''.efi''))"

definition script_rootfs_and_images :: "config \<Rightarrow> string" where
  "script_rootfs_and_images c =
     (let persistent = st_mode (c_storage c) = Persistent;
          s = line [] @
            line (''rm -rf /build/rootfs && mkdir -p /build/rootfs/proc /build/rootfs/sys '' @
              ''/build/rootfs/dev /build/rootfs/tmp /build/rootfs/run /build/rootfs/payload'') @
            line (''cp /tmp/cargo-target/x86_64-unknown-linux-musl/release/cargo-unikernel-init '' @
              ''/build/rootfs/init'') @
            line (''cp '' @ dq ''$APP_BIN'' @ '' /build/rootfs/payload/app'');
          s = (if persistent
               then s @ line (''mkdir -p /build/rootfs/sbin && cp /opt/e2fsprogs/sbin/mke2fs '' @
                      ''/build/rootfs/sbin/mke2fs'')
               else s);
          s = s @
            line (''sha256sum /build/rootfs/init | cut -d'' @ sq '' '' @ '' -f1 > /build-meta/guest-init.sha256'') @
            line (''sha256sum /build/rootfs/payload/app | cut -d'' @ sq '' '' @ '' -f1 > /build-meta/app.sha256'') @
            line ''chmod 555 /build/rootfs/init /build/rootfs/payload/app'';
          s = (if persistent then s @ line ''chmod 555 /build/rootfs/sbin/mke2fs'' else s);
          s = s @
            line ''find /build/rootfs -type d -exec chmod 755 {} +'' @
            line ''find /build/rootfs -exec touch -h -d @0 {} +'';
          dist_q = shell_quote (in_container_dist c);
          s = s @ line (''mkdir -p '' @ dist_q);
          name_q = shell_quote (pr_name (c_project c));
          s = s @
            line (''(cd /build/rootfs && find . -mindepth 1 | LC_ALL=C sort | '' @
              ''cpio -o -H newc -R 0:0 --reproducible) > /build-meta/'' @ name_q @ ''.cpio'') @
            line (''cp /build/linux-kernel/arch/x86/boot/bzImage /build-meta/'' @ name_q @ ''.bzImage'')
      in fold (\<lambda>format s. s @ rootfs_format c format) (out_formats (c_output c)) s)"

section \<open>The measurement\<close>

definition uses_uki :: "sev_snp \<Rightarrow> config \<Rightarrow> bool" where
  "uses_uki sev c =
     (case snp_measured_boot sev of
        Some MeasuredUki \<Rightarrow> True
      | Some KernelInitrd \<Rightarrow> False
      | None \<Rightarrow> FmtUki \<in> set (out_formats (c_output c)))"

definition measure_command :: "sev_snp \<Rightarrow> config \<Rightarrow> string" where
  "measure_command sev c =
     (let dist_q = shell_quote (in_container_dist c);
          name_q = shell_quote (pr_name (c_project c));
          ovmf_path_q = shell_quote (ovmf_in_container_path (snp_ovmf sev) (out_dir (c_output c)));
          vcpu_type_q = shell_quote (snp_vcpu_type sev);
          kernel_args =
            (if uses_uki sev c then ''--kernel='' @ dist_q @ ''/'' @ name_q @ ''.efi''
             else ''--kernel=/build-meta/'' @ name_q @ ''.bzImage --initrd=/build-meta/'' @ name_q @
                  ''.cpio --append='' @ shell_quote (cmdline_for c))
      in ''python3 /build/sev-snp-measure/sev-snp-measure.py --mode snp --vcpus='' @
         show_word (snp_vcpus sev) @ '' --vcpu-type='' @ vcpu_type_q @ '' --ovmf='' @ ovmf_path_q @
         '' '' @ kernel_args @ '' | tr -d '' @ sq (bs @ ''n'') @ '' > '' @ dist_q @ ''/sev_measurement.txt'')"

definition script_sev_snp_measurement :: "config \<Rightarrow> string" where
  "script_sev_snp_measurement c =
     (if prof_kind (c_profile c) \<noteq> SevSnpProfile then []
      else (case c_sev_snp c of
        None \<Rightarrow> []
      | Some sev \<Rightarrow>
          let dist_q = shell_quote (in_container_dist c);
              ovmf_path_q = shell_quote (ovmf_in_container_path (snp_ovmf sev) (out_dir (c_output c))) in
          line (''if [ ! -d /build/sev-snp-measure ]; then git clone --depth 1 '' @
            ''https://github.com/virtee/sev-snp-measure.git /build/sev-snp-measure; fi'') @
          line (''mkdir -p '' @ dist_q @ ''/.ovmf-cache && [ -f '' @ dist_q @ ''/.ovmf-cache/OVMF.fd ] || '' @
            ''cp '' @ ovmf_path_q @ '' '' @ dist_q @ ''/.ovmf-cache/OVMF.fd'') @
          line (measure_command sev c) @
          line (''sha256sum '' @ ovmf_path_q @ '' | cut -d'' @ sq '' '' @ '' -f1 > /build-meta/ovmf.sha256'')))"

section \<open>The whole script\<close>

definition HOST_UID_VAR :: string where
  "HOST_UID_VAR = ''CARGO_UNIKERNEL_HOST_UID''"

definition HOST_GID_VAR :: string where
  "HOST_GID_VAR = ''CARGO_UNIKERNEL_HOST_GID''"

definition script_reclaim_cache_ownership :: string where
  "script_reclaim_cache_ownership =
     line [] @
     line (''if [ -n '' @ dq (''${'' @ HOST_UID_VAR @ '':-}'') @ '' ] && [ -n '' @
           dq (''${'' @ HOST_GID_VAR @ '':-}'') @ '' ]; then'') @
     line (''    chown -R '' @ dq (''$'' @ HOST_UID_VAR @ '':$'' @ HOST_GID_VAR) @
           '' /build /build-meta /root/.cache/ccache /root/.cargo/registry /root/.cargo/git '' @
           ''/tmp/cargo-target 2>/dev/null || true'') @
     line ''fi''"

definition generate_build_script :: "config \<Rightarrow> acquired_app \<Rightarrow> script_error + string" where
  "generate_build_script c app =
     (let s = line ''#!/bin/bash'' @ line ''set -euo pipefail'' @ line [];
          s = s @ line ''export SOURCE_DATE_EPOCH=0'';
          s = s @ line ''export GIT_ALLOW_PROTOCOL=file:git:http:https:ssh'';
          s = s @ line ''mkdir -p /build'' @ line ''cd /build'' @ line [];
          s = s @ script_kernel_build c
      in res_bind (script_app_build c app) (\<lambda>app_stage.
         let s = s @ app_stage;
             s = s @ script_guest_init_build c;
             s = s @ script_rootfs_and_images c;
             s = s @ script_sev_snp_measurement c
         in Inr (s @ script_reclaim_cache_ownership)))"

end
