(* ===== verification/HostConfig.thy ===== *)
theory HostConfig
  imports SchemaProps Host
begin

text \<open>
  How the host tool comes to a configuration (\<open>src/config\<close>): the file it loads, the one it makes up for a project
  without such a file, and the command line's overrides. What the TOML library makes of a
  text is a parameter: \<open>parse_config\<close> for a whole configuration, \<open>crate_name\<close> for a Cargo
  manifest's package name.
\<close>

section \<open>Names and places\<close>

datatype config_error =
    ReadFailed string
  | ParseFailed string
  | Invalid validation_error
  | UnknownFormat string
  | VcpusNeedSevSnp
  | VcpuTypeNeedsSevSnp
  | NothingToBuild string

definition CONFIG_FILE_NAME :: string where
  "CONFIG_FILE_NAME = ''Cargo-Unikernel.toml''"

definition LEGACY_CONFIG_FILE_NAME :: string where
  "LEGACY_CONFIG_FILE_NAME = ''cargo-unikernel.toml''"

definition default_config_path :: "host \<Rightarrow> ('e, string) io" where
  "default_config_path h =
     io_bind (path_exists h CONFIG_FILE_NAME) (\<lambda>present.
       if present then io_return CONFIG_FILE_NAME
       else io_bind (path_exists h LEGACY_CONFIG_FILE_NAME) (\<lambda>legacy.
         io_return (if legacy then LEGACY_CONFIG_FILE_NAME else CONFIG_FILE_NAME)))"

text \<open>
  \<open>Path::parent\<close> on the pieces of the text: the pieces that are no components are passed over from
  the right, before and after the last component.
\<close>

definition strip_right :: "bool \<Rightarrow> string list \<Rightarrow> string list" where
  "strip_right rooted ps =
     (let skip = (\<lambda>p. p = [] \<or> p = ''.'') in
      if \<not> rooted \<and> take 1 ps = [''.''] then ''.'' # rev (dropWhile skip (rev (tl ps)))
      else rev (dropWhile skip (rev ps)))"

definition path_parent :: "string \<Rightarrow> string option" where
  "path_parent s =
     (let rooted = prefix ''/'' s;
          pieces = split_on (CHR ''/'') s;
          body = strip_right rooted (if rooted then tl pieces else pieces)
      in if body = [] then None
         else Some ((if rooted then ''/'' else []) @
                    join_with (CHR ''/'') (strip_right rooted (butlast body))))"

definition project_dir_of :: "string \<Rightarrow> string" where
  "project_dir_of config_path =
     (case path_parent config_path of
        Some p \<Rightarrow> if p = [] then ''.'' else p
      | None \<Rightarrow> ''.'')"

definition path_file_name :: "string \<Rightarrow> string option" where
  "path_file_name s =
     (case rev (path_components s) of Normal n # _ \<Rightarrow> Some n | _ \<Rightarrow> None)"

text \<open>\<open>Path::file_stem\<close> of a last component: the part before its last dot, unless nothing is before it.\<close>

definition file_stem :: "string \<Rightarrow> string" where
  "file_stem n =
     (case split_once (CHR ''.'') (rev n) of
        None \<Rightarrow> n
      | Some (_, before) \<Rightarrow> if before = [] then n else rev before)"

section \<open>Loading and making up a configuration\<close>

definition load :: "string \<Rightarrow> (string \<Rightarrow> config option) \<Rightarrow> host \<Rightarrow> string \<Rightarrow> (config_error, config) io" where
  "load cli parse_config h path =
     io_bind (read_file h (ReadFailed path) path) (\<lambda>raw.
     io_bind (io_lift (ok_or (parse_config raw) (ParseFailed path))) (\<lambda>config.
       case validate cli config of
         Inl e \<Rightarrow> io_fail (Invalid e)
       | Inr _ \<Rightarrow> io_return config))"

definition build_config :: "string \<Rightarrow> app \<Rightarrow> config" where
  "build_config name app =
     \<lparr>c_project = \<lparr>pr_name = name, pr_cli_version = None\<rparr>,
      c_profile = \<lparr>prof_kind = Casual\<rparr>,
      c_app = app,
      c_network = network_default,
      c_storage = storage_default,
      c_kernel = kernel_default,
      c_toolchain = \<lparr>tp_apt_snapshot = None, tp_rust_version = None, tp_e2fsprogs_version = None,
        tp_e2fsprogs_sha256 = None\<rparr>,
      c_hardening = hardening_default,
      c_sev_snp = None,
      c_output = \<lparr>out_formats = [FmtCpio], out_dir = ''dist/''\<rparr>,
      c_release = \<lparr>rel_assets = None, rel_title = None, rel_notes = None, rel_notes_file = None,
        rel_draft = False, rel_prerelease = False\<rparr>,
      c_logging = \<lparr>log_enabled = False\<rparr>\<rparr>"

definition binary_app :: "string \<Rightarrow> app" where
  "binary_app path =
     \<lparr>app_mode = ModeBinary, app_source = None, app_binary = Some \<lparr>bin_path = Some path\<rparr>,
      app_runtime = app_runtime_default\<rparr>"

definition cargo_app :: app where
  "cargo_app =
     \<lparr>app_mode = ModeSource,
      app_source = Some
        \<lparr>src_path = Some ''.'', src_toolchain = Rust, src_package_path = ''.'',
         src_cargo_profile = ''release'', src_features = [], src_build_command = None,
         src_output_binary = None, src_extra_apt_packages = []\<rparr>,
      app_binary = None, app_runtime = app_runtime_default\<rparr>"

definition detect ::
    "(string \<Rightarrow> string option) \<Rightarrow> host \<Rightarrow> string \<Rightarrow> string option \<Rightarrow> (config_error, config) io" where
  "detect crate_name h project_dir binary_override =
     (case binary_override of
        Some binary \<Rightarrow>
          io_return (build_config
            (case path_file_name binary of None \<Rightarrow> ''app'' | Some n \<Rightarrow> file_stem n)
            (binary_app binary))
      | None \<Rightarrow>
          let cargo_toml = path_join project_dir ''Cargo.toml'' in
          io_bind (perform (\<lambda>tr. h_read h tr cargo_toml) (ReadHostFile cargo_toml)) (\<lambda>r.
            case r of
              Inl _ \<Rightarrow> io_fail (NothingToBuild project_dir)
            | Inr raw \<Rightarrow>
                io_return (build_config
                  (case crate_name raw of
                     Some n \<Rightarrow> n
                   | None \<Rightarrow> (case path_file_name project_dir of None \<Rightarrow> ''app'' | Some n \<Rightarrow> n))
                  cargo_app)))"

definition resolve_for_build ::
    "string \<Rightarrow> (string \<Rightarrow> config option) \<Rightarrow> (string \<Rightarrow> string option) \<Rightarrow> host \<Rightarrow>
     string option \<Rightarrow> string option \<Rightarrow> (config_error, config \<times> string) io" where
  "resolve_for_build cli parse_config crate_name h explicit_config binary_override =
     (case explicit_config of
        Some path \<Rightarrow>
          io_bind (load cli parse_config h path) (\<lambda>config.
            io_return (config, project_dir_of path))
      | None \<Rightarrow>
          io_bind (default_config_path h) (\<lambda>default_path.
          io_bind (path_exists h default_path) (\<lambda>present.
            if present
            then io_bind (load cli parse_config h default_path) (\<lambda>config. io_return (config, ''.''))
            else io_bind (detect crate_name h ''.'' binary_override) (\<lambda>config.
              io_return (config, ''.'')))))"

section \<open>Overrides of the command line\<close>

datatype profile_arg = ArgCasual | ArgSevSnp

record build_overrides =
  ov_format :: "string list option"
  ov_profile :: "profile_arg option"
  ov_vcpus :: "u32 option"
  ov_vcpu_type :: "string option"

definition parse_format :: "string \<Rightarrow> config_error + output_format" where
  "parse_format f =
     (let t = trim f in
      if t = ''cpio'' then Inr FmtCpio
      else if t = ''uki'' then Inr FmtUki
      else if t = ''binary'' then Inr FmtBinary
      else Inl (UnknownFormat t))"

definition override_profile :: "profile_arg option \<Rightarrow> config \<Rightarrow> config" where
  "override_profile p c =
     (case p of
        None \<Rightarrow> c
      | Some a \<Rightarrow>
          c\<lparr>c_profile := (c_profile c)
              \<lparr>prof_kind := (case a of ArgCasual \<Rightarrow> Casual | ArgSevSnp \<Rightarrow> SevSnpProfile)\<rparr>\<rparr>)"

definition override_formats :: "string list option \<Rightarrow> config \<Rightarrow> config_error + config" where
  "override_formats fs c =
     (case fs of
        None \<Rightarrow> Inr c
      | Some formats \<Rightarrow>
          res_bind (traverse parse_format formats) (\<lambda>parsed.
            Inr (c\<lparr>c_output := (c_output c)\<lparr>out_formats := parsed\<rparr>\<rparr>)))"

definition override_sev :: "config_error \<Rightarrow> (sev_snp \<Rightarrow> sev_snp) option \<Rightarrow> config \<Rightarrow> config_error + config" where
  "override_sev e f c =
     (case f of
        None \<Rightarrow> Inr c
      | Some g \<Rightarrow>
          res_bind (ok_or (c_sev_snp c) e) (\<lambda>sev. Inr (c\<lparr>c_sev_snp := Some (g sev)\<rparr>)))"

definition apply_overrides :: "string \<Rightarrow> build_overrides \<Rightarrow> config \<Rightarrow> config_error + config" where
  "apply_overrides cli ov c =
     res_bind (override_formats (ov_format ov) (override_profile (ov_profile ov) c)) (\<lambda>c.
     res_bind (override_sev VcpusNeedSevSnp
                (map_option (\<lambda>n sev. sev\<lparr>snp_vcpus := n\<rparr>) (ov_vcpus ov)) c) (\<lambda>c.
     res_bind (override_sev VcpuTypeNeedsSevSnp
                (map_option (\<lambda>t sev. sev\<lparr>snp_vcpu_type := t\<rparr>) (ov_vcpu_type ov)) c) (\<lambda>c.
       case validate cli c of
         Inl e \<Rightarrow> Inl (Invalid e)
       | Inr _ \<Rightarrow> Inr c)))"

end
