(* ===== verification/Assets.thy ===== *)
theory Assets
  imports HostConfig
begin

text \<open>
  The files embedded in the tool and their extraction into a cache directory (\<open>src/assets.rs\<close>). The
  embedded trees, the version of the tool and the hash of a text (in hexadecimal) are parameters.
\<close>

datatype embedded = Embedded "(string \<times> string) list" "embedded list" \<comment> \<open>paths with contents, subdirectories\<close>

record tool =
  tool_version :: string
  tool_sha256 :: "string \<Rightarrow> string"
  tool_build_assets :: embedded
  tool_guest_source :: embedded

datatype asset_error =
    DirNotCreated string
  | FileNotWritten string
  | NotRenamed string
  | NotListed string
  | EntryNotRead string
  | NotExecutable string

definition cache_root :: "host \<Rightarrow> string" where
  "cache_root h =
     (case h_var h ''HOME'' of
        None \<Rightarrow> ''/tmp/cargo-unikernel-cache''
      | Some home \<Rightarrow> path_join home ''.cache/cargo-unikernel'')"

text \<open>The bytes the hash is fed with, in order.\<close>

fun hash_dir :: "embedded \<Rightarrow> string" where
  "hash_dir (Embedded fs subs) =
     concat (map (\<lambda>(p, contents). p @ contents) fs) @ concat (map hash_dir subs)"

definition content_fingerprint :: "tool \<Rightarrow> string" where
  "content_fingerprint t =
     take 16 (tool_sha256 t (hash_dir (tool_build_assets t) @ hash_dir (tool_guest_source t)))"

definition extract_file :: "host \<Rightarrow> string \<Rightarrow> string \<times> string \<Rightarrow> (asset_error, unit) io" where
  "extract_file h dest file =
     (case file of (p, contents) \<Rightarrow>
        let target = path_join dest p in
        io_then (case path_parent target of
                   None \<Rightarrow> io_return ()
                 | Some parent \<Rightarrow> create_dir_all h (DirNotCreated parent) parent)
                (write_file h (FileNotWritten target) target contents))"

fun extract_dir :: "host \<Rightarrow> string \<Rightarrow> embedded \<Rightarrow> (asset_error, unit) io" where
  "extract_dir h dest (Embedded fs subs) =
     io_then (io_all (extract_file h dest) fs) (io_all (extract_dir h dest) subs)"

text \<open>\<open>with_extension("")\<close> of a path that ends in \<open>Cargo.toml.dist\<close>.\<close>

definition without_dist :: "string \<Rightarrow> string" where
  "without_dist p = take (length p - length ''.dist'') p"

text \<open>The files below a directory; the walk ends at the first directory or entry that cannot be read.\<close>

fun walk :: "string \<Rightarrow> host_dir \<Rightarrow> asset_error + string list"
  and walk_entries :: "string \<Rightarrow> host_entries \<Rightarrow> asset_error + string list"
where
  "walk dir Unreadable = Inl (NotListed dir)"
| "walk dir (Listing entries) = walk_entries dir entries"
| "walk_entries dir EndOfDir = Inr []"
| "walk_entries dir BadEntry = Inl (EntryNotRead dir)"
| "walk_entries dir (NextEntry name entry rest) =
     (let p = path_join dir name in
      res_bind (case entry of HostFile \<Rightarrow> Inr [p] | HostDir d \<Rightarrow> walk p d) (\<lambda>here.
      res_bind (walk_entries dir rest) (\<lambda>later. Inr (here @ later))))"

definition restore_guest_manifests :: "host \<Rightarrow> string \<Rightarrow> (asset_error, unit) io" where
  "restore_guest_manifests h guest_dir =
     io_bind (perform (\<lambda>tr. walk guest_dir (h_tree h tr guest_dir)) (WalkDir guest_dir)) (\<lambda>found.
     io_bind (io_lift found) (\<lambda>entries.
       io_all (\<lambda>entry.
           if path_file_name entry = Some ''Cargo.toml.dist''
           then let restored = without_dist entry in
                perform_or (NotRenamed entry) (\<lambda>tr. h_rename h tr entry restored) (RenameFile entry restored)
           else io_return ()) entries))"

definition make_scripts_executable :: "host \<Rightarrow> string \<Rightarrow> (asset_error, unit) io" where
  "make_scripts_executable h build_dir =
     (let path = path_join build_dir ''kernel/build_kernel.sh'' in
      io_bind (path_exists h path) (\<lambda>present.
        if present
        then perform_or (NotExecutable path) (\<lambda>tr. h_set_permissions h tr path 493) (SetPermissions path 493)
        else io_return ()))"

definition materialize :: "tool \<Rightarrow> host \<Rightarrow> (asset_error, string) io" where
  "materialize t h =
     (let fingerprint = content_fingerprint t;
          root = path_join (cache_root h) (''assets-'' @ tool_version t @ ''-'' @ fingerprint);
          marker = path_join root ''.complete'' in
      io_bind (path_exists h marker) (\<lambda>present.
        if present then io_return root
        else
          let build_dir = path_join root ''build''; guest_dir = path_join root ''guest'' in
          io_then (create_dir_all h (DirNotCreated build_dir) build_dir)
         (io_then (create_dir_all h (DirNotCreated guest_dir) guest_dir)
         (io_then (extract_dir h build_dir (tool_build_assets t))
         (io_then (extract_dir h guest_dir (tool_guest_source t))
         (io_then (restore_guest_manifests h guest_dir)
         (io_then (make_scripts_executable h build_dir)
         (io_then (write_file h (FileNotWritten marker) marker [])
                  (io_return root)))))))))"

section \<open>A complete walk\<close>

fun tree_files :: "string \<Rightarrow> host_dir \<Rightarrow> string list" and entry_files :: "string \<Rightarrow> host_entries \<Rightarrow> string list" where
  "tree_files dir Unreadable = []"
| "tree_files dir (Listing entries) = entry_files dir entries"
| "entry_files dir EndOfDir = []"
| "entry_files dir BadEntry = []"
| "entry_files dir (NextEntry name entry rest) =
     (case entry of HostFile \<Rightarrow> [path_join dir name] | HostDir d \<Rightarrow> tree_files (path_join dir name) d) @
     entry_files dir rest"

fun readable :: "host_dir \<Rightarrow> bool" and readable_entries :: "host_entries \<Rightarrow> bool" where
  "readable Unreadable = False"
| "readable (Listing entries) = readable_entries entries"
| "readable_entries EndOfDir = True"
| "readable_entries BadEntry = False"
| "readable_entries (NextEntry name entry rest) \<longleftrightarrow>
     (case entry of HostFile \<Rightarrow> True | HostDir d \<Rightarrow> readable d) \<and> readable_entries rest"

text \<open>The walk succeeds exactly when everything below can be read, and then it has found every file.\<close>

lemma walk_complete:
  "walk dir d = Inr ps \<longleftrightarrow> readable d \<and> ps = tree_files dir d"
  "walk_entries dir es = Inr ps \<longleftrightarrow> readable_entries es \<and> ps = entry_files dir es"
proof (induction dir d and dir es arbitrary: ps and ps rule: walk_walk_entries.induct)
  case (5 dir name entry rest)
  then show ?case
    by (cases entry) (simp_all add: res_bind_Inr_iff, blast+)
qed auto

section \<open>A complete extraction\<close>

fun files_of :: "string \<Rightarrow> embedded \<Rightarrow> (string \<times> string) list" where
  "files_of dest (Embedded fs subs) =
     map (\<lambda>(p, contents). (path_join dest p, contents)) fs @ concat (map (files_of dest) subs)"

definition assets_root :: "tool \<Rightarrow> host \<Rightarrow> string" where
  "assets_root t h =
     path_join (cache_root h) (''assets-'' @ tool_version t @ ''-'' @ content_fingerprint t)"

definition assets_marker :: "tool \<Rightarrow> host \<Rightarrow> string" where
  "assets_marker t h = path_join (assets_root t h) ''.complete''"

definition asset_files :: "tool \<Rightarrow> host \<Rightarrow> (string \<times> string) list" where
  "asset_files t h =
     files_of (path_join (assets_root t h) ''build'') (tool_build_assets t) @
     files_of (path_join (assets_root t h) ''guest'') (tool_guest_source t)"

text \<open>The file has been written, without an error, by the end of the history.\<close>

definition written :: "host \<Rightarrow> history \<Rightarrow> string \<times> string \<Rightarrow> bool" where
  "written h tr file =
     (\<exists>before. prefix (before @ [WriteHostFile (fst file) (snd file)]) tr \<and>
        h_write h before (fst file) (snd file) = Inr ())"

lemma written_later: "written h tr file \<Longrightarrow> prefix tr tr' \<Longrightarrow> written h tr' file"
  unfolding written_def using prefix_order.trans by blast

lemma does_grows: "does A m \<Longrightarrow> m tr = (r, tr') \<Longrightarrow> prefix tr tr'"
  using doesD by (metis prefixI)

lemma io_all_each:
  assumes run: "io_all f xs tr = (Inr u, tr')"
    and grow: "\<And>x. x \<in> set xs \<Longrightarrow> does (\<lambda>_. True) (f x)"
    and x: "x \<in> set xs"
  shows "\<exists>s s'. f x s = (Inr (), s') \<and> prefix s' tr'"
  using run grow x
proof (induction xs arbitrary: tr)
  case (Cons y xs)
  from Cons.prems(1) obtain t where y: "f y tr = (Inr (), t)" and rest: "io_all f xs t = (Inr u, tr')"
    by (auto simp: io_outcomes)
  have "does (\<lambda>_. True) (io_all f xs)" using Cons.prems(2) by (intro does_all) simp
  from does_grows [OF this rest] have "prefix t tr'" .
  with y Cons.IH [OF rest] Cons.prems show ?case by auto
qed simp

lemma extract_grows: "does (\<lambda>_. True) (extract_dir h dest d)"
proof (induction d)
  case (Embedded fs subs)
  have "does (\<lambda>_. True) (extract_file h dest f)" for f
    unfolding extract_file_def Let_def create_dir_all_def write_file_def
    by (auto intro!: does_intros split: prod.split option.split)
  with Embedded show ?case by (auto intro!: does_intros)
qed

lemma extract_file_written:
  assumes "extract_file h dest (p, contents) tr = (Inr u, tr')"
  shows "written h tr' (path_join dest p, contents)"
  using assms
  by (auto simp: extract_file_def written_def Let_def io_outcomes write_file_def)

lemma extract_written:
  "extract_dir h dest d tr = (Inr u, tr') \<Longrightarrow> item \<in> set (files_of dest d) \<Longrightarrow> written h tr' item"
proof (induction d arbitrary: tr u tr' item)
  case (Embedded fs subs)
  from Embedded.prems(1) obtain t where own: "io_all (extract_file h dest) fs tr = (Inr (), t)"
    and below: "io_all (extract_dir h dest) subs t = (Inr u, tr')"
    by (auto simp: io_outcomes)
  have grow: "does (\<lambda>_. True) (extract_file h dest f)" for f
    unfolding extract_file_def Let_def create_dir_all_def write_file_def
    by (auto intro!: does_intros split: prod.split option.split)
  have t: "prefix t tr'"
    by (rule does_grows [OF does_all below]) (rule extract_grows)
  from Embedded.prems(2) consider
      p contents where "(p, contents) \<in> set fs" "item = (path_join dest p, contents)"
    | sub where "sub \<in> set subs" "item \<in> set (files_of dest sub)"
    by auto
  then show ?case
  proof cases
    case 1
    from io_all_each [OF own grow 1(1)] obtain s s' where
        run: "extract_file h dest (p, contents) s = (Inr (), s')" and s': "prefix s' t" by blast
    have w: "written h s' item" using extract_file_written [OF run] 1(2) by simp
    show ?thesis by (rule written_later [OF written_later [OF w s'] t])
  next
    case 2
    from io_all_each [OF below extract_grows 2(1)] obtain s s' where
        run: "extract_dir h dest sub s = (Inr (), s')" and s': "prefix s' tr'" by blast
    show ?thesis by (rule written_later [OF Embedded.IH [OF 2(1) run 2(2)] s'])
  qed
qed

lemma tail_grows:
  "does (\<lambda>_. True) (restore_guest_manifests h dir)" "does (\<lambda>_. True) (make_scripts_executable h dir)"
  unfolding restore_guest_manifests_def make_scripts_executable_def Let_def path_exists_def
  by (auto intro!: does_intros)


end
