(* ===== verification/Hex.thy ===== *)
theory Hex
  imports Bytes
begin

text \<open>
  The lower-case hexadecimal encoder of \<open>src/hex.rs\<close>, which every SHA-256 digest of the build
  goes through, and the check that \<open>src/pipeline/measurement.rs\<close> makes on a launch measurement.
\<close>

text \<open>The digit \<open>{:x}\<close> writes for a value below 16.\<close>

definition hex_digit :: "nat \<Rightarrow> char" where
  "hex_digit d = (if d < 10 then char_of (48 + d) else char_of (87 + d))"

text \<open>One \<open>write!(out, "{b:02x}")\<close>.\<close>

definition hex_byte :: "byte \<Rightarrow> string" where
  "hex_byte b = [hex_digit (unat b div 16), hex_digit (unat b mod 16)]"

fun encode :: "byte list \<Rightarrow> string" where
  "encode [] = []"
| "encode (b # bs) = hex_byte b @ encode bs"

text \<open>The reading \<open>u8::from_str_radix(chunk, 16)\<close> of two-byte chunks.\<close>

fun decode :: "string \<Rightarrow> byte list option" where
  "decode [] = Some []"
| "decode [_] = None"
| "decode (a # b # s) =
     (case from_str_radix 255 16 [a, b] of
        None \<Rightarrow> None
      | Some n \<Rightarrow> map_option ((#) (word_of_nat n)) (decode s))"

definition is_ascii_hexdigit :: "char \<Rightarrow> bool" where
  "is_ascii_hexdigit c \<longleftrightarrow> to_digit 16 c \<noteq> None"

text \<open>The shape a measurement read back from the build container must have.\<close>

definition measurement_shape_ok :: "string \<Rightarrow> bool" where
  "measurement_shape_ok hex \<longleftrightarrow> \<not> (length hex \<noteq> 96 \<or> \<not> list_all is_ascii_hexdigit hex)"

lemma to_digit_hex_digit: "d < 16 \<Longrightarrow> to_digit 16 (hex_digit d) = Some d"
  by (simp add: to_digit_def hex_digit_def of_char_of Let_def)

lemma hex_digit_neq_plus: "d < 16 \<Longrightarrow> hex_digit d \<noteq> CHR ''+''"
  using to_digit_hex_digit [of d] by (auto simp: to_digit_def)

lemma unat_byte_less: "unat (b :: byte) < 256"
  using unsigned_less [of b] by simp

lemma parse_hex_byte: "from_str_radix 255 16 (hex_byte b) = Some (unat b)"
proof -
  have "unat b div 16 < 16" using unat_byte_less [of b] by auto
  then show ?thesis
    using unat_byte_less [of b]
    by (simp add: hex_byte_def from_str_radix_def hex_digit_neq_plus to_digit_hex_digit)
qed

lemma length_encode: "length (encode bs) = 2 * length bs"
  by (induction bs) (auto simp: hex_byte_def)

lemma decode_hex_byte: "decode (hex_byte b @ s) = map_option ((#) b) (decode s)"
  using parse_hex_byte [of b] by (simp add: hex_byte_def)

lemma encode_hexdigits: "list_all is_ascii_hexdigit (encode bs)"
proof (induction bs)
  case Nil
  then show ?case by simp
next
  case (Cons b bs)
  have "unat b div 16 < 16" using unat_byte_less [of b] by auto
  with Cons show ?case by (simp add: hex_byte_def is_ascii_hexdigit_def to_digit_hex_digit)
qed

text \<open>
  The encoder loses nothing: reading its output back two characters at a time with
  \<open>u8::from_str_radix(_, 16)\<close>, as the guest does for interface addresses, gives the bytes that
  were written.
\<close>

lemma hex_roundtrip: "decode (encode bs) = Some bs"
  by (induction bs) (simp_all add: decode_hex_byte)

text \<open>
  The shape test on a launch measurement accepts the encoding of a byte string exactly
  when it is 48 bytes long, the size of a SHA-384 digest.
\<close>

lemma measurement_shape_iff: "measurement_shape_ok (encode bs) \<longleftrightarrow> length bs = 48"
  by (auto simp: measurement_shape_ok_def length_encode encode_hexdigits)

end
