(* ===== verification/Pipeline.thy ===== *)
theory Pipeline
  imports BuildScript Assets Hex
begin

text \<open>
  A whole build on the host (\<open>src/pipeline/docker/mod.rs\<close>, \<open>src/pipeline/mod.rs\<close>,
  \<open>src/pipeline/image/mod.rs\<close>, \<open>src/pipeline/measurement.rs\<close>), the release of its results
  (\<open>src/release.rs\<close>) and the commands that start them (\<open>src/lib.rs\<close>). What Docker, \<open>git\<close> and \<open>gh\<close>
  do is the host's answer to the command. The parsers of TOML and the JSON text of a sidecar are those of the
  libraries, as fields of a parameter.
\<close>

section \<open>Errors and libraries\<close>

datatype build_error =
    Config config_error
  | Place place_error
  | Script script_error
  | DockerMissing
  | DockerNotPermitted string
  | DockerUnusable string
  | AssetsFailed asset_error
  | ProjectDirMissing string
  | DateNotRun
  | DateFailed
  | ToolchainNotRun
  | ToolchainFailed
  | HostFileFailed string
  | ContainerNotRun
  | ContainerFailed string
  | ArtifactMissing string
  | FormatMissing output_format
  | NoMeasurement
  | MeasurementMalformed string
  | NoSevSnpTable
  | OnlySevSnp
  | NothingBuilt string
  | GhMissing
  | NothingToRelease string
  | NoTag
  | NotesAndNotesFile
  | GhNotRun
  | GhFailed

record component_hashes =
  kernel_sha256 :: "string option"
  cpio_sha256 :: "string option"
  app_sha256 :: "string option"
  guest_init_sha256 :: "string option"
  ovmf_sha256 :: "string option"

record build_artifacts =
  ba_bzimage :: string
  ba_cpio :: string
  ba_uki :: "string option"
  ba_binary :: "string option"
  ba_sev_measurement :: "string option"
  ba_component_hashes :: component_hashes

record sidecar =
  sc_measurement_sha384 :: string
  sc_vcpus :: u32
  sc_vcpu_type :: string
  sc_kernel_cmdline :: string
  sc_ovmf_source :: string
  sc_component_sha256 :: component_hashes

record libs =
  lib_tool :: tool
  lib_parse_config :: "string \<Rightarrow> config option"
  lib_crate_name :: "string \<Rightarrow> string option"
  lib_to_json :: "sidecar \<Rightarrow> string"

text \<open>\<open>?\<close> on the result of a function with another error type.\<close>

definition io_as :: "('e \<Rightarrow> 'f) \<Rightarrow> ('e, 'a) io \<Rightarrow> ('f, 'a) io" where
  "io_as f m tr = (case m tr of (Inl e, tr') \<Rightarrow> (Inl (f e), tr') | (Inr x, tr') \<Rightarrow> (Inr x, tr'))"

definition command_output :: "host \<Rightarrow> string \<Rightarrow> string list \<Rightarrow> ('e, io_error + bool \<times> string \<times> string) io" where
  "command_output h program args =
     perform (\<lambda>tr. h_output h tr program args) (CommandOutput program args)"

definition command_status :: "host \<Rightarrow> 'e \<Rightarrow> string \<Rightarrow> string list \<Rightarrow> ('e, bool) io" where
  "command_status h e program args =
     perform_or e (\<lambda>tr. h_status h tr program args) (CommandStatus program args)"

definition succeeds :: "host \<Rightarrow> string \<Rightarrow> string list \<Rightarrow> ('e, bool) io" where
  "succeeds h program args =
     io_bind (command_output h program args) (\<lambda>r.
       io_return (case r of Inr (ok, _) \<Rightarrow> ok | Inl _ \<Rightarrow> False))"

definition require_that :: "bool \<Rightarrow> 'e \<Rightarrow> ('e, unit) io" where
  "require_that b e = (if b then io_return () else io_fail e)"

section \<open>The build container\<close>

definition check_available :: "host \<Rightarrow> (build_error, unit) io" where
  "check_available h =
     io_bind (command_output h ''docker'' [''info'']) (\<lambda>r.
       case r of
         Inl _ \<Rightarrow> io_fail DockerMissing
       | Inr (ok, _, stderr) \<Rightarrow>
           if ok then io_return ()
           else let detail = trim stderr in
             if sublist ''permission denied'' detail then io_fail (DockerNotPermitted detail)
             else io_fail (DockerUnusable detail))"

definition docker_buildx_cache_args :: "host \<Rightarrow> string list" where
  "docker_buildx_cache_args h =
     (if h_var h ''GITHUB_ACTIONS'' = Some ''true''
      then [''--cache-from'', ''type=gha'', ''--cache-to'', ''type=gha,mode=max'']
      else [])"

definition apt_snapshot_now :: "host \<Rightarrow> config \<Rightarrow> (build_error, build_error + string) io" where
  "apt_snapshot_now h c =
     (if tp_apt_snapshot (c_toolchain c) = Some ''latest''
      then io_bind (command_output h ''date'' [''-u'', ''+%Y%m%dT%H%M%SZ'']) (\<lambda>r.
             io_return (resolve_latest_apt_snapshot DateNotRun DateFailed DateFailed
               (case r of Inl _ \<Rightarrow> None | Inr (ok, stdout, _) \<Rightarrow> Some (ok, Some stdout))))
      else io_return (Inl DateNotRun))"

definition IMAGE_TAG :: string where
  "IMAGE_TAG = ''cargo-unikernel-builder''"

definition build_toolchain_image :: "host \<Rightarrow> config \<Rightarrow> string \<Rightarrow> (build_error, string) io" where
  "build_toolchain_image h c assets_dir =
     io_bind (apt_snapshot_now h c) (\<lambda>now.
     io_bind (io_lift (build_args_for now (c_toolchain c) (st_mode (c_storage c)))) (\<lambda>build_args.
     io_bind (command_status h ToolchainNotRun ''docker''
       ([''buildx'', ''build'', ''--network'', ''host'', ''--load''] @
        docker_buildx_cache_args h @
        concat (map (\<lambda>(name, val). [''--build-arg'', name @ ''='' @ val]) build_args) @
        [''-t'', IMAGE_TAG, ''-f'', path_join assets_dir ''build/docker/Dockerfile.reproducible'',
         path_join assets_dir ''build''])) (\<lambda>ok.
       io_then (require_that ok ToolchainFailed) (io_return IMAGE_TAG))))"

definition write_build_script :: "host \<Rightarrow> config \<Rightarrow> acquired_app \<Rightarrow> string \<Rightarrow> (build_error, string) io" where
  "write_build_script h c app last_build_dir =
     (let generated_dir = path_join last_build_dir ''generated'';
          extra = h_extra_kernel_config (c_hardening c);
          extra_path = path_join generated_dir ''extra-kconfig.config'';
          script_path = path_join last_build_dir ''build.sh'' in
      io_then (create_dir_all h (HostFileFailed generated_dir) generated_dir)
     (io_then (if extra = [] then io_return ()
               else write_file h (HostFileFailed extra_path) extra_path (join_with NL extra @ [NL]))
     (io_bind (io_lift (case generate_build_script c app of
                 Inl e \<Rightarrow> Inl (Script e) | Inr s \<Rightarrow> Inr s)) (\<lambda>script.
      io_then (write_file h (HostFileFailed script_path) script_path script)
     (io_then (perform_or (HostFileFailed script_path)
                (\<lambda>tr. h_set_permissions h tr script_path 493) (SetPermissions script_path 493))
              (io_return script_path))))))"

text \<open>The uid and gid \<open>id\<close> prints, when both commands could be run and printed something.\<close>

definition host_uid_gid :: "host \<Rightarrow> ('e, (string \<times> string) option) io" where
  "host_uid_gid h =
     io_bind (command_output h ''id'' [''-u'']) (\<lambda>u.
       case u of
         Inl _ \<Rightarrow> io_return None
       | Inr (_, uid, _) \<Rightarrow>
           io_bind (command_output h ''id'' [''-g'']) (\<lambda>g.
             case g of
               Inl _ \<Rightarrow> io_return None
             | Inr (_, gid, _) \<Rightarrow>
                 io_return (if trim uid = [] \<or> trim gid = [] then None else Some (trim uid, trim gid))))"

definition container_mounts :: "string \<Rightarrow> string \<Rightarrow> string \<Rightarrow> string \<Rightarrow> (string \<times> string \<times> bool) list" where
  "container_mounts project_dir assets_dir cache last_build_dir =
     [(project_dir, ''/workspace'', False),
      (path_join assets_dir ''build'', ''/assets'', True),
      (path_join assets_dir ''guest'', ''/assets-guest'', True),
      (last_build_dir, ''/build-meta'', False),
      (path_join cache ''kernel-build'', ''/build'', False),
      (path_join cache ''ccache'', ''/root/.cache/ccache'', False),
      (path_join cache ''cargo/registry'', ''/root/.cargo/registry'', False),
      (path_join cache ''cargo/git'', ''/root/.cargo/git'', False),
      (path_join cache ''target'', ''/tmp/cargo-target'', False)]"

definition mount_arg :: "string \<times> string \<times> bool \<Rightarrow> string" where
  "mount_arg m = (case m of (host_dir, container, read_only) \<Rightarrow>
     host_dir @ '':'' @ container @ (if read_only then '':ro'' else []))"

definition docker_run_args ::
    "string \<Rightarrow> string \<Rightarrow> (string \<times> string) option \<Rightarrow> (string \<times> string \<times> bool) list \<Rightarrow> string list" where
  "docker_run_args image_tag assets_dir ids mounts =
     [''run'', ''--rm'', ''--network'', ''host'', ''--security-opt'',
      ''seccomp='' @ path_join assets_dir ''build/docker/seccomp-personality.json''] @
     (case ids of
        None \<Rightarrow> []
      | Some (uid, gid) \<Rightarrow> [''-e'', HOST_UID_VAR @ ''='' @ uid, ''-e'', HOST_GID_VAR @ ''='' @ gid]) @
     concat (map (\<lambda>m. [''-v'', mount_arg m]) mounts) @
     [''-w'', ''/workspace'', image_tag, ''/bin/bash'', ''/build-meta/build.sh'']"

definition run_build_container ::
    "host \<Rightarrow> string \<Rightarrow> string \<Rightarrow> string \<Rightarrow> string \<Rightarrow> string \<Rightarrow> string \<Rightarrow> (build_error, unit) io" where
  "run_build_container h image_tag project_dir assets_dir cache last_build_dir script_path =
     (let mounts = container_mounts project_dir assets_dir cache last_build_dir in
      io_then (io_all (\<lambda>(host_dir, _). create_dir_all h (HostFileFailed host_dir) host_dir) (drop 4 mounts))
     (io_bind (host_uid_gid h) (\<lambda>ids.
      io_bind (command_status h ContainerNotRun ''docker''
                (docker_run_args image_tag assets_dir ids mounts)) (\<lambda>ok.
        require_that ok (ContainerFailed script_path)))))"

section \<open>Its artifacts\<close>

definition sha256_hex_of_file :: "libs \<Rightarrow> host \<Rightarrow> string \<Rightarrow> (build_error, string) io" where
  "sha256_hex_of_file l h path =
     io_bind (read_file h (HostFileFailed path) path) (\<lambda>content. io_return (tool_sha256 (lib_tool l) content))"

definition hash_file :: "host \<Rightarrow> string \<Rightarrow> ('e, string option) io" where
  "hash_file h path =
     io_bind (perform (\<lambda>tr. h_read h tr path) (ReadHostFile path)) (\<lambda>r.
       io_return (read_hash_file (case r of Inl _ \<Rightarrow> None | Inr s \<Rightarrow> Some s)))"

definition if_exists :: "host \<Rightarrow> string \<Rightarrow> ('e, string option) io" where
  "if_exists h path =
     io_bind (path_exists h path) (\<lambda>present. io_return (if present then Some path else None))"

definition collect_artifacts ::
    "libs \<Rightarrow> host \<Rightarrow> config \<Rightarrow> string \<Rightarrow> string \<Rightarrow> (build_error, build_artifacts) io" where
  "collect_artifacts l h c dist_dir last_build_dir =
     (let name = pr_name (c_project c);
          dir = (if FmtCpio \<in> set (out_formats (c_output c)) then dist_dir else last_build_dir);
          bzimage = path_join dir (name @ ''.bzImage'');
          cpio = path_join dir (name @ ''.cpio'') in
      io_then (io_all (\<lambda>required. io_bind (path_exists h required) (\<lambda>present.
                 require_that present (ArtifactMissing required))) [bzimage, cpio])
     (io_bind (sha256_hex_of_file l h bzimage) (\<lambda>kernel_hash.
      io_bind (sha256_hex_of_file l h cpio) (\<lambda>cpio_hash.
      io_bind (hash_file h (path_join last_build_dir ''app.sha256'')) (\<lambda>app_hash.
      io_bind (hash_file h (path_join last_build_dir ''guest-init.sha256'')) (\<lambda>init_hash.
      io_bind (hash_file h (path_join last_build_dir ''ovmf.sha256'')) (\<lambda>ovmf_hash.
      io_bind (if_exists h (path_join dist_dir (name @ ''.efi''))) (\<lambda>uki.
      io_bind (if_exists h (path_join dist_dir (name @ ''.bin''))) (\<lambda>binary.
      io_bind (if_exists h (path_join dist_dir ''sev_measurement.txt'')) (\<lambda>measurement.
        io_return
          \<lparr>ba_bzimage = bzimage, ba_cpio = cpio, ba_uki = uki, ba_binary = binary,
           ba_sev_measurement = measurement,
           ba_component_hashes =
             \<lparr>kernel_sha256 = Some kernel_hash, cpio_sha256 = Some cpio_hash, app_sha256 = app_hash,
              guest_init_sha256 = init_hash, ovmf_sha256 = ovmf_hash\<rparr>\<rparr>))))))))))"

definition run_reproducible_build ::
    "libs \<Rightarrow> host \<Rightarrow> config \<Rightarrow> string \<Rightarrow> acquired_app \<Rightarrow> (build_error, build_artifacts) io" where
  "run_reproducible_build l h c project_dir app =
     io_then (check_available h)
    (io_bind (canonicalize h (ProjectDirMissing project_dir) project_dir) (\<lambda>proj.
     io_bind (io_as AssetsFailed (materialize (lib_tool l) h)) (\<lambda>assets_dir.
     io_bind (io_as Place (host_dist_dir h c (path_text proj))) (\<lambda>dist_dir.
     io_bind (build_toolchain_image h c assets_dir) (\<lambda>image_tag.
     let cache = cache_root h; last_build_dir = path_join cache ''last-build'' in
     io_bind (write_build_script h c app last_build_dir) (\<lambda>script_path.
     io_then (run_build_container h image_tag (path_text proj) assets_dir cache last_build_dir script_path)
             (collect_artifacts l h c (path_text dist_dir) last_build_dir)))))))"

definition image_write :: "host \<Rightarrow> build_artifacts \<Rightarrow> output_format \<Rightarrow> (build_error, unit) io" where
  "image_write h artifacts format =
     (case format of
        FmtCpio \<Rightarrow>
          io_bind (path_exists h (ba_cpio artifacts)) (\<lambda>cpio.
            if \<not> cpio then io_fail (FormatMissing FmtCpio)
            else io_bind (path_exists h (ba_bzimage artifacts)) (\<lambda>bzimage.
                   require_that bzimage (FormatMissing FmtCpio)))
      | FmtUki \<Rightarrow> require_that (ba_uki artifacts \<noteq> None) (FormatMissing FmtUki)
      | FmtBinary \<Rightarrow> require_that (ba_binary artifacts \<noteq> None) (FormatMissing FmtBinary))"

section \<open>The measurement\<close>

definition compute_measurement ::
    "libs \<Rightarrow> host \<Rightarrow> config \<Rightarrow> string \<Rightarrow> build_artifacts \<Rightarrow> (build_error, string) io" where
  "compute_measurement l h c project_dir artifacts =
     io_bind (io_lift (ok_or (ba_sev_measurement artifacts) NoMeasurement)) (\<lambda>path.
     io_bind (read_file h (HostFileFailed path) path) (\<lambda>content.
     let hex = trim content in
     io_then (require_that (measurement_shape_ok hex) (MeasurementMalformed path))
    (io_bind (io_lift (ok_or (c_sev_snp c) NoSevSnpTable)) (\<lambda>sev.
     let ovmf_source = (case ovmf_preset (snp_ovmf sev) of
           Some p \<Rightarrow> p
         | None \<Rightarrow> (case ovmf_path (snp_ovmf sev) of Some p \<Rightarrow> p | None \<Rightarrow> []));
         sidecar = \<lparr>sc_measurement_sha384 = hex, sc_vcpus = snp_vcpus sev, sc_vcpu_type = snp_vcpu_type sev,
           sc_kernel_cmdline = snp_kernel_cmdline sev, sc_ovmf_source = ovmf_source,
           sc_component_sha256 = ba_component_hashes artifacts\<rparr>;
         sidecar_path = path_join (path_join project_dir (out_dir (c_output c))) ''sev_measurement.json'' in
     io_then (write_file h (HostFileFailed sidecar_path) sidecar_path (lib_to_json l sidecar))
             (io_return hex)))))"

section \<open>A build\<close>

definition build :: "libs \<Rightarrow> host \<Rightarrow> config \<Rightarrow> string \<Rightarrow> (build_error, unit) io" where
  "build l h c project_dir =
     io_then (case c_sev_snp c of
                None \<Rightarrow> io_return ()
              | Some sev \<Rightarrow> io_as Place (ovmf_stage h (snp_ovmf sev) project_dir (out_dir (c_output c))))
    (io_then (io_as Place (storage_stage h c project_dir))
    (io_bind (io_as Place (acquire h c project_dir)) (\<lambda>app.
     io_bind (run_reproducible_build l h c project_dir app) (\<lambda>artifacts.
     io_then (io_all (image_write h artifacts) (out_formats (c_output c)))
    (if prof_kind (c_profile c) = SevSnpProfile
     then io_bind (compute_measurement l h c project_dir artifacts) (\<lambda>hex. io_return ())
     else io_return ())))))"

section \<open>A release\<close>

definition candidate_assets :: "config \<Rightarrow> string \<Rightarrow> (release_asset \<times> string) list" where
  "candidate_assets c dist_dir =
     (let name = pr_name (c_project c) in
      [(AssetBzimage, path_join dist_dir (name @ ''.bzImage'')),
       (AssetCpio, path_join dist_dir (name @ ''.cpio'')),
       (AssetUki, path_join dist_dir (name @ ''.efi'')),
       (AssetBinary, path_join dist_dir (name @ ''.bin'')),
       (AssetMeasurement, path_join dist_dir ''sev_measurement.txt''),
       (AssetMeasurement, path_join dist_dir ''sev_measurement.json''),
       (AssetOvmf, ovmf_host_path dist_dir)])"

fun keep_existing :: "host \<Rightarrow> string list \<Rightarrow> ('e, string list) io" where
  "keep_existing h [] = io_return []"
| "keep_existing h (p # ps) =
     io_bind (path_exists h p) (\<lambda>present.
     io_bind (keep_existing h ps) (\<lambda>rest. io_return (if present then p # rest else rest)))"

definition select_assets :: "host \<Rightarrow> config \<Rightarrow> string \<Rightarrow> ('e, string list) io" where
  "select_assets h c dist_dir =
     keep_existing h
       (map snd (filter (\<lambda>(kind, _). case rel_assets (c_release c) of
                           None \<Rightarrow> True | Some kinds \<Rightarrow> kind \<in> set kinds)
                   (candidate_assets c dist_dir)))"

definition resolve_git_tag :: "host \<Rightarrow> ('e, string option) io" where
  "resolve_git_tag h =
     io_bind (command_output h ''git'' [''describe'', ''--tags'', ''--exact-match'']) (\<lambda>r.
       case r of
         Inr (True, stdout, _) \<Rightarrow> io_return (Some (trim stdout))
       | _ \<Rightarrow>
           io_bind (command_output h ''git'' [''rev-parse'', ''--short'', ''HEAD'']) (\<lambda>r.
             io_return (case r of
               Inr (True, stdout, _) \<Rightarrow> Some (''build-'' @ trim stdout)
             | _ \<Rightarrow> None)))"

definition create_args :: "release \<Rightarrow> string \<Rightarrow> string \<Rightarrow> build_error + string list" where
  "create_args rel project_dir tag =
     res_bind
       (case (rel_notes rel, rel_notes_file rel) of
          (Some notes, None) \<Rightarrow> Inr [''--notes'', notes]
        | (None, Some notes_file) \<Rightarrow> Inr [''--notes-file'', path_join project_dir notes_file]
        | (None, None) \<Rightarrow> Inr [''--generate-notes'']
        | (Some _, Some _) \<Rightarrow> Inl NotesAndNotesFile)
       (\<lambda>notes. Inr ([''release'', ''create'', tag] @
          (case rel_title rel of None \<Rightarrow> [] | Some title \<Rightarrow> [''--title'', title]) @
          notes @
          (if rel_draft rel then [''--draft''] else []) @
          (if rel_prerelease rel then [''--prerelease''] else [])))"

definition publish :: "host \<Rightarrow> config \<Rightarrow> string \<Rightarrow> string option \<Rightarrow> (build_error, unit) io" where
  "publish h c project_dir given_tag =
     (let dist_dir = path_join project_dir (trim_end_matches (CHR ''/'') (out_dir (c_output c))) in
      io_bind (select_assets h c dist_dir) (\<lambda>assets.
      io_then (require_that (assets \<noteq> []) (NothingToRelease dist_dir))
     (io_bind (case given_tag of Some t \<Rightarrow> io_return (Some t) | None \<Rightarrow> resolve_git_tag h) (\<lambda>tag.
      io_bind (io_lift (ok_or tag NoTag)) (\<lambda>tag.
      io_bind (succeeds h ''gh'' [''release'', ''view'', tag]) (\<lambda>existing.
      io_bind (io_lift (if existing then Inr [''release'', ''upload'', tag, ''--clobber'']
                        else create_args (c_release c) project_dir tag)) (\<lambda>args.
      io_bind (command_status h GhNotRun ''gh'' (args @ assets)) (\<lambda>ok.
        require_that ok GhFailed))))))))"

definition release_run :: "libs \<Rightarrow> host \<Rightarrow> config \<Rightarrow> string \<Rightarrow> string option \<Rightarrow> bool \<Rightarrow> (build_error, unit) io" where
  "release_run l h c project_dir tag no_build =
     io_bind (succeeds h ''gh'' [''--version'']) (\<lambda>gh.
     io_then (require_that gh GhMissing)
    (io_then (if no_build then io_return () else build l h c project_dir)
             (publish h c project_dir tag)))"

section \<open>Commands\<close>

definition resolve :: "libs \<Rightarrow> host \<Rightarrow> string option \<Rightarrow> string option \<Rightarrow> (build_error, config \<times> string) io" where
  "resolve l h config_path binary =
     io_as Config
       (resolve_for_build (tool_version (lib_tool l)) (lib_parse_config l) (lib_crate_name l) h config_path binary)"

definition cmd_build ::
    "libs \<Rightarrow> host \<Rightarrow> string option \<Rightarrow> string option \<Rightarrow> build_overrides \<Rightarrow> (build_error, unit) io" where
  "cmd_build l h config_path binary overrides =
     io_bind (resolve l h config_path binary) (\<lambda>(loaded, project_dir).
     io_bind (io_lift (case apply_overrides (tool_version (lib_tool l)) overrides loaded of
                Inl e \<Rightarrow> Inl (Config e) | Inr c \<Rightarrow> Inr c)) (\<lambda>final_config.
       build l h final_config project_dir))"

definition cmd_measure :: "libs \<Rightarrow> host \<Rightarrow> string option \<Rightarrow> (build_error, string) io" where
  "cmd_measure l h config_path =
     io_bind (case config_path of Some p \<Rightarrow> io_return p | None \<Rightarrow> default_config_path h) (\<lambda>config_path.
     let project_dir = project_dir_of config_path in
     io_bind (io_as Config (load (tool_version (lib_tool l)) (lib_parse_config l) h config_path)) (\<lambda>loaded.
     io_then (require_that (prof_kind (c_profile loaded) = SevSnpProfile) OnlySevSnp)
    (let dist = path_join project_dir (trim_end_matches (CHR ''/'') (out_dir (c_output loaded)));
         name = pr_name (c_project loaded);
         bzimage = path_join dist (name @ ''.bzImage'');
         cpio = path_join dist (name @ ''.cpio'');
         last_build_dir = path_join (cache_root h) ''last-build'' in
     io_bind (path_exists h bzimage) (\<lambda>have_bzimage.
     io_bind (if have_bzimage then path_exists h cpio else io_return False) (\<lambda>have_both.
     io_then (require_that have_both (NothingBuilt dist))
    (io_bind (perform (\<lambda>tr. h_read h tr bzimage) (ReadHostFile bzimage)) (\<lambda>kernel.
     io_bind (perform (\<lambda>tr. h_read h tr cpio) (ReadHostFile cpio)) (\<lambda>initrd.
     io_bind (hash_file h (path_join last_build_dir ''app.sha256'')) (\<lambda>app_hash.
     io_bind (hash_file h (path_join last_build_dir ''guest-init.sha256'')) (\<lambda>init_hash.
     io_bind (hash_file h (path_join last_build_dir ''ovmf.sha256'')) (\<lambda>ovmf_hash.
     let ok_hash = (\<lambda>r. case r of Inl _ \<Rightarrow> None | Inr content \<Rightarrow> Some (tool_sha256 (lib_tool l) content)) in
       compute_measurement l h loaded project_dir
         \<lparr>ba_bzimage = bzimage, ba_cpio = cpio, ba_uki = None, ba_binary = None,
          ba_sev_measurement = Some (path_join dist ''sev_measurement.txt''),
          ba_component_hashes =
            \<lparr>kernel_sha256 = ok_hash kernel, cpio_sha256 = ok_hash initrd, app_sha256 = app_hash,
             guest_init_sha256 = init_hash, ovmf_sha256 = ovmf_hash\<rparr>\<rparr>)))))))))))"

definition cmd_release ::
    "libs \<Rightarrow> host \<Rightarrow> string option \<Rightarrow> string option \<Rightarrow> bool \<Rightarrow> (build_error, unit) io" where
  "cmd_release l h config_path tag no_build =
     io_bind (resolve l h config_path None) (\<lambda>(loaded, project_dir).
       release_run l h loaded project_dir tag no_build)"

end
