(* ===== verification/HostConfigProps.thy ===== *)
theory HostConfigProps
  imports HostConfig
begin

text \<open>
  What the configuration that reaches the build is: the overrides of the command line are exactly the
  requested changes, checked again, and a project without a configuration file gets one that
  is valid up to its name.
\<close>

section \<open>Overrides\<close>

definition format_named :: "string \<Rightarrow> output_format option" where
  "format_named = map_of [(''cpio'', FmtCpio), (''uki'', FmtUki), (''binary'', FmtBinary)]"

definition chosen_profile :: "profile_arg option \<Rightarrow> profile_kind \<Rightarrow> profile_kind" where
  "chosen_profile p k =
     (case p of None \<Rightarrow> k | Some ArgCasual \<Rightarrow> Casual | Some ArgSevSnp \<Rightarrow> SevSnpProfile)"

definition or_else :: "'a option \<Rightarrow> 'a \<Rightarrow> 'a" where
  "or_else x d = (case x of None \<Rightarrow> d | Some y \<Rightarrow> y)"

text \<open>\<open>c'\<close> is \<open>c\<close> with the requested changes and no other.\<close>

definition overridden :: "build_overrides \<Rightarrow> config \<Rightarrow> config \<Rightarrow> bool" where
  "overridden ov c c' \<longleftrightarrow>
     prof_kind (c_profile c') = chosen_profile (ov_profile ov) (prof_kind (c_profile c)) \<and>
     (case ov_format ov of
        None \<Rightarrow> out_formats (c_output c') = out_formats (c_output c)
      | Some fs \<Rightarrow> map (\<lambda>f. format_named (trim f)) fs = map Some (out_formats (c_output c'))) \<and>
     out_dir (c_output c') = out_dir (c_output c) \<and>
     (case c_sev_snp c of
        None \<Rightarrow> c_sev_snp c' = None \<and> ov_vcpus ov = None \<and> ov_vcpu_type ov = None
      | Some s \<Rightarrow> c_sev_snp c' =
          Some (s\<lparr>snp_vcpus := or_else (ov_vcpus ov) (snp_vcpus s),
                  snp_vcpu_type := or_else (ov_vcpu_type ov) (snp_vcpu_type s)\<rparr>)) \<and>
     c'\<lparr>c_profile := c_profile c, c_output := c_output c, c_sev_snp := c_sev_snp c\<rparr> = c"

lemma parse_format_iff: "parse_format f = Inr x \<longleftrightarrow> format_named (trim f) = Some x"
  by (auto simp: parse_format_def format_named_def Let_def)

lemma formats_iff:
  "traverse parse_format fs = Inr xs \<longleftrightarrow> map (\<lambda>f. format_named (trim f)) fs = map Some xs"
proof (induction fs arbitrary: xs)
  case (Cons f fs)
  show ?case
    by (cases xs) (auto simp: res_simps parse_format_iff Cons.IH [symmetric])
qed auto

lemma override_formats_iff:
  "override_formats fs c = Inr c' \<longleftrightarrow>
     (\<exists>xs. (case fs of None \<Rightarrow> xs = out_formats (c_output c)
            | Some fs \<Rightarrow> map (\<lambda>f. format_named (trim f)) fs = map Some xs) \<and>
           c' = c\<lparr>c_output := (c_output c)\<lparr>out_formats := xs\<rparr>\<rparr>)"
  by (auto simp: override_formats_def res_simps formats_iff split: option.splits)

lemma override_profile_chosen:
  "override_profile p c =
     c\<lparr>c_profile := (c_profile c)\<lparr>prof_kind := chosen_profile p (prof_kind (c_profile c))\<rparr>\<rparr>"
  by (simp add: override_profile_def chosen_profile_def split: option.split profile_arg.split)

text \<open>The two overrides of the \<open>[sev_snp]\<close> table together.\<close>

lemma override_sev_iff:
  "(res_bind (override_sev e (map_option (\<lambda>n sev. sev\<lparr>snp_vcpus := n\<rparr>) vcpus) c) (\<lambda>c.
      override_sev e' (map_option (\<lambda>t sev. sev\<lparr>snp_vcpu_type := t\<rparr>) type) c) = Inr c') \<longleftrightarrow>
   (case c_sev_snp c of
      None \<Rightarrow> vcpus = None \<and> type = None \<and> c' = c
    | Some s \<Rightarrow> c' = c\<lparr>c_sev_snp :=
        Some (s\<lparr>snp_vcpus := or_else vcpus (snp_vcpus s),
                snp_vcpu_type := or_else type (snp_vcpu_type s)\<rparr>)\<rparr>)"
  by (cases vcpus; cases type; cases "c_sev_snp c")
    (auto simp: override_sev_def or_else_def)

lemma checked_iff:
  "(case r of Inl e \<Rightarrow> Inl (f e) | Inr u \<Rightarrow> Inr x) = Inr y \<longleftrightarrow> r = Inr () \<and> x = y"
  by (cases r) auto

lemma apply_overrides_steps:
  "apply_overrides cli ov c = Inr c' \<longleftrightarrow>
     (\<exists>d. override_formats (ov_format ov) (override_profile (ov_profile ov) c) = Inr d \<and>
        res_bind (override_sev VcpusNeedSevSnp
            (map_option (\<lambda>n sev. sev\<lparr>snp_vcpus := n\<rparr>) (ov_vcpus ov)) d) (\<lambda>c.
          override_sev VcpuTypeNeedsSevSnp
            (map_option (\<lambda>t sev. sev\<lparr>snp_vcpu_type := t\<rparr>) (ov_vcpu_type ov)) c) = Inr c' \<and>
        validate cli c' = Inr ())"
  unfolding apply_overrides_def by (simp only: res_bind_Inr_iff checked_iff) blast

lemma apply_overrides_valid:
  "apply_overrides cli ov c = Inr c' \<Longrightarrow> validate cli c' = Inr ()"
  unfolding apply_overrides_steps by blast

text \<open>
  C31. The overrides of the command line make exactly the configuration they ask for: the named
  profile, the named formats (trimmed, in order, each one known), the virtual CPU count and
  type in a \<open>[sev_snp]\<close> table that has to be there, nothing else changed; and the result
  is returned exactly when it satisfies the whole specification of a valid configuration.
\<close>

theorem overrides_applied:
  "apply_overrides cli ov c = Inr c' \<longleftrightarrow> overridden ov c c' \<and> valid_config cli c'"
proof -
  obtain project prof app net stor kern tool hard sev out rel lg
    where c: "c = \<lparr>c_project = project, c_profile = prof, c_app = app, c_network = net,
      c_storage = stor, c_kernel = kern, c_toolchain = tool, c_hardening = hard, c_sev_snp = sev,
      c_output = out, c_release = rel, c_logging = lg\<rparr>"
    by (cases c)
  obtain project' prof' app' net' stor' kern' tool' hard' sev' out' rel' lg'
    where c': "c' = \<lparr>c_project = project', c_profile = prof', c_app = app', c_network = net',
      c_storage = stor', c_kernel = kern', c_toolchain = tool', c_hardening = hard', c_sev_snp = sev',
      c_output = out', c_release = rel', c_logging = lg'\<rparr>"
    by (cases c')
  obtain k k' where prof: "prof = \<lparr>prof_kind = k\<rparr>" "prof' = \<lparr>prof_kind = k'\<rparr>"
    by (cases prof, cases prof')
  obtain fs d fs' d' where out: "out = \<lparr>out_formats = fs, out_dir = d\<rparr>"
      "out' = \<lparr>out_formats = fs', out_dir = d'\<rparr>"
    by (cases out, cases out')
  show ?thesis
    unfolding apply_overrides_steps override_formats_iff override_sev_iff override_profile_chosen
      validate_iff overridden_def c c' prof out
    by (cases sev; cases "ov_format ov") auto
qed

section \<open>Projects without a configuration file\<close>

lemma built_config_valid:
  assumes "app_ok app" and "rt_env (app_runtime app) = []"
    and "rt_landlock (app_runtime app) = landlock_default"
  shows "validate cli (build_config name app) = Inr () \<longleftrightarrow> name_ok name"
proof -
  have "inbound_ok \<lparr>in_proto = ''tcp'', in_ports = ''80''\<rparr>"
    "inbound_ok \<lparr>in_proto = ''tcp'', in_ports = ''443''\<rparr>"
    "inbound_ok \<lparr>in_proto = ''udp'', in_ports = ''443''\<rparr>"
    by (simp_all add: inbound_ok_def port_bounds_def from_str_radix_def to_digit_def)
  moreover have "trim ''dist/'' \<noteq> []" by code_simp
  ultimately show ?thesis
    using assms
    by (simp add: validate_iff valid_config_def build_config_def output_ok_def profile_ok_def
      kv_safe_def list_safe_def network_default_def firewall_default_def default_firewall_inbound_def
      inbound_new_def storage_default_def default_storage_size_mib_def kernel_default_def
      hardening_default_def landlock_default_def has_any_def)
qed

lemma default_apps_ok: "app_ok cargo_app" "app_ok (binary_app path)"
  by (simp_all add: app_ok_def source_ok_def cargo_app_def binary_app_def app_runtime_default_def
    default_uid_def default_gid_def)

text \<open>
  The configuration made up for a project without a configuration file passes validation exactly
  when the name it took (the file stem of the given binary, the package name, the directory's
  name or \<open>app\<close>) is one a project may have: no default it fills in is ever the reason of a
  rejection.
\<close>

lemma zero_config_valid:
  assumes "detect crate_name h project_dir binary_override tr = (Inr c, tr')"
  shows "validate cli c = Inr () \<longleftrightarrow> name_ok (pr_name (c_project c))"
proof -
  obtain name app where c: "c = build_config name app" and app: "app = cargo_app \<or> (\<exists>p. app = binary_app p)"
    using assms by (auto simp: detect_def Let_def io_outcomes split: option.splits sum.splits)
  have "app_ok app" "rt_env (app_runtime app) = []" "rt_landlock (app_runtime app) = landlock_default"
    using app default_apps_ok
    by (auto simp: cargo_app_def binary_app_def app_runtime_default_def)
  then have "validate cli c = Inr () \<longleftrightarrow> name_ok name" unfolding c by (rule built_config_valid)
  then show ?thesis by (simp add: c build_config_def)
qed

lemma zero_config_valid_witness:
  "validate ''1.0.0'' (build_config ''tool'' (binary_app ''./tool.elf'')) = Inr () \<longleftrightarrow> name_ok ''tool''"
proof -
  have stem: "file_stem ''tool.elf'' = ''tool''" by code_simp
  have name: "path_file_name ''./tool.elf'' = Some ''tool.elf''" by code_simp
  have run: "detect (\<lambda>_. None) h ''.'' (Some ''./tool.elf'') [] =
      (Inr (build_config ''tool'' (binary_app ''./tool.elf'')), [])" for h
    by (simp add: detect_def stem name io_return_def)
  show ?thesis using zero_config_valid [OF run, of "''1.0.0''"] by (simp add: build_config_def)
qed

text \<open>A loaded configuration has passed validation.\<close>

lemma load_valid:
  assumes "load cli parse_config h path tr = (Inr c, tr')"
  shows "validate cli c = Inr ()"
proof -
  obtain config tr0 where "(case validate cli config of
      Inl e \<Rightarrow> io_fail (Invalid e) | Inr _ \<Rightarrow> io_return config) tr0 = (Inr c, tr')"
    using assms by (auto simp: load_def io_outcomes)
  then show ?thesis by (cases "validate cli config") (auto simp: io_outcomes)
qed

end
