(* ===== verification/PipelineProps.thy ===== *)
theory PipelineProps
  imports Pipeline HostConfigProps
begin

text \<open>
  What a command of the host tool has done when it ends: what happens before the configuration is
  valid, and what a successful build leaves behind.
\<close>

section \<open>Histories only grow\<close>

definition grows :: "('e, 'a) io \<Rightarrow> bool" where
  "grows m \<longleftrightarrow> does (\<lambda>_. True) m"

lemma grows_prefix: "grows m \<Longrightarrow> m tr = (r, tr') \<Longrightarrow> prefix tr tr'"
  unfolding grows_def using doesD by (metis prefixI)

lemma grows_assets: "does (\<lambda>_. True) (materialize t h)"
  unfolding materialize_def Let_def path_exists_def create_dir_all_def write_file_def
  by (intro does_intros extract_grows tail_grows) simp_all

lemma does_as [does_intros]: "does A m \<Longrightarrow> does A (io_as f m)"
  unfolding does_def io_as_def by (auto split: prod.splits sum.splits) (metis snd_conv)+

lemma io_as_iff [io_outcomes]: "io_as f m tr = (Inr y, tr') \<longleftrightarrow> m tr = (Inr y, tr')"
  by (auto simp: io_as_def split: prod.splits sum.splits)

lemma require_that_iff [io_outcomes]: "require_that b e tr = (Inr u, tr') \<longleftrightarrow> b \<and> tr' = tr"
  by (auto simp: require_that_def io_outcomes)

lemma does_require [does_intros]: "does A (require_that b e)"
  unfolding require_that_def by (intro does_intros)

lemma does_file_ops [does_intros]:
  "A (PathExists p) \<Longrightarrow> does A (path_exists h p)"
  "A (ReadHostFile p) \<Longrightarrow> does A (read_file h e p)"
  "A (WriteHostFile p b) \<Longrightarrow> does A (write_file h e p b)"
  "A (CreateDirAll p) \<Longrightarrow> does A (create_dir_all h e p)"
  "A (Canonicalize p) \<Longrightarrow> does A (canonicalize h e p)"
  by (simp_all add: path_exists_def read_file_def write_file_def create_dir_all_def canonicalize_def
    does_intros)

lemma does_commands [does_intros]:
  "A (CommandOutput p args) \<Longrightarrow> does A (command_output h p args)"
  "A (CommandStatus p args) \<Longrightarrow> does A (command_status h e p args)"
  "A (CommandOutput p args) \<Longrightarrow> does A (succeeds h p args)"
  by (simp_all add: command_output_def command_status_def succeeds_def does_intros)

named_theorems growing \<open>host code only adds to the history\<close>

lemma grows_places [growing]:
  "grows (host_dist_dir h c dir)" "grows (storage_stage h c dir)" "grows (acquire h c dir)"
  "grows (ovmf_stage h ovmf dir out)"
proof -
  have "does (\<lambda>_. True) (dist_loop h proj out comps)" for proj out comps
  proof (induction comps arbitrary: out)
    case (Cons x comps)
    then show ?case by (cases x) (auto simp: Let_def intro!: does_intros)
  qed (auto intro: does_intros)
  then show dist: "grows (host_dist_dir h c dir)"
    unfolding grows_def host_dist_dir_def by (auto intro!: does_intros)
  then show "grows (storage_stage h c dir)"
    unfolding grows_def storage_stage_def Let_def by (auto intro!: does_intros)
  show "grows (acquire h c dir)"
    unfolding grows_def acquire_def acquire_binary_def acquire_source_def Let_def
    by (auto intro!: does_intros split: app_mode.split)
  show "grows (ovmf_stage h ovmf dir out)"
    unfolding grows_def ovmf_stage_def Let_def by (auto intro!: does_intros split: option.split)
qed

lemma grows_container [growing]:
  "grows (check_available h)" "grows (build_toolchain_image h c assets)"
  "grows (write_build_script h c app dir)" "grows (host_uid_gid h)"
  "grows (run_build_container h tag proj assets cache last_dir script)"
proof -
  show "grows (check_available h)"
    unfolding grows_def check_available_def Let_def
    by (auto intro!: does_intros split: sum.split)
  show "grows (build_toolchain_image h c assets)"
    unfolding grows_def build_toolchain_image_def apt_snapshot_now_def
    by (auto intro!: does_intros)
  show "grows (write_build_script h c app dir)"
    unfolding grows_def write_build_script_def Let_def by (auto intro!: does_intros)
  show ids: "grows (host_uid_gid h)"
    unfolding grows_def host_uid_gid_def by (auto intro!: does_intros split: sum.split)
  show "grows (run_build_container h tag proj assets cache last_dir script)"
    using ids unfolding grows_def run_build_container_def Let_def
    by (auto intro!: does_intros)
qed

lemma grows_results [growing]:
  "grows (collect_artifacts l h c dist last_dir)" "grows (image_write h a f)"
  "grows (compute_measurement l h c dir a)"
proof -
  show "grows (collect_artifacts l h c dist last_dir)"
    unfolding grows_def collect_artifacts_def sha256_hex_of_file_def hash_file_def if_exists_def Let_def
    by (auto intro!: does_intros)
  show "grows (image_write h a f)"
    unfolding grows_def image_write_def by (auto intro!: does_intros split: output_format.split)
  show "grows (compute_measurement l h c dir a)"
    unfolding grows_def compute_measurement_def Let_def by (auto intro!: does_intros)
qed

lemma grows_reproducible [growing]: "grows (run_reproducible_build l h c dir app)"
  using growing unfolding grows_def run_reproducible_build_def Let_def
  by (auto intro!: does_intros grows_assets)

lemma grows_build [growing]: "grows (build l h c dir)"
  using growing unfolding grows_def build_def
  by (auto intro!: does_intros split: option.split)

section \<open>Nothing before validation\<close>

text \<open>Looking at files.\<close>

definition looks :: "host_op \<Rightarrow> bool" where
  "looks ev \<longleftrightarrow> (\<exists>p. ev = PathExists p \<or> ev = ReadHostFile p)"

lemma looks_simps [simp]: "looks (PathExists p)" "looks (ReadHostFile p)"
  by (simp_all add: looks_def)

lemma load_looks: "does looks (load cli parse_config h path)"
  unfolding load_def by (auto intro!: does_intros split: sum.split)

lemma default_path_looks: "does looks (default_config_path h)"
  unfolding default_config_path_def by (auto intro!: does_intros)

lemma detect_looks: "does looks (detect crate_name h dir binary)"
  unfolding detect_def Let_def by (auto intro!: does_intros split: sum.split option.split)

lemma resolve_looks: "does looks (resolve l h config_path binary)"
  unfolding resolve_def resolve_for_build_def
  by (auto intro!: does_intros load_looks default_path_looks detect_looks split: option.split)

text \<open>
  C23. \<open>cargo unikernel build\<close> does nothing to the host before it has a valid configuration: until then it
  has only looked at files; and the pipeline then runs with exactly a configuration that passes
  validation, overrides of the command line included.
\<close>

theorem validated_before_effects:
  assumes "cmd_build l h config_path binary overrides tr = (r, tr')"
  shows "\<exists>new more. tr' = tr @ new @ more \<and> (\<forall>ev\<in>set new. looks ev) \<and>
    (more = [] \<or> (\<exists>c dir. validate (tool_version (lib_tool l)) c = Inr () \<and>
       build l h c dir (tr @ new) = (r, tr')))"
proof -
  obtain d tr1 where run: "resolve l h config_path binary tr = (d, tr1)"
    by (cases "resolve l h config_path binary tr")
  obtain new where new: "tr1 = tr @ new" "\<forall>ev\<in>set new. looks ev"
    using doesD [OF resolve_looks run] by blast
  show ?thesis
  proof (cases d)
    case (Inl e)
    with assms run new show ?thesis
      by (intro exI [of _ new] exI [of _ "[]"]) (simp add: cmd_build_def io_bind_def)
  next
    case (Inr p)
    obtain loaded dir where p: "p = (loaded, dir)" by (cases p)
    show ?thesis
    proof (cases "apply_overrides (tool_version (lib_tool l)) overrides loaded")
      case (Inl e)
      with assms run new Inr p show ?thesis
        by (intro exI [of _ new] exI [of _ "[]"]) (simp add: cmd_build_def io_bind_def io_lift_def)
    next
      case ov: (Inr c)
      have "build l h c dir (tr @ new) = (r, tr')"
        using assms run new Inr p ov by (simp add: cmd_build_def io_bind_def io_lift_def)
      moreover have "\<exists>more. tr' = tr @ new @ more"
        using grows_prefix [OF grows_build] calculation by (fastforce simp: prefix_def)
      ultimately show ?thesis using new apply_overrides_valid [OF ov] by blast
    qed
  qed
qed

section \<open>What a successful build has done\<close>

text \<open>The file a requested format is delivered in.\<close>

definition delivered :: "string \<Rightarrow> string \<Rightarrow> output_format \<Rightarrow> string list" where
  "delivered dist_dir name f =
     (case f of
        FmtCpio \<Rightarrow> [path_join dist_dir (name @ ''.cpio''), path_join dist_dir (name @ ''.bzImage'')]
      | FmtUki \<Rightarrow> [path_join dist_dir (name @ ''.efi'')]
      | FmtBinary \<Rightarrow> [path_join dist_dir (name @ ''.bin'')])"

lemma file_check_iffs:
  "path_exists h p tr = (Inr b, tr') \<longleftrightarrow> b = h_exists h tr p \<and> tr' = tr @ [PathExists p]"
  "sha256_hex_of_file l h p tr = (Inr x, tr') \<longleftrightarrow>
     (\<exists>content. h_read h tr p = Inr content \<and> x = tool_sha256 (lib_tool l) content) \<and> tr' = tr @ [ReadHostFile p]"
  "hash_file h p tr = (Inr y, tr') \<longleftrightarrow>
     y = read_hash_file (case h_read h tr p of Inl _ \<Rightarrow> None | Inr s \<Rightarrow> Some s) \<and> tr' = tr @ [ReadHostFile p]"
  "if_exists h p tr = (Inr y, tr') \<longleftrightarrow>
     y = (if h_exists h tr p then Some p else None) \<and> tr' = tr @ [PathExists p]"
  by (auto simp: path_exists_def sha256_hex_of_file_def hash_file_def if_exists_def read_file_def io_outcomes)

lemma if_Some_iff:
  "(if b then Some p else None) = Some y \<longleftrightarrow> b \<and> y = p" "((if b then Some p else None) = None) \<longleftrightarrow> \<not> b"
  by auto

lemma collected:
  assumes "collect_artifacts l h c dist last_dir tr = (Inr a, tr')"
  shows "ba_sev_measurement a \<noteq> None \<longrightarrow> ba_sev_measurement a = Some (path_join dist ''sev_measurement.txt'')"
    and "f \<in> set (out_formats (c_output c)) \<Longrightarrow> (f = FmtUki \<Longrightarrow> ba_uki a \<noteq> None) \<Longrightarrow>
      (f = FmtBinary \<Longrightarrow> ba_binary a \<noteq> None) \<Longrightarrow> p \<in> set (delivered dist (pr_name (c_project c)) f) \<Longrightarrow>
      \<exists>t. prefix tr t \<and> prefix t tr' \<and> h_exists h t p"
proof -
  define dir where "dir = (if FmtCpio \<in> set (out_formats (c_output c)) then dist else last_dir)"
  define n where "n = pr_name (c_project c)"
  define bz ci where "bz = path_join dir (n @ ''.bzImage'')" and "ci = path_join dir (n @ ''.cpio'')"
  define efi bin where "efi = path_join dist (n @ ''.efi'')" and "bin = path_join dist (n @ ''.bin'')"
  define t where "t = tr @ [PathExists bz, PathExists ci, ReadHostFile bz, ReadHostFile ci,
    ReadHostFile (path_join last_dir ''app.sha256''), ReadHostFile (path_join last_dir ''guest-init.sha256''),
    ReadHostFile (path_join last_dir ''ovmf.sha256'')]"
  note run = assms [unfolded collect_artifacts_def Let_def, folded dir_def n_def, folded bz_def ci_def efi_def bin_def]
  from run have tr': "tr' = t @ [PathExists efi, PathExists bin,
      PathExists (path_join dist ''sev_measurement.txt'')]"
    and bz: "h_exists h tr bz" and ci: "h_exists h (tr @ [PathExists bz]) ci"
    and efi: "ba_uki a \<noteq> None \<longrightarrow> h_exists h t efi"
    and bin: "ba_binary a \<noteq> None \<longrightarrow> h_exists h (t @ [PathExists efi]) bin"
    and m: "ba_sev_measurement a \<noteq> None \<longrightarrow> ba_sev_measurement a = Some (path_join dist ''sev_measurement.txt'')"
    by (auto simp: io_outcomes file_check_iffs t_def if_Some_iff)
  show "ba_sev_measurement a \<noteq> None \<longrightarrow> ba_sev_measurement a = Some (path_join dist ''sev_measurement.txt'')"
    by (rule m)
  assume f: "f \<in> set (out_formats (c_output c))" "f = FmtUki \<Longrightarrow> ba_uki a \<noteq> None"
    "f = FmtBinary \<Longrightarrow> ba_binary a \<noteq> None" "p \<in> set (delivered dist (pr_name (c_project c)) f)"
  have tr: "prefix tr t" by (simp add: t_def)
  show "\<exists>t. prefix tr t \<and> prefix t tr' \<and> h_exists h t p"
  proof (cases f)
    case FmtCpio
    then have "dir = dist" using f(1) by (simp add: dir_def)
    then have "p = bz \<or> p = ci" using f(4) FmtCpio by (auto simp: delivered_def bz_def ci_def n_def)
    moreover have "prefix tr tr'" "prefix (tr @ [PathExists bz]) tr'" by (simp_all add: tr' t_def)
    ultimately show ?thesis using bz ci by (metis prefix_order.refl prefixI)
  next
    case FmtUki
    with f have "p = efi" by (simp add: delivered_def efi_def n_def)
    with f FmtUki efi tr show ?thesis by (auto simp: tr' intro!: exI [of _ t])
  next
    case FmtBinary
    with f have "p = bin" by (simp add: delivered_def bin_def n_def)
    with f FmtBinary bin tr show ?thesis
      by (auto simp: tr' intro!: exI [of _ "t @ [PathExists efi]"])
  qed
qed

lemma io_all_value:
  "io_all f xs tr = (Inr u, tr') \<Longrightarrow> x \<in> set xs \<Longrightarrow> \<exists>s s'. f x s = (Inr (), s')"
  by (induction xs arbitrary: tr) (auto simp: io_outcomes)

lemma written_script:
  assumes "write_build_script h c app dir tr = (Inr path, tr')"
  shows "\<exists>script. generate_build_script c app = Inr script \<and>
    WriteHostFile (path_join dir ''build.sh'') script \<in> set tr'"
  using assms
  by (auto simp: write_build_script_def Let_def io_outcomes write_file_def split: sum.splits)

lemma status_ok_iff:
  "io_bind (command_status h e p args) (\<lambda>ok. require_that ok e') tr = (Inr u, tr') \<longleftrightarrow>
     h_status h tr p args = Inr True \<and> tr' = tr @ [CommandStatus p args]"
  by (auto simp: command_status_def io_outcomes)

lemma container_run:
  assumes "run_build_container h tag proj assets cache last_dir script tr = (Inr u, tr')"
  shows "\<exists>args t0. suffix [''/bin/bash'', ''/build-meta/build.sh''] args \<and> prefix tr t0 \<and>
    tr' = t0 @ [CommandStatus ''docker'' args] \<and> h_status h t0 ''docker'' args = Inr True"
proof -
  let ?mounts = "container_mounts proj assets cache last_dir"
  let ?run = "\<lambda>ids. io_bind (command_status h ContainerNotRun ''docker'' (docker_run_args tag assets ids ?mounts))
      (\<lambda>ok. require_that ok (ContainerFailed script))"
  obtain t where mk: "io_all (\<lambda>(host_dir, _). create_dir_all h (HostFileFailed host_dir) host_dir)
        (drop 4 ?mounts) tr = (Inr (), t)"
    and rest: "io_bind (host_uid_gid h) ?run t = (Inr u, tr')"
    using assms by (simp only: run_build_container_def Let_def io_then_iff) blast
  from iffD1 [OF io_bind_iff rest] obtain ids t0 where
      ids: "(host_uid_gid h :: (build_error, (string \<times> string) option) io) t = (Inr ids, t0)"
    and "?run ids t0 = (Inr u, tr')" by blast
  then have run: "tr' = t0 @ [CommandStatus ''docker'' (docker_run_args tag assets ids ?mounts)]"
      "h_status h t0 ''docker'' (docker_run_args tag assets ids ?mounts) = Inr True"
    by (simp_all only: status_ok_iff)
  have "grows (io_all (\<lambda>(host_dir, _). create_dir_all h (HostFileFailed host_dir) host_dir)
      (drop 4 ?mounts))"
    unfolding grows_def by (auto intro!: does_intros)
  from grows_prefix [OF this mk] grows_prefix [OF grows_container(4) ids] have "prefix tr t0"
    by (rule prefix_order.trans)
  moreover have "suffix [''/bin/bash'', ''/build-meta/build.sh''] (docker_run_args tag assets ids ?mounts)"
    unfolding docker_run_args_def suffix_def by (metis append.assoc append_Cons append_Nil)
  ultimately show ?thesis using run by blast
qed

lemma reproducible_steps:
  assumes "run_reproducible_build l h c dir app tr = (Inr a, tr')"
  shows "\<exists>proj dist assets tag s1 path s2 s3. prefix tr s1 \<and>
    write_build_script h c app (path_join (cache_root h) ''last-build'') s1 = (Inr path, s2) \<and>
    run_build_container h tag proj assets (cache_root h) (path_join (cache_root h) ''last-build'') path s2 =
      (Inr (), s3) \<and>
    collect_artifacts l h c (path_text dist) (path_join (cache_root h) ''last-build'') s3 = (Inr a, tr')"
proof -
  obtain t1 proj t2 assets t3 dist t4 tag s1 path s2 s3 where
      avail: "check_available h tr = (Inr (), t1)"
    and canon: "t2 = t1 @ [Canonicalize dir]" and mat: "materialize (lib_tool l) h t2 = (Inr assets, t3)"
    and dist: "host_dist_dir h c (path_text proj) t3 = (Inr dist, t4)"
    and tool: "build_toolchain_image h c assets t4 = (Inr tag, s1)"
    and wrote: "write_build_script h c app (path_join (cache_root h) ''last-build'') s1 = (Inr path, s2)"
    and ran: "run_build_container h tag (path_text proj) assets (cache_root h)
      (path_join (cache_root h) ''last-build'') path s2 = (Inr (), s3)"
    and arts: "collect_artifacts l h c (path_text dist) (path_join (cache_root h) ''last-build'') s3 = (Inr a, tr')"
    using assms
    by (simp only: run_reproducible_build_def Let_def io_then_iff io_bind_iff canonicalize_def
      perform_or_iff io_as_iff) blast
  have "prefix tr t1" by (rule grows_prefix [OF grows_container(1) avail])
  moreover have "prefix t2 t3" by (rule does_grows [OF grows_assets mat])
  moreover have "prefix t3 t4" by (rule grows_prefix [OF grows_places(1) dist])
  moreover have "prefix t4 s1" by (rule grows_prefix [OF grows_container(2) tool])
  ultimately have "prefix tr s1" using canon by (auto simp: prefix_def)
  with wrote ran arts show ?thesis by blast
qed


end
