(* ===== verification/Workflow.thy ===== *)
theory Workflow
  imports PipelineProps
begin

text \<open>
  The release workflow \<open>cargo unikernel github init\<close> writes (\<open>src/github.rs\<close>), line by line, and the command that
  writes it. The JSON text of a string is a parameter; the workflow puts it where YAML expects a scalar.
\<close>

section \<open>The text\<close>

definition workflow_head :: "string list" where
  "workflow_head =
     [''# Generated by `cargo unikernel github init`. Publishes a unikernel image as a'',
      ''# GitHub Release asset on every tag push matching `v*`, using this project'' @ [CHR 0x27] @ ''s'',
      ''# configured file. Also builds (but doesn'' @ [CHR 0x27] @ ''t publish) on every push to `main`, to keep'',
      ''# `main`'' @ [CHR 0x27] @ ''s caches warm '' @ EM_DASH @ '' cache scopes are isolated per tag, so a tag-triggered build can'',
      ''# only inherit a warm cache via the default branch'' @ [CHR 0x27] @ ''s. Re-run `cargo unikernel github init`'',
      ''# after deleting this file to regenerate it. Adjust `branches: [main]` if yours differs.'',
      ''name: cargo-unikernel release'',
      [],
      ''env:'']"

definition workflow_triggers :: "string list" where
  "workflow_triggers =
     [[],
      ''on:'',
      ''  push:'',
      ''    branches:'',
      ''      - main'',
      ''    tags:'',
      ''      - '' @ [CHR 0x22] @ ''v*'' @ [CHR 0x22],
      [],
      ''jobs:'',
      ''  release:'',
      ''    runs-on: ubuntu-latest'']"

definition workflow_setup :: "string list" where
  "workflow_setup =
     [''    steps:'',
      ''      - uses: actions/checkout@v7'',
      [],
      ''      - name: Install Rust'',
      ''        uses: dtolnay/rust-toolchain@stable'',
      [],
      ''      # Makes a `docker-container` buildx builder the default, so cargo-unikernel'' @ [CHR 0x27] @ ''s own'',
      ''      # `docker buildx build --cache-from/--cache-to type=gha` calls can export/import the'',
      ''      # toolchain image'' @ [CHR 0x27] @ ''s layers via GitHub'' @ [CHR 0x27] @ ''s Actions cache instead of rebuilding from scratch.'',
      ''      - name: Set up Docker Buildx'',
      ''        uses: docker/setup-buildx-action@v3'',
      [],
      ''      # `.crates.toml`/`.crates2.json` (cargo'' @ [CHR 0x27] @ ''s install-tracking metadata) must be cached'',
      ''      # alongside `bin/`, or a cache hit leaves an untracked binary at the destination and'',
      ''      # `cargo install` refuses to overwrite it without `--force`.'',
      ''      - name: Cache cargo install'',
      ''        uses: actions/cache@v6'',
      ''        with:'',
      ''          path: |'',
      ''            ~/.cargo/registry'',
      ''            ~/.cargo/git'',
      ''            ~/.cargo/bin'',
      ''            ~/.cargo/.crates.toml'',
      ''            ~/.cargo/.crates2.json'',
      ''          key: ${{ runner.os }}-cargo-install-cargo-unikernel'',
      ''          restore-keys: |'',
      ''            ${{ runner.os }}-cargo-install-'',
      [],
      ''      - name: Install cargo-unikernel'']"

definition workflow_build :: "string list" where
  "workflow_build =
     [[],
      ''      # The cargo-unikernel version must be part of the cache key (not just the config), or a'',
      ''      # version bump that changes the pinned toolchain could restore a ccache dir built under'',
      ''      # the previous one via the restore-keys fallback below.'',
      ''      - name: Resolve installed cargo-unikernel version'',
      ''        id: cargo-unikernel-version'',
      ''        run: echo '' @ [CHR 0x22] @ ''version=$(cargo-unikernel --version)'' @ [CHR 0x22] @ '' >> '' @ [CHR 0x22] @ ''$GITHUB_OUTPUT'' @ [CHR 0x22],
      [],
      ''      - name: Cache cargo-unikernel build state (kernel source, ccache, cargo registry)'',
      ''        uses: actions/cache@v6'',
      ''        with:'',
      ''          path: ~/.cache/cargo-unikernel'',
      ''          key: ${{ runner.os }}-cargo-unikernel-${{ steps.cargo-unikernel-version.outputs.version }}-${{ hashFiles(env.CARGO_UNIKERNEL_CONFIG) }}'',
      ''          restore-keys: |'',
      ''            ${{ runner.os }}-cargo-unikernel-${{ steps.cargo-unikernel-version.outputs.version }}-'',
      [],
      ''      - name: Build image'',
      ''        run: cargo unikernel build --config '' @ [CHR 0x22] @ ''$CARGO_UNIKERNEL_CONFIG'' @ [CHR 0x22],
      [],
      ''      # `--no-build`: the step above already built the image.'',
      ''      - name: Publish release'']"

definition workflow_publish :: "string list" where
  "workflow_publish =
     [''env:'',
      ''          GH_TOKEN: ${{ github.token }}'',
      ''        run: cargo unikernel release --config '' @ [CHR 0x22] @ ''$CARGO_UNIKERNEL_CONFIG'' @ [CHR 0x22] @ '' --tag '' @ [CHR 0x22] @ ''${{ github.ref_name }}'' @ [CHR 0x22] @ '' --no-build'']"

definition tag_only :: string where
  "tag_only = ''if: startsWith(github.ref, '' @ sq ''refs/tags/'' @ '')'' @ [NL] @ ''        ''"

definition permissions :: "bool \<Rightarrow> string" where
  "permissions attest_provenance =
     (if attest_provenance
      then line ''    permissions:'' @ line ''      contents: write'' @ line ''      id-token: write'' @
           line ''      attestations: write''
      else line ''    permissions:'' @ line ''      contents: write'')"

definition attestation_step :: "bool \<Rightarrow> string" where
  "attestation_step attest_provenance =
     (if attest_provenance
      then line [] @ line ''      - name: Attest build provenance'' @
           ''        '' @ tag_only @ line ''uses: actions/attest-build-provenance@v4'' @
           line ''        with:'' @ line ''          subject-path: dist/*''
      else [])"

definition install_cmd :: "string option \<Rightarrow> string" where
  "install_cmd pinned_version =
     (case pinned_version of
        None \<Rightarrow> ''cargo install cargo-unikernel --locked''
      | Some v \<Rightarrow> ''cargo install cargo-unikernel --version '' @ shell_quote v @ '' --locked'')"

definition workflow :: "string \<Rightarrow> string option \<Rightarrow> bool \<Rightarrow> string" where
  "workflow config_env pinned_version attest_provenance =
     concat (map line workflow_head) @
     line (''  CARGO_UNIKERNEL_CONFIG: '' @ config_env) @
     concat (map line workflow_triggers) @
     permissions attest_provenance @
     concat (map line workflow_setup) @
     line (''        run: '' @ install_cmd pinned_version) @
     concat (map line workflow_build) @
     ''        '' @ tag_only @
     concat (map line workflow_publish) @
     attestation_step attest_provenance"

section \<open>Writing it\<close>

datatype setup_error =
    SetupIo string
  | AlreadyThere string
  | ToolsMissing
  | SetupAssets asset_error

text \<open>\<open>.ok()\<close> of a fallible call.\<close>

definition io_try :: "('e, 'a) io \<Rightarrow> ('f, 'a option) io" where
  "io_try m tr = (case m tr of (Inr x, tr') \<Rightarrow> (Inr (Some x), tr') | (Inl _, tr') \<Rightarrow> (Inr None, tr'))"

definition WORKFLOWS_DIR :: string where
  "WORKFLOWS_DIR = ''.github/workflows''"

definition github_init :: "libs \<Rightarrow> (string \<Rightarrow> string) \<Rightarrow> host \<Rightarrow> string \<Rightarrow> bool \<Rightarrow> (setup_error, unit) io" where
  "github_init l to_json h config_path attest_provenance =
     io_then (create_dir_all h (SetupIo WORKFLOWS_DIR) WORKFLOWS_DIR)
    (let out_path = path_join WORKFLOWS_DIR ''cargo-unikernel.yml'' in
     io_bind (path_exists h out_path) (\<lambda>present.
       if present then io_fail (AlreadyThere out_path)
       else
         io_bind (io_try (load (tool_version (lib_tool l)) (lib_parse_config l) h config_path)) (\<lambda>loaded.
         let pinned_version = (case loaded of None \<Rightarrow> None | Some c \<Rightarrow> pr_cli_version (c_project c)) in
           write_file h (SetupIo out_path) out_path
             (workflow (to_json config_path) pinned_version attest_provenance))))"

section \<open>Nothing is injected\<close>

text \<open>What is assumed of the JSON text of a string: it is quoted, and control characters are escaped (RFC 8259).\<close>

definition json_text :: "(string \<Rightarrow> string) \<Rightarrow> bool" where
  "json_text to_json \<longleftrightarrow>
     (\<forall>s. \<exists>body. to_json s = dq body \<and> list_all (\<lambda>c. 32 \<le> (of_char c :: nat)) body)"

lemma json_one_line: "json_text to_json \<Longrightarrow> NL \<notin> set (to_json s)"
  by (auto simp: json_text_def dq_def NL_def list_all_iff dest!: spec [of _ s]) force

definition permission_lines :: "bool \<Rightarrow> string list" where
  "permission_lines attest =
     [''    permissions:'', ''      contents: write''] @
     (if attest then [''      id-token: write'', ''      attestations: write''] else [])"

definition tag_line :: string where
  "tag_line = ''        if: startsWith(github.ref, '' @ sq ''refs/tags/'' @ '')''"

definition closing_lines :: "bool \<Rightarrow> string list" where
  "closing_lines attest =
     tag_line # (''        '' @ hd workflow_publish) # tl workflow_publish @
     (if attest
      then [[], ''      - name: Attest build provenance'', tag_line,
            ''        uses: actions/attest-build-provenance@v4'', ''        with:'', ''          subject-path: dist/*'']
      else []) @
     [[]]"

text \<open>The lines of a workflow: two of them vary.\<close>

definition workflow_lines :: "bool \<Rightarrow> string \<Rightarrow> string option \<Rightarrow> string list" where
  "workflow_lines attest config_env pinned =
     workflow_head @ [''  CARGO_UNIKERNEL_CONFIG: '' @ config_env] @
     workflow_triggers @ permission_lines attest @ workflow_setup @
     [''        run: '' @ install_cmd pinned] @ workflow_build @ closing_lines attest"

lemma split_line: "NL \<notin> set l \<Longrightarrow> split_on NL (line l @ rest) = l # split_on NL rest"
  using split_on_append [of NL l rest] by (simp add: line_def)

lemma split_lines:
  "\<forall>l\<in>set ls. NL \<notin> set l \<Longrightarrow> split_on NL (concat (map line ls) @ rest) = ls @ split_on NL rest"
  by (induction ls) (simp_all add: split_line)

lemma fixed_lines:
  "list_all (\<lambda>l. NL \<notin> set l) workflow_head" "list_all (\<lambda>l. NL \<notin> set l) workflow_triggers"
  "list_all (\<lambda>l. NL \<notin> set l) workflow_setup" "list_all (\<lambda>l. NL \<notin> set l) workflow_build"
  by code_simp+

lemma permissions_fixed: "list_all (\<lambda>l. NL \<notin> set l) (permission_lines attest)"
proof (cases attest)
  case True
  then show ?thesis by (simp only:) code_simp
next
  case False
  then show ?thesis by (simp only:) code_simp
qed

lemma closing_fixed: "list_all (\<lambda>l. NL \<notin> set l) (closing_lines attest)"
proof (cases attest)
  case True
  then show ?thesis by (simp only:) code_simp
next
  case False
  then show ?thesis by (simp only:) code_simp
qed

lemma shell_quote_one_line: "NL \<notin> set v \<Longrightarrow> NL \<notin> set (shell_quote v)"
proof -
  have "set (replace_char c r v) \<subseteq> set r \<union> set v" for c r by (induction v) auto
  from this [of "CHR 0x27" "[CHR 0x27, CHR 0x5C, CHR 0x27, CHR 0x27]"]
  show "NL \<notin> set v \<Longrightarrow> NL \<notin> set (shell_quote v)" by (auto simp: shell_quote_def NL_def)
qed

lemma tag_only_lines: "''        '' @ tag_only @ rest = line tag_line @ ''        '' @ rest"
  by (simp add: tag_only_def tag_line_def line_def)

lemma permissions_lines: "permissions attest = concat (map line (permission_lines attest))"
  by (simp add: permissions_def permission_lines_def)

lemma publish_lines:
  "''        '' @ concat (map line workflow_publish) =
     concat (map line ((''        '' @ hd workflow_publish) # tl workflow_publish))"
  by (simp add: workflow_publish_def line_def)

lemma closing_text:
  "''        '' @ tag_only @ concat (map line workflow_publish) @ attestation_step attest =
     concat (map line (butlast (closing_lines attest)))"
proof -
  have butl: "butlast (closing_lines attest) =
      tag_line # ((''        '' @ hd workflow_publish) # tl workflow_publish) @
      (if attest
       then [[], ''      - name: Attest build provenance'', tag_line,
             ''        uses: actions/attest-build-provenance@v4'', ''        with:'', ''          subject-path: dist/*'']
       else [])"
    by (simp add: closing_lines_def butlast_append)
  have step: "attestation_step attest = concat (map line
      (if attest
       then [[], ''      - name: Attest build provenance'', tag_line,
             ''        uses: actions/attest-build-provenance@v4'', ''        with:'', ''          subject-path: dist/*'']
       else []))"
    by (simp add: attestation_step_def tag_only_lines [simplified] line_def)
  show ?thesis
    unfolding tag_only_lines butl step using publish_lines by simp
qed

text \<open>The text has exactly these lines.\<close>

lemma workflow_split:
  assumes "NL \<notin> set config_env" and "\<forall>v. pinned = Some v \<longrightarrow> NL \<notin> set v"
  shows "split_on NL (workflow config_env pinned attest) = workflow_lines attest config_env pinned"
proof -
  let ?config = "''  CARGO_UNIKERNEL_CONFIG: '' @ config_env" and ?run = "''        run: '' @ install_cmd pinned"
  let ?ls = "workflow_head @ [?config] @ workflow_triggers @ permission_lines attest @ workflow_setup @
      [?run] @ workflow_build @ butlast (closing_lines attest)"
  have "NL \<notin> set ?config" using assms(1) by (simp add: NL_def)
  moreover have "NL \<notin> set ?run"
    using assms(2) shell_quote_one_line by (auto simp: install_cmd_def NL_def split: option.split)
  ultimately have free: "\<forall>l\<in>set ?ls. NL \<notin> set l"
    using fixed_lines permissions_fixed [of attest] closing_fixed [of attest] by (auto simp: list_all_iff dest: in_set_butlastD)
  have "workflow config_env pinned attest = concat (map line ?ls) @ []"
    by (simp only: workflow_def permissions_lines closing_text) simp
  then have "split_on NL (workflow config_env pinned attest) = ?ls @ [[]]"
    using split_lines [OF free, of "[]"] by simp
  also have "butlast (closing_lines attest) @ [[]] = closing_lines attest"
    by (simp add: closing_lines_def butlast_append)
  then have "?ls @ [[]] = workflow_lines attest config_env pinned"
    by (simp add: workflow_lines_def)
  finally show ?thesis .
qed

lemma io_try_iff: "io_try m tr = (Inr y, tr') \<longleftrightarrow> (\<exists>r. m tr = (r, tr') \<and> y = (case r of Inr x \<Rightarrow> Some x | Inl _ \<Rightarrow> None))"
  by (auto simp: io_try_def split: prod.splits sum.splits)

text \<open>
  C29. Whatever the path of the configuration and the configuration itself contain, the workflow that is written has
  the template's lines, with exactly two values filled in, each within its line: the path as JSON text, and the version
  to install, which is quoted for the shell and can only be the version of the tool itself; an existing workflow
  is never overwritten, and until the write the command has only made the directory and looked at files.
\<close>

theorem workflow_not_injectable:
  assumes "github_init l to_json h config_path attest tr = (Inr u, tr')"
    and "json_text to_json" and "NL \<notin> set (tool_version (lib_tool l))"
  shows "\<exists>new text pinned.
    tr' = tr @ [CreateDirAll WORKFLOWS_DIR, PathExists ''.github/workflows/cargo-unikernel.yml''] @ new @
      [WriteHostFile ''.github/workflows/cargo-unikernel.yml'' text] \<and>
    \<not> h_exists h (tr @ [CreateDirAll WORKFLOWS_DIR]) ''.github/workflows/cargo-unikernel.yml'' \<and>
    (\<forall>ev\<in>set new. looks ev) \<and>
    pinned \<in> {None, Some (tool_version (lib_tool l))} \<and>
    split_on NL text = workflow_lines attest (to_json config_path) pinned"
proof -
  have out: "path_join WORKFLOWS_DIR ''cargo-unikernel.yml'' = ''.github/workflows/cargo-unikernel.yml''"
    by code_simp
  let ?out = "''.github/workflows/cargo-unikernel.yml''"
  let ?t = "tr @ [CreateDirAll WORKFLOWS_DIR, PathExists ?out]"
  let ?pin = "\<lambda>loaded. case loaded of None \<Rightarrow> None | Some c \<Rightarrow> pr_cli_version (c_project c)"
  obtain r t2 where new: "\<not> h_exists h (tr @ [CreateDirAll WORKFLOWS_DIR]) ?out"
    and run: "load (tool_version (lib_tool l)) (lib_parse_config l) h config_path ?t = (r, t2)"
    and wrote: "tr' = t2 @ [WriteHostFile ?out (workflow (to_json config_path)
      (?pin (case r of Inr x \<Rightarrow> Some x | Inl _ \<Rightarrow> None)) attest)]"
    using assms(1)
    by (auto simp: github_init_def Let_def out io_outcomes io_try_iff create_dir_all_def path_exists_def write_file_def
      split: if_splits)
  obtain more where more: "t2 = ?t @ more" "\<forall>ev\<in>set more. looks ev"
    using doesD [OF load_looks run] by blast
  let ?pinned = "?pin (case r of Inr x \<Rightarrow> Some x | Inl _ \<Rightarrow> None)"
  have pinned: "?pinned \<in> {None, Some (tool_version (lib_tool l))}"
  proof (cases r)
    case (Inr c)
    then have "valid_config (tool_version (lib_tool l)) c"
      using run load_valid [of "tool_version (lib_tool l)"] by (simp add: validate_iff)
    then show ?thesis using Inr by (auto simp: valid_config_def)
  qed simp
  have "split_on NL (workflow (to_json config_path) ?pinned attest) =
      workflow_lines attest (to_json config_path) ?pinned"
    using pinned assms(3) by (intro workflow_split json_one_line [OF assms(2)]) auto
  with new wrote more pinned show ?thesis by auto
qed

text \<open>A writer of JSON strings that escapes what it has to.\<close>

definition json_ref :: "string \<Rightarrow> string" where
  "json_ref s = dq (concat (map (\<lambda>c.
     if c = CHR 0x22 \<or> c = CHR 0x5C then [CHR 0x5C, c]
     else if (of_char c :: nat) < 32 then CHR 0x5C # ''u00'' @ hex_byte (of_char c)
     else [c]) s))"

lemma hex_digit_printable: "d < 16 \<Longrightarrow> 32 \<le> (of_char (hex_digit d) :: nat)"
  by (simp add: hex_digit_def)

lemma json_text_ref: "json_text json_ref"
  unfolding json_text_def
proof (rule allI, rule exI, rule conjI, rule json_ref_def)
  fix s
  have "unat (b :: byte) div 16 < 16" for b using unat_byte_less [of b] by auto
  then have "list_all (\<lambda>c. 32 \<le> (of_char c :: nat)) (hex_byte b)" for b
    by (simp add: hex_byte_def hex_digit_printable)
  then show "list_all (\<lambda>c. 32 \<le> (of_char c :: nat)) (concat (map (\<lambda>c.
     if c = CHR 0x22 \<or> c = CHR 0x5C then [CHR 0x5C, c]
     else if (of_char c :: nat) < 32 then CHR 0x5C # ''u00'' @ hex_byte (of_char c)
     else [c]) s))"
    by (induction s) auto
qed

end
