(* ===== verification/ReleaseProps.thy ===== *)
theory ReleaseProps
  imports PipelineProps
begin

text \<open>What \<open>cargo unikernel release\<close> hands to GitHub's command line tool (\<open>src/release.rs\<close>).\<close>

text \<open>The paths that exist, each looked at in turn.\<close>

fun existing :: "host \<Rightarrow> history \<Rightarrow> string list \<Rightarrow> string list" where
  "existing h tr [] = []"
| "existing h tr (p # ps) =
     (if h_exists h tr p then p # existing h (tr @ [PathExists p]) ps
      else existing h (tr @ [PathExists p]) ps)"

lemma keep_existing_run:
  "keep_existing h ps tr = (Inr (existing h tr ps), tr @ map PathExists ps)"
  by (induction ps arbitrary: tr)
    (simp_all add: io_return_def io_bind_def path_exists_def perform_def)

lemma existing_sound:
  "p \<in> set (existing h tr ps) \<Longrightarrow>
     p \<in> set ps \<and> (\<exists>before. prefix (before @ [PathExists p]) (tr @ map PathExists ps) \<and> h_exists h before p)"
proof (induction ps arbitrary: tr)
  case (Cons q ps)
  show ?case
  proof (cases "h_exists h tr q \<and> p = q")
    case True
    then show ?thesis by (auto intro!: exI [of _ tr])
  next
    case False
    with Cons.prems have "p \<in> set (existing h (tr @ [PathExists q]) ps)" by (auto split: if_splits)
    from Cons.IH [OF this] show ?thesis by auto
  qed
qed simp

lemma existing_complete:
  "p \<in> set ps \<Longrightarrow> p \<notin> set (existing h tr ps) \<Longrightarrow>
     \<exists>before. prefix (before @ [PathExists p]) (tr @ map PathExists ps) \<and> \<not> h_exists h before p"
proof (induction ps arbitrary: tr)
  case (Cons q ps)
  show ?case
  proof (cases "p = q")
    case True
    with Cons.prems show ?thesis by (auto split: if_splits intro!: exI [of _ tr])
  next
    case False
    with Cons.prems have "p \<in> set ps" "p \<notin> set (existing h (tr @ [PathExists q]) ps)"
      by (auto split: if_splits)
    from Cons.IH [OF this] show ?thesis by simp
  qed
qed simp

definition selected :: "config \<Rightarrow> release_asset \<Rightarrow> bool" where
  "selected c kind \<longleftrightarrow> (\<forall>kinds. rel_assets (c_release c) = Some kinds \<longrightarrow> kind \<in> set kinds)"

definition selected_paths :: "config \<Rightarrow> string \<Rightarrow> string list" where
  "selected_paths c dist_dir = map snd (filter (\<lambda>(kind, _). selected c kind) (candidate_assets c dist_dir))"

lemma select_assets_run:
  "select_assets h c dist_dir tr =
     (Inr (existing h tr (selected_paths c dist_dir)), tr @ map PathExists (selected_paths c dist_dir))"
proof -
  have "(case rel_assets (c_release c) of None \<Rightarrow> True | Some kinds \<Rightarrow> kind \<in> set kinds) = selected c kind" for kind
    by (simp add: selected_def split: option.split)
  then show ?thesis by (simp add: select_assets_def selected_paths_def keep_existing_run)
qed

lemma succeeds_run:
  "succeeds h program args tr =
     (Inr (case h_output h tr program args of Inr (ok, _) \<Rightarrow> ok | Inl _ \<Rightarrow> False),
      tr @ [CommandOutput program args])"
  by (simp add: succeeds_def command_output_def perform_def io_bind_def io_return_def)

lemma does_tag: "does (\<lambda>_. True) (resolve_git_tag h)"
proof -
  have "does (\<lambda>_. True) (case r of Inr (True, out, e) \<Rightarrow> io_return (Some (trim out))
      | _ \<Rightarrow> io_bind (command_output h p args) (\<lambda>r. io_return (f r)))"
    for r :: "io_error + bool \<times> string \<times> string" and p args f
    by (auto intro!: does_intros simp: command_output_def split: sum.split bool.split)
  then show ?thesis
    unfolding resolve_git_tag_def by (intro does_bind) (simp_all add: command_output_def does_intros)
qed

definition release_dir :: "config \<Rightarrow> string \<Rightarrow> string" where
  "release_dir c project_dir = path_join project_dir (trim_end_matches (CHR ''/'') (out_dir (c_output c)))"

text \<open>
  C28. A release that reports success has run \<open>gh\<close> to success as its last act, with a non-empty list of
  files: each is the file of a selected kind in the output directory and was found there, and
  every selected file that is left out was found missing; a release the tag already has gets the
  files uploaded over its old ones, otherwise a new one is created as configured, under the tag that was
  given when one was.
\<close>

theorem release_uploads:
  assumes "publish h c project_dir given_tag tr = (Inr u, tr')"
  shows "\<exists>assets args tag t.
    tr' = t @ [CommandOutput ''gh'' [''release'', ''view'', tag], CommandStatus ''gh'' (args @ assets)] \<and>
    h_status h (t @ [CommandOutput ''gh'' [''release'', ''view'', tag]]) ''gh'' (args @ assets) = Inr True \<and>
    assets \<noteq> [] \<and>
    (\<forall>p\<in>set assets. \<exists>kind before. (kind, p) \<in> set (candidate_assets c (release_dir c project_dir)) \<and> selected c kind \<and>
       prefix (before @ [PathExists p]) t \<and> h_exists h before p) \<and>
    (\<forall>(kind, p)\<in>set (candidate_assets c (release_dir c project_dir)). selected c kind \<and> p \<notin> set assets \<longrightarrow>
       (\<exists>before. prefix (before @ [PathExists p]) t \<and> \<not> h_exists h before p)) \<and>
    (if \<exists>out. h_output h t ''gh'' [''release'', ''view'', tag] = Inr (True, out)
     then args = [''release'', ''upload'', tag, ''--clobber'']
     else create_args (c_release c) project_dir tag = Inr args) \<and>
    (\<forall>g. given_tag = Some g \<longrightarrow> tag = g)"
proof -
  let ?dist = "release_dir c project_dir"
  let ?ps = "selected_paths c ?dist"
  let ?t = "tr @ map PathExists ?ps" and ?assets = "existing h tr ?ps"
  obtain tag t args where
      tag: "(case given_tag of Some t \<Rightarrow> io_return (Some t) | None \<Rightarrow> resolve_git_tag h) ?t =
        ((Inr (Some tag), t) :: (build_error + string option) \<times> history)"
    and some: "?assets \<noteq> []"
    and args: "(if (case h_output h t ''gh'' [''release'', ''view'', tag] of Inr (ok, _) \<Rightarrow> ok | Inl _ \<Rightarrow> False)
        then Inr [''release'', ''upload'', tag, ''--clobber'']
        else create_args (c_release c) project_dir tag) = Inr args"
    and run: "h_status h (t @ [CommandOutput ''gh'' [''release'', ''view'', tag]]) ''gh'' (args @ ?assets) = Inr True"
      "tr' = t @ [CommandOutput ''gh'' [''release'', ''view'', tag], CommandStatus ''gh'' (args @ ?assets)]"
    using assms(1)
    by (auto simp: publish_def Let_def io_outcomes select_assets_run succeeds_run command_status_def
      release_dir_def [symmetric])
  have "does (\<lambda>_. True) (case given_tag of Some t \<Rightarrow> io_return (Some t) | None \<Rightarrow> resolve_git_tag h)"
    by (auto intro: does_tag does_intros split: option.split)
  from doesD [OF this tag] have "prefix ?t t" by auto
  then have late: "prefix (before @ [PathExists p]) ?t \<Longrightarrow> prefix (before @ [PathExists p]) t" for before p
    by (rule prefix_order.trans [rotated])
  have paths: "p \<in> set ?ps \<longleftrightarrow> (\<exists>kind. (kind, p) \<in> set (candidate_assets c ?dist) \<and> selected c kind)" for p
    by (force simp: selected_paths_def)
  have "\<exists>kind before. (kind, p) \<in> set (candidate_assets c ?dist) \<and> selected c kind \<and>
       prefix (before @ [PathExists p]) t \<and> h_exists h before p" if "p \<in> set ?assets" for p
    using existing_sound [OF that] late paths by blast
  moreover have "\<exists>before. prefix (before @ [PathExists p]) t \<and> \<not> h_exists h before p"
    if "(kind, p) \<in> set (candidate_assets c ?dist)" "selected c kind" "p \<notin> set ?assets" for kind p
    using existing_complete [of p ?ps h tr] that late paths by blast
  moreover have "if \<exists>out. h_output h t ''gh'' [''release'', ''view'', tag] = Inr (True, out)
     then args = [''release'', ''upload'', tag, ''--clobber'']
     else create_args (c_release c) project_dir tag = Inr args"
    using args by (auto split: if_splits sum.splits)
  moreover have "\<forall>g. given_tag = Some g \<longrightarrow> tag = g" using tag by (auto simp: io_outcomes)
  ultimately show ?thesis using run some by (intro exI [of _ ?assets] exI [of _ args] exI [of _ tag] exI [of _ t]) auto
qed

end
