(* ===== verification/Commands.thy ===== *)
theory Commands
  imports Workflow ReleaseProps
begin

text \<open>
  The commands that set a project up (\<open>src/config/scaffold.rs\<close>, \<open>src/doctor.rs\<close>) and the dispatch of all of them
  (\<open>src/lib.rs\<close>). The two bundled example configurations, whose text is data, and the JSON text of a string are parameters.
\<close>

section \<open>A starting configuration\<close>

text \<open>\<open>str::replacen(pat, with, 1)\<close>: the first occurrence.\<close>

fun replace_first :: "string \<Rightarrow> string \<Rightarrow> string \<Rightarrow> string" where
  "replace_first pat r [] = (if pat = [] then r else [])"
| "replace_first pat r (x # xs) =
     (if prefix pat (x # xs) then r @ drop (length pat) (x # xs) else x # replace_first pat r xs)"

definition pin_tool_version :: "string \<Rightarrow> string \<Rightarrow> string" where
  "pin_tool_version cli template =
     replace_first (line ''[project]'')
       (line ''[project]'' @ line (''cargo_unikernel_version = '' @ dq cli)) template"

record bundled =
  ex_casual :: string
  ex_sev_snp :: string

definition scaffold :: "bundled \<Rightarrow> string \<Rightarrow> host \<Rightarrow> profile_arg \<Rightarrow> string \<Rightarrow> (setup_error, unit) io" where
  "scaffold ex cli h profile dir =
     (let template = (case profile of ArgCasual \<Rightarrow> ex_casual ex | ArgSevSnp \<Rightarrow> ex_sev_snp ex) in
      io_then (create_dir_all h (SetupIo dir) dir)
     (let target = path_join dir CONFIG_FILE_NAME in
      io_bind (path_exists h target) (\<lambda>present.
        if present then io_fail (AlreadyThere target)
        else
          io_then (write_file h (SetupIo target) target (pin_tool_version cli template))
                  (create_dir_all h (SetupIo dir) (path_join dir ''dist'')))))"

section \<open>The tools of the host\<close>

text \<open>\<open>doctor::check\<close>: whether the program runs.\<close>

definition check_tool :: "host \<Rightarrow> string \<Rightarrow> string list \<Rightarrow> ('e, bool) io" where
  "check_tool h program args = succeeds h program args"

definition doctor_run :: "libs \<Rightarrow> host \<Rightarrow> (setup_error, unit) io" where
  "doctor_run l h =
     io_bind (io_try (check_available h)) (\<lambda>docker.
     io_bind (check_tool h ''git'' [''--version'']) (\<lambda>git.
     io_bind (check_tool h ''gh'' [''--version'']) (\<lambda>gh.
     io_bind (io_as SetupAssets (materialize (lib_tool l) h)) (\<lambda>assets_dir.
       require_that (docker \<noteq> None \<and> git) ToolsMissing))))"

section \<open>Dispatch\<close>

text \<open>Cargo passes the name of an external subcommand on as the first argument.\<close>

definition drop_subcommand :: "string list \<Rightarrow> string list" where
  "drop_subcommand args =
     (case args of
        program # first # rest \<Rightarrow> if first = ''unikernel'' then program # rest else args
      | _ \<Rightarrow> args)"

datatype command =
    CmdInit profile_arg "string option"
  | CmdBuild "string option" "string option" build_overrides \<comment> \<open>configuration, binary, overrides\<close>
  | CmdMeasure "string option"
  | CmdDoctor
  | CmdGithubInit "string option" bool
  | CmdRelease "string option" "string option" bool \<comment> \<open>configuration, tag, no build\<close>

datatype cli_error = BuildError build_error | SetupError setup_error

definition run_command ::
    "libs \<Rightarrow> bundled \<Rightarrow> (string \<Rightarrow> string) \<Rightarrow> host \<Rightarrow> command \<Rightarrow> (cli_error, unit) io" where
  "run_command l ex to_json h cmd =
     (case cmd of
        CmdInit profile dir \<Rightarrow>
          io_as SetupError (scaffold ex (tool_version (lib_tool l)) h profile
            (case dir of Some d \<Rightarrow> d | None \<Rightarrow> ''.''))
      | CmdBuild config_path binary overrides \<Rightarrow> io_as BuildError (cmd_build l h config_path binary overrides)
      | CmdMeasure config_path \<Rightarrow>
          io_bind (io_as BuildError (cmd_measure l h config_path)) (\<lambda>hex. io_return ())
      | CmdDoctor \<Rightarrow> io_as SetupError (doctor_run l h)
      | CmdGithubInit config_path attest_provenance \<Rightarrow>
          io_bind (case config_path of Some p \<Rightarrow> io_return p | None \<Rightarrow> default_config_path h) (\<lambda>p.
            io_as SetupError (github_init l to_json h p attest_provenance))
      | CmdRelease config_path tag no_build \<Rightarrow> io_as BuildError (cmd_release l h config_path tag no_build))"

section \<open>What they leave alone\<close>

text \<open>Cargo's call and a direct call are parsed alike.\<close>

lemma cargo_call_alike:
  "rest \<noteq> [] \<Longrightarrow> hd rest \<noteq> ''unikernel'' \<Longrightarrow>
     drop_subcommand (program # ''unikernel'' # rest) = drop_subcommand (program # rest)"
  by (cases rest) (simp_all add: drop_subcommand_def)

text \<open>A template with its \<open>[project]\<close> line gets exactly one more line, right after it.\<close>

lemma pin_inserted:
  assumes "template = before @ line ''[project]'' @ after" and "\<not> sublist (line ''[project]'') (before @ butlast (line ''[project]''))"
  shows "pin_tool_version cli template =
    before @ line ''[project]'' @ line (''cargo_unikernel_version = '' @ dq cli) @ after"
proof -
  have "replace_first pat r (before @ pat @ after) = before @ r @ after"
    if "\<not> sublist pat (before @ butlast pat)" "pat \<noteq> []" for pat r :: string
    using that(1)
  proof (induction before)
    case Nil
    then show ?case using that(2) by (cases pat) simp_all
  next
    case (Cons x xs)
    have "\<not> prefix pat (x # xs @ pat @ after)"
    proof
      assume "prefix pat (x # xs @ pat @ after)"
      then have "prefix pat (take (length pat) (x # xs @ pat @ after))"
        by (metis append_eq_conv_conj prefix_def prefix_order.refl)
      moreover have "take (length pat) (x # xs @ pat @ after) = take (length pat) (x # xs @ butlast pat)"
        using that(2) by (cases pat rule: rev_cases) auto
      ultimately have "prefix pat (x # xs @ butlast pat)"
        by (metis append_take_drop_id prefix_order.trans prefixI)
      with Cons.prems show False by (metis append_Cons prefix_imp_sublist)
    qed
    moreover have "\<not> sublist pat (xs @ butlast pat)" using Cons.prems by (auto simp: sublist_Cons_right)
    ultimately show ?case using Cons.IH by simp
  qed
  from this [OF assms(2)] show ?thesis by (simp add: pin_tool_version_def assms(1) line_def)
qed

text \<open>A configuration that is there is not overwritten.\<close>

lemma scaffold_keeps:
  assumes "scaffold ex cli h profile dir tr = (r, tr')" and "WriteHostFile p body \<in> set (drop (length tr) tr')"
  shows "p = path_join dir CONFIG_FILE_NAME \<and> \<not> h_exists h (tr @ [CreateDirAll dir]) p"
  using assms
  by (auto simp: scaffold_def Let_def io_steps create_dir_all_def path_exists_def write_file_def
    split: sum.splits if_splits)

text \<open>The report is good exactly when Docker and \<open>git\<close> work and the assets are in place; \<open>gh\<close> does not count.\<close>

lemma doctor_verdict:
  assumes "check_available h tr = (docker, t)"
  shows "(\<exists>tr'. doctor_run l h tr = (Inr (), tr')) \<longleftrightarrow>
    docker = Inr () \<and> (\<exists>out. h_output h t ''git'' [''--version''] = Inr (True, out)) \<and>
    (\<exists>dir tr'. materialize (lib_tool l) h
       (t @ [CommandOutput ''git'' [''--version''], CommandOutput ''gh'' [''--version'']]) = (Inr dir, tr'))"
  using assms
  by (cases docker; cases "h_output h t ''git'' [''--version'']")
    (auto simp: doctor_run_def io_outcomes io_try_iff check_tool_def succeeds_run)

end
