(* ===== verification/ScriptProps.thy ===== *)
theory ScriptProps
  imports BuildScript SchemaProps
begin

text \<open>
  What the build container's shell makes of the generated script. The shell is a parameter \<open>W\<close>
  that reads one word at the front of a text, with the quoting rules \<open>posix_words\<close> and, in
  \<open>posix_shell\<close>, two more of the POSIX token rules: an ordinary character stands for itself and a blank ends a
  word. \<open>reads W t ws rest\<close>: the command at the front of \<open>t\<close> has the words \<open>ws\<close>, up to the end of its line or a
  pipe.
\<close>

section \<open>Words of a command\<close>

definition plain_char :: "char \<Rightarrow> bool" where
  "plain_char c \<longleftrightarrow> is_ascii_alphanumeric c \<or> c \<in> set ''/.-_=''"

definition plain_text :: "string \<Rightarrow> bool" where
  "plain_text s \<longleftrightarrow> list_all plain_char s"

definition posix_shell :: "(string \<Rightarrow> string \<times> string) \<Rightarrow> bool" where
  "posix_shell W \<longleftrightarrow>
     posix_words W \<and>
     (\<forall>c r. plain_char c \<longrightarrow> W (c # r) = (c # fst (W r), snd (W r))) \<and>
     (\<forall>r. W (CHR '' '' # r) = ([], CHR '' '' # r))"

inductive reads :: "(string \<Rightarrow> string \<times> string) \<Rightarrow> string \<Rightarrow> string list \<Rightarrow> string \<Rightarrow> bool"
  for W where
  end_of_line: "reads W (NL # r) [] (NL # r)"
| pipe: "reads W (CHR ''|'' # r) [] (CHR ''|'' # r)"
| blank: "reads W r ws rest \<Longrightarrow> reads W (CHR '' '' # r) ws rest"
| word: "t \<noteq> [] \<Longrightarrow> hd t \<notin> {NL, CHR ''|'', CHR '' ''} \<Longrightarrow> W t = (w, r) \<Longrightarrow> reads W r ws rest \<Longrightarrow>
    reads W t (w # ws) rest"

text \<open>A word is written as parts, each of ordinary characters or quoted.\<close>

datatype part = Lit string | Quoted string

fun render :: "part \<Rightarrow> string" where
  "render (Lit s) = s"
| "render (Quoted s) = shell_quote s"

fun meaning :: "part \<Rightarrow> string" where
  "meaning (Lit s) = s"
| "meaning (Quoted s) = s"

definition render_word :: "part list \<Rightarrow> string" where
  "render_word ps = concat (map render ps)"

definition word_meaning :: "part list \<Rightarrow> string" where
  "word_meaning ps = concat (map meaning ps)"

definition render_command :: "part list list \<Rightarrow> string" where
  "render_command ws = join_with (CHR '' '') (map render_word ws)"

fun part_ok :: "part \<Rightarrow> bool" where
  "part_ok (Lit s) \<longleftrightarrow> s \<noteq> [] \<and> plain_text s"
| "part_ok (Quoted s) \<longleftrightarrow> True"

definition word_ok :: "part list \<Rightarrow> bool" where
  "word_ok ps \<longleftrightarrow> ps \<noteq> [] \<and> list_all part_ok ps"

lemma reads_quoted:
  assumes "posix_words W"
  shows "W (shell_quote s @ r) = (s @ fst (W r), snd (W r))"
proof (induction "length s" arbitrary: s rule: less_induct)
  case less
  let ?q = "CHR 0x27" and ?r = "[CHR 0x27, CHR 0x5C, CHR 0x27, CHR 0x27]"
  have seg: "\<And>a r. ?q \<notin> set a \<Longrightarrow> W (?q # a @ ?q # r) = (a @ fst (W r), snd (W r))"
    and esc: "\<And>r. W (CHR 0x5C # ?q # r) = (?q # fst (W r), snd (W r))"
    using assms by (simp_all add: posix_words_def NL_def)
  show ?case
  proof (cases "?q \<in> set s")
    case False
    then show ?thesis using seg [OF False, of r] by (simp add: shell_quote_def replace_char_id)
  next
    case True
    then obtain a b where s: "s = a @ ?q # b" and a: "?q \<notin> set a" by (meson split_list_first)
    have shape: "shell_quote s @ r = ?q # a @ ?q # CHR 0x5C # ?q # shell_quote b @ r"
      by (simp add: s shell_quote_def replace_char_append replace_char_id [OF a])
    show ?thesis
      unfolding shape seg [OF a] esc using less [of b] by (simp add: s)
  qed
qed

lemma reads_plain:
  assumes "posix_shell W" and "plain_text s"
  shows "W (s @ r) = (s @ fst (W r), snd (W r))"
  using assms(2) by (induction s) (use assms(1) in \<open>auto simp: posix_shell_def plain_text_def\<close>)

lemma reads_part:
  assumes "posix_shell W" and "part_ok p"
  shows "W (render p @ r) = (meaning p @ fst (W r), snd (W r))"
  using assms reads_plain [of W] reads_quoted [of W] by (cases p) (auto simp: posix_shell_def)

lemma reads_word:
  assumes "posix_shell W" and "list_all part_ok ps"
  shows "W (render_word ps @ r) = (word_meaning ps @ fst (W r), snd (W r))"
  using assms(2)
proof (induction ps)
  case (Cons p ps)
  then show ?case using reads_part [OF assms(1), of p] by (simp add: render_word_def word_meaning_def)
qed (simp add: render_word_def word_meaning_def)

lemma word_start:
  assumes "word_ok ps"
  shows "render_word ps @ r \<noteq> []" "hd (render_word ps @ r) \<notin> {NL, CHR ''|'', CHR '' ''}"
proof -
  obtain p qs where ps: "ps = p # qs" "part_ok p" using assms by (cases ps) (auto simp: word_ok_def)
  have "\<not> plain_char NL" "\<not> plain_char (CHR ''|'')" "\<not> plain_char (CHR '' '')"
    by (simp_all add: plain_char_def is_ascii_alphanumeric_def to_digit_def NL_def)
  then have "render p \<noteq> [] \<and> hd (render p) \<notin> {NL, CHR ''|'', CHR '' ''}"
    using ps(2)
    by (cases p) (auto simp: shell_quote_def NL_def plain_text_def list_all_iff dest: hd_in_set)
  then show "render_word ps @ r \<noteq> []" "hd (render_word ps @ r) \<notin> {NL, CHR ''|'', CHR '' ''}"
    by (simp_all add: ps render_word_def hd_append)
qed

text \<open>The words of a rendered command are what its parts mean.\<close>

lemma reads_command:
  assumes W: "posix_shell W" and ws: "ws \<noteq> []" "list_all word_ok ws"
    and r: "reads W r [] rest" "W r = ([], r)"
  shows "reads W (render_command ws @ r) (map word_meaning ws) rest"
  using ws
proof (induction ws)
  case (Cons w ws)
  have w: "word_ok w" and ok: "list_all part_ok w" using Cons.prems by (simp_all add: word_ok_def)
  show ?case
  proof (cases ws)
    case Nil
    have "reads W (render_word w @ r) [word_meaning w] rest"
      using word_start [OF w] reads_word [OF W ok, of r] r by (intro reads.word) simp_all
    then show ?thesis by (simp add: Nil render_command_def)
  next
    case (Cons v vs)
    let ?t = "render_command ws @ r"
    have "reads W (CHR '' '' # ?t) (map word_meaning ws) rest"
      using Cons.IH Cons.prems Cons by (intro reads.blank) simp
    moreover have "W (render_word w @ CHR '' '' # ?t) = (word_meaning w, CHR '' '' # ?t)"
      using reads_word [OF W ok, of "CHR '' '' # ?t"] W by (simp add: posix_shell_def)
    ultimately have "reads W (render_word w @ CHR '' '' # ?t) (word_meaning w # map word_meaning ws) rest"
      using word_start [OF w] by (intro reads.word) simp_all
    then show ?thesis by (simp add: Cons render_command_def)
  qed
qed simp

lemma reads_line:
  assumes "posix_shell W" and "ws \<noteq> []" and "list_all word_ok ws"
  shows "reads W (render_command ws @ NL # r) (map word_meaning ws) (NL # r)"
  using assms by (intro reads_command) (auto intro: reads.intros simp: posix_shell_def posix_words_def)

lemma reads_piped:
  assumes "posix_shell W" and "ws \<noteq> []" and "list_all word_ok ws"
  shows "reads W (render_command ws @ CHR '' '' # CHR ''|'' # r) (map word_meaning ws) (CHR ''|'' # r)"
  using assms by (intro reads_command) (auto intro: reads.intros simp: posix_shell_def)

section \<open>What is measured\<close>

lemma show_nat_plain: "plain_text (show_nat n)"
  using show_nat_digits [of _ n]
  by (force simp: plain_text_def plain_char_def is_ascii_alphanumeric_def to_digit_def is_digit_char_def
    Let_def list_all_iff)

definition kernel_words :: "sev_snp \<Rightarrow> config \<Rightarrow> part list list" where
  "kernel_words sev c =
     (let d = in_container_dist c; n = pr_name (c_project c) in
      if uses_uki sev c
      then [[Lit ''--kernel='', Quoted d, Lit ''/'', Quoted n, Lit ''.efi'']]
      else [[Lit ''--kernel='', Lit ''/build-meta/'', Quoted n, Lit ''.bzImage''],
            [Lit ''--initrd='', Lit ''/build-meta/'', Quoted n, Lit ''.cpio''],
            [Lit ''--append='', Quoted (cmdline_for c)]])"

definition measure_words :: "sev_snp \<Rightarrow> config \<Rightarrow> part list list" where
  "measure_words sev c =
     [[Lit ''python3''], [Lit ''/build/sev-snp-measure/sev-snp-measure.py''], [Lit ''--mode''], [Lit ''snp''],
      [Lit ''--vcpus='', Lit (show_word (snp_vcpus sev))],
      [Lit ''--vcpu-type='', Quoted (snp_vcpu_type sev)],
      [Lit ''--ovmf='', Quoted (ovmf_in_container_path (snp_ovmf sev) (out_dir (c_output c)))]] @
     kernel_words sev c"

definition ukify_words :: "config \<Rightarrow> part list list" where
  "ukify_words c =
     (let n = pr_name (c_project c) in
      [[Lit ''PYTHONHASHSEED=0''], [Lit ''ukify''], [Lit ''build''],
       [Lit ''--linux='', Lit ''/build-meta/'', Quoted n, Lit ''.bzImage''],
       [Lit ''--initrd='', Lit ''/build-meta/'', Quoted n, Lit ''.cpio''],
       [Lit ''--cmdline='', Quoted (cmdline_for c)],
       [Lit ''--uname='', Quoted (k_version (c_kernel c))],
       [Lit ''--output='', Quoted (in_container_dist c), Lit ''/'', Quoted n, Lit ''.efi'']])"

lemma literals_plain:
  "plain_text ''python3''" "plain_text ''/build/sev-snp-measure/sev-snp-measure.py''"
  "plain_text ''--mode''" "plain_text ''snp''" "plain_text ''--vcpus=''"
  "plain_text ''--vcpu-type=''" "plain_text ''--ovmf=''" "plain_text ''--kernel=''"
  "plain_text ''--initrd=''" "plain_text ''--append=''" "plain_text ''/''"
  "plain_text ''.efi''" "plain_text ''.bzImage''" "plain_text ''.cpio''"
  "plain_text ''/build-meta/''" "plain_text ''PYTHONHASHSEED=0''"
  "plain_text ''ukify''" "plain_text ''build''" "plain_text ''--linux=''"
  "plain_text ''--cmdline=''" "plain_text ''--uname=''" "plain_text ''--output=''"
  by code_simp+

lemma measure_words_ok: "list_all word_ok (measure_words sev c)" "measure_words sev c \<noteq> []"
  by (simp_all add: measure_words_def kernel_words_def word_ok_def show_word_def literals_plain Let_def
    show_nat_plain)

lemma measure_rendered:
  "\<exists>after. measure_command sev c = render_command (measure_words sev c) @ CHR '' '' # CHR ''|'' # after"
  by (simp add: measure_command_def measure_words_def kernel_words_def render_command_def
    render_word_def Let_def)

lemma in_the_middle: "\<exists>before after. a @ b @ line x @ c = before @ x @ after"
proof -
  have "a @ b @ line x @ c = (a @ b) @ x @ [NL] @ c" by (simp add: line_def)
  then show ?thesis by blast
qed

lemma measure_in_script:
  assumes "prof_kind (c_profile c) = SevSnpProfile" and "c_sev_snp c = Some sev"
  shows "\<exists>before after. script_sev_snp_measurement c = before @ measure_command sev c @ after"
  unfolding script_sev_snp_measurement_def Let_def assms option.case
  by (simp only: not_True_eq_False if_False simp_thms in_the_middle)

lemma ukify_rendered: "rootfs_format c FmtUki = render_command (ukify_words c) @ [NL]"
  by (simp add: rootfs_format_def ukify_words_def render_command_def render_word_def Let_def line_def)

lemma ukify_words_ok: "list_all word_ok (ukify_words c)" "ukify_words c \<noteq> []"
  by (simp_all add: ukify_words_def word_ok_def literals_plain Let_def)

lemma fold_formats: "fold (\<lambda>format s. s @ f format) fs s = s @ concat (map f fs)"
  by (induction fs arbitrary: s) simp_all

text \<open>Every requested format has its commands in the script.\<close>

lemma format_in_script:
  assumes "f \<in> set (out_formats (c_output c))"
  shows "\<exists>before after. script_rootfs_and_images c = before @ rootfs_format c f @ after"
proof -
  obtain xs ys where "out_formats (c_output c) = xs @ f # ys" using assms by (meson split_list)
  then show ?thesis by (simp add: script_rootfs_and_images_def Let_def fold_formats) (metis append.assoc)
qed


end
