(* ===== verification/HostLive.thy ===== *)
theory HostLive
  imports PipelineProps ScriptProps
begin

text \<open>
  A build that can succeed does: on a host that carries out what it is asked, no validated configuration runs
  into an error of the pipeline.
\<close>

section \<open>Code that yields a value\<close>

text \<open>\<open>yields I m P J\<close>: from every history in \<open>I\<close>, \<open>m\<close> returns a value in \<open>P\<close>, and the history is then in \<open>J\<close>.\<close>

definition yields :: "(history \<Rightarrow> bool) \<Rightarrow> ('e, 'a) io \<Rightarrow> ('a \<Rightarrow> bool) \<Rightarrow> (history \<Rightarrow> bool) \<Rightarrow> bool" where
  "yields I m P J \<longleftrightarrow> (\<forall>tr. I tr \<longrightarrow> (\<exists>x tr'. m tr = (Inr x, tr') \<and> P x \<and> J tr'))"

definition lasting :: "(history \<Rightarrow> bool) \<Rightarrow> bool" where
  "lasting I \<longleftrightarrow> (\<forall>tr ev. I tr \<longrightarrow> I (tr @ [ev]))"

lemma lasting_True [simp]: "lasting (\<lambda>_. True)"
  by (simp add: lasting_def)

lemma yieldsD: "yields I m P J \<Longrightarrow> I tr \<Longrightarrow> \<exists>x tr'. m tr = (Inr x, tr') \<and> P x \<and> J tr'"
  by (simp add: yields_def)

lemma yields_weaken: "yields I m P J \<Longrightarrow> (\<And>x. P x \<Longrightarrow> Q x) \<Longrightarrow> yields I m Q J"
  unfolding yields_def by meson

lemma yields_return: "P x \<Longrightarrow> yields I (io_return x) P I"
  by (simp add: yields_def io_return_def)

lemma yields_bind:
  assumes m: "yields I m P J" and f: "\<And>x. P x \<Longrightarrow> yields J (f x) Q K"
  shows "yields I (io_bind m f) Q K"
  unfolding yields_def
proof (intro allI impI)
  fix tr assume "I tr"
  with m obtain x tr' where m: "m tr = (Inr x, tr')" and "P x" "J tr'" by (meson yieldsD)
  with f show "\<exists>y tr''. io_bind m f tr = (Inr y, tr'') \<and> Q y \<and> K tr''"
    using yieldsD [of J "f x" Q K tr'] by (simp add: io_bind_def)
qed

lemma yields_then:
  assumes "yields I m P J" and "yields J k Q K"
  shows "yields I (io_then m k) Q K"
  unfolding io_then_def using assms by (rule yields_bind)

lemma yields_lift: "r = Inr x \<Longrightarrow> P x \<Longrightarrow> yields I (io_lift r) P I"
  by (simp add: yields_def io_lift_def)

lemma yields_perform:
  "lasting I \<Longrightarrow> (\<And>tr. I tr \<Longrightarrow> P (answer tr)) \<Longrightarrow> yields I (perform answer ev) P I"
  by (simp add: yields_def perform_def lasting_def)

lemma yields_perform_or:
  "lasting I \<Longrightarrow> (\<And>tr. I tr \<Longrightarrow> \<exists>x. answer tr = Inr x \<and> P x) \<Longrightarrow> yields I (perform_or e answer ev) P I"
  unfolding yields_def perform_or_run lasting_def by (metis sum.case(2))

lemma yields_if:
  "(b \<Longrightarrow> yields I m P J) \<Longrightarrow> (\<not> b \<Longrightarrow> yields I k P J) \<Longrightarrow> yields I (if b then m else k) P J"
  by simp

lemma yields_as: "yields I m P J \<Longrightarrow> yields I (io_as f m) P J"
  unfolding yields_def io_as_def by fastforce

lemma yields_require: "b \<Longrightarrow> yields I (require_that b e) (\<lambda>_. True) I"
  by (simp add: require_that_def yields_return)

lemma yields_all: "(\<And>x. x \<in> set xs \<Longrightarrow> yields I (f x) (\<lambda>_. True) I) \<Longrightarrow> yields I (io_all f xs) (\<lambda>_. True) I"
  by (induction xs) (auto intro: yields_return yields_then)

text \<open>
  The same where the value does not matter and the history stays in the same set: what is left to show after
  \<open>intro yields_plain\<close> is that each operation succeeds.
\<close>

lemma yields_op:
  "lasting I \<Longrightarrow> (\<And>tr. \<exists>x. answer tr = Inr x) \<Longrightarrow> yields I (perform_or e answer ev) (\<lambda>_. True) I"
  by (rule yields_perform_or) simp_all

lemma yields_look: "lasting I \<Longrightarrow> yields I (perform answer ev) (\<lambda>_. True) I"
  by (rule yields_perform) simp_all

lemma yields_step:
  "yields I m (\<lambda>_. True) I \<Longrightarrow> (\<And>x. yields I (f x) Q I) \<Longrightarrow> yields I (io_bind m f) Q I"
  by (rule yields_bind)

lemma yields_seq:
  "yields I m (\<lambda>_. True) I \<Longrightarrow> yields I k Q I \<Longrightarrow> yields I (io_then m k) Q I"
  by (rule yields_then)

lemma yields_done: "yields I (io_return x) (\<lambda>_. True) I"
  by (simp add: yields_return)

lemma yields_cond:
  "(b \<Longrightarrow> yields I m Q I) \<Longrightarrow> (\<not> b \<Longrightarrow> yields I k Q I) \<Longrightarrow> yields I (if b then m else k) Q I"
  by (rule yields_if)

lemmas yields_plain = yields_op yields_look yields_step yields_seq yields_done yields_as
  yields_require yields_all yields_cond

section \<open>A willing host\<close>

text \<open>The path of the app that is asked for.\<close>

definition app_place :: "config \<Rightarrow> string \<Rightarrow> string" where
  "app_place c project_dir =
     (case app_mode (c_app c) of
        ModeBinary \<Rightarrow> path_join project_dir (the (bin_path (the (app_binary (c_app c)))))
      | ModeSource \<Rightarrow>
          let s = the (app_source (c_app c))
          in path_join (path_join project_dir (the (src_path s))) (src_package_path s))"

definition container_ran :: "history \<Rightarrow> bool" where
  "container_ran tr \<longleftrightarrow>
     (\<exists>args. CommandStatus ''docker'' args \<in> set tr \<and> suffix [''/bin/bash'', ''/build-meta/build.sh''] args)"

text \<open>
  The project directory resolves to \<open>proj\<close>, no symbolic link leads out of it, the app is in it; every
  operation succeeds; and once the container has run, the files it makes are there, the
  measurement among them.
\<close>

definition willing_host :: "host \<Rightarrow> config \<Rightarrow> string \<Rightarrow> string list \<Rightarrow> bool" where
  "willing_host h c project_dir proj \<longleftrightarrow>
     (\<forall>tr. h_canonicalize h tr project_dir = Inr proj \<and> h_canonicalize h tr (path_text proj) = Inr proj) \<and>
     (\<forall>tr dir n. prefix proj dir \<longrightarrow> plain_component (Normal n) \<longrightarrow>
        (\<exists>d. h_canonicalize h tr (path_text (dir @ [n])) = Inr d \<and> prefix proj d)) \<and>
     (\<forall>tr. \<exists>rel. h_canonicalize h tr (app_place c project_dir) = Inr (proj @ rel)) \<and>
     (\<forall>tr p. h_create_dir h tr p = Inr () \<or> h_create_dir h tr p = Inl AlreadyExists) \<and>
     (\<forall>tr p. h_create_dir_all h tr p = Inr () \<and> h_create_file h tr p = Inr () \<and> h_is_file h tr p) \<and>
     (\<forall>tr p n. h_set_len h tr p n = Inr () \<and> h_set_permissions h tr p n = Inr ()) \<and>
     (\<forall>tr p b. h_write h tr p b = Inr () \<and> h_rename h tr p b = Inr ()) \<and>
     (\<forall>tr p. (\<exists>s. h_read h tr p = Inr s) \<and> (\<exists>ps. walk p (h_tree h tr p) = Inr ps)) \<and>
     (\<forall>tr p args. (\<exists>out. h_output h tr p args = Inr (True, out)) \<and> h_status h tr p args = Inr True) \<and>
     (\<forall>tr p. container_ran tr \<longrightarrow> h_exists h tr p) \<and>
     (\<forall>tr dir s. container_ran tr \<longrightarrow> h_read h tr (path_join dir ''sev_measurement.txt'') = Inr s \<longrightarrow>
        measurement_shape_ok (trim s))"

lemma lasting_ran [simp]: "lasting container_ran"
  by (auto simp: lasting_def container_ran_def)

lemma willing_ops:
  assumes "willing_host h c project_dir proj"
  shows "h_canonicalize h tr project_dir = Inr proj" "h_canonicalize h tr (path_text proj) = Inr proj"
    "\<exists>rel. h_canonicalize h tr (app_place c project_dir) = Inr (proj @ rel)"
    "h_create_dir h tr p = Inr () \<or> h_create_dir h tr p = Inl AlreadyExists"
    "h_create_dir_all h tr p = Inr ()" "h_create_file h tr p = Inr ()" "h_is_file h tr p"
    "h_set_len h tr p n = Inr ()" "h_set_permissions h tr p n = Inr ()" "h_write h tr p b = Inr ()"
    "h_rename h tr p b = Inr ()" "\<exists>s. h_read h tr p = Inr s" "\<exists>ps. walk p (h_tree h tr p) = Inr ps"
    "\<exists>out. h_output h tr p args = Inr (True, out)" "h_status h tr p args = Inr True"
  using assms unfolding willing_host_def by simp_all

section \<open>Every stage returns\<close>

lemma dist_loop_yields:
  assumes w: "willing_host h c project_dir proj" and I: "lasting I"
  shows "prefix proj out \<Longrightarrow> ParentDir \<notin> set comps \<Longrightarrow> RootDir \<notin> set comps \<Longrightarrow>
    \<forall>x\<in>set comps. plain_component x \<Longrightarrow> yields I (dist_loop h proj out comps) (\<lambda>_. True) I"
proof (induction comps arbitrary: out)
  case (Cons x comps)
  show ?case
  proof (cases x)
    case (Normal n)
    let ?p = "path_text (out @ [n])"
    have canon: "\<exists>d. h_canonicalize h tr ?p = Inr d \<and> prefix proj d" for tr
      using w Cons.prems Normal unfolding willing_host_def by simp
    have rest: "yields I (dist_loop h proj d comps) (\<lambda>_. True) I" if "prefix proj d" for d
      using Cons that by simp
    show ?thesis
      unfolding Normal dist_loop.simps path_component.case Let_def canonicalize_def
    proof (rule yields_bind)
      show "yields I (perform (\<lambda>tr. h_create_dir h tr ?p) (CreateDir ?p))
          (\<lambda>r. r = Inr () \<or> r = Inl AlreadyExists) I"
        using willing_ops(4) [OF w] by (intro yields_perform [OF I]) blast
    next
      fix r :: "io_error + unit"
      assume r: "r = Inr () \<or> r = Inl AlreadyExists"
      show "yields I (if r = Inr () \<or> r = Inl AlreadyExists
          then io_bind (perform_or (CanonicalizeFailed ?p) (\<lambda>tr. h_canonicalize h tr ?p) (Canonicalize ?p))
            (\<lambda>out. if prefix proj out then dist_loop h proj out comps else io_fail OutputDirOutside)
          else io_fail (OutputDirNotCreated ?p)) (\<lambda>_. True) I"
        using r canon rest
        by (simp, intro yields_bind [OF yields_perform_or [OF I, where P = "prefix proj"]]) simp_all
    qed
  qed (use Cons in auto)
qed (simp add: yields_return)

lemma dist_dir_yields:
  assumes w: "willing_host h c project_dir proj" and I: "lasting I" and valid: "output_ok c"
    and dir: "dir = project_dir \<or> dir = path_text proj"
  shows "yields I (host_dist_dir h c dir) (\<lambda>_. True) I"
proof -
  let ?comps = "path_components (out_dir (c_output c))"
  have ok: "trim (out_dir (c_output c)) \<noteq> []" "ParentDir \<notin> set ?comps" "RootDir \<notin> set ?comps"
    using valid path_components_parent path_components_root by (simp_all add: output_ok_def)
  have "yields I (dist_loop h proj proj ?comps) (\<lambda>_. True) I"
    using ok path_components_plain by (intro dist_loop_yields [OF w I]) auto
  moreover have "\<exists>x. h_canonicalize h tr dir = Inr x \<and> x = proj" for tr
    using dir willing_ops(1,2) [OF w] by auto
  ultimately show ?thesis
    unfolding host_dist_dir_def canonicalize_def
    using ok by (intro yields_bind [OF yields_perform_or [OF I, where P = "\<lambda>x. x = proj"]]) simp_all
qed

lemma storage_yields:
  assumes w: "willing_host h c project_dir proj" and valid: "output_ok c"
  shows "yields (\<lambda>_. True) (storage_stage h c project_dir) (\<lambda>_. True) (\<lambda>_. True)"
  unfolding storage_stage_def Let_def path_exists_def
  by (intro yields_plain dist_dir_yields [OF w _ valid]) (simp_all add: willing_ops [OF w])

lemma ovmf_yields:
  assumes w: "willing_host h c project_dir proj" and "ovmf_preset ovmf \<noteq> None \<or> ovmf_path ovmf \<noteq> None"
  shows "yields (\<lambda>_. True) (ovmf_stage h ovmf project_dir out) (\<lambda>_. True) (\<lambda>_. True)"
proof (cases "ovmf_preset ovmf")
  case (Some p)
  then show ?thesis by (simp add: ovmf_stage_def yields_return)
next
  case None
  then obtain p where "ovmf_path ovmf = Some p" using assms by blast
  with None show ?thesis
    unfolding ovmf_stage_def create_dir_all_def read_file_def write_file_def Let_def
    by (simp, intro yields_plain) (simp_all add: willing_ops [OF w])
qed

text \<open>The app is found, and the script for it can be generated.\<close>

lemma app_yields:
  assumes w: "willing_host h c project_dir proj" and valid: "app_ok (c_app c)"
  shows "yields (\<lambda>_. True) (acquire h c project_dir)
    (\<lambda>app. \<exists>script. generate_build_script c app = Inr script) (\<lambda>_. True)"
proof (cases "app_mode (c_app c)")
  case ModeBinary
  then obtain b p where bin: "app_binary (c_app c) = Some b" "bin_path b = Some p"
    using valid by (auto simp: app_ok_def)
  have script: "\<exists>script. generate_build_script c (AcquiredBinary x) = Inr script" for x
    by (simp add: generate_build_script_def script_app_build_def Let_def)
  have place: "\<exists>rel. h_canonicalize h tr (path_join project_dir p) = Inr (proj @ rel)" for tr
    using willing_ops(3) [OF w] bin ModeBinary by (simp add: app_place_def)
  show ?thesis
    unfolding acquire_def acquire_binary_def canonicalize_def Let_def ModeBinary app_mode.case
    by (rule yields_bind [OF yields_lift [where P = "\<lambda>x. x = b"]], simp add: bin, simp,
        rule yields_bind [OF yields_lift [where P = "\<lambda>x. x = p"]], simp add: bin, simp,
        rule yields_bind [OF yields_perform_or [where P = "\<lambda>x. x = proj"]], simp, simp add: willing_ops [OF w],
        rule yields_bind [OF yields_perform_or [where P = "\<lambda>x. prefix proj x"]], simp)
      (use place in \<open>force simp: script intro: yields_return\<close>)+
next
  case ModeSource
  then obtain s p where src: "app_source (c_app c) = Some s" "src_path s = Some p" and ok: "source_ok s"
    using valid by (auto simp: app_ok_def source_ok_def)
  have at: "\<exists>r. script_build_at s d = Inr r" for d :: string
    using ok by (cases "src_toolchain s") (auto simp: script_build_at_def source_ok_def Let_def)
  have script: "\<exists>script. generate_build_script c (LocalSource x) = Inr script" for x
  proof -
    obtain r where "script_build_at s (''/workspace/'' @ x) = Inr r" using at by blast
    with src show ?thesis by (simp add: generate_build_script_def script_app_build_def Let_def)
  qed
  have place: "\<exists>rel. h_canonicalize h tr (path_join (path_join project_dir p) (src_package_path s)) =
      Inr (proj @ rel)" for tr
    using willing_ops(3) [OF w] src ModeSource by (simp add: app_place_def)
  show ?thesis
    unfolding acquire_def acquire_source_def canonicalize_def Let_def ModeSource app_mode.case
    by (rule yields_bind [OF yields_lift [where P = "\<lambda>x. x = s"]], simp add: src, simp,
        rule yields_bind [OF yields_lift [where P = "\<lambda>x. x = p"]], simp add: src, simp,
        rule yields_bind [OF yields_perform_or [where P = "\<lambda>x. x = proj"]], simp, simp add: willing_ops [OF w],
        rule yields_bind [OF yields_perform_or [where P = "\<lambda>x. prefix proj x"]], simp)
      (use place in \<open>force simp: script willing_ops [OF w]
        intro: yields_return yields_bind [OF yields_perform [where P = "\<lambda>x. x"]]\<close>)+
qed

text \<open>The single operations.\<close>

lemma willing_yields:
  assumes w: "willing_host h c project_dir proj" and I: "lasting I"
  shows "yields I (create_dir_all h e p) (\<lambda>_. True) I" "yields I (write_file h e p s) (\<lambda>_. True) I"
    "yields I (read_file h e p) (\<lambda>_. True) I" "yields I (path_exists h p) (\<lambda>_. True) I"
    "yields I (command_status h e prog args) (\<lambda>ok. ok) I"
    "yields I (command_output h prog args) (\<lambda>r. \<exists>out. r = Inr (True, out)) I"
    "yields I (perform (\<lambda>tr. walk p (h_tree h tr p)) ev) (\<lambda>r. \<exists>ps. r = Inr ps) I"
    "yields I (perform_or e (\<lambda>tr. h_rename h tr p s) ev) (\<lambda>_. True) I"
    "yields I (perform_or e (\<lambda>tr. h_set_permissions h tr p n) ev) (\<lambda>_. True) I"
proof -
  show "yields I (command_output h prog args) (\<lambda>r. \<exists>out. r = Inr (True, out)) I"
    unfolding command_output_def using willing_ops(14) [OF w] by (intro yields_perform I)
  show "yields I (perform (\<lambda>tr. walk p (h_tree h tr p)) ev) (\<lambda>r. \<exists>ps. r = Inr ps) I"
    using willing_ops(13) [OF w] by (intro yields_perform I)
  show "yields I (command_status h e prog args) (\<lambda>ok. ok) I"
    unfolding command_status_def by (rule yields_perform_or [OF I]) (auto simp: willing_ops [OF w])
qed (unfold create_dir_all_def write_file_def read_file_def path_exists_def,
  (intro yields_op yields_look I; simp add: willing_ops [OF w])+)

text \<open>The embedded files are extracted.\<close>

lemma extract_dir_yields:
  assumes w: "willing_host h c project_dir proj" and I: "lasting I"
  shows "yields I (extract_dir h dest d) (\<lambda>_. True) I"
proof (induction d arbitrary: dest)
  case (Embedded fs subs)
  have "yields I (extract_file h dest f) (\<lambda>_. True) I" for f
    unfolding extract_file_def Let_def
    by (cases f, cases "path_parent (path_join dest (fst f))")
      (auto intro!: yields_seq yields_done willing_yields [OF w I])
  with Embedded show ?case by (auto intro!: yields_plain)
qed

lemma restore_yields:
  assumes w: "willing_host h c project_dir proj" and I: "lasting I"
  shows "yields I (restore_guest_manifests h dir) (\<lambda>_. True) I"
  unfolding restore_guest_manifests_def
proof (rule yields_bind [OF willing_yields(7) [OF w I]])
  fix found :: "asset_error + string list"
  assume "\<exists>ps. found = Inr ps"
  then obtain ps where "found = Inr ps" by blast
  then show "yields I (io_bind (io_lift found) (\<lambda>entries.
      io_all (\<lambda>entry.
        if path_file_name entry = Some ''Cargo.toml.dist''
        then let restored = without_dist entry in
             perform_or (NotRenamed entry) (\<lambda>tr. h_rename h tr entry restored) (RenameFile entry restored)
        else io_return ()) entries)) (\<lambda>_. True) I"
    unfolding Let_def
    by (intro yields_bind [OF yields_lift [where P = "\<lambda>_. True"]] yields_all yields_cond yields_done
      willing_yields [OF w I]) simp_all
qed

lemma materialize_yields:
  assumes w: "willing_host h c project_dir proj" and I: "lasting I"
  shows "yields I (materialize t h) (\<lambda>_. True) I"
  unfolding materialize_def Let_def make_scripts_executable_def
  by (intro yields_step yields_seq yields_done yields_cond extract_dir_yields [OF w I]
    restore_yields [OF w I] willing_yields [OF w I])

section \<open>The container build returns\<close>

lemma available_yields:
  assumes w: "willing_host h c project_dir proj" and I: "lasting I"
  shows "yields I (check_available h) (\<lambda>_. True) I"
  unfolding check_available_def
  by (rule yields_bind [OF willing_yields(6) [OF w I]]) (auto simp: yields_done)

lemma snapshot_yields:
  assumes w: "willing_host h c project_dir proj" and I: "lasting I"
  shows "yields I (apt_snapshot_now h c)
    (\<lambda>now. tp_apt_snapshot (c_toolchain c) = Some ''latest'' \<longrightarrow> (\<exists>s. now = Inr s)) I"
proof (cases "tp_apt_snapshot (c_toolchain c) = Some ''latest''")
  case True
  then show ?thesis
    by (simp add: apt_snapshot_now_def, intro yields_bind [OF willing_yields(6) [OF w I]] yields_return)
      (auto simp: resolve_latest_apt_snapshot_def)
qed (simp add: apt_snapshot_now_def yields_return)

lemma build_args_succeed:
  assumes "tp_apt_snapshot t = Some ''latest'' \<longrightarrow> (\<exists>s. now = Inr s)"
  shows "\<exists>args. build_args_for now t m = Inr args"
  using assms by (cases "tp_apt_snapshot t") (auto simp: build_args_for_def)

lemma toolchain_yields:
  assumes w: "willing_host h c project_dir proj" and I: "lasting I"
  shows "yields I (build_toolchain_image h c assets_dir) (\<lambda>_. True) I"
  unfolding build_toolchain_image_def
proof (rule yields_bind [OF snapshot_yields [OF w I]], rule yields_bind)
  fix now :: "build_error + string"
  assume "tp_apt_snapshot (c_toolchain c) = Some ''latest'' \<longrightarrow> (\<exists>s. now = Inr s)"
  from build_args_succeed [OF this] obtain args
    where "build_args_for now (c_toolchain c) (st_mode (c_storage c)) = Inr args" by blast
  then show "yields I (io_lift (build_args_for now (c_toolchain c) (st_mode (c_storage c)))) (\<lambda>_. True) I"
    by (rule yields_lift) simp
qed (rule yields_bind [OF willing_yields(5) [OF w I]], intro yields_seq yields_require yields_done)

lemma write_script_yields:
  assumes w: "willing_host h c project_dir proj" and I: "lasting I"
    and script: "generate_build_script c app = Inr script"
  shows "yields I (write_build_script h c app last_build_dir) (\<lambda>_. True) I"
  unfolding write_build_script_def Let_def script sum.case
  by (intro yields_step yields_seq yields_done yields_cond willing_yields [OF w I] yields_lift) simp_all

lemma container_yields:
  assumes w: "willing_host h c project_dir proj"
  shows "yields (\<lambda>_. True) (run_build_container h tag dir assets cache last_build script) (\<lambda>_. True) container_ran"
proof -
  have dirs: "yields (\<lambda>_. True) (io_all (\<lambda>(d, _). create_dir_all h (HostFileFailed d) d) ms) (\<lambda>_. True) (\<lambda>_. True)"
    for ms :: "(string \<times> string \<times> bool) list"
    by (intro yields_all) (auto intro: willing_yields [OF w])
  have ids: "yields (\<lambda>_. True) (host_uid_gid h :: (build_error, _) io) (\<lambda>_. True) (\<lambda>_. True)"
    unfolding host_uid_gid_def
    by (rule yields_bind [OF willing_yields(6) [OF w]], simp, clarsimp,
        rule yields_bind [OF willing_yields(6) [OF w]], simp, clarsimp simp: yields_done)
  have ran: "yields (\<lambda>_. True) (command_status h e ''docker'' args) (\<lambda>ok. ok) container_ran"
    if "suffix [''/bin/bash'', ''/build-meta/build.sh''] args" for e :: build_error and args
    unfolding command_status_def
    using that willing_ops(15) [OF w] by (auto simp: yields_def perform_or_run container_ran_def)
  have args: "suffix [''/bin/bash'', ''/build-meta/build.sh''] (docker_run_args tag assets i m)" for i m
    by (simp add: docker_run_args_def suffix_def)
  show ?thesis
    unfolding run_build_container_def Let_def
    by (rule yields_then [OF dirs], rule yields_bind [OF ids], rule yields_bind [OF ran [OF args]],
        rule yields_require)
qed

section \<open>The artifacts are there\<close>

lemma collect_yields:
  assumes w: "willing_host h c project_dir proj"
  shows "yields container_ran (collect_artifacts l h c dist last_build_dir)
    (\<lambda>a. ba_uki a \<noteq> None \<and> ba_binary a \<noteq> None \<and>
      ba_sev_measurement a = Some (path_join dist ''sev_measurement.txt'')) container_ran"
proof -
  have there: "yields container_ran (path_exists h p) (\<lambda>x. x) container_ran" for p
    unfolding path_exists_def using w by (intro yields_perform) (simp_all add: willing_host_def)
  have found: "yields container_ran (if_exists h p) (\<lambda>r. r = Some p) container_ran" for p
    unfolding if_exists_def by (rule yields_bind [OF there]) (simp add: yields_return)
  have hash: "yields container_ran (hash_file h p) (\<lambda>_. True) container_ran" for p
    unfolding hash_file_def by (intro yields_plain lasting_ran)
  have sha: "yields container_ran (sha256_hex_of_file l h p) (\<lambda>_. True) container_ran" for p
    unfolding sha256_hex_of_file_def by (intro yields_step yields_done willing_yields [OF w lasting_ran])
  have required: "yields container_ran (io_all (\<lambda>p. io_bind (path_exists h p) (\<lambda>present.
      require_that present (ArtifactMissing p))) ps) (\<lambda>_. True) container_ran" for ps
    by (intro yields_all yields_bind [OF there] yields_require)
  show ?thesis
    unfolding collect_artifacts_def Let_def
    by (intro yields_then [OF required] yields_bind [OF sha] yields_bind [OF hash] yields_bind [OF found]
      yields_return) simp
qed

lemma image_yields:
  assumes w: "willing_host h c project_dir proj" and "ba_uki a \<noteq> None" "ba_binary a \<noteq> None"
  shows "yields container_ran (image_write h a f) (\<lambda>_. True) container_ran"
proof (cases f)
  case FmtCpio
  have there: "yields container_ran (path_exists h p) (\<lambda>x. x) container_ran" for p
    unfolding path_exists_def using w by (intro yields_perform) (simp_all add: willing_host_def)
  show ?thesis
    unfolding FmtCpio image_write_def output_format.case
    by (rule yields_bind [OF there], simp, intro yields_bind [OF there] yields_require)
qed (use assms in \<open>simp_all add: image_write_def yields_require\<close>)

lemma measurement_yields:
  assumes w: "willing_host h c project_dir proj" and snp: "c_sev_snp c = Some s"
    and a: "ba_sev_measurement a = Some (path_join dist ''sev_measurement.txt'')"
  shows "yields container_ran (compute_measurement l h c project_dir a) (\<lambda>_. True) container_ran"
proof -
  let ?path = "path_join dist ''sev_measurement.txt''"
  have "\<exists>x. h_read h tr ?path = Inr x \<and> measurement_shape_ok (trim x)" if "container_ran tr" for tr
    using w that unfolding willing_host_def by metis
  then have content: "yields container_ran (read_file h e ?path) (\<lambda>x. measurement_shape_ok (trim x)) container_ran"
    for e :: build_error
    unfolding read_file_def by (intro yields_perform_or) simp_all
  show ?thesis
    unfolding compute_measurement_def Let_def
    by (rule yields_bind [OF yields_lift [where P = "\<lambda>p. p = ?path"]], simp add: a, simp,
        rule yields_bind, simp only:, rule content, rule yields_then [OF yields_require], simp,
        rule yields_bind [OF yields_lift [where P = "\<lambda>_. True"]], simp add: snp, simp,
        intro yields_seq yields_done willing_yields [OF w]) simp
qed

section \<open>A validated configuration builds\<close>

lemma reproducible_yields:
  assumes w: "willing_host h c project_dir proj" and out: "output_ok c"
    and script: "generate_build_script c app = Inr script"
  shows "yields (\<lambda>_. True) (run_reproducible_build l h c project_dir app)
    (\<lambda>a. ba_uki a \<noteq> None \<and> ba_binary a \<noteq> None \<and>
      (\<exists>dist. ba_sev_measurement a = Some (path_join dist ''sev_measurement.txt''))) container_ran"
proof -
  have canon: "yields (\<lambda>_. True) (canonicalize h e project_dir) (\<lambda>x. x = proj) (\<lambda>_. True)" for e :: build_error
    unfolding canonicalize_def by (intro yields_perform_or) (simp_all add: willing_ops [OF w])
  note dist = yields_as [OF dist_dir_yields [OF w lasting_True out disjI2 [OF refl]]]
  show ?thesis
    unfolding run_reproducible_build_def Let_def
    by (rule yields_then [OF available_yields [OF w]], simp, rule yields_bind [OF canon], simp,
        rule yields_bind [OF yields_as [OF materialize_yields [OF w]]], simp,
        rule yields_bind [OF dist], rule yields_bind [OF toolchain_yields [OF w]], simp,
        rule yields_bind [OF write_script_yields [OF w _ script]], simp,
        rule yields_then [OF container_yields [OF w]], rule yields_weaken [OF collect_yields [OF w]], blast)
qed

lemma willing_builds:
  assumes "validate cli c = Inr ()" and "willing_host h c project_dir proj"
  shows "\<exists>tr'. build l h c project_dir tr = (Inr (), tr')"
proof -
  have valid: "valid_config cli c" using assms(1) by (simp add: validate_iff)
  then have out: "output_ok c" and app: "app_ok (c_app c)" and prof: "profile_ok cli c"
    by (simp_all add: valid_config_def)
  have snp: "c_sev_snp c \<noteq> None" if "prof_kind (c_profile c) = SevSnpProfile"
    using prof that by (auto simp: profile_ok_def)
  have fw: "ovmf_preset (snp_ovmf s) \<noteq> None \<or> ovmf_path (snp_ovmf s) \<noteq> None" if "c_sev_snp c = Some s" for s
    using prof that by (auto simp: profile_ok_def snp_ok_def split: if_splits)
  note w = assms(2)
  have first: "yields (\<lambda>_. True) (case c_sev_snp c of None \<Rightarrow> io_return ()
      | Some s \<Rightarrow> io_as Place (ovmf_stage h (snp_ovmf s) project_dir (out_dir (c_output c)))) (\<lambda>_. True) (\<lambda>_. True)"
    by (cases "c_sev_snp c") (auto intro: yields_done yields_as ovmf_yields [OF w fw])
  have last: "yields container_ran (if prof_kind (c_profile c) = SevSnpProfile
      then io_bind (compute_measurement l h c project_dir a) (\<lambda>hex. io_return ()) else io_return ()) (\<lambda>_. True) container_ran"
    if "\<exists>dist. ba_sev_measurement a = Some (path_join dist ''sev_measurement.txt'')" for a
    using that snp by (intro yields_cond yields_step yields_done) (auto intro: measurement_yields [OF w])
  have "yields (\<lambda>_. True) (build l h c project_dir) (\<lambda>_. True) container_ran"
    unfolding build_def
    by (rule yields_then [OF first], rule yields_then [OF yields_as [OF storage_yields [OF w out]]],
        rule yields_bind [OF yields_as [OF app_yields [OF w app]]], erule exE,
        rule yields_bind [OF reproducible_yields [OF w out]], assumption,
        rule yields_then [OF yields_all [OF image_yields [OF w]]], simp, simp, rule last, simp)
  then show ?thesis unfolding yields_def by auto
qed


end
