(* ===== verification/HostRuns.thy ===== *)
theory HostRuns
  imports Commands HostLive
begin

text \<open>
  The host claims at concrete inputs: a host on which every operation succeeds, with a project at
  \<open>/p\<close> and no symbolic links, and configurations for it.
\<close>

section \<open>A host and its projects\<close>

definition plain_names :: "string \<Rightarrow> string list" where
  "plain_names p = filter (\<lambda>n. n \<noteq> [] \<and> n \<noteq> ''.'') (split_on (CHR ''/'') p)"

definition sample_host :: host where
  "sample_host =
     \<lparr>h_canonicalize = (\<lambda>_ p. Inr (plain_names p)),
      h_create_dir = (\<lambda>_ _. Inr ()), h_create_dir_all = (\<lambda>_ _. Inr ()),
      h_exists = (\<lambda>_ _. True), h_is_file = (\<lambda>_ _. True),
      h_create_file = (\<lambda>_ _. Inr ()), h_set_len = (\<lambda>_ _ _. Inr ()),
      h_read = (\<lambda>_ _. Inr (replicate 96 (CHR ''a''))), h_write = (\<lambda>_ _ _. Inr ()),
      h_set_permissions = (\<lambda>_ _ _. Inr ()),
      h_output = (\<lambda>_ _ _. Inr (True, '''', '''')), h_status = (\<lambda>_ _ _. Inr True),
      h_rename = (\<lambda>_ _ _. Inr ()), h_tree = (\<lambda>_ _. Listing EndOfDir), h_var = (\<lambda>_. None)\<rparr>"

definition empty_host :: host where
  "empty_host = sample_host\<lparr>h_exists := (\<lambda>_ _. False)\<rparr>"

definition sample_tool :: tool where
  "sample_tool =
     \<lparr>tool_version = ''1.0.0'', tool_sha256 = (\<lambda>s. s), tool_build_assets = Embedded [(''a'', ''x'')] [],
      tool_guest_source = Embedded [] []\<rparr>"

definition app_config :: config where
  "app_config = build_config ''app'' (binary_app ''app.bin'')"

definition sample_libs :: libs where
  "sample_libs =
     \<lparr>lib_tool = sample_tool, lib_parse_config = (\<lambda>_. Some app_config), lib_crate_name = (\<lambda>_. None),
      lib_to_json = (\<lambda>_. '''')\<rparr>"

definition snp_config :: config where
  "snp_config = app_config
     \<lparr>c_project := \<lparr>pr_name = ''app'', pr_cli_version = Some ''1.0.0''\<rparr>,
      c_profile := \<lparr>prof_kind = SevSnpProfile\<rparr>,
      c_sev_snp := Some \<lparr>snp_vcpus = 2, snp_vcpu_type = ''EPYC-v4'', snp_kernel_cmdline = ''console=ttyS0'',
        snp_ovmf = \<lparr>ovmf_preset = Some ''builtin'', ovmf_path = None\<rparr>, snp_measured_boot = None\<rparr>\<rparr>"

lemma host_fields:
  "h_canonicalize sample_host tr p = Inr (plain_names p)" "h_canonicalize empty_host tr p = Inr (plain_names p)"
  "h_create_dir sample_host tr p = Inr ()" "h_create_dir empty_host tr p = Inr ()"
  "h_create_dir_all sample_host tr p = Inr ()" "h_create_dir_all empty_host tr p = Inr ()"
  "h_exists sample_host tr p" "\<not> h_exists empty_host tr p" "h_is_file sample_host tr p"
  "h_create_file sample_host tr p = Inr ()" "h_set_len sample_host tr p n = Inr ()"
  "h_rename sample_host tr p b = Inr ()"
  "h_create_file empty_host tr p = Inr ()" "h_set_len empty_host tr p n = Inr ()"
  "h_read sample_host tr p = Inr (replicate 96 (CHR ''a''))"
  "h_write sample_host tr p b = Inr ()" "h_write empty_host tr p b = Inr ()"
  "h_set_permissions sample_host tr p n = Inr ()"
  "h_output sample_host tr p args = Inr (True, [], [])" "h_status sample_host tr p args = Inr True"
  "h_tree sample_host tr p = Listing EndOfDir" "h_tree empty_host tr p = Listing EndOfDir"
  "h_var sample_host v = None" "h_var empty_host v = None"
  by (simp_all add: sample_host_def empty_host_def)

lemma app_config_valid: "validate ''1.0.0'' app_config = Inr ()"
proof -
  have "name_ok ''app''" by code_simp
  then show ?thesis
    unfolding app_config_def
    by (subst built_config_valid)
      (simp_all add: default_apps_ok, simp_all add: binary_app_def app_runtime_default_def)
qed

lemma snp_config_valid: "validate ''1.0.0'' snp_config = Inr ()"
proof -
  have "trim ''EPYC-v4'' \<noteq> []" by code_simp
  with app_config_valid show ?thesis
    by (simp add: validate_iff valid_config_def snp_config_def app_config_def build_config_def
      profile_ok_def snp_ok_def output_ok_def)
qed

section \<open>Witnesses\<close>

lemma dist_components: "path_components ''dist/'' = [Normal ''dist'']" "trim ''dist/'' = ''dist/''"
  by code_simp+

lemma app_config_dist: "out_dir (c_output app_config) = ''dist/''"
  by (simp add: app_config_def build_config_def)

lemma sample_names: "plain_names ''/p'' = [''p'']" "plain_names ''/p/dist'' = [''p'', ''dist'']"
    "plain_names ''/p/app.bin'' = [''p'', ''app.bin'']" "path_text [''p''] = ''/p''"
    "path_text [''p'', ''dist''] = ''/p/dist''"
  by code_simp+

lemma dist_dir_run:
  "host_dist_dir empty_host (app_config\<lparr>c_storage := s\<rparr>) ''/p'' [] =
     (Inr [''p'', ''dist''], [Canonicalize ''/p'', CreateDir ''/p/dist'', Canonicalize ''/p/dist''])"
  by (simp add: host_dist_dir_def app_config_dist dist_components canonicalize_def io_steps host_fields
    sample_names Let_def)

lemma dist_dir_confined_witness:
  "\<exists>new. [Canonicalize ''/p'', CreateDir ''/p/dist'', Canonicalize ''/p/dist''] =
      [] @ Canonicalize ''/p'' # new \<and>
    (\<forall>ev\<in>set new. \<exists>proj. h_canonicalize empty_host [] ''/p'' = Inr proj \<and> dir_within proj ev) \<and>
    (\<forall>d. (Inr [''p'', ''dist''] :: place_error + string list) = Inr d \<longrightarrow>
       (\<exists>proj. h_canonicalize empty_host [] ''/p'' = Inr proj \<and> prefix proj d))"
  by (rule dist_dir_confined [OF dist_dir_run])

lemma data_image_run:
  "storage_stage empty_host (app_config\<lparr>c_storage := storage_default\<lparr>st_mode := Persistent, st_size_mib := 16\<rparr>\<rparr>)
     ''/p'' [] =
   (Inr (), [Canonicalize ''/p'', CreateDir ''/p/dist'', Canonicalize ''/p/dist''] @
      [PathExists ''/p/dist/app.data.img'', CreateFile ''/p/dist/app.data.img'',
       SetLen ''/p/dist/app.data.img'' (16 * 2 ^ 20)])"
proof -
  have p: "data_image_path [''p'', ''dist''] ''app'' = ''/p/dist/app.data.img''" by code_simp
  have len: "unat (saturating_mul (saturating_mul 16 1024) 1024) = 16777216"
    using image_len [of 16] by simp
  have n: "pr_name (c_project app_config) = ''app''" by (simp add: app_config_def build_config_def)
  have bind: "io_bind (host_dist_dir empty_host (app_config\<lparr>c_storage := s\<rparr>) ''/p'') f [] =
      f [''p'', ''dist''] [Canonicalize ''/p'', CreateDir ''/p/dist'', Canonicalize ''/p/dist'']"
    for s and f :: "string list \<Rightarrow> (place_error, unit) io"
    using dist_dir_run [of s] by (simp add: io_bind_def)
  show ?thesis
    by (simp add: storage_stage_def bind n p len Let_def path_exists_def io_steps host_fields)
qed

lemma data_image_preserved_witness:
  "\<exists>new tail. [Canonicalize ''/p'', CreateDir ''/p/dist'', Canonicalize ''/p/dist''] @
      [PathExists ''/p/dist/app.data.img'', CreateFile ''/p/dist/app.data.img'',
       SetLen ''/p/dist/app.data.img'' (16 * 2 ^ 20)] = [] @ new @ tail \<and> tail \<noteq> []"
  using data_image_preserved [OF data_image_run] by fastforce

lemma app_run:
  "acquire sample_host app_config ''/p'' [] =
     (Inr (AcquiredBinary ''/workspace/app.bin''), [Canonicalize ''/p'', Canonicalize ''/p/app.bin''])"
proof -
  have "path_join ''/p'' ''app.bin'' = ''/p/app.bin''" "path_join ''/workspace'' ''app.bin'' = ''/workspace/app.bin''"
    by code_simp+
  then show ?thesis
    by (simp add: acquire_def acquire_binary_def app_config_def build_config_def binary_app_def
      canonicalize_def io_steps host_fields sample_names strip_prefix_text_def Let_def)
qed

lemma app_confined_witness:
  "\<exists>proj rel. h_canonicalize sample_host [] ''/p'' = Inr proj \<and>
    AcquiredBinary ''/workspace/app.bin'' =
      AcquiredBinary (path_join ''/workspace'' (join_with (CHR ''/'') rel))"
proof -
  have "app_mode (c_app app_config) = ModeBinary"
    by (simp add: app_config_def build_config_def binary_app_def)
  with app_confined [OF app_run] show ?thesis by auto
qed

text \<open>A shell that follows the assumed rules.\<close>

function sh_word :: "string \<Rightarrow> string \<times> string" where
  "sh_word [] = ([], [])"
| "sh_word (x # xs) =
     (if x = NL \<or> x = CHR '' '' then ([], x # xs)
      else if x = CHR 0x27 then
        (case take_quoted xs of (a, r) \<Rightarrow> (case sh_word r of (v, t) \<Rightarrow> (a @ v, t)))
      else if x = CHR 0x5C \<and> xs \<noteq> [] then (case sh_word (tl xs) of (v, t) \<Rightarrow> (hd xs # v, t))
      else (case sh_word xs of (v, t) \<Rightarrow> (x # v, t)))"
  by pat_completeness auto
termination
  by (relation "measure length") (auto dest!: take_quoted_shorter [OF sym] simp: less_Suc_eq_le)

lemma posix_shell_sh_word: "posix_shell sh_word"
proof -
  have "posix_words sh_word"
    by (auto simp: posix_words_def NL_def take_quoted_append split: prod.splits)
  moreover have "sh_word (c # r) = (c # fst (sh_word r), snd (sh_word r))" if "plain_char c" for c r
  proof -
    have "c \<noteq> NL \<and> c \<noteq> CHR '' '' \<and> c \<noteq> CHR 0x27 \<and> c \<noteq> CHR 0x5C"
      using that by (auto simp: plain_char_def is_ascii_alphanumeric_def to_digit_def NL_def)
    then show ?thesis by (simp split: prod.split)
  qed
  ultimately show ?thesis by (simp add: posix_shell_def)
qed


section \<open>Whole commands\<close>

lemma sample_below: "\<exists>d. plain_names (path_text ([''p''] @ dir)) = [''p''] @ d"
proof (cases dir)
  case (Cons n ns)
  have "plain_names (''/p/'' @ s) = ''p'' # plain_names s" for s by (simp add: plain_names_def)
  moreover have "(@) ''/'' = (#) (CHR ''/'')" by auto
  then have "path_text ([''p''] @ dir) = ''/p/'' @ n @ concat (map (\<lambda>n. ''/'' @ n) ns)"
    by (simp add: Cons path_text_def)
  ultimately show ?thesis by simp
qed (simp add: sample_names)

lemma sample_measurement: "measurement_shape_ok (trim (replicate 96 (CHR ''a'')))"
  by code_simp

lemma sample_willing:
  assumes "c_app c = c_app app_config"
  shows "willing_host sample_host c ''/p'' [''p'']"
proof -
  have place: "app_place c ''/p'' = ''/p/app.bin''"
  proof -
    have "path_join ''/p'' ''app.bin'' = ''/p/app.bin''" by code_simp
    then show ?thesis
      by (simp add: app_place_def assms app_config_def build_config_def binary_app_def)
  qed
  have below: "\<exists>d. plain_names (path_text (dir @ [n])) = d \<and> prefix [''p''] d" if "prefix [''p''] dir" for dir n
  proof -
    obtain rest where "dir = [''p''] @ rest" using \<open>prefix [''p''] dir\<close> by (rule prefixE)
    then show ?thesis using sample_below [of "rest @ [n]"] by auto
  qed
  show ?thesis
    unfolding willing_host_def
    by (simp add: host_fields place sample_names sample_measurement) (use below in auto)
qed



text \<open>A build without overrides, of the configuration file \<open>/p/unikernel.toml\<close>.\<close>

definition no_overrides :: build_overrides where
  "no_overrides = \<lparr>ov_format = None, ov_profile = None, ov_vcpus = None, ov_vcpu_type = None\<rparr>"

lemma cmd_build_run:
  "cmd_build sample_libs sample_host (Some ''/p/unikernel.toml'') None no_overrides [] =
     build sample_libs sample_host app_config ''/p'' [ReadHostFile ''/p/unikernel.toml'']"
proof -
  have dir: "project_dir_of ''/p/unikernel.toml'' = ''/p''" by code_simp
  have cli: "tool_version (lib_tool sample_libs) = ''1.0.0''" "lib_parse_config sample_libs x = Some app_config" for x
    by (simp_all add: sample_libs_def sample_tool_def)
  have "load ''1.0.0'' (lib_parse_config sample_libs) sample_host ''/p/unikernel.toml'' [] =
      (Inr app_config, [ReadHostFile ''/p/unikernel.toml''])"
    by (simp add: load_def read_file_def io_steps host_fields cli ok_or_def app_config_valid)
  then have "resolve sample_libs sample_host (Some ''/p/unikernel.toml'') None [] =
      (Inr (app_config, ''/p''), [ReadHostFile ''/p/unikernel.toml''])"
    by (simp add: resolve_def resolve_for_build_def io_as_def io_bind_Inr io_return_def dir cli)
  moreover have "apply_overrides ''1.0.0'' no_overrides app_config = Inr app_config"
    by (simp add: apply_overrides_def no_overrides_def override_formats_def override_profile_def override_sev_def
      app_config_valid)
  ultimately show ?thesis by (simp add: cmd_build_def io_bind_def io_lift_def cli)
qed

lemma validated_before_effects_witness:
  "\<exists>tr'. cmd_build sample_libs sample_host (Some ''/p/unikernel.toml'') None no_overrides [] = (Inr (), tr') \<and>
     (\<exists>new more. tr' = [] @ new @ more \<and> (\<forall>ev\<in>set new. looks ev))"
proof -
  have w: "willing_host sample_host app_config ''/p'' [''p'']" by (rule sample_willing) simp
  obtain tr' where run: "cmd_build sample_libs sample_host (Some ''/p/unikernel.toml'') None no_overrides [] = (Inr (), tr')"
    using willing_builds [OF app_config_valid w] unfolding cmd_build_run by blast
  with validated_before_effects [OF run] show ?thesis by blast
qed

lemma existing_all: "(\<And>tr p. h_exists h tr p) \<Longrightarrow> existing h tr ps = ps"
  by (induction ps arbitrary: tr) simp_all

lemma publish_run:
  "publish sample_host app_config ''/p'' (Some ''v1'') [] =
     (Inr (), map PathExists (selected_paths app_config ''/p/dist'') @
        [CommandOutput ''gh'' [''release'', ''view'', ''v1''],
         CommandStatus ''gh'' ([''release'', ''upload'', ''v1'', ''--clobber''] @ selected_paths app_config ''/p/dist'')])"
proof -
  have dist: "path_join ''/p'' (trim_end_matches (CHR ''/'') ''dist/'') = ''/p/dist''" by code_simp
  have some: "selected_paths app_config ''/p/dist'' \<noteq> []"
    by (simp add: selected_paths_def candidate_assets_def selected_def app_config_def build_config_def Let_def)
  show ?thesis
    using some
    by (simp add: publish_def app_config_dist dist io_bind_Inr [OF select_assets_run] existing_all host_fields
      require_that_def io_steps ok_or_def io_bind_Inr [OF succeeds_run] command_status_def Let_def)
qed

lemma release_uploads_witness:
  "\<exists>assets. assets \<noteq> [] \<and>
    (\<forall>p\<in>set assets. \<exists>kind before. (kind, p) \<in> set (candidate_assets app_config (release_dir app_config ''/p'')) \<and>
      selected app_config kind \<and> h_exists sample_host before p)"
  using release_uploads [OF publish_run]
  by (elim exE conjE, intro exI conjI) (assumption, meson)

text \<open>Assets on a host without a cache.\<close>

lemma materialize_run:
  "fst (materialize sample_tool empty_host []) = Inr ''/tmp/cargo-unikernel-cache/assets-1.0.0-ax''"
  by code_simp


text \<open>A workflow for a configuration whose path has a line break.\<close>

definition odd_path :: string where
  "odd_path = ''a'' @ [NL] @ ''jobs:''"

lemma github_init_run:
  "\<exists>tr'. github_init sample_libs json_ref empty_host odd_path True [] = (Inr (), tr')"
proof -
  obtain r t where "load (tool_version (lib_tool sample_libs)) (lib_parse_config sample_libs) empty_host odd_path
      [CreateDirAll WORKFLOWS_DIR, PathExists (path_join WORKFLOWS_DIR ''cargo-unikernel.yml'')] = (r, t)"
    by (meson surj_pair)
  moreover have "io_bind (io_try m) f tr =
      (case m tr of (r, t) \<Rightarrow> f (case r of Inr x \<Rightarrow> Some x | Inl _ \<Rightarrow> None) t)"
    for m :: "(config_error, config) io" and f :: "config option \<Rightarrow> (setup_error, unit) io" and tr
    by (simp add: io_try_def io_bind_def split: prod.split sum.split)
  ultimately show ?thesis
    by (simp add: github_init_def Let_def io_steps create_dir_all_def path_exists_def write_file_def host_fields)
qed

lemma workflow_not_injectable_witness:
  "\<exists>tr' text pinned. github_init sample_libs json_ref empty_host odd_path True [] = (Inr (), tr') \<and>
     WriteHostFile ''.github/workflows/cargo-unikernel.yml'' text \<in> set tr' \<and>
     split_on NL text = workflow_lines True (json_ref odd_path) pinned"
proof -
  obtain tr' where run: "github_init sample_libs json_ref empty_host odd_path True [] = (Inr (), tr')"
    using github_init_run by blast
  have "NL \<notin> set (tool_version (lib_tool sample_libs))"
    by (simp add: sample_libs_def sample_tool_def NL_def)
  with run workflow_not_injectable [OF run json_text_ref] show ?thesis by auto
qed

end
