(* ===== verification/Attestation.thy ===== *)
theory Attestation
  imports Hex
begin

text \<open>
  The attestation server of \<open>sev-snp-server-example/src/main.rs\<close>: it answers \<open>GET /attestation?nonce=...\<close> with a
  report of the AMD Secure Processor that carries the nonce. The device is a parameter. A connection is what
  its \<open>read_line\<close> calls return, in order; after the last the stream is at its end.
\<close>

section \<open>The device\<close>

definition SNP_REPORT_USER_DATA_SIZE :: nat where [nums]: "SNP_REPORT_USER_DATA_SIZE = 64"

record snp_report_req =
  sr_user_data :: "byte list"
  sr_vmpl :: u32
  sr_rsvd :: "byte list"

text \<open>
  Opening the device: \<open>None\<close>, or an errno. The ioctl: an errno, or \<open>exitinfo2\<close> and the response buffer
  as it left them.
\<close>

record snp_device =
  snp_open :: "nat option"
  snp_get_report :: "snp_report_req \<Rightarrow> nat + u64 \<times> byte list"

datatype report_error =
    DeviceNotOpened nat
  | IoctlFailed nat
  | PlatformRejected u32 u32
  | ReportStatus u32
  | ImplausibleSize nat

definition get_attestation_report :: "snp_device \<Rightarrow> byte list \<Rightarrow> report_error + byte list" where
  "get_attestation_report dev report_data =
     (case snp_open dev of
        Some e \<Rightarrow> Inl (DeviceNotOpened e)
      | None \<Rightarrow>
          let req = \<lparr>sr_user_data = report_data, sr_vmpl = 0, sr_rsvd = replicate 28 0\<rparr> in
          case snp_get_report dev req of
            Inl e \<Rightarrow> Inl (IoctlFailed e)
          | Inr (exitinfo2, buf) \<Rightarrow>
              if exitinfo2 \<noteq> 0 then Inl (PlatformRejected (ucast exitinfo2) (ucast (drop_bit 32 exitinfo2)))
              else
                let report_status = of_ne32 (take 4 buf);
                    report_size = unat (of_ne32 (take 4 (drop 4 buf))) in
                if report_status \<noteq> 0 then Inl (ReportStatus report_status)
                else if report_size = 0 \<or> 32 + report_size > length buf then Inl (ImplausibleSize report_size)
                else Inr (take report_size (drop 32 buf)))"

section \<open>The request\<close>

datatype nonce_error = NonceTooLong | NonceOdd | NonceNotHex

text \<open>The loop over \<open>chunks(2)\<close>; \<open>i\<close> stays below the size because the text is at most twice as long.\<close>

fun nonce_loop :: "nat \<Rightarrow> string \<Rightarrow> byte list \<Rightarrow> nonce_error + byte list" where
  "nonce_loop i [] out = Inr out"
| "nonce_loop i (a # s) out =
     (case from_str_radix 255 16 (a # take 1 s) of
        None \<Rightarrow> Inl NonceNotHex
      | Some n \<Rightarrow> nonce_loop (Suc i) (drop 1 s) (out[i := word_of_nat n]))"

definition parse_nonce :: "string \<Rightarrow> nonce_error + byte list" where
  "parse_nonce hex =
     (if length hex > SNP_REPORT_USER_DATA_SIZE * 2 then Inl NonceTooLong
      else if length hex mod 2 \<noteq> 0 then Inl NonceOdd
      else nonce_loop 0 hex (replicate SNP_REPORT_USER_DATA_SIZE 0))"

fun find_param :: "string \<Rightarrow> string list \<Rightarrow> string option" where
  "find_param key [] = None"
| "find_param key (pair # pairs) =
     (case split_once (CHR ''='') pair of
        None \<Rightarrow> find_param key pairs
      | Some (k, v) \<Rightarrow> if k = key then Some v else find_param key pairs)"

definition query_param :: "string \<Rightarrow> string \<Rightarrow> string option" where
  "query_param query key = find_param key (split_on (CHR ''&'') query)"

text \<open>One \<open>read_line\<close>: a line with its end, or an error.\<close>

datatype line_read = ReadLine string | ReadError

text \<open>What is left of the stream after the headers: they are read up to an empty line, the end or an error.\<close>

fun skip_headers :: "line_read list \<Rightarrow> line_read list" where
  "skip_headers [] = []"
| "skip_headers (ReadError # rest) = rest"
| "skip_headers (ReadLine l # rest) =
     (if l = [] \<or> l = [CHR 0x0D, CHR 0x0A] \<or> l = [CHR 0x0A] then rest else skip_headers rest)"

definition read_request_target :: "line_read list \<Rightarrow> string option \<times> line_read list" where
  "read_request_target stream =
     (case stream of
        [] \<Rightarrow> (None, [])
      | ReadError # rest \<Rightarrow> (None, rest)
      | ReadLine request_line # rest \<Rightarrow>
          (case split_whitespace request_line of
             _ # target # _ \<Rightarrow> (Some target, skip_headers rest)
           | _ \<Rightarrow> (None, rest)))"

section \<open>The response\<close>

datatype http_status = Ok200 | BadRequest400 | InternalError500

datatype content_type = TextPlain | OctetStream

record response =
  rs_status :: http_status
  rs_content_type :: content_type
  rs_body :: "byte list"

definition status_text :: "http_status \<Rightarrow> string" where
  "status_text s =
     (case s of Ok200 \<Rightarrow> ''200 OK'' | BadRequest400 \<Rightarrow> ''400 Bad Request''
      | InternalError500 \<Rightarrow> ''500 Internal Server Error'')"

definition content_type_text :: "content_type \<Rightarrow> string" where
  "content_type_text t = (case t of TextPlain \<Rightarrow> ''text/plain'' | OctetStream \<Rightarrow> ''application/octet-stream'')"

text \<open>The bytes of \<open>write_response\<close>, head and body; errors of either write are ignored.\<close>

definition CRLF :: string where
  "CRLF = [CHR 0x0D, CHR 0x0A]"

definition write_response :: "response \<Rightarrow> byte list" where
  "write_response r =
     as_bytes (''HTTP/1.1 '' @ status_text (rs_status r) @ CRLF @
       ''Content-Type: '' @ content_type_text (rs_content_type r) @ CRLF @
       ''Content-Length: '' @ show_nat (length (rs_body r)) @ CRLF @
       ''Connection: close'' @ CRLF @ CRLF) @
     rs_body r"

text \<open>The texts of the errors are parameters.\<close>

record error_texts =
  et_nonce :: "nonce_error \<Rightarrow> string"
  et_report :: "report_error \<Rightarrow> string"

definition handle_attestation :: "snp_device \<Rightarrow> error_texts \<Rightarrow> string \<Rightarrow> response" where
  "handle_attestation dev et query =
     (case (case query_param query ''nonce'' of
              Some hex \<Rightarrow> parse_nonce hex
            | None \<Rightarrow> Inr (replicate SNP_REPORT_USER_DATA_SIZE 0)) of
        Inl e \<Rightarrow> \<lparr>rs_status = BadRequest400, rs_content_type = TextPlain, rs_body = as_bytes (et_nonce et e)\<rparr>
      | Inr nonce \<Rightarrow>
          (case get_attestation_report dev nonce of
             Inr report \<Rightarrow> \<lparr>rs_status = Ok200, rs_content_type = OctetStream, rs_body = report\<rparr>
           | Inl e \<Rightarrow>
               \<lparr>rs_status = InternalError500, rs_content_type = TextPlain, rs_body = as_bytes (et_report et e)\<rparr>))"

text \<open>\<open>None\<close> for an accept that failed; no response when there is no request line.\<close>

definition handle_connection :: "snp_device \<Rightarrow> error_texts \<Rightarrow> line_read list option \<Rightarrow> response option" where
  "handle_connection dev et stream =
     (case stream of
        None \<Rightarrow> None
      | Some s \<Rightarrow>
          (case fst (read_request_target s) of
             None \<Rightarrow> None
           | Some target \<Rightarrow>
               let (p, query) = (case split_once (CHR ''?'') target of Some x \<Rightarrow> x | None \<Rightarrow> (target, [])) in
               if p = ''/attestation'' then Some (handle_attestation dev et query)
               else Some \<lparr>rs_status = Ok200, rs_content_type = TextPlain, rs_body = as_bytes ''Hello, world!''\<rparr>))"

text \<open>\<open>serve\<close>, on the connections that come in.\<close>

definition serve :: "snp_device \<Rightarrow> error_texts \<Rightarrow> line_read list option list \<Rightarrow> response option list" where
  "serve dev et streams = map (handle_connection dev et) streams"

section \<open>The listeners\<close>

text \<open>Every failed \<open>expect\<close> or \<open>unwrap\<close> ends the process.\<close>

datatype start_panic = Port4NotBound | Ipv6NotCreated | V6OnlyNotSet | AddressNotParsed | Port6NotBound | NotListening

text \<open>
  What the socket calls do. The IPv4 address is resolved by the standard library from its text; the IPv6 one must be
  a socket address as it stands.
\<close>

record socket_calls =
  so_bind4 :: "string \<Rightarrow> bool"
  so_create6 :: bool
  so_only6 :: bool
  so_bind6 :: "nat \<Rightarrow> bool"
  so_listen6 :: "nat \<Rightarrow> bool"

text \<open>The port of \<open>[::]:port\<close>: decimal digits, leading zeros allowed, that fit \<open>u16\<close>.\<close>

definition socket_port :: "string \<Rightarrow> nat option" where
  "socket_port s = (if s \<noteq> [] \<and> hd s = CHR ''+'' then None else from_str_radix 65535 10 s)"

definition bind_ipv6_only :: "socket_calls \<Rightarrow> string \<Rightarrow> start_panic + nat" where
  "bind_ipv6_only so port =
     (if \<not> so_create6 so then Inl Ipv6NotCreated
      else if \<not> so_only6 so then Inl V6OnlyNotSet
      else case socket_port port of
        None \<Rightarrow> Inl AddressNotParsed
      | Some p \<Rightarrow>
          if \<not> so_bind6 so p then Inl Port6NotBound
          else if \<not> so_listen6 so 128 then Inl NotListening
          else Inr p)"

text \<open>
  \<open>main\<close>: the value of \<open>PORT\<close>, if it is set and is text, and the connections of each listener; the answers on each,
  IPv4 first. Each listener is served by a thread of its own.
\<close>

definition server_main ::
    "snp_device \<Rightarrow> error_texts \<Rightarrow> socket_calls \<Rightarrow> string option \<Rightarrow> line_read list option list \<Rightarrow>
      line_read list option list \<Rightarrow> start_panic + response option list \<times> response option list" where
  "server_main dev et so port_var streams4 streams6 =
     (let port = (case port_var of Some p \<Rightarrow> p | None \<Rightarrow> ''8080'') in
      if \<not> so_bind4 so (''0.0.0.0:'' @ port) then Inl Port4NotBound
      else res_bind (bind_ipv6_only so port) (\<lambda>_. Inr (serve dev et streams4, serve dev et streams6)))"

text \<open>The server runs on both families or not at all.\<close>

lemma server_runs_iff:
  "server_main dev et so (Some port) streams4 streams6 = Inr answers \<longleftrightarrow>
     so_bind4 so (''0.0.0.0:'' @ port) \<and> so_create6 so \<and> so_only6 so \<and> so_listen6 so 128 \<and>
     (\<exists>p. socket_port port = Some p \<and> so_bind6 so p) \<and>
     answers = (map (handle_connection dev et) streams4, map (handle_connection dev et) streams6)"
  by (auto simp: server_main_def bind_ipv6_only_def serve_def split: option.splits)

section \<open>The nonce in the report\<close>

text \<open>The nonce a byte string stands for.\<close>

definition padded :: "byte list \<Rightarrow> byte list" where
  "padded bs = bs @ replicate (SNP_REPORT_USER_DATA_SIZE - length bs) 0"

lemma nonce_loop_length: "nonce_loop i s out = Inr d \<Longrightarrow> length d = length out"
  by (induction i s out arbitrary: d rule: nonce_loop.induct) (auto split: option.splits)

lemma nonce_loop_encode:
  "length bs \<le> length rest \<Longrightarrow>
     nonce_loop (length done) (encode bs) (done @ rest) = Inr (done @ bs @ drop (length bs) rest)"
proof (induction bs arbitrary: "done" rest)
  case (Cons b bs)
  then obtain r rs where rest: "rest = r # rs" by (cases rest) auto
  have "nonce_loop (length done) (encode (b # bs)) (done @ rest) =
      nonce_loop (length (done @ [b])) (encode bs) ((done @ [b]) @ rs)"
    using parse_hex_byte [of b] by (simp add: hex_byte_def rest)
  also have "\<dots> = Inr ((done @ [b]) @ bs @ drop (length bs) rs)"
    by (rule Cons.IH) (use Cons.prems rest in simp)
  finally show ?case by (simp add: rest)
qed simp

lemma parse_nonce_encode: "length bs \<le> SNP_REPORT_USER_DATA_SIZE \<Longrightarrow> parse_nonce (encode bs) = Inr (padded bs)"
  using nonce_loop_encode [of bs "replicate SNP_REPORT_USER_DATA_SIZE 0" "[]"]
  by (simp add: parse_nonce_def length_encode padded_def)

lemma parse_nonce_length: "parse_nonce s = Inr d \<Longrightarrow> length d = SNP_REPORT_USER_DATA_SIZE"
  by (auto simp: parse_nonce_def dest: nonce_loop_length split: if_splits)

text \<open>\<open>asked\<close>: the nonce a query asks for.\<close>

definition asked :: "string \<Rightarrow> byte list \<Rightarrow> bool" where
  "asked query nonce \<longleftrightarrow>
     (case query_param query ''nonce'' of
        None \<Rightarrow> nonce = replicate SNP_REPORT_USER_DATA_SIZE 0
      | Some hex \<Rightarrow> parse_nonce hex = Inr nonce)"

lemma asked_encode:
  "query_param query ''nonce'' = Some (encode bs) \<Longrightarrow> length bs \<le> SNP_REPORT_USER_DATA_SIZE \<Longrightarrow>
     asked query nonce \<longleftrightarrow> nonce = padded bs"
  by (auto simp: asked_def parse_nonce_encode)

lemma report_iff:
  "get_attestation_report dev nonce = Inr report \<longleftrightarrow>
     snp_open dev = None \<and>
     (\<exists>buf. snp_get_report dev \<lparr>sr_user_data = nonce, sr_vmpl = 0, sr_rsvd = replicate 28 0\<rparr> = Inr (0, buf) \<and>
        of_ne32 (take 4 buf) = 0 \<and> report \<noteq> [] \<and>
        (\<exists>more. drop 32 buf = report @ more) \<and> length report = unat (of_ne32 (take 4 (drop 4 buf))))"
  (is "?l \<longleftrightarrow> ?r")
proof
  assume ?l
  then obtain buf where buf: "snp_open dev = None"
      "snp_get_report dev \<lparr>sr_user_data = nonce, sr_vmpl = 0, sr_rsvd = replicate 28 0\<rparr> = Inr (0, buf)"
      "of_ne32 (take 4 buf) = 0" "unat (of_ne32 (take 4 (drop 4 buf))) \<noteq> 0"
      "32 + unat (of_ne32 (take 4 (drop 4 buf))) \<le> length buf"
      "report = take (unat (of_ne32 (take 4 (drop 4 buf)))) (drop 32 buf)"
    by (auto simp: get_attestation_report_def Let_def split: option.splits sum.splits if_splits)
  then have "drop 32 buf = report @ drop (unat (of_ne32 (take 4 (drop 4 buf)))) (drop 32 buf)"
    by (metis append_take_drop_id)
  with buf show ?r by fastforce
next
  assume ?r
  then obtain buf more where buf: "snp_open dev = None"
      "snp_get_report dev \<lparr>sr_user_data = nonce, sr_vmpl = 0, sr_rsvd = replicate 28 0\<rparr> = Inr (0, buf)"
      "of_ne32 (take 4 buf) = 0" "report \<noteq> []" "drop 32 buf = report @ more"
      "length report = unat (of_ne32 (take 4 (drop 4 buf)))" by blast
  then have "length (drop 32 buf) = length report + length more" by simp
  then have "32 + length report \<le> length buf" "0 < length report" using buf(4) by (cases report; auto)+
  with buf show ?l by (auto simp: get_attestation_report_def Let_def)
qed

text \<open>
  C30. A request for \<open>/attestation\<close> is answered with success exactly when the device, asked with the nonce of the
  request as its 64 bytes of user data, reported neither an error of the platform nor of the firmware and a report of a
  plausible size; the body is then that report and nothing else, never empty. The nonce asked for is the value of
  the first \<open>nonce\<close> parameter, which is decoded from hexadecimal and padded with zeros on the right, or zeros when there is none.
\<close>

theorem attestation_binds_nonce:
  assumes "fst (read_request_target stream) = Some target"
    and "split_once (CHR ''?'') target = Some (''/attestation'', query) \<or> target = ''/attestation'' \<and> query = []"
    and "handle_connection dev et (Some stream) = Some r"
  shows "(rs_status r = Ok200 \<longleftrightarrow>
      (\<exists>nonce buf more. asked query nonce \<and> snp_open dev = None \<and>
         snp_get_report dev \<lparr>sr_user_data = nonce, sr_vmpl = 0, sr_rsvd = replicate 28 0\<rparr> = Inr (0, buf) \<and>
         of_ne32 (take 4 buf) = 0 \<and> rs_body r \<noteq> [] \<and> drop 32 buf = rs_body r @ more \<and>
         length (rs_body r) = unat (of_ne32 (take 4 (drop 4 buf))))) \<and>
    (\<forall>nonce. asked query nonce \<longrightarrow> length nonce = 64) \<and>
    (\<forall>bs. query_param query ''nonce'' = Some (encode bs) \<and> length bs \<le> 64 \<longrightarrow>
       (\<forall>nonce. asked query nonce \<longleftrightarrow> nonce = bs @ replicate (64 - length bs) 0))"
proof (intro conjI allI impI)
  have "split_once (CHR ''?'') ''/attestation'' = None" by code_simp
  with assms have r: "r = handle_attestation dev et query"
    by (auto simp: handle_connection_def)
  have "asked query nonce \<Longrightarrow> rs_status r = Ok200 \<longleftrightarrow> get_attestation_report dev nonce = Inr (rs_body r)" for nonce
    unfolding r by (auto simp: handle_attestation_def asked_def split: option.splits sum.splits)
  moreover have "rs_status r = Ok200 \<Longrightarrow> \<exists>nonce. asked query nonce"
    unfolding r by (auto simp: handle_attestation_def asked_def split: option.splits sum.splits)
  ultimately have "rs_status r = Ok200 \<longleftrightarrow> (\<exists>nonce. asked query nonce \<and> get_attestation_report dev nonce = Inr (rs_body r))"
    by blast
  then show "rs_status r = Ok200 \<longleftrightarrow>
      (\<exists>nonce buf more. asked query nonce \<and> snp_open dev = None \<and>
         snp_get_report dev \<lparr>sr_user_data = nonce, sr_vmpl = 0, sr_rsvd = replicate 28 0\<rparr> = Inr (0, buf) \<and>
         of_ne32 (take 4 buf) = 0 \<and> rs_body r \<noteq> [] \<and> drop 32 buf = rs_body r @ more \<and>
         length (rs_body r) = unat (of_ne32 (take 4 (drop 4 buf))))"
    by (auto simp: report_iff)
next
  fix nonce assume "asked query nonce"
  then show "length nonce = 64"
    by (auto simp: asked_def SNP_REPORT_USER_DATA_SIZE_def dest: parse_nonce_length split: option.splits)
next
  fix bs nonce assume "query_param query ''nonce'' = Some (encode bs) \<and> length bs \<le> 64"
  then show "asked query nonce \<longleftrightarrow> nonce = bs @ replicate (64 - length bs) 0"
    using asked_encode [of query bs nonce] by (simp add: padded_def SNP_REPORT_USER_DATA_SIZE_def)
qed

text \<open>A device that reports the user data back, and a request to it.\<close>

definition echo_device :: snp_device where
  "echo_device =
     \<lparr>snp_open = None,
      snp_get_report = (\<lambda>req. Inr (0, ne32 0 @ ne32 64 @ replicate 24 0 @ sr_user_data req @ replicate 3904 0))\<rparr>"

definition sample_request :: "line_read list" where
  "sample_request =
     [ReadLine (''GET /attestation?v=1&nonce=01ff HTTP/1.1'' @ CRLF), ReadLine (''Host: a'' @ CRLF), ReadLine CRLF]"

definition plain_texts :: error_texts where
  "plain_texts = \<lparr>et_nonce = (\<lambda>_. ''bad nonce''), et_report = (\<lambda>_. ''no report'')\<rparr>"

lemma attestation_binds_nonce_witness:
  "\<exists>r. handle_connection echo_device plain_texts (Some sample_request) = Some r \<and> rs_status r = Ok200 \<and>
     rs_body r = 1 # 255 # replicate 62 0"
proof -
  have target: "fst (read_request_target sample_request) = Some ''/attestation?v=1&nonce=01ff''" by code_simp
  have split: "split_once (CHR ''?'') ''/attestation?v=1&nonce=01ff'' = Some (''/attestation'', ''v=1&nonce=01ff'')"
    by code_simp
  have param: "query_param ''v=1&nonce=01ff'' ''nonce'' = Some (encode [1, 255])" by code_simp
  define r where "r = handle_attestation echo_device plain_texts ''v=1&nonce=01ff''"
  have run: "handle_connection echo_device plain_texts (Some sample_request) = Some r"
    by (simp add: handle_connection_def target split r_def)
  note all = attestation_binds_nonce [OF target disjI1 [OF split] run]
  have asked: "asked ''v=1&nonce=01ff'' nonce \<longleftrightarrow> nonce = 1 # 255 # replicate 62 0" for nonce
    using conjunct2 [OF conjunct2 [OF all], rule_format, of "[1, 255]" nonce] param
    by (simp del: encode.simps)
  have parsed: "parse_nonce (encode [1, 255]) = Inr (1 # 255 # replicate 62 0)"
    using asked [of "1 # 255 # replicate 62 0"] param by (simp add: asked_def del: encode.simps)
  have "get_attestation_report echo_device (1 # 255 # replicate 62 0) = Inr (1 # 255 # replicate 62 0)"
    by (simp add: get_attestation_report_def echo_device_def Let_def)
  then have "r = \<lparr>rs_status = Ok200, rs_content_type = OctetStream, rs_body = 1 # 255 # replicate 62 0\<rparr>"
    by (simp add: r_def handle_attestation_def param parsed del: encode.simps)
  with run show ?thesis by simp
qed

text \<open>A sign passes for a hexadecimal digit.\<close>

lemma nonce_sign_accepted: "parse_nonce ''+f'' = Inr (15 # replicate 63 0)"
  by code_simp

end
