(* ===== verification/Spec2Isabelle.thy ===== *)
theory Spec2Isabelle
  imports Runs HostRuns Attestation
begin

text \<open>
  Verification of cargo-unikernel.

  \<^bold>\<open>The program.\<close> The host tool (\<open>src/\<close>) turns an app and a \<open>Cargo-Unikernel.toml\<close> into a bootable image: it loads and
  validates the configuration, generates a shell script that builds a kernel, the app and the guest init in a container,
  runs it, collects the image and its SEV-SNP measurement, and publishes releases. The guest init (\<open>guest/src/\<close>) is PID 1
  of that image: it brings up the packet filter, the mounts, the network and the kernel settings, starts the app in a sandbox
  and watches it, and wipes the writable state before it powers the machine off. The two halves meet in the
  Cargo features and the constants that the host's script passes through \<open>guest/build.rs\<close> into the guest.

  \<^bold>\<open>Shape of the model.\<close> Pure code is HOL functions on the source's data: structs are records, enums datatypes,
  integers words of their width, \<open>Result\<close> a sum with the error on the left. Code with effects is a function of the history
  of the operations done so far, which returns its value and the longer history (\<open>Effects\<close> for the guest, where the
  value is missing after a fatal error, and \<open>Host\<close> for the tool). What the outside answers is a function of that
  history: \<open>env\<close> (the guest's kernel), \<open>sock_env\<close> (the netlink socket), \<open>child_env\<close> (the calls of the
  forked child), \<open>host\<close> (file system and commands of the host). So a theorem about all such functions holds for every
  failure at every point. Concurrency (the shutdown and its triggers) is a step relation over the stages of any number of
  threads. Conditional compilation is a record \<open>features\<close> that the definitions test.

  \<^bold>\<open>Theories.\<close> \<open>Prelude\<close>: results, checks and named collections of rules. \<open>Bytes\<close>: integers as bytes.
  \<open>Stdlib\<close>: the parsers of the Rust library both sides use (IPv6 addresses, path components, trimming).
  \<open>WireCodec\<close>: the locale of the separator-joined lists that cross from host to guest, interpreted three times in
  \<open>GuestConfig\<close>. \<open>Polling\<close>: the locales of the guest's waiting loops, without and with a deadline, interpreted where the
  loops are, in \<open>NetlinkReply\<close>, \<open>Entropy\<close>, \<open>NetworkProps\<close> and \<open>Shutdown\<close>.

  The guest, by source file:
  \<^item> \<open>firewall.rs\<close>: \<open>Netlink\<close> (the message buffer; locale \<open>frame\<close> for blocks whose length is patched in afterwards, interpreted for
    messages and attributes), \<open>NetlinkReply\<close> (sending a batch, reading acknowledgements), \<open>Firewall\<close> (rules and batch),
    \<open>FirewallBatch\<close> (an abstract syntax of the ruleset and the bytes it is), \<open>FirewallPolicy\<close> (which packets pass);
  \<^item> \<open>Cargo.toml.dist\<close> and \<open>main.rs\<close>: \<open>Features\<close>, \<open>GuestConfig\<close> (constants, ids, limits), \<open>Sandbox\<close> (the child between
    \<open>fork\<close> and \<open>execve\<close>), \<open>Boot\<close> (the whole sequence), \<open>BootProps\<close> (its order), \<open>BootLive\<close> (it gets through);
  \<^item> \<open>mounts.rs\<close>, \<open>storage.rs\<close>: \<open>Storage\<close>, \<open>Mounts\<close>; \<open>network.rs\<close>: \<open>Network\<close>, \<open>NetworkProps\<close>, \<open>NetworkTypes\<close>
    (the arguments of its ioctls); \<open>landlock.rs\<close>,
    \<open>seccomp.rs\<close>, \<open>hardening.rs\<close>, \<open>etcfiles.rs\<close>, \<open>entropy.rs\<close>: the theories of these names;
  \<^item> \<open>shutdown.rs\<close>: \<open>Trigger\<close> (power button and \<open>SIGTERM\<close>), \<open>Shutdown\<close> (both ways into the wipe, its interlock, deadline and
    watchdog, and the one-shot script it refines), \<open>Scrub\<close> (overwriting and removing a tree), \<open>Wipe\<close> (a whole shutdown on
    the tree of all files);
  \<^item> \<open>main.rs\<close> as a whole: \<open>GuestLife\<close> (boot, fatal path, watchdog and wipe in one).

  The host tool, by source file:
  \<^item> \<open>schema.rs\<close>: \<open>Schema\<close> (every table, default and check), \<open>SchemaProps\<close> (the predicate the checks decide);
  \<^item> \<open>config/\<close>: \<open>HostConfig\<close> (finding, loading, making up and overriding a configuration), \<open>HostConfigProps\<close>;
  \<^item> \<open>pipeline/docker/helpers.rs\<close>: \<open>Shell\<close> (quoting); \<open>guest_init_script.rs\<close> and \<open>guest/build.rs\<close>: \<open>InitScript\<close>;
    \<open>pipeline/kernel.rs\<close>, \<open>cmdline.rs\<close>: \<open>KernelEnv\<close>; the other script stages: \<open>BuildScript\<close>, and what a shell makes of
    them: \<open>ScriptProps\<close>;
  \<^item> \<open>pipeline/mod.rs\<close>, \<open>storage.rs\<close>, \<open>app_source.rs\<close>, \<open>ovmf.rs\<close>: \<open>HostDirs\<close>; \<open>assets.rs\<close>: \<open>Assets\<close>; \<open>hex.rs\<close>: \<open>Hex\<close>;
  \<^item> \<open>pipeline/docker/mod.rs\<close>, \<open>image/mod.rs\<close>, \<open>measurement.rs\<close>, \<open>release.rs\<close>: \<open>Pipeline\<close>, with \<open>PipelineProps\<close>,
    \<open>ReleaseProps\<close> and \<open>HostLive\<close> (a logic for code that returns, and a build that gets through);
  \<^item> \<open>github.rs\<close>: \<open>Workflow\<close>; \<open>config/scaffold.rs\<close>, \<open>doctor.rs\<close>, \<open>lib.rs\<close>: \<open>Commands\<close>.

  The example server \<open>sev-snp-server-example/\<close>, an app for the guest, is in \<open>Attestation\<close>.

  \<open>Samples\<close>, \<open>Runs\<close> and \<open>HostRuns\<close> apply the theorems to concrete deployments, machines and hosts.

  \<^bold>\<open>What is shown.\<close>
  \<^item> From configuration to image: validation decides a declarative predicate; overrides do what they
    say; nothing happens before validation; the output directory, the disk image and the app stay in the project whatever the
    symbolic links; extraction is complete when marked; the script quotes what it is given, the app's build command apart; the kernel's and the guest's
    features agree; what is measured is what boots; the release workflow takes no text from outside but two
    values that stay in their lines; a build that ends well has delivered, and a validated configuration
    builds on a host that does its part.
  \<^item> From image to guest: variables, sysctls, firewall rules, Landlock paths, ids, limits and the static address reach
    the guest as configured, or are refused; only a value with a line break, which validation lets through, arrives cut off
    (\<open>broken_value_not_transported\<close> in \<open>InitScript\<close>).
  \<^item> In the guest: the ruleset's bytes, acknowledgements and policy; the order of the boot (filter before network, sealed
    mounts and sandbox before the app); the types of the ioctls' arguments; the mounts, Landlock and system call policies; the volume is spared; the boot of a
    validated image gets through on a machine that does its part; every failure ends in the wipe, outside PID 1 in an exit
    that has done nothing; and the shutdown wipes once, in order, whoever starts it, leaves only zeros below the scratch directories, and
    ends.

  \<^bold>\<open>Bounds.\<close> Every wait is a function of the list of what it observes, turn by turn (clock, process, socket); a list that
  ends before the code decides gives \<open>None\<close>. The entropy, network, grace and settle waits are shown to decide in every list in which
  the clock reaches the deadline. The scrub descends to \<open>MAX_SCRUB_DEPTH\<close> as the source does. There is no other fuel.

  \<^bold>\<open>Parameters and what is assumed of them.\<close> The kernel's evaluation of one \<open>nf_tables\<close> expression and of a BPF program, as
  documented (\<open>FirewallPolicy\<close>, \<open>Seccomp\<close>), and that it answers an ioctl in the argument's own size, behind the
  interface name (\<open>NetworkTypes\<close>); \<open>seccompiler\<close>, by its contract; the decoding of TOML, the JSON text of the sidecar
  and the SHA-256 function, arbitrary; JSON strings, as in RFC 8259 (\<open>Workflow\<close>); the device of the Secure Processor,
  arbitrary; a POSIX shell, by its rules for quotes, escapes and plain characters (\<open>Shell\<close>, \<open>ScriptProps\<close>);
  in the two theorems that something gets through, a machine or a host that answers every request as asked. Each of these has
  a concrete instance in \<open>Samples\<close>, \<open>Runs\<close> or \<open>HostRuns\<close>.

  \<^bold>\<open>Not modelled.\<close> The parsing of the arguments (\<open>cli.rs\<close>, declarations for \<open>clap\<close>) and \<open>main.rs\<close>, which calls \<open>lib.rs\<close>;
  the text of the bundled example configurations; console output (the addresses that \<open>network.rs\<close> reads back only to log
  them are values); unit tests; the shell scripts, Docker and kernel configuration under \<open>assets/\<close>; in the example server,
  what the system does with its sockets and threads. Memory safety is Rust's, but for the arguments of the ioctls. Error
  messages are constructors that keep the decision and the path or value, not the text.
\<close>

end
